(* ===== verification/Prelude.thy ===== *)
theory Prelude
  imports Main "HOL-Library.List_Lexorder" "HOL-Library.Char_ord"
begin

text \<open>
  Shared vocabulary of the development: the lemma collections the component theories
  feed, the value types for errors and panics, and generic facts on lists and options
  that several components use.

  Go strings and byte slices are both byte sequences; they are modelled by the Isabelle
  type of character lists, whose characters are bytes.  A Go function with a final
  result of type \<open>error\<close> returns a sum: \<open>Inl\<close> the error, \<open>Inr\<close> the value.  A function
  that can also panic returns an \<open>outcome\<close>.
\<close>

section \<open>Lemma collections\<close>

named_theorems go_strings \<open>evaluation rules for the string operations\<close>
named_theorems go_path \<open>resolution of joined and cleaned paths\<close>
named_theorems go_fs \<open>reads after writes in the file system\<close>
named_theorems go_xml \<open>decoding of marshalled documents\<close>

section \<open>Errors and panics\<close>

datatype errno = ENOENT | ENOTDIR | EISDIR | EACCES | EINVAL | EBUSY

text \<open>
  The error values that flow through the program: \<open>os.PathError\<close>, the errors of
  \<open>encoding/xml\<close> (without their line numbers), of \<open>encoding/base64\<close> and \<open>encoding/json\<close> (without
  their positions), \<open>fmt.Errorf\<close> with an error in the text (at its
  end, or between two texts), plain \<open>fmt.Errorf\<close> texts, and errors reported by services outside the program (network, ssh,
  request bodies).
\<close>

datatype go_error =
    PathError string string errno
  | XMLSyntaxError
  | XMLUnmarshalError string
  | NumError string
  | CorruptInputError
  | JSONError
  | URLError string
  | Wrapped string go_error
  | WrappedIn string go_error string
  | Errorf string
  | External string

type_synonym 'a result = "go_error + 'a"

datatype 'a outcome = Done 'a | Panicked string

fun is_ok :: "'a result \<Rightarrow> bool" where
  "is_ok (Inr _) = True"
| "is_ok (Inl _) = False"

lemma is_ok_iff: "is_ok r \<longleftrightarrow> (\<exists>x. r = Inr x)"
  by (cases r) auto

section \<open>Integers of 64 bits\<close>

text \<open>Go's \<open>int\<close> and \<open>int64\<close> on the 64-bit targets of the release workflow.\<close>

definition int64_min :: int where "int64_min = - (2 ^ 63)"
definition int64_max :: int where "int64_max = 2 ^ 63 - 1"

definition in_int64 :: "int \<Rightarrow> bool" where
  "in_int64 n \<longleftrightarrow> int64_min \<le> n \<and> n \<le> int64_max"

definition wrap64 :: "int \<Rightarrow> int" where
  "wrap64 n = (n + 2 ^ 63) mod 2 ^ 64 - 2 ^ 63"

lemma wrap64_id: "in_int64 n \<Longrightarrow> wrap64 n = n"
  by (simp add: in_int64_def int64_min_def int64_max_def wrap64_def)

lemma wrap64_range: "in_int64 (wrap64 n)"
  by (simp add: in_int64_def int64_min_def int64_max_def wrap64_def)

text \<open>Go's integer division truncates towards zero.\<close>

definition go_div :: "int \<Rightarrow> int \<Rightarrow> int" where
  "go_div a b = (if a < 0 then - ((- a) div b) else a div b)"

section \<open>Lists\<close>

fun find_first :: "('a \<Rightarrow> bool) \<Rightarrow> 'a list \<Rightarrow> 'a option" where
  "find_first P [] = None"
| "find_first P (x # xs) = (if P x then Some x else find_first P xs)"

lemma find_first_Some: "find_first P xs = Some x \<Longrightarrow> x \<in> set xs \<and> P x"
  by (induction xs) (auto split: if_splits)

lemma find_first_None: "find_first P xs = None \<longleftrightarrow> (\<forall>x \<in> set xs. \<not> P x)"
  by (induction xs) auto

lemma find_first_cong:
  "(\<And>x. x \<in> set xs \<Longrightarrow> P x = Q x) \<Longrightarrow> find_first P xs = find_first Q xs"
  by (induction xs) auto

fun find_index :: "('a \<Rightarrow> bool) \<Rightarrow> 'a list \<Rightarrow> nat option" where
  "find_index P [] = None"
| "find_index P (x # xs) = (if P x then Some 0 else map_option Suc (find_index P xs))"

lemma find_index_Some:
  "find_index P xs = Some i \<Longrightarrow> i < length xs \<and> P (xs ! i) \<and> (\<forall>j < i. \<not> P (xs ! j))"
proof (induction xs arbitrary: i)
  case (Cons x xs)
  show ?case
  proof (cases "P x")
    case False
    with Cons.prems obtain k where k: "find_index P xs = Some k" "i = Suc k" by auto
    from Cons.IH [OF k(1)] False k(2) show ?thesis
      by (auto simp: nth_Cons split: nat.splits)
  qed (use Cons.prems in auto)
qed simp

lemma find_index_None: "find_index P xs = None \<longleftrightarrow> (\<forall>x \<in> set xs. \<not> P x)"
  by (induction xs) auto

end
