(* ===== verification/Go_Strings.thy ===== *)
theory Go_Strings
  imports Prelude
begin

text \<open>
  The operations of Go's packages \<open>strings\<close> and \<open>strconv\<close> that the program calls,
  on byte strings, and the lemmas the other theories use about them: splitting and
  joining, decimal printing and parsing with the 64-bit range check.
\<close>

section \<open>Package strings\<close>

definition strings_HasPrefix :: "string \<Rightarrow> string \<Rightarrow> bool" where
  "strings_HasPrefix s p \<longleftrightarrow> take (length p) s = p"

definition strings_TrimPrefix :: "string \<Rightarrow> string \<Rightarrow> string" where
  "strings_TrimPrefix s p = (if strings_HasPrefix s p then drop (length p) s else s)"

definition strings_HasSuffix :: "string \<Rightarrow> string \<Rightarrow> bool" where
  "strings_HasSuffix s t \<longleftrightarrow> strings_HasPrefix (rev s) (rev t)"

definition strings_TrimSuffix :: "string \<Rightarrow> string \<Rightarrow> string" where
  "strings_TrimSuffix s t = (if strings_HasSuffix s t then take (length s - length t) s else s)"

fun strings_Contains :: "string \<Rightarrow> string \<Rightarrow> bool" where
  "strings_Contains [] t \<longleftrightarrow> t = []"
| "strings_Contains (x # xs) t \<longleftrightarrow> strings_HasPrefix (x # xs) t \<or> strings_Contains xs t"

text \<open>\<open>strings.Split\<close> for a separator of one byte.\<close>

fun split_char :: "char \<Rightarrow> string \<Rightarrow> string list" where
  "split_char c [] = [[]]"
| "split_char c (x # xs) =
     (if x = c then [] # split_char c xs
      else case split_char c xs of [] \<Rightarrow> [[x]] | w # ws \<Rightarrow> (x # w) # ws)"

fun join_char :: "char \<Rightarrow> string list \<Rightarrow> string" where
  "join_char c [] = []"
| "join_char c [x] = x"
| "join_char c (x # y # ys) = x @ c # join_char c (y # ys)"

lemma split_char_nonempty [simp]: "split_char c s \<noteq> []"
  by (cases s) (auto split: list.splits)

lemma split_char_append:
  "split_char c (xs @ c # ys) = split_char c xs @ split_char c ys"
proof (induction xs)
  case (Cons x xs)
  then show ?case by (cases "split_char c xs") auto
qed simp

lemma split_char_free: "c \<notin> set s \<Longrightarrow> split_char c s = [s]"
  by (induction s) auto

lemma split_join:
  "xs \<noteq> [] \<Longrightarrow> (\<forall>x \<in> set xs. c \<notin> set x) \<Longrightarrow> split_char c (join_char c xs) = xs"
proof (induction c xs rule: join_char.induct)
  case (3 c x y ys)
  then show ?case by (simp add: split_char_append split_char_free)
qed (simp_all add: split_char_free)

lemma split_char_sep_free: "w \<in> set (split_char c s) \<Longrightarrow> c \<notin> set w"
proof (induction s arbitrary: w)
  case (Cons x s)
  obtain v vs where v: "split_char c s = v # vs"
    by (cases "split_char c s") auto
  from Cons show ?case by (auto simp: v split: if_splits)
qed simp

section \<open>Package strconv\<close>

definition digit_char :: "nat \<Rightarrow> char" where
  "digit_char n = char_of (48 + n)"

definition is_digit :: "char \<Rightarrow> bool" where
  "is_digit c \<longleftrightarrow> 48 \<le> (of_char c :: nat) \<and> (of_char c :: nat) \<le> 57"

definition digit_val :: "char \<Rightarrow> nat" where
  "digit_val c = of_char c - 48"

fun dec_digits :: "nat \<Rightarrow> string" where
  "dec_digits n = (if n < 10 then [digit_char n] else dec_digits (n div 10) @ [digit_char (n mod 10)])"

declare dec_digits.simps [simp del]

lemma digit_char_eval [go_strings]:
  "digit_char 0 = CHR ''0''" "digit_char (Suc 0) = CHR ''1''" "digit_char 1 = CHR ''1''" "digit_char 2 = CHR ''2''"
  "digit_char 3 = CHR ''3''" "digit_char 4 = CHR ''4''" "digit_char 5 = CHR ''5''" "digit_char 6 = CHR ''6''"
  "digit_char 7 = CHR ''7''" "digit_char 8 = CHR ''8''" "digit_char 9 = CHR ''9''"
  by (simp_all only: digit_char_def) code_simp+

definition strconv_Itoa :: "int \<Rightarrow> string" where
  "strconv_Itoa z = (if z < 0 then CHR ''-'' # dec_digits (nat (- z)) else dec_digits (nat z))"

lemma Itoa_eval [go_strings]:
  "strconv_Itoa 0 = ''0''"
  "strconv_Itoa (numeral k) = dec_digits (numeral k)"
  "dec_digits (numeral k) =
     (if (numeral k :: nat) < 10 then [digit_char (numeral k)]
      else dec_digits (numeral k div 10) @ [digit_char (numeral k mod 10)])"
  "dec_digits 1 = ''1''" "dec_digits (Suc 0) = ''1''" "dec_digits 0 = ''0''"
  by (simp_all add: strconv_Itoa_def dec_digits.simps digit_char_eval)

definition parse_dec :: "string \<Rightarrow> nat option" where
  "parse_dec s = (if s \<noteq> [] \<and> list_all is_digit s
     then Some (foldl (\<lambda>n c. 10 * n + digit_val c) 0 s) else None)"

text \<open>
  \<open>strconv.ParseInt(s, 10, 64)\<close> and \<open>strconv.Atoi\<close>: an optional sign, at least one decimal
  digit and nothing else, and a value that fits 64 bits; any other input is an error.
\<close>

definition strconv_ParseInt :: "string \<Rightarrow> int option" where
  "strconv_ParseInt s =
     (let (neg, ds) = (case s of [] \<Rightarrow> (False, [])
        | c # cs \<Rightarrow> if c = CHR ''-'' then (True, cs)
                    else if c = CHR ''+'' then (False, cs) else (False, s))
      in case parse_dec ds of None \<Rightarrow> None
         | Some n \<Rightarrow> let z = (if neg then - int n else int n)
                     in if in_int64 z then Some z else None)"

abbreviation strconv_Atoi :: "string \<Rightarrow> int option" where
  "strconv_Atoi \<equiv> strconv_ParseInt"

lemma digit_char_props [simp]:
  assumes "n < 10"
  shows "is_digit (digit_char n)" "digit_val (digit_char n) = n"
  using assms by (simp_all add: is_digit_def digit_val_def digit_char_def)

lemma dec_digits_nonempty [simp]: "dec_digits n \<noteq> []"
  by (subst dec_digits.simps) simp

lemma dec_digits_are_digits: "c \<in> set (dec_digits n) \<Longrightarrow> is_digit c"
proof (induction n rule: dec_digits.induct)
  case (1 n)
  then show ?case by (cases "n < 10") (auto simp: dec_digits.simps [of n])
qed

lemma foldl_dec_digits: "foldl (\<lambda>n c. 10 * n + digit_val c) 0 (dec_digits n) = n"
proof (induction n rule: dec_digits.induct)
  case (1 n)
  then show ?case by (cases "n < 10") (auto simp: dec_digits.simps [of n])
qed

lemma parse_dec_digits [simp]: "parse_dec (dec_digits n) = Some n"
  by (simp add: parse_dec_def foldl_dec_digits list_all_iff dec_digits_are_digits)

lemma dec_digits_hd: "dec_digits n = c # cs \<Longrightarrow> is_digit c"
  using dec_digits_are_digits [of c n] by simp

lemma is_digit_sign [simp]: "\<not> is_digit CHR ''-''" "\<not> is_digit CHR ''+''"
  by (simp_all add: is_digit_def)

lemma Atoi_Itoa [go_strings]: "in_int64 z \<Longrightarrow> strconv_Atoi (strconv_Itoa z) = Some z"
proof (cases "z < 0")
  case True
  assume "in_int64 z"
  with True show ?thesis
    by (simp add: strconv_ParseInt_def strconv_Itoa_def)
next
  case False
  assume z: "in_int64 z"
  obtain c cs where cs: "dec_digits (nat z) = c # cs"
    by (cases "dec_digits (nat z)") auto
  then have "is_digit c" by (rule dec_digits_hd)
  then have "c \<noteq> CHR ''-''" "c \<noteq> CHR ''+''" by auto
  with z False show ?thesis
    using parse_dec_digits [of "nat z"]
    by (simp add: strconv_ParseInt_def strconv_Itoa_def cs)
qed

lemma Atoi_in_int64: "strconv_Atoi s = Some z \<Longrightarrow> in_int64 z"
  by (auto simp: strconv_ParseInt_def Let_def split: prod.splits option.splits if_splits)

lemma Itoa_nonempty [simp]: "strconv_Itoa z \<noteq> []"
  by (simp add: strconv_Itoa_def)

lemma Itoa_chars: "c \<in> set (strconv_Itoa z) \<Longrightarrow> is_digit c \<or> c = CHR ''-''"
  by (auto simp: strconv_Itoa_def dest: dec_digits_are_digits split: if_splits)

lemma dec_digits_inj: "dec_digits m = dec_digits n \<Longrightarrow> m = n"
  by (metis foldl_dec_digits)

lemma Itoa_inj: "strconv_Itoa a = strconv_Itoa b \<Longrightarrow> a = b"
proof (cases "a < 0"; cases "b < 0")
  assume h: "strconv_Itoa a = strconv_Itoa b" "a < 0" "b < 0"
  then have "dec_digits (nat (- a)) = dec_digits (nat (- b))" by (simp add: strconv_Itoa_def)
  then show ?thesis using dec_digits_inj h by fastforce
next
  assume h: "strconv_Itoa a = strconv_Itoa b" "\<not> a < 0" "\<not> b < 0"
  then have "dec_digits (nat a) = dec_digits (nat b)" by (simp add: strconv_Itoa_def)
  then show ?thesis using dec_digits_inj h by fastforce
next
  assume h: "strconv_Itoa a = strconv_Itoa b" "a < 0" "\<not> b < 0"
  then show ?thesis
    using dec_digits_are_digits [of "CHR ''-''" "nat b"] by (auto simp: strconv_Itoa_def dest: sym)
next
  assume h: "strconv_Itoa a = strconv_Itoa b" "\<not> a < 0" "b < 0"
  then show ?thesis
    using dec_digits_are_digits [of "CHR ''-''" "nat a"] by (auto simp: strconv_Itoa_def dest: sym)
qed

end
