(* ===== verification/Http.thy ===== *)
theory Http
  imports Go_Strings
begin

text \<open>
  Package \<open>net/http\<close> as the handlers use it: a request with its path parameters, the response
  writer with the first status winning, and \<open>http.Error\<close>.  Headers the server adds on its own
  (length, date, a sniffed content type) are not part of the response here.  The locale
  \<open>conditional_get\<close> states what a handler with an entity tag promises its clients.
\<close>

record request =
  rq_Path :: string
  rq_RawQuery :: string
  rq_Param :: "string \<Rightarrow> string" \<comment> \<open>\<open>chi.URLParam\<close>\<close>
  rq_Header :: "string \<Rightarrow> string" \<comment> \<open>\<open>r.Header.Get\<close>, empty when absent\<close>
  rq_Body :: "string result" \<comment> \<open>\<open>io.ReadAll(r.Body)\<close>\<close>

record response =
  rs_Status :: "int option" \<comment> \<open>as written so far\<close>
  rs_Header :: "string \<Rightarrow> string option"
  rs_Body :: string

definition new_response :: response where
  "new_response = \<lparr>rs_Status = None, rs_Header = Map.empty, rs_Body = []\<rparr>"

definition Header_Set :: "string \<Rightarrow> string \<Rightarrow> response \<Rightarrow> response" where
  "Header_Set k v w = w\<lparr>rs_Header := (rs_Header w)(k \<mapsto> v)\<rparr>"

definition WriteHeader :: "int \<Rightarrow> response \<Rightarrow> response" where
  "WriteHeader code w = (case rs_Status w of None \<Rightarrow> w\<lparr>rs_Status := Some code\<rparr> | Some _ \<Rightarrow> w)"

definition Write :: "string \<Rightarrow> response \<Rightarrow> response" where
  "Write t w = (let v = WriteHeader 200 w in v\<lparr>rs_Body := rs_Body v @ t\<rparr>)"

definition http_Error :: "string \<Rightarrow> int \<Rightarrow> response \<Rightarrow> response" where
  "http_Error msg code w =
     Write (msg @ [CHR 0x0A]) (WriteHeader code
       (Header_Set ''X-Content-Type-Options'' ''nosniff''
         (Header_Set ''Content-Type'' ''text/plain; charset=utf-8''
           (w\<lparr>rs_Header := (rs_Header w)(''Content-Length'' := None)\<rparr>))))"

lemmas http_defs = new_response_def Header_Set_def WriteHeader_def Write_def http_Error_def Let_def

text \<open>The status a client sees: 200 when the handler wrote none.\<close>

definition status_of :: "response \<Rightarrow> int" where
  "status_of w = (case rs_Status w of None \<Rightarrow> 200 | Some c \<Rightarrow> c)"

definition not_modified :: response where
  "not_modified = WriteHeader 304 new_response"

section \<open>Conditional requests\<close>

text \<open>
  A handler of GET requests with an entity tag: it answers 304 and nothing else to the tag of the
  current state, and it sends the tag with every document.
\<close>

locale conditional_get =
  fixes tag :: "'s \<Rightarrow> request \<Rightarrow> string"
    and serve :: "'s \<Rightarrow> request \<Rightarrow> response"
  assumes match: "rq_Header r ''If-None-Match'' = tag s r \<Longrightarrow> serve s r = not_modified"
    and other: "rq_Header r ''If-None-Match'' \<noteq> tag s r \<Longrightarrow> status_of (serve s r) \<noteq> 304
      \<and> (status_of (serve s r) = 200 \<longrightarrow> rs_Header (serve s r) ''ETag'' = Some (tag s r))"
    and params: "rq_Param r = rq_Param r' \<Longrightarrow> tag s r = tag s r'"
begin

lemma not_modified_iff: "status_of (serve s r) = 304 \<longleftrightarrow> rq_Header r ''If-None-Match'' = tag s r"
  using match other by (auto simp: status_of_def not_modified_def http_defs)

text \<open>A client that repeats a request with the tag it got is answered 304 as long as the tag of the
  state is the same, and gets an answer with content once it is another.\<close>

lemma revalidation:
  assumes "status_of (serve s r) = 200" "rs_Header (serve s r) ''ETag'' = Some e"
    "rq_Param r' = rq_Param r" "rq_Header r' ''If-None-Match'' = e"
  shows "status_of (serve s' r') = 304 \<longleftrightarrow> tag s' r = tag s r"
proof -
  from assms(1) have "rq_Header r ''If-None-Match'' \<noteq> tag s r"
    using not_modified_iff [of s r] by auto
  with other assms(1,2) have "e = tag s r" by auto
  with not_modified_iff [of s' r'] params [of r' r s'] assms(3,4) show ?thesis by auto
qed

end

end
