(* ===== verification/Go_UTF8.thy ===== *)
theory Go_UTF8
  imports Go_Strings
begin

text \<open>
  Package \<open>unicode/utf8\<close> as \<open>encoding/xml\<close> uses it: decoding of one rune from the front of a
  byte sequence, encoding of a rune, the character range of XML 1.0, and the replacement of
  invalid or excluded runes that the XML encoder performs.
\<close>

abbreviation byte :: "char \<Rightarrow> nat" where
  "byte c \<equiv> of_char c"

text \<open>The value of a hexadecimal digit.\<close>

definition hex_val :: "char \<Rightarrow> nat option" where
  "hex_val c = (if is_digit c then Some (digit_val c)
     else if 97 \<le> byte c \<and> byte c \<le> 102 then Some (byte c - 87)
     else if 65 \<le> byte c \<and> byte c \<le> 70 then Some (byte c - 55) else None)"

definition rune_error :: nat where "rune_error = 0xFFFD"

definition cont_byte :: "nat \<Rightarrow> nat \<Rightarrow> char \<Rightarrow> bool" where
  "cont_byte lo hi c \<longleftrightarrow> lo \<le> byte c \<and> byte c \<le> hi"

text \<open>The range of the second byte that \<open>utf8\<close> accepts after the lead byte \<open>a\<close>.\<close>

definition second_lo :: "nat \<Rightarrow> nat" where
  "second_lo a = (if a = 0xE0 then 0xA0 else if a = 0xF0 then 0x90 else 0x80)"

definition second_hi :: "nat \<Rightarrow> nat" where
  "second_hi a = (if a = 0xED then 0x9F else if a = 0xF4 then 0x8F else 0xBF)"

definition trail_len :: "nat \<Rightarrow> nat" where
  "trail_len a = (if 0xC2 \<le> a \<and> a \<le> 0xDF then 1 else if 0xE0 \<le> a \<and> a \<le> 0xEF then 2
     else if 0xF0 \<le> a \<and> a \<le> 0xF4 then 3 else 0)"

definition trail_ok :: "nat \<Rightarrow> string \<Rightarrow> bool" where
  "trail_ok a ts \<longleftrightarrow> ts \<noteq> [] \<and> length ts = trail_len a \<and>
     cont_byte (second_lo a) (second_hi a) (hd ts) \<and> list_all (cont_byte 0x80 0xBF) (tl ts)"

definition rune_value :: "nat \<Rightarrow> string \<Rightarrow> nat" where
  "rune_value a ts =
     foldl (\<lambda>n c. n * 64 + byte c mod 64) (a mod (if length ts = 1 then 32 else if length ts = 2 then 16 else 8)) ts"

definition decode_lead :: "nat \<Rightarrow> string \<Rightarrow> nat \<times> nat" where
  "decode_lead a cs =
     (if a < 0x80 then (a, 1)
      else let ts = take (trail_len a) cs in
        if trail_ok a ts then (rune_value a ts, 1 + length ts) else (rune_error, 1))"

fun utf8_DecodeRune :: "string \<Rightarrow> nat \<times> nat" where
  "utf8_DecodeRune [] = (rune_error, 0)"
| "utf8_DecodeRune (c # cs) = decode_lead (byte c) cs"

text \<open>Encoding of a rune; surrogates and values beyond \<open>0x10FFFF\<close> become \<open>rune_error\<close>.\<close>

definition utf8_EncodeRune :: "nat \<Rightarrow> string" where
  "utf8_EncodeRune n =
     (let r = (if 0x10FFFF < n \<or> (0xD800 \<le> n \<and> n \<le> 0xDFFF) then rune_error else n) in
      if r < 0x80 then [char_of r]
      else if r < 0x800 then [char_of (0xC0 + r div 64), char_of (0x80 + r mod 64)]
      else if r < 0x10000 then
        [char_of (0xE0 + r div 4096), char_of (0x80 + (r div 64) mod 64), char_of (0x80 + r mod 64)]
      else [char_of (0xF0 + r div 262144), char_of (0x80 + (r div 4096) mod 64),
            char_of (0x80 + (r div 64) mod 64), char_of (0x80 + r mod 64)])"

definition replacement :: string where
  "replacement = [CHR 0xEF, CHR 0xBF, CHR 0xBD]"

definition in_char_range :: "nat \<Rightarrow> bool" where
  "in_char_range r \<longleftrightarrow> r = 0x9 \<or> r = 0xA \<or> r = 0xD \<or> (0x20 \<le> r \<and> r \<le> 0xD7FF)
     \<or> (0xE000 \<le> r \<and> r \<le> 0xFFFD) \<or> (0x10000 \<le> r \<and> r \<le> 0x10FFFF)"

text \<open>A decoded rune that the XML encoder writes as it is.\<close>

definition rune_ok :: "nat \<times> nat \<Rightarrow> bool" where
  "rune_ok rw \<longleftrightarrow> in_char_range (fst rw) \<and> rw \<noteq> (rune_error, 1)"

fun valid_text :: "string \<Rightarrow> bool" where
  "valid_text [] = True"
| "valid_text (c # cs) =
     (rune_ok (utf8_DecodeRune (c # cs)) \<and> valid_text (drop (snd (utf8_DecodeRune (c # cs)) - 1) cs))"

fun sanitize :: "string \<Rightarrow> string" where
  "sanitize [] = []"
| "sanitize (c # cs) =
     (let w = snd (utf8_DecodeRune (c # cs)) - 1 in
      (if rune_ok (utf8_DecodeRune (c # cs)) then c # take w cs else replacement)
      @ sanitize (drop w cs))"

declare utf8_DecodeRune.simps(2) [simp del] valid_text.simps(2) [simp del] sanitize.simps(2) [simp del]

lemma decode_ascii [simp]: "byte c < 0x80 \<Longrightarrow> utf8_DecodeRune (c # cs) = (byte c, 1)"
  by (simp add: utf8_DecodeRune.simps decode_lead_def)

lemma decode_width:
  assumes "utf8_DecodeRune (c # cs) = (r, w)"
  shows "1 \<le> w" and "w - 1 \<le> length cs"
  using assms by (auto simp: utf8_DecodeRune.simps decode_lead_def Let_def split: if_splits)

lemma decode_stable:
  assumes "utf8_DecodeRune (c # cs) = (r, w)" "(r, w) \<noteq> (rune_error, 1)"
  shows "utf8_DecodeRune (c # take (w - 1) cs @ t) = (r, w)"
proof (cases "byte c < 0x80")
  case False
  define ts where "ts = take (trail_len (byte c)) cs"
  from False assms have ok: "trail_ok (byte c) ts" and rw: "r = rune_value (byte c) ts" "w = 1 + length ts"
    by (auto simp: utf8_DecodeRune.simps decode_lead_def Let_def ts_def split: if_splits)
  from ok have len: "length ts = trail_len (byte c)" by (simp add: trail_ok_def)
  then have "take (w - 1) cs = ts" using rw ts_def by simp
  moreover have "take (trail_len (byte c)) (ts @ t) = ts" using len by simp
  ultimately show ?thesis
    using False ok rw by (simp add: utf8_DecodeRune.simps decode_lead_def Let_def)
qed (use assms in auto)

lemma decode_multi:
  assumes "utf8_DecodeRune (c # cs) = (r, w)" "\<not> byte c < 0x80" "(r, w) \<noteq> (rune_error, 1)"
    "d \<in> set (c # take (w - 1) cs)"
  shows "0x80 \<le> byte d"
proof -
  define ts where "ts = take (trail_len (byte c)) cs"
  from assms have ok: "trail_ok (byte c) ts" and w: "w = 1 + length ts"
    by (auto simp: utf8_DecodeRune.simps decode_lead_def Let_def ts_def split: if_splits)
  then have "take (w - 1) cs = ts" by (simp add: trail_ok_def ts_def)
  with assms have "d = c \<or> d \<in> set ts" by simp
  moreover have "0x80 \<le> second_lo (byte c)" by (simp add: second_lo_def)
  ultimately show ?thesis
    using assms(2) ok by (cases ts) (auto simp: trail_ok_def cont_byte_def list_all_iff)
qed

lemma decode_replacement [simp]:
  "utf8_DecodeRune (CHR 0xEF # CHR 0xBF # CHR 0xBD # t) = (rune_error, 3)"
  by (simp add: utf8_DecodeRune.simps decode_lead_def cont_byte_def second_lo_def second_hi_def
    rune_error_def trail_len_def trail_ok_def rune_value_def numeral_2_eq_2)

lemma valid_replacement: "valid_text (replacement @ t) = valid_text t"
  by (simp add: replacement_def valid_text.simps(2) [of "CHR 0xEF"] rune_ok_def in_char_range_def)
     (simp add: rune_error_def numeral_2_eq_2)

theorem valid_sanitize: "valid_text (sanitize s)"
proof (induction s rule: sanitize.induct)
  case (2 c cs)
  obtain r w where rw: "utf8_DecodeRune (c # cs) = (r, w)" by force
  have w: "1 \<le> w" "w - 1 \<le> length cs" using decode_width [OF rw] by auto
  let ?rest = "sanitize (drop (w - 1) cs)"
  have IH: "valid_text ?rest" using "2.IH" rw by simp
  show ?case
  proof (cases "rune_ok (r, w)")
    case True
    then have "utf8_DecodeRune (c # take (w - 1) cs @ ?rest) = (r, w)"
      by (intro decode_stable [OF rw]) (simp add: rune_ok_def)
    with True IH w show ?thesis
      by (simp add: sanitize.simps(2) Let_def rw valid_text.simps(2))
  next
    case False
    then show ?thesis using IH by (simp add: sanitize.simps(2) Let_def rw valid_replacement)
  qed
qed simp

lemma sanitize_valid: "valid_text s \<Longrightarrow> sanitize s = s"
proof (induction s rule: sanitize.induct)
  case (2 c cs)
  obtain r w where rw: "utf8_DecodeRune (c # cs) = (r, w)" by force
  from "2.prems" rw have "rune_ok (r, w)" "valid_text (drop (w - 1) cs)"
    by (simp_all add: valid_text.simps(2))
  with 2 rw show ?case by (simp add: sanitize.simps(2) Let_def)
qed simp

lemma sanitize_idem [simp]: "sanitize (sanitize s) = sanitize s"
  by (rule sanitize_valid [OF valid_sanitize])

lemma sanitize_Nil_iff [simp]: "sanitize s = [] \<longleftrightarrow> s = []"
  by (cases s) (auto simp: sanitize.simps(2) Let_def replacement_def)

text \<open>Bytes of printable ASCII are their own rune.\<close>

definition ascii_text :: "string \<Rightarrow> bool" where
  "ascii_text s \<longleftrightarrow> (\<forall>c \<in> set s. 0x20 \<le> byte c \<and> byte c < 0x80)"

lemma valid_ascii: "ascii_text s \<Longrightarrow> valid_text s"
proof (induction s)
  case (Cons c s)
  then have "0x20 \<le> byte c" "byte c < 0x80" "valid_text s" by (auto simp: ascii_text_def)
  then show ?case
    by (simp add: valid_text.simps(2) rune_ok_def in_char_range_def rune_error_def)
qed simp

lemma sanitize_ascii [simp]: "ascii_text s \<Longrightarrow> sanitize s = s"
  by (rule sanitize_valid [OF valid_ascii])

end
