(* ===== verification/Go_XML.thy ===== *)
theory Go_XML
  imports Go_UTF8
begin

text \<open>
  Package \<open>encoding/xml\<close> as the program uses it.  The encoder: \<open>xml.EscapeText\<close>, and the
  printing of a marshalled struct with or without indentation.  The decoder in its strict mode:
  the tokenizer (\<open>Decoder.rawToken\<close>) and the stack of open elements (\<open>Decoder.Token\<close>), up to
  the end of the root element, which is where \<open>xml.Unmarshal\<close> stops reading.

  Limits: element and attribute names are ASCII (a document with other names is an error in the
  model), and a document type declaration is an error in the model.
\<close>

section \<open>Documents\<close>

type_synonym xname = "string \<times> string" \<comment> \<open>prefix and local name\<close>
type_synonym xattrs = "(xname \<times> string) list"

datatype xml = XElem xname xattrs "xml list" | XText string

text \<open>What the encoder prints for a struct: elements that hold a text, or elements that hold elements.\<close>

datatype mtree = MText string "(string \<times> string) list" string
  | MElems string "(string \<times> string) list" "mtree list"

section \<open>Encoding\<close>

definition escape_byte :: "char \<Rightarrow> string option" where
  "escape_byte c =
     (if c = CHR 0x22 then Some ''&#34;''
      else if c = CHR 0x27 then Some ''&#39;''
      else if c = CHR 0x26 then Some ''&amp;''
      else if c = CHR 0x3C then Some ''&lt;''
      else if c = CHR 0x3E then Some ''&gt;''
      else if c = CHR 0x09 then Some ''&#x9;''
      else if c = CHR 0x0A then Some ''&#xA;''
      else if c = CHR 0x0D then Some ''&#xD;''
      else None)"

fun xml_EscapeText :: "string \<Rightarrow> string" where
  "xml_EscapeText [] = []"
| "xml_EscapeText (c # cs) =
     (case escape_byte c of
        Some e \<Rightarrow> e @ xml_EscapeText cs
      | None \<Rightarrow>
          let w = snd (utf8_DecodeRune (c # cs)) - 1 in
          (if rune_ok (utf8_DecodeRune (c # cs)) then c # take w cs else replacement)
          @ xml_EscapeText (drop w cs))"

definition print_attr :: "string \<times> string \<Rightarrow> string" where
  "print_attr a = '' '' @ fst a @ ''='' @ [CHR 0x22] @ xml_EscapeText (snd a) @ [CHR 0x22]"

definition print_open :: "string \<Rightarrow> (string \<times> string) list \<Rightarrow> string" where
  "print_open n as = ''<'' @ n @ concat (map print_attr as) @ ''>''"

definition print_close :: "string \<Rightarrow> string" where
  "print_close n = ''</'' @ n @ ''>''"

text \<open>
  \<open>nl d\<close> is what the printer writes before a tag at depth \<open>d\<close>: nothing for \<open>xml.Marshal\<close>, a
  newline and the indentation for \<open>xml.MarshalIndent\<close>.
\<close>

fun print_tree :: "(nat \<Rightarrow> string) \<Rightarrow> nat \<Rightarrow> mtree \<Rightarrow> string" where
  "print_tree nl d (MText n as s) = print_open n as @ xml_EscapeText s @ print_close n"
| "print_tree nl d (MElems n as ms) =
     print_open n as
     @ (if ms = [] then [] else concat (map (\<lambda>m. nl (Suc d) @ print_tree nl (Suc d) m) ms) @ nl d)
     @ print_close n"

definition nl_indent :: "string \<Rightarrow> nat \<Rightarrow> string" where
  "nl_indent ind d = CHR 0x0A # concat (replicate d ind)"

definition xml_MarshalIndent :: "string \<Rightarrow> mtree \<Rightarrow> string" where
  "xml_MarshalIndent ind m = print_tree (nl_indent ind) 0 m"

definition xml_Marshal :: "mtree \<Rightarrow> string" where
  "xml_Marshal m = print_tree (\<lambda>_. []) 0 m"

definition xml_Header :: string where
  "xml_Header = ''<?xml version='' @ [CHR 0x22] @ ''1.0'' @ [CHR 0x22] @ '' encoding='' @ [CHR 0x22]
     @ ''UTF-8'' @ [CHR 0x22] @ ''?>'' @ [CHR 0x0A]"

section \<open>Tokenizer\<close>

definition is_name_byte :: "char \<Rightarrow> bool" where
  "is_name_byte c \<longleftrightarrow> (65 \<le> byte c \<and> byte c \<le> 90) \<or> (97 \<le> byte c \<and> byte c \<le> 122)
     \<or> is_digit c \<or> c \<in> set ''_:.-''"

definition is_name_start :: "char \<Rightarrow> bool" where
  "is_name_start c \<longleftrightarrow> (65 \<le> byte c \<and> byte c \<le> 90) \<or> (97 \<le> byte c \<and> byte c \<le> 122) \<or> c \<in> set ''_:''"

definition is_space :: "char \<Rightarrow> bool" where
  "is_space c \<longleftrightarrow> c = CHR 0x20 \<or> c = CHR 0x0D \<or> c = CHR 0x0A \<or> c = CHR 0x09"

definition skip_space :: "string \<Rightarrow> string" where
  "skip_space s = dropWhile is_space s"

text \<open>\<open>Decoder.name\<close>: a run of name bytes that must be followed by something.\<close>

definition read_name :: "string \<Rightarrow> (string \<times> string) option" where
  "read_name s =
     (let n = takeWhile is_name_byte s; r = dropWhile is_name_byte s in
      if n = [] \<or> r = [] \<or> \<not> is_name_start (hd n) \<or> 0x80 \<le> byte (hd r) then None else Some (n, r))"

text \<open>\<open>Decoder.nsname\<close>: split at the only colon, when both sides are there.\<close>

definition ns_name :: "string \<Rightarrow> xname option" where
  "ns_name n = (case split_char CHR '':'' n of
      [a] \<Rightarrow> Some ([], a)
    | [a, b] \<Rightarrow> Some (if a = [] \<or> b = [] then ([], n) else (a, b))
    | _ \<Rightarrow> None)"

definition read_nsname :: "string \<Rightarrow> (xname \<times> string) option" where
  "read_nsname s = (case read_name s of None \<Rightarrow> None
     | Some (n, r) \<Rightarrow> map_option (\<lambda>x. (x, r)) (ns_name n))"

fun num_ref :: "nat \<Rightarrow> nat \<Rightarrow> bool \<Rightarrow> string \<Rightarrow> (nat \<times> string) option" where
  "num_ref base n seen [] = None"
| "num_ref base n seen (c # cs) =
     (if c = CHR '';'' then (if seen then Some (n, cs) else None)
      else case hex_val c of
        Some v \<Rightarrow> if v < base then num_ref base (n * base + v) True cs else None
      | None \<Rightarrow> None)"

definition entity_table :: "(string \<times> string) list" where
  "entity_table = [(''lt'', [CHR 0x3C]), (''gt'', [CHR 0x3E]), (''amp'', [CHR 0x26]),
     (''apos'', [CHR 0x27]), (''quot'', [CHR 0x22])]"

text \<open>The text an ampersand stands for, given the bytes after it.\<close>

definition read_entity :: "string \<Rightarrow> (string \<times> string) option" where
  "read_entity s =
     (case s of [] \<Rightarrow> None
      | c # cs \<Rightarrow>
          if c = CHR 0x23 then
            (case (case cs of [] \<Rightarrow> None
               | x # xs \<Rightarrow> if x = CHR ''x'' then num_ref 16 0 False xs else num_ref 10 0 False cs) of
               None \<Rightarrow> None
             | Some (n, r) \<Rightarrow> if n \<le> 0x10FFFF then Some (utf8_EncodeRune n, r) else None)
          else
            (case map_of entity_table (takeWhile is_name_byte s) of
               None \<Rightarrow> None
             | Some t \<Rightarrow> (case dropWhile is_name_byte s of
                 r # rs \<Rightarrow> if r = CHR '';'' then Some (t, rs) else None
               | [] \<Rightarrow> None)))"

lemma num_ref_length: "num_ref b n seen s = Some (m, r) \<Longrightarrow> length r < length s"
  by (induction b n seen s rule: num_ref.induct) (auto split: if_splits option.splits)

lemma read_entity_length: "read_entity s = Some (t, r) \<Longrightarrow> length r < length s"
proof -
  have d: "length (dropWhile is_name_byte x) \<le> length x" for x by (rule length_dropWhile_le)
  assume "read_entity s = Some (t, r)"
  then show ?thesis
    using d [of s]
    by (auto simp: read_entity_def dest!: num_ref_length split: list.splits if_splits option.splits)
qed

text \<open>
  \<open>Decoder.text\<close>: character data up to the next tag (no quote), an attribute value up to its
  quote, or a CDATA section.  \<open>b0\<close> and \<open>b1\<close> are the two bytes read before; \<open>acc\<close> is the buffer,
  reversed.
\<close>

function text_loop ::
  "char option \<Rightarrow> bool \<Rightarrow> char \<Rightarrow> char \<Rightarrow> string \<Rightarrow> string \<Rightarrow> (string \<times> string) option" where
  "text_loop q cd b0 b1 acc [] = (if cd then None else Some (rev acc, []))"
| "text_loop q cd b0 b1 acc (b # bs) =
     (if q = None \<and> b0 = CHR 0x5D \<and> b1 = CHR 0x5D \<and> b = CHR 0x3E then
        (if cd then Some (rev (drop 2 acc), bs) else None)
      else if b = CHR 0x3C \<and> \<not> cd then (if q = None then Some (rev acc, b # bs) else None)
      else if q = Some b then Some (rev acc, bs)
      else if b = CHR 0x26 \<and> \<not> cd then
        (case read_entity bs of None \<Rightarrow> None
         | Some (t, r) \<Rightarrow> text_loop q cd CHR 0x00 CHR 0x00 (rev t @ acc) r)
      else if b = CHR 0x0D then text_loop q cd b1 b (CHR 0x0A # acc) bs
      else if b1 = CHR 0x0D \<and> b = CHR 0x0A then text_loop q cd b1 b acc bs
      else text_loop q cd b1 b (b # acc) bs)"
  by pat_completeness auto
termination
  by (relation "measure (\<lambda>(q, cd, b0, b1, acc, s). length s)") (auto dest: read_entity_length)

declare text_loop.simps(2) [simp del]

definition read_text :: "char option \<Rightarrow> bool \<Rightarrow> string \<Rightarrow> (string \<times> string) option" where
  "read_text q cd s = (case text_loop q cd CHR 0x00 CHR 0x00 [] s of
      None \<Rightarrow> None
    | Some (t, r) \<Rightarrow> if valid_text t then Some (t, r) else None)"

lemma text_loop_length: "text_loop q cd b0 b1 acc s = Some (t, r) \<Longrightarrow> length r \<le> length s"
proof (induction "length s" arbitrary: q cd b0 b1 acc s rule: less_induct)
  case less
  have IH: "length r \<le> length s"
    if "text_loop q' cd' b0' b1' acc' s' = Some (t, r)" "length s' < length s" for q' cd' b0' b1' acc' s'
    using less.hyps [OF that(2,1)] that(2) by simp
  show ?case
  proof (cases s)
    case (Cons b bs)
    then show ?thesis
      using less.prems
      by (auto simp: text_loop.simps(2) split: if_splits option.splits
        dest!: read_entity_length dest: IH)
  qed (use less.prems in \<open>auto split: if_splits\<close>)
qed

lemma read_text_length: "read_text q cd s = Some (t, r) \<Longrightarrow> length r \<le> length s"
  by (auto simp: read_text_def split: option.splits if_splits dest: text_loop_length)

lemma read_text_consumes:
  assumes "read_text None False (c # cs) = Some (t, r)" "c \<noteq> CHR 0x3C"
  shows "length r < length (c # cs)"
  using assms
  by (auto simp: read_text_def text_loop.simps split: option.splits if_splits
    dest!: text_loop_length read_entity_length)

lemma read_name_length: "read_name s = Some (n, r) \<Longrightarrow> length r < length s"
proof -
  assume a: "read_name s = Some (n, r)"
  then have "takeWhile is_name_byte s \<noteq> []" "r = dropWhile is_name_byte s"
    by (auto simp: read_name_def Let_def split: if_splits)
  then show ?thesis
    using takeWhile_dropWhile_id [of is_name_byte s]
    by (metis add_less_same_cancel2 length_append length_greater_0_conv less_add_same_cancel2)
qed

lemma read_nsname_length: "read_nsname s = Some (n, r) \<Longrightarrow> length r < length s"
  by (auto simp: read_nsname_def split: option.splits dest: read_name_length)

lemma skip_space_length: "length (skip_space s) \<le> length s"
  by (simp add: skip_space_def length_dropWhile_le)

text \<open>
  The attributes of a start tag, up to \<open>>\<close> (not empty) or \<open>/>\<close> (an element closed at once).
\<close>

function read_attrs :: "string \<Rightarrow> ((xattrs \<times> bool) \<times> string) option" where
  "read_attrs s =
     (case skip_space s of
        [] \<Rightarrow> None
      | c # cs \<Rightarrow>
          if c = CHR 0x3E then Some (([], False), cs)
          else if c = CHR 0x2F then
            (case cs of d # ds \<Rightarrow> if d = CHR 0x3E then Some (([], True), ds) else None | [] \<Rightarrow> None)
          else (case read_nsname (c # cs) of
              None \<Rightarrow> None
            | Some (n, r1) \<Rightarrow>
                (case skip_space r1 of
                   [] \<Rightarrow> None
                 | e # r2 \<Rightarrow>
                     if e \<noteq> CHR 0x3D then None
                     else (case skip_space r2 of
                         [] \<Rightarrow> None
                       | q # r3 \<Rightarrow>
                           if q = CHR 0x22 \<or> q = CHR 0x27 then
                             (case read_text (Some q) False r3 of
                                None \<Rightarrow> None
                              | Some (v, r4) \<Rightarrow>
                                  map_option (\<lambda>((as, b), r). (((n, v) # as, b), r)) (read_attrs r4))
                           else None))))"
  by pat_completeness auto
termination
proof (relation "measure length", goal_cases)
  case (2 s c cs nr n r1 e r2 q r3 vr v r4)
  have "length r4 \<le> length r3" using 2 by (auto dest: read_text_length)
  moreover have "length (skip_space r2) \<le> length r2" "length (skip_space r1) \<le> length r1"
    "length (skip_space s) \<le> length s" by (rule skip_space_length)+
  moreover have "length r1 < length (c # cs)" using 2 by (auto dest: read_nsname_length)
  ultimately show ?case using 2 by simp
qed simp

declare read_attrs.simps [simp del]

lemma read_attrs_length: "read_attrs s = Some (x, r) \<Longrightarrow> length r < length s"
proof (induction s arbitrary: x r rule: read_attrs.induct)
  case (1 s)
  note l = skip_space_length [of s]
  show ?case
  proof (cases "skip_space s")
    case Nil
    with "1.prems" show ?thesis by (subst (asm) read_attrs.simps) simp
  next
    case (Cons c cs)
    show ?thesis
    proof (cases "c = CHR 0x3E \<or> c = CHR 0x2F")
      case True
      with "1.prems" Cons l show ?thesis
        by (subst (asm) read_attrs.simps) (auto split: list.splits if_splits)
    next
      case False
      with "1.prems" Cons obtain n r1 r2 q r3 v r4 y where
        a: "read_nsname (c # cs) = Some (n, r1)" and b: "skip_space r1 = CHR 0x3D # r2"
        and d: "skip_space r2 = q # r3" "q = CHR 0x22 \<or> q = CHR 0x27"
        and t: "read_text (Some q) False r3 = Some (v, r4)" and rec: "read_attrs r4 = Some (y, r)"
        by (subst (asm) read_attrs.simps) (auto split: list.splits if_splits option.splits)
      from "1.IH" [OF Cons _ _ a refl b _ d t refl] False rec have "length r < length r4" by auto
      also have "length r4 \<le> length r3" using t by (rule read_text_length)
      finally show ?thesis
        using read_nsname_length [OF a] skip_space_length [of r1] skip_space_length [of r2] l b d Cons
        by simp
    qed
  qed
qed

section \<open>Tokens\<close>

datatype token = TStart xname xattrs bool | TEnd xname | TText string | TSkip

text \<open>The bytes up to the first occurrence of a delimiter, and what follows it.\<close>

fun until :: "string \<Rightarrow> string \<Rightarrow> (string \<times> string) option" where
  "until d [] = None"
| "until d (c # cs) =
     (if strings_HasPrefix (c # cs) d then Some ([], drop (length d) (c # cs))
      else map_option (\<lambda>(p, r). (c # p, r)) (until d cs))"

lemma until_length: "until d s = Some (p, r) \<Longrightarrow> length r \<le> length s"
  by (induction s arbitrary: p) (auto split: if_splits)

definition ascii_lower :: "char \<Rightarrow> char" where
  "ascii_lower c = (if 65 \<le> byte c \<and> byte c \<le> 90 then char_of (byte c + 32) else c)"

text \<open>
  \<open>procInst\<close>: the value of a parameter of a processing instruction, found by searching for the
  name and an equals sign followed by a quote.
\<close>

function procInst :: "string \<Rightarrow> string \<Rightarrow> string" where
  "procInst param s =
     (case until (param @ ''='') s of
        None \<Rightarrow> []
      | Some (_, r) \<Rightarrow>
          (case r of [] \<Rightarrow> []
           | c # cs \<Rightarrow> if c = CHR 0x27 \<or> c = CHR 0x22 then
                 (case until [c] cs of None \<Rightarrow> [] | Some (v, _) \<Rightarrow> v)
               else procInst param cs))"
  by pat_completeness auto
termination
  by (relation "measure (\<lambda>(p, s). length s)") (auto dest: until_length)

declare procInst.simps [simp del]

text \<open>An XML declaration must have version 1.0 and the encoding UTF-8, where it gives them.\<close>

definition decl_ok :: "string \<Rightarrow> bool" where
  "decl_ok s \<longleftrightarrow> procInst ''version'' s \<in> {[], ''1.0''} \<and>
     map ascii_lower (procInst ''encoding'' s) \<in> {[], ''utf-8''}"

text \<open>A comment ends at the first two dashes, which must be followed by \<open>>\<close>.\<close>

definition skip_comment :: "string \<Rightarrow> string option" where
  "skip_comment s = (case until ''--'' s of
      Some (_, c # r) \<Rightarrow> if c = CHR 0x3E then Some r else None
    | _ \<Rightarrow> None)"

definition read_end_tag :: "string \<Rightarrow> (token \<times> string) option" where
  "read_end_tag s = (case read_nsname s of
      None \<Rightarrow> None
    | Some (n, r) \<Rightarrow> (case skip_space r of
          c # rs \<Rightarrow> if c = CHR 0x3E then Some (TEnd n, rs) else None
        | [] \<Rightarrow> None))"

definition read_proc_inst :: "string \<Rightarrow> (token \<times> string) option" where
  "read_proc_inst s = (case read_name s of
      None \<Rightarrow> None
    | Some (target, r) \<Rightarrow> (case until ''?>'' (skip_space r) of
          None \<Rightarrow> None
        | Some (body, rs) \<Rightarrow>
            if target = ''xml'' \<and> \<not> decl_ok body then None else Some (TSkip, rs)))"

definition read_bang :: "string \<Rightarrow> (token \<times> string) option" where
  "read_bang s =
     (if strings_HasPrefix s ''--'' then map_option (\<lambda>r. (TSkip, r)) (skip_comment (drop 2 s))
      else if strings_HasPrefix s ''[CDATA['' then
        map_option (\<lambda>(t, r). (TText t, r)) (read_text None True (drop 7 s))
      else None)"

definition read_start_tag :: "string \<Rightarrow> (token \<times> string) option" where
  "read_start_tag s = (case read_nsname s of
      None \<Rightarrow> None
    | Some (n, r) \<Rightarrow> map_option (\<lambda>((as, b), r'). (TStart n as b, r')) (read_attrs r))"

text \<open>\<open>Decoder.rawToken\<close>.\<close>

definition raw_token :: "string \<Rightarrow> (token \<times> string) option" where
  "raw_token s =
     (case s of
        [] \<Rightarrow> None
      | c # cs \<Rightarrow>
          if c \<noteq> CHR 0x3C then map_option (\<lambda>(t, r). (TText t, r)) (read_text None False s)
          else (case cs of
              [] \<Rightarrow> None
            | d # ds \<Rightarrow>
                if d = CHR 0x2F then read_end_tag ds
                else if d = CHR 0x3F then read_proc_inst ds
                else if d = CHR 0x21 then read_bang ds
                else read_start_tag cs))"

lemma raw_token_length: "raw_token s = Some (t, r) \<Longrightarrow> length r < length s"
proof -
  assume a: "raw_token s = Some (t, r)"
  then obtain c cs where s: "s = c # cs" by (cases s) (auto simp: raw_token_def)
  show ?thesis
  proof (cases "c = CHR 0x3C")
    case False
    with a s show ?thesis by (auto simp: raw_token_def dest: read_text_consumes)
  next
    case True
    with a s obtain d ds where ds: "cs = d # ds"
      by (cases cs) (auto simp: raw_token_def)
    consider "d = CHR 0x2F" | "d = CHR 0x3F" | "d = CHR 0x21" | "d \<notin> {CHR 0x2F, CHR 0x3F, CHR 0x21}"
      by blast
    then have "length r \<le> length cs"
    proof cases
      case 1
      with a s ds True obtain n r1 where "read_nsname ds = Some (n, r1)" "length r \<le> length (skip_space r1)"
        by (auto simp: raw_token_def read_end_tag_def split: option.splits list.splits if_splits)
      then show ?thesis using read_nsname_length [of ds n r1] skip_space_length [of r1] ds by simp
    next
      case 2
      with a s ds True obtain n r1 p where "read_name ds = Some (n, r1)" "until ''?>'' (skip_space r1) = Some (p, r)"
        by (auto simp: raw_token_def read_proc_inst_def split: option.splits if_splits)
      then show ?thesis
        using read_name_length [of ds n r1] skip_space_length [of r1] ds until_length [of "''?>''" "skip_space r1" p r] by simp
    next
      case 3
      with a s ds True show ?thesis
        by (auto simp: raw_token_def read_bang_def skip_comment_def split: option.splits if_splits list.splits
          dest!: until_length read_text_length)
    next
      case 4
      with a s ds True show ?thesis
        by (auto simp: raw_token_def read_start_tag_def split: option.splits
          dest!: read_nsname_length read_attrs_length)
    qed
    with s show ?thesis by simp
  qed
qed

section \<open>The stack of open elements\<close>

type_synonym frame = "xname \<times> xattrs \<times> xml list"

text \<open>
  Closing the innermost element: the document is complete when no element is left open.
\<close>

definition close_elem :: "frame \<Rightarrow> frame list \<Rightarrow> xml + frame list" where
  "close_elem f stk = (case f of (n, as, cs) \<Rightarrow>
     (case stk of
        [] \<Rightarrow> Inl (XElem n as (rev cs))
      | (m, bs, ds) # st \<Rightarrow> Inr ((m, bs, XElem n as (rev cs) # ds) # st)))"

definition add_text :: "string \<Rightarrow> frame list \<Rightarrow> frame list" where
  "add_text t stk = (case stk of [] \<Rightarrow> [] | (m, bs, ds) # st \<Rightarrow> (m, bs, XText t # ds) # st)"

definition stack_step :: "token \<Rightarrow> frame list \<Rightarrow> (xml + frame list) option" where
  "stack_step t stk = (case t of
      TText d \<Rightarrow> Some (Inr (add_text d stk))
    | TSkip \<Rightarrow> Some (Inr stk)
    | TStart n as b \<Rightarrow> Some (if b then close_elem (n, as, []) stk else Inr ((n, as, []) # stk))
    | TEnd n \<Rightarrow> (case stk of [] \<Rightarrow> None
        | f # st \<Rightarrow> if fst f = n then Some (close_elem f st) else None))"

function parse_run :: "frame list \<Rightarrow> string \<Rightarrow> xml option" where
  "parse_run stk s =
     (case raw_token s of
        None \<Rightarrow> None
      | Some (t, r) \<Rightarrow>
          (case stack_step t stk of
             None \<Rightarrow> None
           | Some (Inl x) \<Rightarrow> Some x
           | Some (Inr stk') \<Rightarrow> parse_run stk' r))"
  by pat_completeness auto
termination
  by (relation "measure (\<lambda>(stk, s). length s)") (auto dest: raw_token_length)

declare parse_run.simps [simp del]

definition parse_xml :: "string \<Rightarrow> xml option" where
  "parse_xml s = parse_run [] s"

end
