(* ===== verification/XML_Roundtrip.thy ===== *)
theory XML_Roundtrip
  imports Go_XML
begin

text \<open>
  What the decoder sees of a printed struct.  \<open>plain_tree\<close> is the document with the texts
  sanitised and the indentation as text nodes; parsing the printed bytes gives exactly that.
\<close>

section \<open>Text\<close>

definition safe_byte :: "char \<Rightarrow> bool" where
  "safe_byte b \<longleftrightarrow> b \<notin> {CHR 0x3C, CHR 0x26, CHR 0x3E, CHR 0x22, CHR 0x0D}"

lemma text_loop_safe:
  assumes "safe_byte b" "q \<in> {None, Some CHR 0x22}" "b1 \<noteq> CHR 0x0D"
  shows "text_loop q False b0 b1 acc (b # bs) = text_loop q False b1 b (b # acc) bs"
  using assms by (auto simp: text_loop.simps(2) safe_byte_def)

lemma text_loop_safes:
  assumes "\<forall>b \<in> set w. safe_byte b" "q \<in> {None, Some CHR 0x22}" "b1 \<noteq> CHR 0x0D"
  shows "\<exists>c0 c1. c1 \<noteq> CHR 0x0D \<and>
    text_loop q False b0 b1 acc (w @ bs) = text_loop q False c0 c1 (rev w @ acc) bs"
  using assms
proof (induction w arbitrary: b0 b1 acc)
  case (Cons b w)
  then have "text_loop q False b0 b1 acc ((b # w) @ bs) = text_loop q False b1 b (b # acc) (w @ bs)"
    by (simp add: text_loop_safe)
  moreover from Cons.prems have "b \<noteq> CHR 0x0D" by (simp add: safe_byte_def)
  ultimately show ?case using Cons.IH [of b b1 "b # acc"] Cons.prems by simp
qed auto

lemma char_of_codes:
  "char_of (34 :: nat) = CHR 0x22" "char_of (39 :: nat) = CHR 0x27" "char_of (9 :: nat) = CHR 0x09"
  "char_of (10 :: nat) = CHR 0x0A" "char_of (13 :: nat) = CHR 0x0D"
  by code_simp+

lemmas entity_eval = char_of_codes read_entity_def entity_table_def utf8_EncodeRune_def hex_val_def is_digit_def
  digit_val_def is_name_byte_def Let_def

lemma text_loop_entity:
  assumes "escape_byte c = Some e" "q \<in> {None, Some CHR 0x22}"
  shows "text_loop q False b0 b1 acc (e @ bs) = text_loop q False CHR 0x00 CHR 0x00 (c # acc) bs"
proof -
  have "\<exists>e'. e = CHR 0x26 # e' \<and> read_entity (e' @ bs) = Some ([c], bs)"
    using assms(1) by (auto simp: escape_byte_def entity_eval split: if_splits)
  then obtain e' where "e = CHR 0x26 # e'" "read_entity (e' @ bs) = Some ([c], bs)" by blast
  with assms(2) show ?thesis by (auto simp: text_loop.simps(2))
qed

lemma escape_byte_None:
  "escape_byte c = None \<longleftrightarrow> c \<notin> {CHR 0x22, CHR 0x27, CHR 0x26, CHR 0x3C, CHR 0x3E, CHR 0x09, CHR 0x0A, CHR 0x0D}"
  by (auto simp: escape_byte_def)

lemma escape_byte_Some_ascii:
  "escape_byte c = Some e \<Longrightarrow> byte c < 0x80 \<and> in_char_range (byte c) \<and> byte c \<noteq> rune_error"
  by (auto simp: escape_byte_def in_char_range_def rune_error_def split: if_splits)

lemma high_byte_safe: "0x80 \<le> byte d \<Longrightarrow> safe_byte d"
  by (auto simp: safe_byte_def)

lemma chunk_safe:
  assumes "escape_byte c = None" "utf8_DecodeRune (c # cs) = (r, w)" "rune_ok (r, w)" "d \<in> set (c # take (w - 1) cs)"
  shows "safe_byte d"
proof (cases "byte c < 0x80")
  case True
  with assms have "w = 1" by simp
  with assms show ?thesis by (auto simp: escape_byte_None safe_byte_def)
next
  case False
  from assms(3) have "(r, w) \<noteq> (rune_error, 1)" by (simp add: rune_ok_def)
  from decode_multi [OF assms(2) False this assms(4)] show ?thesis by (rule high_byte_safe)
qed

theorem text_loop_escape:
  assumes "q \<in> {None, Some CHR 0x22}" "b1 \<noteq> CHR 0x0D"
  shows "\<exists>c0 c1. c1 \<noteq> CHR 0x0D \<and>
    text_loop q False b0 b1 acc (xml_EscapeText s @ bs) = text_loop q False c0 c1 (rev (sanitize s) @ acc) bs"
  using assms(2)
proof (induction s arbitrary: b0 b1 acc rule: xml_EscapeText.induct)
  case (2 c cs)
  obtain r w where rw: "utf8_DecodeRune (c # cs) = (r, w)" by force
  show ?case
  proof (cases "escape_byte c")
    case (Some e)
    from escape_byte_Some_ascii [OF Some] have a: "byte c < 0x80" "in_char_range (byte c)" by auto
    then have "sanitize (c # cs) = c # sanitize cs"
      by (simp add: sanitize.simps(2) rune_ok_def rune_error_def)
    with Some assms(1) "2.IH"(2) [OF Some, of "CHR 0x00" "CHR 0x00" "c # acc"] show ?thesis
      by (simp add: text_loop_entity [OF Some])
  next
    case None
    define chunk where "chunk = (if rune_ok (r, w) then c # take (w - 1) cs else replacement)"
    have safe: "\<forall>d \<in> set chunk. safe_byte d"
      unfolding chunk_def using chunk_safe [OF None rw] by (auto simp: replacement_def safe_byte_def)
    have e: "xml_EscapeText (c # cs) = chunk @ xml_EscapeText (drop (w - 1) cs)"
      and s: "sanitize (c # cs) = chunk @ sanitize (drop (w - 1) cs)"
      using None rw by (simp_all add: chunk_def sanitize.simps(2) Let_def)
    from text_loop_safes [OF safe assms(1) "2.prems", of b0 acc "xml_EscapeText (drop (w - 1) cs) @ bs"]
    obtain c0 c1 where c: "c1 \<noteq> CHR 0x0D"
      "text_loop q False b0 b1 acc (chunk @ xml_EscapeText (drop (w - 1) cs) @ bs)
       = text_loop q False c0 c1 (rev chunk @ acc) (xml_EscapeText (drop (w - 1) cs) @ bs)" by blast
    from "2.IH"(1) [OF None refl c(1), of c0 "rev chunk @ acc"] obtain d0 d1 where d: "d1 \<noteq> CHR 0x0D"
      "text_loop q False c0 c1 (rev chunk @ acc) (xml_EscapeText (drop (w - 1) cs) @ bs)
       = text_loop q False d0 d1 (rev (sanitize (drop (w - 1) cs)) @ rev chunk @ acc) bs"
      by (auto simp: rw)
    then have "text_loop q False b0 b1 acc (xml_EscapeText (c # cs) @ bs)
      = text_loop q False d0 d1 (rev (sanitize (c # cs)) @ acc) bs"
      by (simp only: e s append_assoc c(2) rev_append)
    with d(1) show ?thesis by blast
  qed
qed auto

lemma read_text_escape:
  "read_text None False (xml_EscapeText s @ CHR 0x3C # bs) = Some (sanitize s, CHR 0x3C # bs)"
proof -
  obtain c0 c1 where "text_loop None False CHR 0x00 CHR 0x00 [] (xml_EscapeText s @ CHR 0x3C # bs)
     = text_loop None False c0 c1 (rev (sanitize s) @ []) (CHR 0x3C # bs)"
    using text_loop_escape [where q = None and ?b0.0 = "CHR 0x00" and ?b1.0 = "CHR 0x00" and acc = "[]" and s = s and bs = "CHR 0x3C # bs"] by auto
  then show ?thesis by (simp add: read_text_def text_loop.simps(2) valid_sanitize)
qed

lemma read_attr_escape:
  "read_text (Some CHR 0x22) False (xml_EscapeText s @ CHR 0x22 # bs) = Some (sanitize s, bs)"
proof -
  obtain c0 c1 where "text_loop (Some CHR 0x22) False CHR 0x00 CHR 0x00 [] (xml_EscapeText s @ CHR 0x22 # bs)
     = text_loop (Some CHR 0x22) False c0 c1 (rev (sanitize s) @ []) (CHR 0x22 # bs)"
    using text_loop_escape [where q = "Some CHR 0x22" and ?b0.0 = "CHR 0x00" and ?b1.0 = "CHR 0x00" and acc = "[]" and s = s and bs = "CHR 0x22 # bs"] by auto
  then show ?thesis by (simp add: read_text_def text_loop.simps(2) valid_sanitize)
qed

text \<open>Indentation: raw newlines and spaces between tags.\<close>

definition ws_text :: "string \<Rightarrow> bool" where
  "ws_text s \<longleftrightarrow> set s \<subseteq> {CHR 0x0A, CHR 0x20}"

lemma read_text_ws:
  assumes "ws_text s"
  shows "read_text None False (s @ CHR 0x3C # bs) = Some (s, CHR 0x3C # bs)"
proof -
  have "\<forall>b \<in> set s. safe_byte b" using assms by (auto simp: ws_text_def safe_byte_def)
  from text_loop_safes [OF this, of None "CHR 0x00" "CHR 0x00" "[]" "CHR 0x3C # bs"]
  obtain c0 c1 where t: "text_loop None False CHR 0x00 CHR 0x00 [] (s @ CHR 0x3C # bs)
     = text_loop None False c0 c1 (rev s @ []) (CHR 0x3C # bs)" by auto
  have "valid_text s" using assms
    by (induction s) (auto simp: ws_text_def valid_text.simps(2) rune_ok_def in_char_range_def rune_error_def)
  with t show ?thesis by (simp add: read_text_def text_loop.simps(2))
qed

section \<open>Tags\<close>

definition tag_name :: "string \<Rightarrow> bool" where
  "tag_name n \<longleftrightarrow> n \<noteq> [] \<and> is_name_start (hd n) \<and> list_all is_name_byte n \<and> CHR '':'' \<notin> set n"

lemma read_nsname_tag:
  assumes "tag_name n" "\<not> is_name_byte c" "byte c < 0x80"
  shows "read_nsname (n @ c # bs) = Some (([], n), c # bs)"
proof -
  have a: "\<forall>x \<in> set n. is_name_byte x" using assms by (simp add: tag_name_def list_all_iff)
  then have "takeWhile is_name_byte (n @ c # bs) = n" "dropWhile is_name_byte (n @ c # bs) = c # bs"
    using assms(2) by simp_all
  moreover have "ns_name n = Some ([], n)"
    using assms by (simp add: ns_name_def tag_name_def split_char_free)
  ultimately show ?thesis
    using assms by (simp add: read_nsname_def read_name_def tag_name_def Let_def)
qed

lemmas name_byte_eval = is_name_byte_def is_name_start_def is_digit_def

fun attrs_tree :: "(string \<times> string) list \<Rightarrow> xattrs" where
  "attrs_tree [] = []"
| "attrs_tree ((n, v) # as) = ((([], n), sanitize v) # attrs_tree as)"

lemma name_start_not_special:
  "is_name_start c \<Longrightarrow> c \<notin> {CHR 0x3E, CHR 0x2F, CHR 0x20, CHR 0x0D, CHR 0x0A, CHR 0x09, CHR 0x21, CHR 0x3F}"
  by (auto simp: is_name_start_def)

lemma read_attrs_print:
  assumes "\<forall>a \<in> set as. tag_name (fst a)"
  shows "read_attrs (concat (map print_attr as) @ CHR 0x3E # bs) = Some ((attrs_tree as, False), bs)"
  using assms
proof (induction as)
  case Nil
  then show ?case by (simp add: read_attrs.simps skip_space_def is_space_def)
next
  case (Cons a as)
  obtain n v where a: "a = (n, v)" by force
  then have n: "tag_name n" using Cons.prems by simp
  then obtain c n' where c: "n = c # n'" "is_name_start c" by (cases n) (auto simp: tag_name_def)
  define rest where "rest = concat (map print_attr as) @ CHR 0x3E # bs"
  have s1: "concat (map print_attr (a # as)) @ CHR 0x3E # bs
      = CHR 0x20 # n @ CHR 0x3D # CHR 0x22 # xml_EscapeText v @ CHR 0x22 # rest"
    by (simp add: print_attr_def a rest_def)
  have sp: "skip_space (CHR 0x20 # n @ x) = n @ x" for x
    using name_start_not_special [OF c(2)] by (simp add: skip_space_def is_space_def c(1))
  have r: "read_nsname (n @ CHR 0x3D # x) = Some (([], n), CHR 0x3D # x)" for x
    by (rule read_nsname_tag [OF n]) (simp_all add: name_byte_eval)
  have cs: "n @ x = c # n' @ x" for x by (simp add: c)
  have k: "skip_space (CHR 0x3D # x) = CHR 0x3D # x" "skip_space (CHR 0x22 # x) = CHR 0x22 # x" for x
    by (simp_all add: skip_space_def is_space_def)
  have "read_attrs (concat (map print_attr (a # as)) @ CHR 0x3E # bs)
     = map_option (\<lambda>((as', b), r). (((([], n), sanitize v) # as', b), r)) (read_attrs rest)"
    unfolding s1 using name_start_not_special [OF c(2)] r [unfolded cs]
    by (subst read_attrs.simps) (simp add: sp [unfolded cs] cs k read_attr_escape)
  with Cons show ?case by (simp add: rest_def a)
qed

lemma raw_token_open:
  assumes "tag_name n" "\<forall>a \<in> set as. tag_name (fst a)"
  shows "raw_token (print_open n as @ bs) = Some (TStart ([], n) (attrs_tree as) False, bs)"
proof -
  obtain c n' where c: "n = c # n'" "is_name_start c" using assms by (cases n) (auto simp: tag_name_def)
  define rest where "rest = concat (map print_attr as) @ CHR 0x3E # bs"
  have "\<exists>d ds. rest = d # ds \<and> \<not> is_name_byte d \<and> byte d < 0x80"
    unfolding rest_def by (cases as) (simp_all add: print_attr_def name_byte_eval)
  then have "read_nsname (n @ rest) = Some (([], n), rest)"
    using read_nsname_tag [OF assms(1)] by auto
  moreover have "print_open n as @ bs = CHR 0x3C # n @ rest" by (simp add: print_open_def rest_def)
  moreover have "read_attrs rest = Some ((attrs_tree as, False), bs)"
    unfolding rest_def by (rule read_attrs_print [OF assms(2)])
  ultimately show ?thesis
    using name_start_not_special [OF c(2)] c(1)
    by (simp add: raw_token_def read_start_tag_def)
qed

lemma raw_token_close:
  assumes "tag_name n"
  shows "raw_token (print_close n @ bs) = Some (TEnd ([], n), bs)"
proof -
  have "read_nsname (n @ CHR 0x3E # bs) = Some (([], n), CHR 0x3E # bs)"
    by (rule read_nsname_tag [OF assms]) (simp_all add: name_byte_eval)
  then show ?thesis
    by (simp add: raw_token_def print_close_def read_end_tag_def skip_space_def is_space_def)
qed

section \<open>Documents\<close>

fun text_nodes :: "string \<Rightarrow> xml list" where
  "text_nodes s = (if s = [] then [] else [XText s])"

fun tree_of :: "(nat \<Rightarrow> string) \<Rightarrow> nat \<Rightarrow> mtree \<Rightarrow> xml" where
  "tree_of nl d (MText n as s) = XElem ([], n) (attrs_tree as) (text_nodes (sanitize s))"
| "tree_of nl d (MElems n as ms) = XElem ([], n) (attrs_tree as)
     (if ms = [] then [] else concat (map (\<lambda>m. text_nodes (nl (Suc d)) @ [tree_of nl (Suc d) m]) ms) @ text_nodes (nl d))"

fun names_ok :: "mtree \<Rightarrow> bool" where
  "names_ok (MText n as s) \<longleftrightarrow> tag_name n \<and> (\<forall>a \<in> set as. tag_name (fst a))"
| "names_ok (MElems n as ms) \<longleftrightarrow> tag_name n \<and> (\<forall>a \<in> set as. tag_name (fst a)) \<and> (\<forall>m \<in> set ms. names_ok m)"

lemma close_ne_Nil [simp]: "print_close n \<noteq> []" "print_open n as \<noteq> []"
  by (simp_all add: print_close_def print_open_def)

lemma starts_tag:
  "\<exists>r. print_close n @ bs = CHR 0x3C # r" "\<exists>r. print_open n as @ bs = CHR 0x3C # r"
  "\<exists>r. print_tree nl d m @ bs = CHR 0x3C # r"
  by (simp_all add: print_close_def print_open_def) (cases m; simp add: print_open_def)

text \<open>A text before a tag is added to the innermost element.\<close>

lemma run_text:
  assumes "read_text None False (t @ CHR 0x3C # bs) = Some (s, CHR 0x3C # bs)" "t = [] \<longleftrightarrow> s = []"
    "t \<noteq> [] \<Longrightarrow> hd t \<noteq> CHR 0x3C"
  shows "parse_run ((n, as, cs) # stk) (t @ CHR 0x3C # bs)
    = parse_run ((n, as, rev (text_nodes s) @ cs) # stk) (CHR 0x3C # bs)"
proof (cases "t = []")
  case False
  then have "raw_token (t @ CHR 0x3C # bs) = Some (TText s, CHR 0x3C # bs)"
    using assms by (cases t) (simp_all add: raw_token_def)
  with False assms(2) show ?thesis
    by (subst parse_run.simps) (simp add: stack_step_def add_text_def)
qed (use assms in simp)

lemma run_ws:
  assumes "ws_text t" "\<exists>r. bs = CHR 0x3C # r"
  shows "parse_run ((n, as, cs) # stk) (t @ bs) = parse_run ((n, as, rev (text_nodes t) @ cs) # stk) bs"
proof -
  from assms(2) obtain r where "bs = CHR 0x3C # r" by blast
  moreover have "hd t \<noteq> CHR 0x3C" if "t \<noteq> []"
    using assms(1) hd_in_set [OF that] by (auto simp: ws_text_def)
  ultimately show ?thesis
    using run_text [OF read_text_ws [OF assms(1)], where n = n and as = as and cs = cs and stk = stk] by simp
qed

lemma escape_hd: "xml_EscapeText s \<noteq> [] \<Longrightarrow> hd (xml_EscapeText s) \<noteq> CHR 0x3C"
proof (cases s)
  case (Cons c cs)
  show ?thesis
  proof (cases "escape_byte c")
    case (Some e)
    then have "\<exists>e'. e = CHR 0x26 # e'" by (auto simp: escape_byte_def split: if_splits)
    with Some Cons show ?thesis by auto
  next
    case None
    then have "c \<noteq> CHR 0x3C" by (simp add: escape_byte_None)
    with None show ?thesis using Cons by (simp add: Let_def replacement_def)
  qed
qed simp

lemma escape_Nil: "xml_EscapeText s = [] \<longleftrightarrow> s = []"
proof (cases s)
  case (Cons c cs)
  then show ?thesis
    by (cases "escape_byte c") (auto simp: Let_def replacement_def escape_byte_def split: if_splits)
qed simp

lemma run_escaped:
  assumes "\<exists>r. bs = CHR 0x3C # r"
  shows "parse_run ((n, as, cs) # stk) (xml_EscapeText s @ bs)
     = parse_run ((n, as, rev (text_nodes (sanitize s)) @ cs) # stk) bs"
proof -
  from assms obtain r where "bs = CHR 0x3C # r" by blast
  then show ?thesis
    using run_text [OF read_text_escape, of s] by (simp add: escape_Nil escape_hd)
qed

lemma run_open:
  assumes "tag_name n" "\<forall>a \<in> set as. tag_name (fst a)"
  shows "parse_run stk (print_open n as @ bs) = parse_run ((([], n), attrs_tree as, []) # stk) bs"
  by (subst parse_run.simps) (simp add: raw_token_open [OF assms] stack_step_def)

lemma run_close:
  assumes "tag_name n"
  shows "parse_run ((([], n), as, cs) # stk) (print_close n @ bs)
    = (case close_elem (([], n), as, cs) stk of Inl x \<Rightarrow> Some x | Inr stk' \<Rightarrow> parse_run stk' bs)"
  by (subst parse_run.simps) (simp add: raw_token_close [OF assms] stack_step_def split: sum.splits)

text \<open>
  The main lemma: a printed tree leaves its tree among the children of the innermost element, or
  is the whole document when there is none.
\<close>

definition after :: "xml \<Rightarrow> frame list \<Rightarrow> string \<Rightarrow> xml option" where
  "after x stk bs = (case stk of [] \<Rightarrow> Some x | (m, as, cs) # st \<Rightarrow> parse_run ((m, as, x # cs) # st) bs)"

lemma close_after:
  "(case close_elem (n, as, cs) stk of Inl x \<Rightarrow> Some x | Inr stk' \<Rightarrow> parse_run stk' bs)
    = after (XElem n as (rev cs)) stk bs"
  by (simp add: close_elem_def after_def split: list.splits)

lemma run_children:
  assumes "\<And>m stk bs. m \<in> set ms \<Longrightarrow> parse_run stk (print_tree nl d m @ bs) = after (tree_of nl d m) stk bs"
    and "ws_text (nl d)"
  shows "parse_run ((n, as, cs) # stk) (concat (map (\<lambda>m. nl d @ print_tree nl d m) ms) @ bs)
    = parse_run ((n, as, rev (concat (map (\<lambda>m. text_nodes (nl d) @ [tree_of nl d m]) ms)) @ cs) # stk) bs"
  using assms(1)
proof (induction ms arbitrary: cs)
  case (Cons m ms)
  define rest where "rest = concat (map (\<lambda>m. nl d @ print_tree nl d m) ms) @ bs"
  have "parse_run ((n, as, cs) # stk) (nl d @ print_tree nl d m @ rest)
    = parse_run ((n, as, rev (text_nodes (nl d)) @ cs) # stk) (print_tree nl d m @ rest)"
    by (rule run_ws [OF assms(2) starts_tag(3)])
  also have "\<dots> = parse_run ((n, as, tree_of nl d m # rev (text_nodes (nl d)) @ cs) # stk) rest"
    using Cons.prems [of m] by (simp add: after_def)
  finally show ?case using Cons.IH Cons.prems by (simp add: rest_def)
qed simp

theorem run_tree:
  assumes "names_ok m" "\<And>d. ws_text (nl d)"
  shows "parse_run stk (print_tree nl d m @ bs) = after (tree_of nl d m) stk bs"
  using assms(1)
proof (induction m arbitrary: d stk bs)
  case (MText n as s)
  then show ?case
    by (simp add: run_open run_escaped [OF starts_tag(1)] run_close close_after)
next
  case (MElems n as ms)
  let ?body = "concat (map (\<lambda>m. nl (Suc d) @ print_tree nl (Suc d) m) ms)"
  from MElems have "parse_run stk' (print_tree nl (Suc d) m @ bs') = after (tree_of nl (Suc d) m) stk' bs'"
    if "m \<in> set ms" for m stk' bs' using that by simp
  note children = run_children [OF this assms(2)]
  show ?case
  proof (cases "ms = []")
    case True
    with MElems.prems show ?thesis by (simp add: run_open run_close close_after)
  next
    case False
    have "parse_run stk (print_tree nl d (MElems n as ms) @ bs)
      = parse_run ((([], n), attrs_tree as, []) # stk) (?body @ nl d @ print_close n @ bs)"
      using MElems.prems False by (simp add: run_open)
    also have "\<dots> = after (tree_of nl d (MElems n as ms)) stk bs"
      using MElems.prems False
      by (simp add: children run_ws [OF assms(2) starts_tag(1)] run_close close_after del: text_nodes.simps)
    finally show ?thesis .
  qed
qed

text \<open>An XML declaration before the root element, with the encoding in either case.\<close>

definition xml_decl :: "string \<Rightarrow> string" where
  "xml_decl enc = ''<?xml version='' @ [CHR 0x22] @ ''1.0'' @ [CHR 0x22] @ '' encoding='' @ [CHR 0x22]
     @ enc @ [CHR 0x22] @ ''?>'' @ [CHR 0x0A]"

lemma run_decl:
  assumes "enc \<in> {''UTF-8'', ''utf-8''}"
  shows "parse_run [] (xml_decl enc @ CHR 0x3C # bs) = parse_run [] (CHR 0x3C # bs)"
proof -
  define body where "body = ''version='' @ [CHR 0x22] @ ''1.0'' @ [CHR 0x22] @ '' encoding='' @ [CHR 0x22]
     @ enc @ [CHR 0x22]"
  have "decl_ok (''version='' @ [CHR 0x22] @ ''1.0'' @ [CHR 0x22] @ '' encoding='' @ [CHR 0x22] @ ''UTF-8'' @ [CHR 0x22])"
    "decl_ok (''version='' @ [CHR 0x22] @ ''1.0'' @ [CHR 0x22] @ '' encoding='' @ [CHR 0x22] @ ''utf-8'' @ [CHR 0x22])"
    by code_simp+
  then have "decl_ok body" using assms unfolding body_def by blast
  moreover have "until ''?>'' (body @ ''?>'' @ x) = Some (body, x)" for x
    using assms by (auto simp: body_def strings_HasPrefix_def)
  moreover have "read_name (''xml '' @ x) = Some (''xml'', CHR 0x20 # x)" for x
    by (simp add: read_name_def Let_def name_byte_eval)
  moreover have "skip_space (CHR 0x20 # body @ x) = body @ x" for x
    by (simp add: skip_space_def is_space_def body_def)
  ultimately have "raw_token (''<?xml '' @ body @ ''?>'' @ x) = Some (TSkip, x)" for x
    by (simp add: raw_token_def read_proc_inst_def)
  moreover have "xml_decl enc @ CHR 0x3C # bs = ''<?xml '' @ body @ ''?>'' @ CHR 0x0A # CHR 0x3C # bs"
    by (simp add: xml_decl_def body_def)
  ultimately have "raw_token (xml_decl enc @ CHR 0x3C # bs) = Some (TSkip, CHR 0x0A # CHR 0x3C # bs)"
    by metis
  then have "parse_run [] (xml_decl enc @ CHR 0x3C # bs) = parse_run [] (CHR 0x0A # CHR 0x3C # bs)"
    by (subst parse_run.simps) (simp add: stack_step_def)
  moreover have "raw_token (CHR 0x0A # CHR 0x3C # bs) = Some (TText [CHR 0x0A], CHR 0x3C # bs)"
    using read_text_ws [of "[CHR 0x0A]" bs] by (simp add: raw_token_def ws_text_def)
  then have "parse_run [] (CHR 0x0A # CHR 0x3C # bs) = parse_run [] (CHR 0x3C # bs)"
    by (subst parse_run.simps) (simp add: stack_step_def add_text_def)
  ultimately show ?thesis by simp
qed

lemma run_header: "parse_run [] (xml_Header @ CHR 0x3C # bs) = parse_run [] (CHR 0x3C # bs)"
  using run_decl [of "''UTF-8''" bs] by (simp add: xml_Header_def xml_decl_def)

theorem parse_print:
  assumes "names_ok m" "\<And>d. ws_text (nl d)"
  shows "parse_xml (print_tree nl 0 m) = Some (tree_of nl 0 m)"
    and "parse_xml (xml_Header @ print_tree nl 0 m) = Some (tree_of nl 0 m)"
proof -
  obtain r where r: "print_tree nl 0 m = CHR 0x3C # r"
    using starts_tag(3) [of nl 0 m "[]"] by auto
  show "parse_xml (print_tree nl 0 m) = Some (tree_of nl 0 m)"
    using run_tree [OF assms, where stk = "[]" and d = 0 and bs = "[]"] by (simp add: parse_xml_def after_def)
  then show "parse_xml (xml_Header @ print_tree nl 0 m) = Some (tree_of nl 0 m)"
    by (simp add: parse_xml_def r run_header)
qed

lemma ws_indent [simp]: "ws_text (nl_indent (replicate k CHR 0x20) d)"
  by (auto simp: ws_text_def nl_indent_def)

lemma ws_none [simp]: "ws_text []"
  by (simp add: ws_text_def)

end
