(* ===== verification/XML_Fields.thy ===== *)
theory XML_Fields
  imports XML_Roundtrip
begin

text \<open>
  How \<open>xml.Unmarshal\<close> fills a struct from the root element: an attribute field takes the last
  attribute of its local name, a string field the character data of its element, a slice field one
  entry per element, in document order; elements and attributes without a field are skipped.
  The second part says what these rules give on a document the encoder printed.
\<close>

definition attr_into :: "string \<Rightarrow> xattrs \<Rightarrow> string \<Rightarrow> string" where
  "attr_into n as old = foldl (\<lambda>v a. if snd (fst a) = n then snd a else v) old as"

fun chardata :: "xml list \<Rightarrow> string" where
  "chardata [] = []"
| "chardata (XText t # cs) = t @ chardata cs"
| "chardata (XElem _ _ _ # cs) = chardata cs"

fun fold_children :: "(string \<Rightarrow> xattrs \<Rightarrow> xml list \<Rightarrow> 's \<Rightarrow> 's) \<Rightarrow> xml list \<Rightarrow> 's \<Rightarrow> 's" where
  "fold_children f [] s = s"
| "fold_children f (XText t # cs) s = fold_children f cs s"
| "fold_children f (XElem n as ks # cs) s = fold_children f cs (f (snd n) as ks s)"

text \<open>
  \<open>xml.Unmarshal\<close>: the struct's \<open>XMLName\<close> tag, when it has one, is the root's required name.
\<close>

definition xml_Unmarshal ::
  "string option \<Rightarrow> (xattrs \<Rightarrow> xml list \<Rightarrow> 's) \<Rightarrow> string \<Rightarrow> 's result" where
  "xml_Unmarshal root dec data =
     (case parse_xml data of
        Some (XElem n as cs) \<Rightarrow>
          (case root of
             None \<Rightarrow> Inr (dec as cs)
           | Some r \<Rightarrow> if snd n = r then Inr (dec as cs) else Inl (XMLUnmarshalError (snd n)))
      | _ \<Rightarrow> Inl XMLSyntaxError)"

definition omit_empty :: "string \<Rightarrow> string \<Rightarrow> (string \<times> string) list" where
  "omit_empty n v = (if v = [] then [] else [(n, v)])"

definition omit_empty_elem :: "string \<Rightarrow> string \<Rightarrow> mtree list" where
  "omit_empty_elem n v = (if v = [] then [] else [MText n [] v])"

section \<open>Reading what was printed\<close>

definition kids :: "(nat \<Rightarrow> string) \<Rightarrow> nat \<Rightarrow> mtree list \<Rightarrow> xml list" where
  "kids nl d ms = (if ms = [] then []
     else concat (map (\<lambda>m. text_nodes (nl (Suc d)) @ [tree_of nl (Suc d) m]) ms) @ text_nodes (nl d))"

fun feed :: "(nat \<Rightarrow> string) \<Rightarrow> nat \<Rightarrow> (string \<Rightarrow> xattrs \<Rightarrow> xml list \<Rightarrow> 's \<Rightarrow> 's) \<Rightarrow> 's \<Rightarrow> mtree \<Rightarrow> 's" where
  "feed nl d f s (MText n as t) = f n (attrs_tree as) (text_nodes (sanitize t)) s"
| "feed nl d f s (MElems n as ms) = f n (attrs_tree as) (kids nl d ms) s"

lemma fold_children_append [simp]:
  "fold_children f (xs @ ys) s = fold_children f ys (fold_children f xs s)"
  by (induction f xs s rule: fold_children.induct) auto

lemma fold_children_text [simp]: "fold_children f (text_nodes t) s = s"
  by simp

lemma fold_children_tree [simp]:
  "fold_children f (tree_of nl d m # cs) s = fold_children f cs (feed nl d f s m)"
  by (cases m) (simp_all add: kids_def)

lemma fold_children_kids [go_xml]:
  "fold_children f (kids nl d ms) s = foldl (feed nl (Suc d) f) s ms"
proof -
  have "fold_children f (concat (map (\<lambda>m. text_nodes w @ [tree_of nl e m]) ms)) s = foldl (feed nl e f) s ms"
    for w e
    by (induction ms arbitrary: s) (simp_all del: text_nodes.simps)
  then show ?thesis by (simp add: kids_def del: text_nodes.simps)
qed

lemma chardata_text [simp, go_xml]: "chardata (text_nodes t) = t"
  by simp

lemma attrs_tree_append [simp, go_xml]: "attrs_tree (as @ bs) = attrs_tree as @ attrs_tree bs"
  by (induction as rule: attrs_tree.induct) auto

lemma attr_into_simps [go_xml]:
  "attr_into n [] old = old"
  "attr_into n (a # as) old = attr_into n as (if snd (fst a) = n then snd a else old)"
  "attr_into n (xs @ ys) old = attr_into n ys (attr_into n xs old)"
  by (simp_all add: attr_into_def)

lemma attr_into_omit [go_xml]:
  "attr_into n (attrs_tree (omit_empty m v)) old = (if n = m \<and> v \<noteq> [] then sanitize v else old)"
  by (simp add: omit_empty_def attr_into_def)

lemma kids_fold: "tree_of nl d (MElems n as ms) = XElem ([], n) (attrs_tree as) (kids nl d ms)"
  by (simp add: kids_def del: text_nodes.simps)

lemmas marshal_indent_parse =
  parse_print [where nl = "nl_indent (replicate k CHR 0x20)" for k, OF _ ws_indent]

lemma Unmarshal_MarshalIndent_decl:
  assumes "names_ok (MElems n as ms)" "root = None \<or> root = Some n" "enc \<in> {''UTF-8'', ''utf-8''}"
  shows "xml_Unmarshal root dec (xml_decl enc @ xml_MarshalIndent (replicate k CHR 0x20) (MElems n as ms))
    = Inr (dec (attrs_tree as) (kids (nl_indent (replicate k CHR 0x20)) 0 ms))"
proof -
  let ?nl = "nl_indent (replicate k CHR 0x20)"
  obtain r where r: "print_tree ?nl 0 (MElems n as ms) = CHR 0x3C # r"
    using starts_tag(3) [of ?nl 0 "MElems n as ms" "[]"] by auto
  have "parse_xml (print_tree ?nl 0 (MElems n as ms)) = Some (XElem ([], n) (attrs_tree as) (kids ?nl 0 ms))"
    using marshal_indent_parse(1) [OF assms(1), of k] unfolding kids_fold .
  then have "parse_xml (xml_decl enc @ print_tree ?nl 0 (MElems n as ms))
      = Some (XElem ([], n) (attrs_tree as) (kids ?nl 0 ms))"
    unfolding parse_xml_def r run_decl [OF assms(3)] .
  with assms(2) show ?thesis
    by (auto simp: xml_Unmarshal_def xml_MarshalIndent_def)
qed

lemma Unmarshal_MarshalIndent:
  assumes "names_ok (MElems n as ms)" "root = None \<or> root = Some n"
  shows "xml_Unmarshal root dec (xml_Header @ xml_MarshalIndent (replicate k CHR 0x20) (MElems n as ms))
    = Inr (dec (attrs_tree as) (kids (nl_indent (replicate k CHR 0x20)) 0 ms))"
proof -
  have "xml_Header = xml_decl ''UTF-8''" by (simp add: xml_Header_def xml_decl_def)
  then show ?thesis using Unmarshal_MarshalIndent_decl [OF assms, of "''UTF-8''" dec k] by simp
qed

end
