(* ===== verification/Go_Path.thy ===== *)
theory Go_Path
  imports Go_Strings
begin

text \<open>
  Go's package \<open>path/filepath\<close> on Unix (\<open>Clean\<close>, \<open>Join\<close>, \<open>Dir\<close>) and the resolution of a path
  by the kernel in a tree without symbolic links: the list of names from the root that a path
  denotes for a process with a given working directory.  The main result is that cleaning
  does not change what a path denotes, so that joined paths resolve by appending names.
\<close>

section \<open>Clean and Join\<close>

definition rooted :: "string \<Rightarrow> bool" where
  "rooted p \<longleftrightarrow> p \<noteq> [] \<and> hd p = CHR ''/''"

abbreviation path_comps :: "string \<Rightarrow> string list" where
  "path_comps p \<equiv> split_char CHR ''/'' p"

definition skip_comp :: "string \<Rightarrow> bool" where
  "skip_comp c \<longleftrightarrow> c = [] \<or> c = ''.''"

definition clean_step :: "bool \<Rightarrow> string list \<Rightarrow> string \<Rightarrow> string list" where
  "clean_step r acc c =
     (if skip_comp c then acc
      else if c = ''..'' then
        (if acc \<noteq> [] \<and> last acc \<noteq> ''..'' then butlast acc
         else if r then acc else acc @ [c])
      else acc @ [c])"

definition filepath_Clean :: "string \<Rightarrow> string" where
  "filepath_Clean p =
     (let r = rooted p;
          out = foldl (clean_step r) [] (path_comps p);
          s = (if r then ''/'' else []) @ join_char CHR ''/'' out
      in if s = [] then ''.'' else s)"

fun filepath_Join :: "string list \<Rightarrow> string" where
  "filepath_Join [] = []"
| "filepath_Join (e # es) =
     (if e = [] then filepath_Join es else filepath_Clean (join_char CHR ''/'' (e # es)))"

text \<open>\<open>filepath.Dir\<close>: everything up to the last separator, cleaned.\<close>

definition filepath_Dir :: "string \<Rightarrow> string" where
  "filepath_Dir p = filepath_Clean (rev (dropWhile (\<lambda>c. c \<noteq> CHR ''/'') (rev p)))"

lemma filepath_Clean_nonempty [simp]: "filepath_Clean p \<noteq> []"
  by (simp add: filepath_Clean_def Let_def)

section \<open>Resolution\<close>

definition walk_step :: "string list \<Rightarrow> string \<Rightarrow> string list" where
  "walk_step acc c = (if skip_comp c then acc else if c = ''..'' then butlast acc else acc @ [c])"

definition resolve :: "string list \<Rightarrow> string \<Rightarrow> string list" where
  "resolve cwd p = foldl walk_step (if rooted p then [] else cwd) (path_comps p)"

definition plain_name :: "string \<Rightarrow> bool" where
  "plain_name f \<longleftrightarrow> f \<noteq> [] \<and> f \<noteq> ''.'' \<and> f \<noteq> ''..'' \<and> CHR ''/'' \<notin> set f"

lemma walk_step_plain [simp]: "plain_name f \<Longrightarrow> walk_step acc f = acc @ [f]"
  by (simp add: walk_step_def skip_comp_def plain_name_def)

lemma path_comps_plain [simp]: "plain_name f \<Longrightarrow> path_comps f = [f]"
  by (simp add: plain_name_def split_char_free)

definition clean_inv :: "bool \<Rightarrow> string list \<Rightarrow> bool" where
  "clean_inv r acc \<longleftrightarrow> (\<forall>c \<in> set acc. \<not> skip_comp c \<and> CHR ''/'' \<notin> set c) \<and> (r \<longrightarrow> ''..'' \<notin> set acc)"

lemma clean_step_inv:
  assumes "clean_inv r acc" "CHR ''/'' \<notin> set c"
  shows "clean_inv r (clean_step r acc c)"
  using assms by (auto simp: clean_inv_def clean_step_def dest: in_set_butlastD)

lemma clean_step_walk:
  assumes inv: "clean_inv r acc" and base: "r \<Longrightarrow> base = []"
  shows "foldl walk_step base (clean_step r acc c) = walk_step (foldl walk_step base acc) c"
proof -
  consider (skip) "skip_comp c" | (plain) "\<not> skip_comp c" "c \<noteq> ''..''"
    | (pop) acc' x where "c = ''..''" "acc = acc' @ [x]" "x \<noteq> ''..''"
    | (up) "c = ''..''" "acc = [] \<or> last acc = ''..''"
    by (cases acc rule: rev_cases) fastforce+
  then show ?thesis
  proof cases
    case pop
    with inv have "\<not> skip_comp x" by (auto simp: clean_inv_def)
    with pop show ?thesis by (simp add: clean_step_def walk_step_def skip_comp_def)
  next
    case up
    show ?thesis
    proof (cases r)
      case True
      with inv up have "acc = []" by (cases acc rule: rev_cases) (auto simp: clean_inv_def)
      with up True base show ?thesis by (simp add: clean_step_def walk_step_def skip_comp_def)
    next
      case False
      with up show ?thesis by (auto simp: clean_step_def walk_step_def skip_comp_def)
    qed
  qed (simp_all add: clean_step_def walk_step_def)
qed

lemma clean_fold:
  assumes "clean_inv r acc" "\<forall>c \<in> set cs. CHR ''/'' \<notin> set c" "r \<Longrightarrow> base = []"
  shows "foldl walk_step base (foldl (clean_step r) acc cs) = foldl walk_step (foldl walk_step base acc) cs
    \<and> clean_inv r (foldl (clean_step r) acc cs)"
  using assms
proof (induction cs arbitrary: acc)
  case (Cons c cs)
  then have "clean_inv r (clean_step r acc c)" by (simp add: clean_step_inv)
  from Cons.IH [OF this] Cons.prems show ?case by (simp add: clean_step_walk)
qed simp

lemma split_join_walk:
  assumes "clean_inv r out"
  shows "foldl walk_step base (path_comps (join_char CHR ''/'' out)) = foldl walk_step base out"
proof (cases "out = []")
  case False
  with assms show ?thesis by (simp add: split_join clean_inv_def)
qed (simp add: walk_step_def skip_comp_def)

lemma rooted_join: "clean_inv r out \<Longrightarrow> \<not> rooted (join_char CHR ''/'' out)"
  by (cases out rule: list.exhaust; cases "tl out"; cases "hd out")
     (auto simp: clean_inv_def rooted_def skip_comp_def)

theorem resolve_Clean [go_path]: "resolve cwd (filepath_Clean p) = resolve cwd p"
proof -
  define r where "r = rooted p"
  define out where "out = foldl (clean_step r) [] (path_comps p)"
  define base where "base = (if r then [] else cwd)"
  have "foldl walk_step base out = foldl walk_step base (path_comps p) \<and> clean_inv r out"
    unfolding out_def using clean_fold [of r "[]" "path_comps p" base]
    by (auto simp: clean_inv_def base_def split_char_sep_free)
  then have out: "foldl walk_step base out = resolve cwd p" and inv: "clean_inv r out"
    by (simp_all add: resolve_def base_def r_def)
  define j where "j = join_char CHR ''/'' out"
  have C: "filepath_Clean p = (if (if r then ''/'' else []) @ j = [] then ''.'' else (if r then ''/'' else []) @ j)"
    by (simp add: filepath_Clean_def r_def out_def j_def Let_def)
  have w: "foldl walk_step b (path_comps j) = foldl walk_step b out" for b
    unfolding j_def by (rule split_join_walk [OF inv])
  show ?thesis
  proof (cases r)
    case True
    then have "filepath_Clean p = CHR ''/'' # j" by (simp add: C)
    moreover have "walk_step [] [] = []" by (simp add: walk_step_def skip_comp_def)
    ultimately show ?thesis using True out w
      by (simp add: resolve_def [of cwd "CHR ''/'' # j"] rooted_def base_def)
  next
    case False
    show ?thesis
    proof (cases "j = []")
      case True
      have "walk_step cwd ''.'' = cwd" "walk_step cwd [] = cwd" by (simp_all add: walk_step_def skip_comp_def)
      then show ?thesis using True False out w [of cwd]
        by (simp add: C resolve_def [of cwd "''.''"] rooted_def base_def)
    next
      case j: False
      have "\<not> rooted j" unfolding j_def by (rule rooted_join [OF inv])
      then show ?thesis using j False out w [of cwd]
        by (simp add: C resolve_def [of cwd j] base_def)
    qed
  qed
qed

lemma path_comps_join:
  "es \<noteq> [] \<Longrightarrow> path_comps (join_char CHR ''/'' es) = concat (map path_comps es)"
  by (induction "CHR ''/''" es rule: join_char.induct) (simp_all add: split_char_append)

theorem resolve_Join [go_path]:
  assumes "d \<noteq> []"
  shows "resolve cwd (filepath_Join (d # es)) = foldl walk_step (resolve cwd d) (concat (map path_comps es))"
proof -
  have "rooted (join_char CHR ''/'' (d # es)) = rooted d"
    using assms by (cases es; cases d) (auto simp: rooted_def)
  then show ?thesis
    using assms by (simp add: resolve_Clean) (simp add: resolve_def path_comps_join)
qed

lemma filepath_Join_nonempty [simp]: "d \<noteq> [] \<Longrightarrow> filepath_Join (d # es) \<noteq> []"
  by simp

lemma join_snoc: "join_char c (xs @ [x]) = (if xs = [] then x else join_char c xs @ c # x)"
  by (induction c xs rule: join_char.induct) auto

lemma join_nonempty: "xs \<noteq> [] \<Longrightarrow> \<forall>x \<in> set xs. x \<noteq> [] \<Longrightarrow> join_char c xs \<noteq> []"
  by (induction c xs rule: join_char.induct) auto

lemma up_to_slash:
  "CHR ''/'' \<notin> set f \<Longrightarrow> rev (dropWhile (\<lambda>c. c \<noteq> CHR ''/'') (rev (x @ CHR ''/'' # f))) = x @ ''/''"
  "CHR ''/'' \<notin> set f \<Longrightarrow> rev (dropWhile (\<lambda>c. c \<noteq> CHR ''/'') (rev f)) = []"
  by (simp_all add: dropWhile_append3 dropWhile_append)
     (metis dropWhile_eq_Nil_conv set_rev)+

lemma resolve_trailing_slash: "x \<noteq> [] \<Longrightarrow> resolve cwd (x @ ''/'') = resolve cwd x"
proof -
  assume x: "x \<noteq> []"
  then have "rooted (x @ ''/'') = rooted x" by (cases x) (auto simp: rooted_def)
  then show ?thesis
    by (simp add: resolve_def split_char_append walk_step_def skip_comp_def)
qed

theorem resolve_Dir_Join [go_path]:
  assumes "d \<noteq> []" "plain_name f"
  shows "resolve cwd (filepath_Dir (filepath_Join [d, f])) = resolve cwd d"
proof -
  define out where "out = foldl (clean_step (rooted d)) [] (path_comps d)"
  define s where "s = (if rooted d then ''/'' else [])"
  have f: "CHR ''/'' \<notin> set f" "f \<noteq> []" using assms(2) by (auto simp: plain_name_def)
  have r: "rooted (d @ CHR ''/'' # f) = rooted d" using assms(1) by (cases d) (auto simp: rooted_def)
  have step: "clean_step (rooted d) out f = out @ [f]"
    using assms(2) by (simp add: clean_step_def plain_name_def skip_comp_def)
  have J: "filepath_Join [d, f] = s @ join_char CHR ''/'' (out @ [f])"
    using assms f r step by (simp add: filepath_Clean_def split_char_append out_def s_def Let_def join_snoc)
  have C: "filepath_Clean d = (let x = s @ join_char CHR ''/'' out in if x = [] then ''.'' else x)"
    by (simp add: filepath_Clean_def out_def s_def Let_def)
  have empty: "filepath_Clean [] = ''.''" by (simp add: filepath_Clean_def rooted_def clean_step_def skip_comp_def)
  show ?thesis
  proof (cases "out = []")
    case True
    have "rev (dropWhile (\<lambda>c. c \<noteq> CHR ''/'') (rev (s @ f))) = s"
      unfolding s_def using up_to_slash(2) [OF f(1)] up_to_slash(1) [OF f(1), of "[]"]
      by (cases "rooted d") (simp_all only: if_True if_False append_Nil append_Cons)
    with True have "filepath_Dir (filepath_Join [d, f]) = filepath_Clean s"
      by (simp only: J join_snoc filepath_Dir_def) simp
    moreover have "resolve cwd (filepath_Clean s) = resolve cwd (filepath_Clean d)"
      using True empty by (simp only: C Let_def) (auto simp: s_def resolve_Clean simp flip: empty)
    ultimately show ?thesis by (simp add: resolve_Clean)
  next
    case False
    let ?x = "s @ join_char CHR ''/'' out"
    have "filepath_Dir (filepath_Join [d, f]) = filepath_Clean (?x @ ''/'')"
      using up_to_slash(1) [OF f(1), of ?x] False by (simp only: J join_snoc filepath_Dir_def) simp
    moreover have "?x \<noteq> []"
      using False join_nonempty [of out] clean_fold [of "rooted d" "[]" "path_comps d" "[]"]
      by (auto simp: out_def clean_inv_def split_char_sep_free skip_comp_def)
    ultimately show ?thesis
      using resolve_trailing_slash [of ?x cwd] resolve_Clean [of cwd d] C
      by (auto simp: resolve_Clean Let_def simp del: filepath_Join.simps split: if_splits)
  qed
qed

end
