(* ===== verification/Go_OS.thy ===== *)
theory Go_OS
  imports Go_Path "HOL-Library.Sublist"
begin

text \<open>
  The process's environment: the file tree below the root directory, the working directory, the
  clock, the time zone, and the paths the system refuses to change (permissions, a full disk).
  Go's package \<open>os\<close> on top of it: \<open>ReadFile\<close>, \<open>WriteFile\<close>, \<open>Stat\<close>, \<open>ReadDir\<close>, \<open>MkdirAll\<close>,
  \<open>RemoveAll\<close>.  Symbolic links, file modes and partial writes are not modelled; a file the process
  can look up can be read.
\<close>

section \<open>File trees\<close>

datatype node = File string int \<comment> \<open>content, modification time in nanoseconds\<close>
  | Dir "(string \<times> node) list" \<comment> \<open>entries by name, in byte order\<close>

fun put_entry :: "string \<Rightarrow> node \<Rightarrow> (string \<times> node) list \<Rightarrow> (string \<times> node) list" where
  "put_entry c n [] = [(c, n)]"
| "put_entry c n ((d, m) # es) =
     (if c = d then (c, n) # es else if c < d then (c, n) # (d, m) # es else (d, m) # put_entry c n es)"

definition del_entry :: "string \<Rightarrow> (string \<times> node) list \<Rightarrow> (string \<times> node) list" where
  "del_entry c es = filter (\<lambda>e. fst e \<noteq> c) es"

lemma map_of_put [simp]: "map_of (put_entry c n es) d = (if d = c then Some n else map_of es d)"
  by (induction c n es rule: put_entry.induct) auto

lemma map_of_del [simp]: "map_of (del_entry c es) d = (if d = c then None else map_of es d)"
  by (induction es) (auto simp: del_entry_def)

text \<open>Directories list each name once, in order, and every name is a plain name.\<close>

fun wf_node :: "node \<Rightarrow> bool" where
  "wf_node (File _ _) = True"
| "wf_node (Dir es) \<longleftrightarrow> sorted_wrt (<) (map fst es) \<and> (\<forall>(c, n) \<in> set es. plain_name c \<and> wf_node n)"

lemma fst_put: "fst ` set (put_entry c n es) = insert c (fst ` set es)"
  by (induction c n es rule: put_entry.induct) auto

lemma sorted_put: "sorted_wrt (<) (map fst es) \<Longrightarrow> sorted_wrt (<) (map fst (put_entry c n es))"
proof (induction c n es rule: put_entry.induct)
  case (2 c n d m es)
  show ?case
  proof (cases "c = d \<or> c < d")
    case True
    with "2.prems" show ?thesis by (auto dest: less_trans)
  next
    case False
    then have dc: "d < c" using less_linear by blast
    have "d < x" if "x \<in> set (map fst (put_entry c n es))" for x
      using that dc "2.prems" fst_put [of c n es] by auto
    with 2 False show ?thesis by simp
  qed
qed simp

lemma wf_put:
  "wf_node (Dir es) \<Longrightarrow> wf_node n \<Longrightarrow> plain_name c \<Longrightarrow> wf_node (Dir (put_entry c n es))"
proof -
  assume a: "wf_node (Dir es)" "wf_node n" "plain_name c"
  then have "\<forall>(d, m) \<in> set (put_entry c n es). plain_name d \<and> wf_node m"
    by (induction c n es rule: put_entry.induct) (auto split: if_splits)
  with a show ?thesis by (simp add: sorted_put)
qed

lemma wf_del: "wf_node (Dir es) \<Longrightarrow> wf_node (Dir (del_entry c es))"
  by (auto simp: del_entry_def sorted_wrt_map sorted_wrt_filter)

lemma wf_entry: "wf_node (Dir es) \<Longrightarrow> map_of es c = Some n \<Longrightarrow> wf_node n"
  by (auto dest: map_of_SomeD)

section \<open>Lookup and change at a path\<close>

fun lookup :: "node \<Rightarrow> string list \<Rightarrow> errno + node" where
  "lookup n [] = Inr n"
| "lookup (File _ _) (c # cs) = Inl ENOTDIR"
| "lookup (Dir es) (c # cs) = (case map_of es c of None \<Rightarrow> Inl ENOENT | Some n \<Rightarrow> lookup n cs)"

text \<open>Replace, create or delete the node at a path; its parent must be a directory.\<close>

fun change :: "string list \<Rightarrow> (node option \<Rightarrow> errno + node option) \<Rightarrow> node \<Rightarrow> errno + node" where
  "change [] f n = Inl EISDIR"
| "change (c # cs) f (File _ _) = Inl ENOTDIR"
| "change [c] f (Dir es) =
     (case f (map_of es c) of
        Inl e \<Rightarrow> Inl e
      | Inr None \<Rightarrow> Inr (Dir (del_entry c es))
      | Inr (Some n) \<Rightarrow> Inr (Dir (put_entry c n es)))"
| "change (c # d # cs) f (Dir es) =
     (case map_of es c of
        None \<Rightarrow> Inl ENOENT
      | Some n \<Rightarrow> (case change (d # cs) f n of Inl e \<Rightarrow> Inl e | Inr n' \<Rightarrow> Inr (Dir (put_entry c n' es))))"

text \<open>\<open>mkdir -p\<close>: what exists is kept, a failure keeps what was made before it.\<close>

fun mkdirs :: "(string list \<Rightarrow> bool) \<Rightarrow> string list \<Rightarrow> string list \<Rightarrow> node \<Rightarrow> errno option \<times> node" where
  "mkdirs deny pre cs (File t m) = (Some ENOTDIR, File t m)"
| "mkdirs deny pre [] (Dir es) = (None, Dir es)"
| "mkdirs deny pre (c # cs) (Dir es) =
     (case map_of es c of
        Some n \<Rightarrow> (let (e, n') = mkdirs deny (pre @ [c]) cs n in (e, Dir (put_entry c n' es)))
      | None \<Rightarrow>
          if deny (pre @ [c]) then (Some EACCES, Dir es)
          else (let (e, n') = mkdirs deny (pre @ [c]) cs (Dir []) in (e, Dir (put_entry c n' es))))"

lemma lookup_append: "lookup n (p @ q) = (case lookup n p of Inl e \<Rightarrow> Inl e | Inr m \<Rightarrow> lookup m q)"
  by (induction n p rule: lookup.induct) (auto split: option.splits)

lemma lookup_changed:
  assumes "change p f n = Inr n'" "\<And>old r. f old = Inr r \<Longrightarrow> r = new"
  shows "lookup n' p = (case new of None \<Rightarrow> Inl ENOENT | Some m \<Rightarrow> Inr m)"
  using assms
proof (induction p f n arbitrary: n' rule: change.induct)
  case (3 c f es)
  then obtain r where "f (map_of es c) = Inr r"
    by (cases "f (map_of es c)") auto
  moreover with "3.prems"(2) have "r = new" by blast
  ultimately show ?case using "3.prems"(1) by (auto split: option.splits)
next
  case (4 c d cs f es)
  from "4.prems"(1) obtain m m' where m: "map_of es c = Some m" "change (d # cs) f m = Inr m'"
    "n' = Dir (put_entry c m' es)" by (auto split: option.splits sum.splits)
  from "4.IH" [OF m(1,2) "4.prems"(2)] m(3) show ?case by simp
qed simp_all

lemma lookup_change_other:
  "change p f n = Inr n' \<Longrightarrow> p \<parallel> q \<Longrightarrow> lookup n' q = lookup n q"
proof (induction p f n arbitrary: n' q rule: change.induct)
  case (3 c f es)
  then obtain d q' where q: "q = d # q'" by (cases q) (auto simp: parallel_def)
  with "3.prems" have "d \<noteq> c" by (auto simp: parallel_def)
  with "3.prems"(1) q show ?case by (auto split: sum.splits option.splits)
next
  case (4 c d cs f es)
  then obtain e q' where q: "q = e # q'" by (cases q) (auto simp: parallel_def)
  from "4.prems"(1) obtain m m' where m: "map_of es c = Some m" "change (d # cs) f m = Inr m'"
    "n' = Dir (put_entry c m' es)" by (auto split: option.splits sum.splits)
  show ?case
  proof (cases "e = c")
    case True
    with "4.prems"(2) q have "(d # cs) \<parallel> q'" by (auto simp: parallel_def)
    with "4.IH" [OF m(1,2)] True q m show ?thesis by simp
  qed (use q m in simp)
qed auto

lemma change_ok:
  "lookup n p = Inr (Dir es) \<Longrightarrow> f (map_of es c) = Inr r \<Longrightarrow> \<exists>n'. change (p @ [c]) f n = Inr n'"
proof (induction p arbitrary: n)
  case Nil
  then show ?case by (auto split: option.splits)
next
  case (Cons d p)
  then obtain ds m where n: "n = Dir ds" "map_of ds d = Some m" "lookup m p = Inr (Dir es)"
    by (cases n) (auto split: option.splits)
  from Cons.IH [OF n(3) Cons.prems(2)] obtain m' where "change (p @ [c]) f m = Inr m'" by blast
  with n show ?case by (cases p) auto
qed

lemma mkdirs_lookup: "mkdirs deny pre p n = (None, n') \<Longrightarrow> \<exists>es. lookup n' p = Inr (Dir es)"
  by (induction deny pre p n arbitrary: n' rule: mkdirs.induct)
     (auto split: option.splits prod.splits if_splits)

text \<open>Making directories never changes a file.\<close>

lemma mkdirs_keeps_file:
  "mkdirs deny pre p n = (e, n') \<Longrightarrow> lookup n q = Inr (File t m) \<Longrightarrow> lookup n' q = Inr (File t m)"
proof (induction deny pre p n arbitrary: n' q e rule: mkdirs.induct)
  case (3 deny pre c cs es)
  then obtain d q' where q: "q = d # q'" by (cases q) auto
  show ?case
  proof (cases "map_of es c")
    case None
    with "3.prems" q show ?thesis by (auto split: if_splits prod.splits option.splits)
  next
    case (Some k)
    with "3.prems" "3.IH"(2) [OF Some] q show ?thesis by (auto split: prod.splits option.splits)
  qed
qed auto

lemma wf_change:
  assumes "wf_node n" "change p f n = Inr n'" "\<And>old m. f old = Inr (Some m) \<Longrightarrow> wf_node m" "list_all plain_name p"
  shows "wf_node n'"
  using assms
proof (induction p f n arbitrary: n' rule: change.induct)
  case (3 c f es)
  then show ?case by (auto split: sum.splits option.splits intro: wf_put wf_del simp del: wf_node.simps)
next
  case (4 c d cs f es)
  from "4.prems"(2) obtain m m' where m: "map_of es c = Some m" "change (d # cs) f m = Inr m'"
    "n' = Dir (put_entry c m' es)" by (auto split: option.splits sum.splits)
  have "wf_node m'"
    using "4.IH" [OF m(1) wf_entry [OF "4.prems"(1) m(1)] m(2) "4.prems"(3)] "4.prems"(4) by simp
  with "4.prems" m show ?case by (simp add: wf_put del: wf_node.simps)
qed auto

lemma wf_mkdirs:
  "wf_node n \<Longrightarrow> mkdirs deny pre p n = (e, n') \<Longrightarrow> list_all plain_name p \<Longrightarrow> wf_node n'"
proof (induction deny pre p n arbitrary: n' e rule: mkdirs.induct)
  case (3 deny pre c cs es)
  show ?case
  proof (cases "map_of es c")
    case None
    with 3 show ?thesis
      by (auto split: if_splits prod.splits intro!: wf_put simp del: wf_node.simps)
         (simp_all del: wf_node.simps add: wf_node.simps(2))
  next
    case (Some m)
    from wf_entry [OF "3.prems"(1) Some] 3 Some show ?thesis
      by (auto split: prod.splits intro!: wf_put simp del: wf_node.simps)
  qed
qed auto

section \<open>The environment\<close>

record world =
  w_root :: node
  w_cwd :: "string list"
  w_clock :: "nat \<Rightarrow> int" \<comment> \<open>the readings of the clock, in nanoseconds since 1970\<close>
  w_ticks :: nat \<comment> \<open>how often it was read\<close>
  w_zone :: "int \<Rightarrow> int" \<comment> \<open>offset of local time at a Unix time, in seconds\<close>
  w_deny :: "string list \<Rightarrow> bool" \<comment> \<open>paths that cannot be created, written or removed\<close>
  w_dirtime :: "string list \<Rightarrow> int" \<comment> \<open>modification times of directories\<close>

definition time_Now :: "world \<Rightarrow> int \<times> world" where
  "time_Now w = (w_clock w (w_ticks w), w\<lparr>w_ticks := Suc (w_ticks w)\<rparr>)"

abbreviation at_path :: "world \<Rightarrow> string \<Rightarrow> string list" where
  "at_path w p \<equiv> resolve (w_cwd w) p"

definition os_ReadFile :: "world \<Rightarrow> string \<Rightarrow> string result" where
  "os_ReadFile w p = (case lookup (w_root w) (at_path w p) of
      Inl e \<Rightarrow> Inl (PathError ''open'' p e)
    | Inr (Dir _) \<Rightarrow> Inl (PathError ''read'' p EISDIR)
    | Inr (File t _) \<Rightarrow> Inr t)"

text \<open>\<open>os.Stat\<close>, as far as the program uses the result: the modification time.\<close>

definition os_Stat :: "world \<Rightarrow> string \<Rightarrow> int result" where
  "os_Stat w p = (case lookup (w_root w) (at_path w p) of
      Inl e \<Rightarrow> Inl (PathError ''stat'' p e)
    | Inr (Dir _) \<Rightarrow> Inr (w_dirtime w (at_path w p))
    | Inr (File _ m) \<Rightarrow> Inr m)"

fun is_dir :: "node \<Rightarrow> bool" where
  "is_dir (Dir _) = True"
| "is_dir (File _ _) = False"

definition os_ReadDir :: "world \<Rightarrow> string \<Rightarrow> (string \<times> bool) list result" where
  "os_ReadDir w p = (case lookup (w_root w) (at_path w p) of
      Inl e \<Rightarrow> Inl (PathError ''open'' p e)
    | Inr (File _ _) \<Rightarrow> Inl (PathError ''readdirent'' p ENOTDIR)
    | Inr (Dir es) \<Rightarrow> Inr (map (\<lambda>(c, n). (c, is_dir n)) es))"

definition write_node :: "string \<Rightarrow> int \<Rightarrow> node option \<Rightarrow> errno + node option" where
  "write_node t m old = (case old of Some (Dir _) \<Rightarrow> Inl EISDIR | _ \<Rightarrow> Inr (Some (File t m)))"

definition os_WriteFile :: "world \<Rightarrow> string \<Rightarrow> string \<Rightarrow> unit result \<times> world" where
  "os_WriteFile w p t =
     (let q = at_path w p; (m, w1) = time_Now w in
      if w_deny w q then (Inl (PathError ''open'' p EACCES), w1)
      else (case change q (write_node t m) (w_root w) of
              Inl e \<Rightarrow> (Inl (PathError ''open'' p e), w1)
            | Inr r \<Rightarrow> (Inr (), w1\<lparr>w_root := r\<rparr>)))"

definition os_MkdirAll :: "world \<Rightarrow> string \<Rightarrow> unit result \<times> world" where
  "os_MkdirAll w p = (let (e, r) = mkdirs (w_deny w) [] (at_path w p) (w_root w) in
     (case e of None \<Rightarrow> Inr () | Some x \<Rightarrow> Inl (PathError ''mkdir'' p x), w\<lparr>w_root := r\<rparr>))"

text \<open>\<open>os.RemoveAll\<close> refuses \<open>.\<close> and succeeds when there is nothing to remove.\<close>

definition os_RemoveAll :: "world \<Rightarrow> string \<Rightarrow> unit result \<times> world" where
  "os_RemoveAll w p =
     (let q = at_path w p in
      if p = [] then (Inr (), w)
      else if last (path_comps p) = ''.'' then (Inl (PathError ''RemoveAll'' p EINVAL), w)
      else if q = [] then (Inl (PathError ''unlinkat'' p EBUSY), w\<lparr>w_root := Dir []\<rparr>)
      else (case lookup (w_root w) q of
          Inl ENOENT \<Rightarrow> (Inr (), w)
        | Inl e \<Rightarrow> (Inl (PathError ''unlinkat'' p e), w)
        | Inr _ \<Rightarrow>
            if w_deny w q then (Inl (PathError ''unlinkat'' p EACCES), w)
            else (case change q (\<lambda>_. Inr None) (w_root w) of
                Inl e \<Rightarrow> (Inl (PathError ''unlinkat'' p e), w)
              | Inr r \<Rightarrow> (Inr (), w\<lparr>w_root := r\<rparr>))))"

section \<open>The file interface\<close>

text \<open>
  What clients of reading and writing whole files rely on: a successful write is read back, a write
  does not touch the files at paths apart from its own, and a failed write touches nothing.
\<close>

locale file_medium =
  fixes rd :: "'w \<Rightarrow> 'p \<Rightarrow> 'e + string"
    and wr :: "'w \<Rightarrow> 'p \<Rightarrow> string \<Rightarrow> ('e + unit) \<times> 'w"
    and apart :: "'w \<Rightarrow> 'p \<Rightarrow> 'p \<Rightarrow> bool"
  assumes read_written: "wr w p t = (Inr (), w') \<Longrightarrow> rd w' p = Inr t"
    and read_apart: "wr w p t = (r, w') \<Longrightarrow> apart w p q \<Longrightarrow> rd w' q = rd w q"
    and read_failed: "wr w p t = (Inl e, w') \<Longrightarrow> rd w' q = rd w q"
    and apart_written: "wr w p t = (r, w') \<Longrightarrow> apart w' = apart w"

definition apart_paths :: "world \<Rightarrow> string \<Rightarrow> string \<Rightarrow> bool" where
  "apart_paths w p q \<longleftrightarrow> at_path w p \<parallel> at_path w q"

lemma ReadFile_root_cong:
  "w_cwd w' = w_cwd w \<Longrightarrow> lookup (w_root w') (at_path w q) = lookup (w_root w) (at_path w q) \<Longrightarrow>
    os_ReadFile w' q = os_ReadFile w q"
  by (simp add: os_ReadFile_def)

lemma WriteFile_cases:
  assumes "os_WriteFile w p t = (r, w')"
  obtains (failed) e where "r = Inl e" "w_root w' = w_root w" "w_cwd w' = w_cwd w"
      "w_deny w' = w_deny w" "w_clock w' = w_clock w" "w_dirtime w' = w_dirtime w"
  | (written) "r = Inr ()" "change (at_path w p) (write_node t (w_clock w (w_ticks w))) (w_root w) = Inr (w_root w')"
      "w_cwd w' = w_cwd w" "w_deny w' = w_deny w" "\<not> w_deny w (at_path w p)" "w_clock w' = w_clock w"
      "w_dirtime w' = w_dirtime w"
  using assms by (auto simp: os_WriteFile_def time_Now_def Let_def split: if_splits sum.splits)

lemma write_node_new: "write_node t m old = Inr r \<Longrightarrow> r = Some (File t m)"
  by (auto simp: write_node_def split: option.splits node.splits)

lemma WriteFile_lookup:
  assumes "os_WriteFile w p t = (Inr (), w')"
  shows "lookup (w_root w') (at_path w p) = Inr (File t (w_clock w (w_ticks w)))"
  using assms
proof (cases rule: WriteFile_cases)
  case written
  from lookup_changed [OF written(2) write_node_new] show ?thesis by simp
qed simp

lemma WriteFile_lookup_apart:
  assumes "os_WriteFile w p t = (r, w')" "apart_paths w p q"
  shows "lookup (w_root w') (at_path w q) = lookup (w_root w) (at_path w q)"
  using assms(1)
proof (cases rule: WriteFile_cases)
  case written
  from lookup_change_other [OF written(2)] assms(2) show ?thesis by (simp add: apart_paths_def)
qed simp

lemma WriteFile_cwd: "os_WriteFile w p t = (r, w') \<Longrightarrow> w_cwd w' = w_cwd w"
  by (erule WriteFile_cases) auto

interpretation os: file_medium os_ReadFile os_WriteFile apart_paths
proof unfold_locales
  fix w p t w'
  assume "os_WriteFile w p t = (Inr (), w')"
  from WriteFile_lookup [OF this] WriteFile_cwd [OF this] show "os_ReadFile w' p = Inr t"
    by (simp add: os_ReadFile_def)
next
  fix w p t r w' q
  assume "os_WriteFile w p t = (r, w')" "apart_paths w p q"
  from WriteFile_lookup_apart [OF this] WriteFile_cwd [OF this(1)] show "os_ReadFile w' q = os_ReadFile w q"
    by (intro ReadFile_root_cong) auto
next
  fix w p t e w' q
  assume "os_WriteFile w p t = (Inl e, w')"
  then show "os_ReadFile w' q = os_ReadFile w q"
    by (cases rule: WriteFile_cases) (auto intro: ReadFile_root_cong)
next
  fix w p t r w'
  assume "os_WriteFile w p t = (r, w')"
  then show "apart_paths w' = apart_paths w"
    by (simp add: fun_eq_iff apart_paths_def WriteFile_cwd)
qed

lemma MkdirAll_world:
  assumes "os_MkdirAll w p = (r, w')"
  shows "w_cwd w' = w_cwd w" "w_deny w' = w_deny w" "w_clock w' = w_clock w" "w_ticks w' = w_ticks w"
  using assms by (auto simp: os_MkdirAll_def Let_def split: prod.splits option.splits)

lemma MkdirAll_keeps_file:
  assumes "os_MkdirAll w p = (r, w')" "os_ReadFile w q = Inr t"
  shows "os_ReadFile w' q = Inr t"
proof -
  obtain e n where m: "mkdirs (w_deny w) [] (at_path w p) (w_root w) = (e, n)" by force
  with assms(1) have "w' = w\<lparr>w_root := n\<rparr>" by (auto simp: os_MkdirAll_def Let_def)
  moreover from assms(2) obtain k where "lookup (w_root w) (at_path w q) = Inr (File t k)"
    by (auto simp: os_ReadFile_def split: sum.splits node.splits)
  with mkdirs_keeps_file [OF m] have "lookup n (at_path w q) = Inr (File t k)" by blast
  ultimately show ?thesis by (simp add: os_ReadFile_def)
qed

lemma apart_MkdirAll: "os_MkdirAll w p = (r, w') \<Longrightarrow> apart_paths w' = apart_paths w"
  by (simp add: fun_eq_iff apart_paths_def MkdirAll_world)

lemma MkdirAll_dir:
  assumes "os_MkdirAll w p = (Inr (), w')"
  shows "\<exists>es. lookup (w_root w') (at_path w p) = Inr (Dir es)"
proof -
  obtain e n where m: "mkdirs (w_deny w) [] (at_path w p) (w_root w) = (e, n)" by force
  with assms have "e = None" "w_root w' = n"
    by (auto simp: os_MkdirAll_def Let_def split: option.splits)
  with m mkdirs_lookup show ?thesis by blast
qed

text \<open>A write into an existing directory that is not refused succeeds, unless a directory is in its place.\<close>

lemma WriteFile_ok:
  assumes "at_path w p = d @ [f]" "lookup (w_root w) d = Inr (Dir es)" "\<not> w_deny w (d @ [f])"
    "\<not> (\<exists>xs. map_of es f = Some (Dir xs))"
  shows "\<exists>w'. os_WriteFile w p t = (Inr (), w')"
proof -
  from assms(4) obtain r where "write_node t (w_clock w (w_ticks w)) (map_of es f) = Inr r"
    by (cases "map_of es f"; cases "the (map_of es f)") (auto simp: write_node_def)
  from change_ok [where f = "write_node t (w_clock w (w_ticks w))", OF assms(2) this] obtain n' where
    "change (d @ [f]) (write_node t (w_clock w (w_ticks w))) (w_root w) = Inr n'" by blast
  with assms(1,3) show ?thesis by (simp add: os_WriteFile_def time_Now_def Let_def)
qed

text \<open>What was written once can be written again.\<close>

lemma WriteFile_again:
  assumes "os_WriteFile w p t = (Inr (), w1)"
  shows "\<exists>w2. os_WriteFile w1 p u = (Inr (), w2)"
  using assms
proof (cases rule: WriteFile_cases)
  case written
  have at: "at_path w1 p = at_path w p" using written(3) by simp
  from written(2) have "at_path w p \<noteq> []" by auto
  then obtain d f where d: "at_path w p = d @ [f]" by (metis rev_exhaust)
  from WriteFile_lookup [OF assms] d obtain m where m: "lookup (w_root w1) d = Inr m"
    "lookup m [f] = Inr (File t (w_clock w (w_ticks w)))"
    by (auto simp: lookup_append split: sum.splits)
  then obtain es where "m = Dir es" "map_of es f = Some (File t (w_clock w (w_ticks w)))"
    by (cases m) (auto split: option.splits)
  with WriteFile_ok [of w1 p d f es u] m at d written(4,5) show ?thesis by simp
qed simp

end
