(* ===== verification/Models.thy ===== *)
theory Models
  imports Prelude
begin

text \<open>
  The structs of \<open>internal/models/models.go\<close> and the values of
  \<open>internal/constants/constants.go\<close>.  \<open>Preset\<close> and \<open>Recent\<close> embed \<open>ContentItem\<close>: they are
  record extensions of it.  Field names carry a prefix of their struct, since record fields are
  global; the struct tags are used where the structs are encoded and decoded.
\<close>

section \<open>Constants\<close>

definition Providers :: "string list" where
  "Providers = [''PANDORA'', ''INTERNET_RADIO'', ''OFF'', ''LOCAL'', ''AIRPLAY'', ''CURRATED_RADIO'',
     ''STORED_MUSIC'', ''SLAVE_SOURCE'', ''AUX'', ''RECOMMENDED_INTERNET_RADIO'',
     ''LOCAL_INTERNET_RADIO'', ''GLOBAL_INTERNET_RADIO'', ''HELLO'', ''DEEZER'', ''SPOTIFY'',
     ''IHEART'', ''SIRIUSXM'', ''GOOGLE_PLAY_MUSIC'', ''QQMUSIC'', ''AMAZON'', ''LOCAL_MUSIC'',
     ''WBMX'', ''SOUNDCLOUD'', ''TIDAL'', ''TUNEIN'', ''QPLAY'', ''JUKE'', ''BBC'', ''DARFM'',
     ''7DIGITAL'', ''SAAVN'', ''RDIO'', ''PHONE_MUSIC'', ''ALEXA'', ''RADIOPLAYER'', ''RADIO.COM'',
     ''RADIO_COM'', ''SIRIUSXM_EVEREST'']"

definition DevicesDir :: string where "DevicesDir = ''devices''"
definition DeviceInfoFile :: string where "DeviceInfoFile = ''DeviceInfo.xml''"
definition PresetsFile :: string where "PresetsFile = ''Presets.xml''"
definition RecentsFile :: string where "RecentsFile = ''Recents.xml''"
definition SourcesFile :: string where "SourcesFile = ''Sources.xml''"

text \<open>Where a speaker has its own records; no function asks it for them.\<close>

definition SpeakerHTTPPort :: int where "SpeakerHTTPPort = 8090"
definition SpeakerDeviceInfoPath :: string where "SpeakerDeviceInfoPath = ''/info''"
definition SpeakerRecentsPath :: string where "SpeakerRecentsPath = ''/recents''"
definition SpeakerPresetsPath :: string where "SpeakerPresetsPath = ''/presets''"
definition SpeakerSourcesFileLocation :: string where
  "SpeakerSourcesFileLocation = ''/mnt/nv/BoseApp-Persistence/1/Sources.xml''"

lemmas file_names = DevicesDir_def DeviceInfoFile_def PresetsFile_def RecentsFile_def SourcesFile_def

section \<open>Models\<close>

record SourceProvider =
  sp_ID :: int
  sp_CreatedOn :: string
  sp_Name :: string
  sp_UpdatedOn :: string

record ContentItem =
  ci_ID :: string
  ci_Name :: string
  ci_Source :: string
  ci_Type :: string
  ci_Location :: string
  ci_SourceAccount :: string
  ci_SourceID :: string
  ci_IsPresetable :: string

record Preset = ContentItem +
  p_ContainerArt :: string
  p_CreatedOn :: string
  p_UpdatedOn :: string

record Recent = ContentItem +
  r_DeviceID :: string
  r_UtcTime :: string
  r_ContainerArt :: string

record ConfiguredSource =
  cs_DisplayName :: string
  cs_ID :: string
  cs_Secret :: string
  cs_SecretType :: string
  cs_SourceKeyType :: string
  cs_SourceKeyAccount :: string

record DeviceInfo =
  di_DeviceID :: string
  di_ProductCode :: string
  di_DeviceSerialNumber :: string
  di_ProductSerialNumber :: string
  di_FirmwareVersion :: string
  di_IPAddress :: string
  di_Name :: string

text \<open>Values of type \<open>interface{}\<close> as they occur in events: decoded or built JSON values.\<close>

datatype json = JNull | JBool bool | JNum string | JString string
  | JArray "json list" | JObject "(string \<times> json) list"

record UsageStats =
  us_DeviceID :: string
  us_AccountID :: string
  us_Timestamp :: string
  us_EventType :: string
  us_Parameters :: "(string \<times> json) list option" \<comment> \<open>\<open>None\<close> is the nil map\<close>

record ErrorStats =
  es_DeviceID :: string
  es_ErrorCode :: string
  es_ErrorMessage :: string
  es_Timestamp :: string
  es_Details :: string

record DeviceEvent =
  de_Type :: string
  de_Time :: string
  de_MonoTime :: int
  de_Data :: "(string \<times> json) list option"

text \<open>The part of \<open>CustomerSupportRequest\<close> that the program reads, all fields of the device included.\<close>

record CustomerSupportRequest =
  sr_ID :: string
  sr_SerialNumber :: string
  sr_FirmwareVersion :: string
  sr_ProductCode :: string
  sr_ProductType :: string
  sr_ProductSerialNumber :: string
  sr_RSSI :: string
  sr_GatewayIP :: string
  sr_IPAddress :: string
  sr_NetworkConnectionType :: string
  sr_MacAddresses :: "string list"

text \<open>Zero values.\<close>

definition zero_ContentItem :: ContentItem where
  "zero_ContentItem = \<lparr>ci_ID = [], ci_Name = [], ci_Source = [], ci_Type = [], ci_Location = [],
     ci_SourceAccount = [], ci_SourceID = [], ci_IsPresetable = []\<rparr>"

definition zero_Preset :: Preset where
  "zero_Preset = ContentItem.extend zero_ContentItem
     \<lparr>p_ContainerArt = [], p_CreatedOn = [], p_UpdatedOn = []\<rparr>"

definition zero_DeviceInfo :: DeviceInfo where
  "zero_DeviceInfo = \<lparr>di_DeviceID = [], di_ProductCode = [], di_DeviceSerialNumber = [],
     di_ProductSerialNumber = [], di_FirmwareVersion = [], di_IPAddress = [], di_Name = []\<rparr>"

lemma length_Providers: "length Providers = 38"
  by (simp add: Providers_def)

lemma distinct_Providers: "distinct Providers"
  by (simp add: Providers_def)

end
