(* ===== verification/Datastore.thy ===== *)
theory Datastore
  imports XML_Fields Go_OS Models
begin

text \<open>
  \<open>internal/datastore/datastore.go\<close>: the accounts, devices, presets, recents and sources of the
  service as XML files below one directory, and the log of device events in memory.  Every method
  of \<open>DataStore\<close> that works on files or on the event log is a definition here, with the struct
  conversions of its loops; the lemmas about them are in the theories that import this one.
\<close>

section \<open>The store and its paths\<close>

record DataStore =
  DataDir :: string
  deviceEvents :: "string \<Rightarrow> DeviceEvent list option"

definition NewDataStore :: "string \<Rightarrow> DataStore" where
  "NewDataStore dataDir = \<lparr>DataDir = (if dataDir = [] then ''data'' else dataDir), deviceEvents = Map.empty\<rparr>"

definition os_exists :: "world \<Rightarrow> string \<Rightarrow> bool" where
  "os_exists w p \<longleftrightarrow> is_ok (os_Stat w p)"

definition AccountDir :: "DataStore \<Rightarrow> string \<Rightarrow> string" where
  "AccountDir ds account = filepath_Join [DataDir ds, account]"

definition AccountDevicesDir :: "DataStore \<Rightarrow> string \<Rightarrow> string" where
  "AccountDevicesDir ds account = filepath_Join [DataDir ds, account, DevicesDir]"

definition AccountDeviceDir :: "DataStore \<Rightarrow> string \<Rightarrow> string \<Rightarrow> string" where
  "AccountDeviceDir ds account device = filepath_Join [AccountDevicesDir ds account, device]"

abbreviation four_spaces :: string where "four_spaces \<equiv> replicate 4 CHR 0x20"

section \<open>Content items as presets and recents store them\<close>

record content_xml =
  cx_Source :: string
  cx_Type :: string
  cx_Location :: string
  cx_SourceAccount :: string
  cx_IsPresetable :: string
  cx_ItemName :: string
  cx_ContainerArt :: string

definition zero_content :: content_xml where
  "zero_content = \<lparr>cx_Source = [], cx_Type = [], cx_Location = [], cx_SourceAccount = [],
     cx_IsPresetable = [], cx_ItemName = [], cx_ContainerArt = []\<rparr>"

definition content_child :: "string \<Rightarrow> xattrs \<Rightarrow> xml list \<Rightarrow> content_xml \<Rightarrow> content_xml" where
  "content_child l as cs x =
     (if l = ''itemName'' then x\<lparr>cx_ItemName := chardata cs\<rparr>
      else if l = ''containerArt'' then x\<lparr>cx_ContainerArt := chardata cs\<rparr> else x)"

definition decode_content :: "xattrs \<Rightarrow> xml list \<Rightarrow> content_xml \<Rightarrow> content_xml" where
  "decode_content as cs x = fold_children content_child cs
     (x\<lparr>cx_Source := attr_into ''source'' as (cx_Source x),
        cx_Type := attr_into ''type'' as (cx_Type x),
        cx_Location := attr_into ''location'' as (cx_Location x),
        cx_SourceAccount := attr_into ''sourceAccount'' as (cx_SourceAccount x),
        cx_IsPresetable := attr_into ''isPresetable'' as (cx_IsPresetable x)\<rparr>)"

definition content_attrs :: "content_xml \<Rightarrow> (string \<times> string) list" where
  "content_attrs x =
     omit_empty ''source'' (cx_Source x) @ [(''type'', cx_Type x), (''location'', cx_Location x)]
     @ omit_empty ''sourceAccount'' (cx_SourceAccount x) @ [(''isPresetable'', cx_IsPresetable x)]"

definition encode_content :: "string \<Rightarrow> content_xml \<Rightarrow> mtree" where
  "encode_content tag x = MElems tag (content_attrs x)
     [MText ''itemName'' [] (cx_ItemName x), MText ''containerArt'' [] (cx_ContainerArt x)]"

section \<open>Presets\<close>

record preset_xml =
  px_ID :: string
  px_CreatedOn :: string
  px_UpdatedOn :: string
  px_ContentItem :: content_xml

definition preset_child :: "string \<Rightarrow> xattrs \<Rightarrow> xml list \<Rightarrow> preset_xml \<Rightarrow> preset_xml" where
  "preset_child l as cs p =
     (if l = ''ContentItem'' then p\<lparr>px_ContentItem := decode_content as cs (px_ContentItem p)\<rparr> else p)"

definition decode_preset :: "xattrs \<Rightarrow> xml list \<Rightarrow> preset_xml" where
  "decode_preset as cs = fold_children preset_child cs
     \<lparr>px_ID = attr_into ''id'' as [], px_CreatedOn = attr_into ''createdOn'' as [],
      px_UpdatedOn = attr_into ''updatedOn'' as [], px_ContentItem = zero_content\<rparr>"

definition decode_presets :: "xattrs \<Rightarrow> xml list \<Rightarrow> preset_xml list" where
  "decode_presets as cs =
     fold_children (\<lambda>l as cs ps. if l = ''preset'' then ps @ [decode_preset as cs] else ps) cs []"

definition encode_preset :: "preset_xml \<Rightarrow> mtree" where
  "encode_preset p = MElems ''preset''
     [(''id'', px_ID p), (''createdOn'', px_CreatedOn p), (''updatedOn'', px_UpdatedOn p)]
     [encode_content ''ContentItem'' (px_ContentItem p)]"

definition preset_of_xml :: "preset_xml \<Rightarrow> Preset" where
  "preset_of_xml p = (let c = px_ContentItem p in
     \<lparr>ci_ID = px_ID p, ci_Name = cx_ItemName c, ci_Source = cx_Source c, ci_Type = cx_Type c,
      ci_Location = cx_Location c, ci_SourceAccount = cx_SourceAccount c, ci_SourceID = [],
      ci_IsPresetable = cx_IsPresetable c, p_ContainerArt = cx_ContainerArt c,
      p_CreatedOn = px_CreatedOn p, p_UpdatedOn = px_UpdatedOn p\<rparr>)"

definition xml_of_preset :: "Preset \<Rightarrow> preset_xml" where
  "xml_of_preset p =
     \<lparr>px_ID = ci_ID p, px_CreatedOn = p_CreatedOn p, px_UpdatedOn = p_UpdatedOn p,
      px_ContentItem = \<lparr>cx_Source = ci_Source p, cx_Type = ci_Type p, cx_Location = ci_Location p,
        cx_SourceAccount = ci_SourceAccount p, cx_IsPresetable = ''true'', cx_ItemName = ci_Name p,
        cx_ContainerArt = p_ContainerArt p\<rparr>\<rparr>"

definition presets_path :: "DataStore \<Rightarrow> string \<Rightarrow> string" where
  "presets_path ds account = filepath_Join [AccountDir ds account, PresetsFile]"

definition read_presets :: "string \<Rightarrow> string \<Rightarrow> Preset list result" where
  "read_presets path data = (case xml_Unmarshal None decode_presets data of
      Inl e \<Rightarrow> Inl (Wrapped (''malformed presets XML at '' @ path @ '': '') e)
    | Inr ps \<Rightarrow> Inr (map preset_of_xml ps))"

definition GetPresets :: "DataStore \<Rightarrow> world \<Rightarrow> string \<Rightarrow> Preset list result" where
  "GetPresets ds w account =
     (let path = presets_path ds account in
      case os_ReadFile w path of Inl e \<Rightarrow> Inl e | Inr data \<Rightarrow> read_presets path data)"

definition presets_document :: "Preset list \<Rightarrow> string" where
  "presets_document ps = xml_Header @
     xml_MarshalIndent four_spaces (MElems ''presets'' [] (map (encode_preset \<circ> xml_of_preset) ps))"

definition SavePresets :: "DataStore \<Rightarrow> world \<Rightarrow> string \<Rightarrow> Preset list \<Rightarrow> unit result \<times> world" where
  "SavePresets ds w account ps = os_WriteFile w (presets_path ds account) (presets_document ps)"

section \<open>Recents\<close>

record recent_xml =
  rx_ID :: string
  rx_DeviceID :: string
  rx_UtcTime :: string
  rx_ContentItem :: content_xml

definition recent_child :: "string \<Rightarrow> xattrs \<Rightarrow> xml list \<Rightarrow> recent_xml \<Rightarrow> recent_xml" where
  "recent_child l as cs r =
     (if l = ''contentItem'' then r\<lparr>rx_ContentItem := decode_content as cs (rx_ContentItem r)\<rparr> else r)"

definition decode_recent :: "xattrs \<Rightarrow> xml list \<Rightarrow> recent_xml" where
  "decode_recent as cs = fold_children recent_child cs
     \<lparr>rx_ID = attr_into ''id'' as [], rx_DeviceID = attr_into ''deviceID'' as [],
      rx_UtcTime = attr_into ''utcTime'' as [], rx_ContentItem = zero_content\<rparr>"

definition decode_recents :: "xattrs \<Rightarrow> xml list \<Rightarrow> recent_xml list" where
  "decode_recents as cs =
     fold_children (\<lambda>l as cs rs. if l = ''recent'' then rs @ [decode_recent as cs] else rs) cs []"

definition encode_recent :: "recent_xml \<Rightarrow> mtree" where
  "encode_recent r = MElems ''recent''
     [(''id'', rx_ID r), (''deviceID'', rx_DeviceID r), (''utcTime'', rx_UtcTime r)]
     [encode_content ''contentItem'' (rx_ContentItem r)]"

definition recent_of_xml :: "recent_xml \<Rightarrow> Recent" where
  "recent_of_xml r = (let c = rx_ContentItem r in
     \<lparr>ci_ID = rx_ID r, ci_Name = cx_ItemName c, ci_Source = cx_Source c, ci_Type = cx_Type c,
      ci_Location = cx_Location c, ci_SourceAccount = cx_SourceAccount c, ci_SourceID = [],
      ci_IsPresetable = cx_IsPresetable c, r_DeviceID = rx_DeviceID r, r_UtcTime = rx_UtcTime r,
      r_ContainerArt = cx_ContainerArt c\<rparr>)"

definition xml_of_recent :: "Recent \<Rightarrow> recent_xml" where
  "xml_of_recent r =
     \<lparr>rx_ID = ci_ID r, rx_DeviceID = r_DeviceID r, rx_UtcTime = r_UtcTime r,
      rx_ContentItem = \<lparr>cx_Source = ci_Source r, cx_Type = ci_Type r, cx_Location = ci_Location r,
        cx_SourceAccount = ci_SourceAccount r,
        cx_IsPresetable = (if ci_IsPresetable r = [] then ''true'' else ci_IsPresetable r),
        cx_ItemName = ci_Name r, cx_ContainerArt = r_ContainerArt r\<rparr>\<rparr>"

definition recents_path :: "DataStore \<Rightarrow> string \<Rightarrow> string" where
  "recents_path ds account = filepath_Join [AccountDir ds account, RecentsFile]"

definition read_recents :: "string \<Rightarrow> string \<Rightarrow> Recent list result" where
  "read_recents path data = (case xml_Unmarshal None decode_recents data of
      Inl e \<Rightarrow> Inl (Wrapped (''malformed recents XML at '' @ path @ '': '') e)
    | Inr rs \<Rightarrow> Inr (map recent_of_xml rs))"

definition GetRecents :: "DataStore \<Rightarrow> world \<Rightarrow> string \<Rightarrow> Recent list result" where
  "GetRecents ds w account =
     (let path = recents_path ds account in
      case os_ReadFile w path of Inl e \<Rightarrow> Inl e | Inr data \<Rightarrow> read_recents path data)"

definition recents_document :: "Recent list \<Rightarrow> string" where
  "recents_document rs = xml_Header @
     xml_MarshalIndent four_spaces (MElems ''recents'' [] (map (encode_recent \<circ> xml_of_recent) rs))"

definition SaveRecents :: "DataStore \<Rightarrow> world \<Rightarrow> string \<Rightarrow> Recent list \<Rightarrow> unit result \<times> world" where
  "SaveRecents ds w account rs = os_WriteFile w (recents_path ds account) (recents_document rs)"

section \<open>Configured sources\<close>

record source_xml =
  sx_DisplayName :: string
  sx_ID :: string
  sx_Secret :: string
  sx_SecretType :: string
  sx_Account :: string
  sx_Type :: string

definition source_child :: "string \<Rightarrow> xattrs \<Rightarrow> xml list \<Rightarrow> source_xml \<Rightarrow> source_xml" where
  "source_child l as cs s =
     (if l = ''sourceKey''
      then s\<lparr>sx_Account := attr_into ''account'' as (sx_Account s), sx_Type := attr_into ''type'' as (sx_Type s)\<rparr>
      else s)"

definition decode_source :: "xattrs \<Rightarrow> xml list \<Rightarrow> source_xml" where
  "decode_source as cs = fold_children source_child cs
     \<lparr>sx_DisplayName = attr_into ''displayName'' as [], sx_ID = attr_into ''id'' as [],
      sx_Secret = attr_into ''secret'' as [], sx_SecretType = attr_into ''secretType'' as [],
      sx_Account = [], sx_Type = []\<rparr>"

definition decode_sources :: "xattrs \<Rightarrow> xml list \<Rightarrow> source_xml list" where
  "decode_sources as cs =
     fold_children (\<lambda>l as cs ss. if l = ''source'' then ss @ [decode_source as cs] else ss) cs []"

definition encode_source :: "source_xml \<Rightarrow> mtree" where
  "encode_source s = MElems ''source''
     [(''displayName'', sx_DisplayName s), (''id'', sx_ID s), (''secret'', sx_Secret s),
      (''secretType'', sx_SecretType s)]
     [MElems ''sourceKey'' [(''account'', sx_Account s), (''type'', sx_Type s)] []]"

definition source_of_xml :: "string \<Rightarrow> source_xml \<Rightarrow> ConfiguredSource" where
  "source_of_xml i s = \<lparr>cs_DisplayName = sx_DisplayName s, cs_ID = i, cs_Secret = sx_Secret s,
     cs_SecretType = sx_SecretType s, cs_SourceKeyType = sx_Type s, cs_SourceKeyAccount = sx_Account s\<rparr>"

definition xml_of_source :: "ConfiguredSource \<Rightarrow> source_xml" where
  "xml_of_source s = \<lparr>sx_DisplayName = cs_DisplayName s, sx_ID = cs_ID s, sx_Secret = cs_Secret s,
     sx_SecretType = cs_SecretType s, sx_Account = cs_SourceKeyAccount s, sx_Type = cs_SourceKeyType s\<rparr>"

text \<open>The loop of \<open>GetConfiguredSources\<close>: an empty id becomes the next number from \<open>lastID\<close>.\<close>

fun number_sources :: "int \<Rightarrow> source_xml list \<Rightarrow> ConfiguredSource list" where
  "number_sources lastID [] = []"
| "number_sources lastID (s # ss) =
     (if sx_ID s = [] then source_of_xml (strconv_Itoa lastID) s # number_sources (wrap64 (lastID + 1)) ss
      else source_of_xml (sx_ID s) s # number_sources lastID ss)"

definition sources_path :: "DataStore \<Rightarrow> string \<Rightarrow> string" where
  "sources_path ds account = filepath_Join [AccountDir ds account, SourcesFile]"

definition read_sources :: "string \<Rightarrow> string \<Rightarrow> ConfiguredSource list result" where
  "read_sources path data = (case xml_Unmarshal None decode_sources data of
      Inl e \<Rightarrow> Inl (Wrapped (''malformed sources XML at '' @ path @ '': '') e)
    | Inr ss \<Rightarrow> Inr (number_sources 100001 ss))"

definition GetConfiguredSources :: "DataStore \<Rightarrow> world \<Rightarrow> string \<Rightarrow> ConfiguredSource list result" where
  "GetConfiguredSources ds w account =
     (let path = sources_path ds account in
      case os_ReadFile w path of Inl e \<Rightarrow> Inl e | Inr data \<Rightarrow> read_sources path data)"

definition sources_document :: "ConfiguredSource list \<Rightarrow> string" where
  "sources_document ss = xml_Header @
     xml_MarshalIndent four_spaces (MElems ''sources'' [] (map (encode_source \<circ> xml_of_source) ss))"

text \<open>The result of \<open>MkdirAll\<close> is ignored.\<close>

definition SaveConfiguredSources ::
  "DataStore \<Rightarrow> world \<Rightarrow> string \<Rightarrow> ConfiguredSource list \<Rightarrow> unit result \<times> world" where
  "SaveConfiguredSources ds w account ss =
     (let path = sources_path ds account;
          (_, w1) = os_MkdirAll w (filepath_Dir path)
      in os_WriteFile w1 path (sources_document ss))"

section \<open>Device information\<close>

record component_xml =
  co_Category :: string
  co_SoftwareVersion :: string
  co_SerialNumber :: string

record network_xml =
  nw_Type :: string
  nw_IPAddress :: string

record info_xml =
  ix_DeviceID :: string
  ix_Name :: string
  ix_Type :: string
  ix_ModuleType :: string
  ix_Components :: "component_xml list"
  ix_NetworkInfo :: "network_xml list"

definition component_child :: "string \<Rightarrow> xattrs \<Rightarrow> xml list \<Rightarrow> component_xml \<Rightarrow> component_xml" where
  "component_child l as cs c =
     (if l = ''componentCategory'' then c\<lparr>co_Category := chardata cs\<rparr>
      else if l = ''softwareVersion'' then c\<lparr>co_SoftwareVersion := chardata cs\<rparr>
      else if l = ''serialNumber'' then c\<lparr>co_SerialNumber := chardata cs\<rparr> else c)"

definition decode_component :: "xml list \<Rightarrow> component_xml" where
  "decode_component cs = fold_children component_child cs
     \<lparr>co_Category = [], co_SoftwareVersion = [], co_SerialNumber = []\<rparr>"

definition network_child :: "string \<Rightarrow> xattrs \<Rightarrow> xml list \<Rightarrow> network_xml \<Rightarrow> network_xml" where
  "network_child l as cs n = (if l = ''ipAddress'' then n\<lparr>nw_IPAddress := chardata cs\<rparr> else n)"

definition decode_network :: "xattrs \<Rightarrow> xml list \<Rightarrow> network_xml" where
  "decode_network as cs = fold_children network_child cs
     \<lparr>nw_Type = attr_into ''type'' as [], nw_IPAddress = []\<rparr>"

definition info_child :: "string \<Rightarrow> xattrs \<Rightarrow> xml list \<Rightarrow> info_xml \<Rightarrow> info_xml" where
  "info_child l as cs x =
     (if l = ''name'' then x\<lparr>ix_Name := chardata cs\<rparr>
      else if l = ''type'' then x\<lparr>ix_Type := chardata cs\<rparr>
      else if l = ''moduleType'' then x\<lparr>ix_ModuleType := chardata cs\<rparr>
      else if l = ''components'' then
        x\<lparr>ix_Components := fold_children
           (\<lambda>l as cs ys. if l = ''component'' then ys @ [decode_component cs] else ys) cs (ix_Components x)\<rparr>
      else if l = ''networkInfo'' then x\<lparr>ix_NetworkInfo := ix_NetworkInfo x @ [decode_network as cs]\<rparr>
      else x)"

definition decode_info :: "xattrs \<Rightarrow> xml list \<Rightarrow> info_xml" where
  "decode_info as cs = fold_children info_child cs
     \<lparr>ix_DeviceID = attr_into ''deviceID'' as [], ix_Name = [], ix_Type = [], ix_ModuleType = [],
      ix_Components = [], ix_NetworkInfo = []\<rparr>"

definition take_component :: "DeviceInfo \<Rightarrow> component_xml \<Rightarrow> DeviceInfo" where
  "take_component d c =
     (if co_Category c = ''SCM'' then
        d\<lparr>di_FirmwareVersion := co_SoftwareVersion c, di_DeviceSerialNumber := co_SerialNumber c\<rparr>
      else if co_Category c = ''PackagedProduct'' then d\<lparr>di_ProductSerialNumber := co_SerialNumber c\<rparr>
      else d)"

definition take_network :: "DeviceInfo \<Rightarrow> network_xml \<Rightarrow> DeviceInfo" where
  "take_network d n = (if nw_Type n = ''SCM'' then d\<lparr>di_IPAddress := nw_IPAddress n\<rparr> else d)"

definition device_of_xml :: "info_xml \<Rightarrow> DeviceInfo" where
  "device_of_xml x =
     foldl take_network
       (foldl take_component
          (zero_DeviceInfo\<lparr>di_DeviceID := ix_DeviceID x,
             di_ProductCode := ix_Type x @ '' '' @ ix_ModuleType x, di_Name := ix_Name x\<rparr>)
          (ix_Components x))
       (ix_NetworkInfo x)"

definition read_device :: "string \<Rightarrow> DeviceInfo result" where
  "read_device data = (case xml_Unmarshal (Some ''info'') decode_info data of
      Inl e \<Rightarrow> Inl e | Inr x \<Rightarrow> Inr (device_of_xml x))"

definition parseDeviceInfoFile :: "world \<Rightarrow> string \<Rightarrow> DeviceInfo result" where
  "parseDeviceInfoFile w path =
     (case os_ReadFile w path of Inl e \<Rightarrow> Inl e | Inr data \<Rightarrow> read_device data)"

definition device_path :: "DataStore \<Rightarrow> string \<Rightarrow> string \<Rightarrow> string" where
  "device_path ds account device = filepath_Join [AccountDeviceDir ds account device, DeviceInfoFile]"

definition GetDeviceInfo :: "DataStore \<Rightarrow> world \<Rightarrow> string \<Rightarrow> string \<Rightarrow> DeviceInfo result" where
  "GetDeviceInfo ds w account device =
     (case os_ReadFile w (device_path ds account device) of Inl e \<Rightarrow> Inl e | Inr data \<Rightarrow> read_device data)"

text \<open>The product code is split at its first space into type and module type.\<close>

definition split_product :: "string \<Rightarrow> string \<times> string" where
  "split_product pc = (takeWhile (\<lambda>c. c \<noteq> CHR 0x20) pc, drop 1 (dropWhile (\<lambda>c. c \<noteq> CHR 0x20) pc))"

definition encode_component :: "component_xml \<Rightarrow> mtree" where
  "encode_component c = MElems ''component'' []
     (MText ''componentCategory'' [] (co_Category c)
      # omit_empty_elem ''softwareVersion'' (co_SoftwareVersion c)
      @ omit_empty_elem ''serialNumber'' (co_SerialNumber c))"

definition encode_device :: "DeviceInfo \<Rightarrow> mtree" where
  "encode_device d =
     (let (devType, moduleType) = split_product (di_ProductCode d) in
      MElems ''info'' [(''deviceID'', di_DeviceID d)]
        [MText ''name'' [] (di_Name d), MText ''type'' [] devType, MText ''moduleType'' [] moduleType,
         MElems ''components'' []
           [encode_component \<lparr>co_Category = ''SCM'', co_SoftwareVersion = di_FirmwareVersion d,
              co_SerialNumber = di_DeviceSerialNumber d\<rparr>,
            encode_component \<lparr>co_Category = ''PackagedProduct'', co_SoftwareVersion = [],
              co_SerialNumber = di_ProductSerialNumber d\<rparr>],
         MElems ''networkInfo'' [(''type'', ''SCM'')] [MText ''ipAddress'' [] (di_IPAddress d)]])"

definition device_document :: "DeviceInfo \<Rightarrow> string" where
  "device_document d = xml_Header @ xml_MarshalIndent four_spaces (encode_device d)"

definition SaveDeviceInfo ::
  "DataStore \<Rightarrow> world \<Rightarrow> string \<Rightarrow> string \<Rightarrow> DeviceInfo \<Rightarrow> unit result \<times> world" where
  "SaveDeviceInfo ds w account device info =
     (if device = [] then (Inl (Errorf ''device ID/name cannot be empty''), w)
      else (case os_MkdirAll w (AccountDeviceDir ds account device) of
          (Inl e, w1) \<Rightarrow> (Inl e, w1)
        | (Inr _, w1) \<Rightarrow> os_WriteFile w1 (device_path ds account device) (device_document info)))"

definition RemoveDevice :: "DataStore \<Rightarrow> world \<Rightarrow> string \<Rightarrow> string \<Rightarrow> unit result \<times> world" where
  "RemoveDevice ds w account device = os_RemoveAll w (AccountDeviceDir ds account device)"

section \<open>Listing all devices\<close>

definition altDir :: string where "altDir = ''soundcork-go/data''"

definition device_key :: "DeviceInfo \<Rightarrow> string" where
  "device_key d = (if di_DeviceID d = [] then di_IPAddress d else di_DeviceID d)"

text \<open>What an entry of a devices directory holds: nothing, or the result of parsing its file.\<close>

definition entry_device :: "world \<Rightarrow> string \<Rightarrow> string \<times> bool \<Rightarrow> DeviceInfo result option" where
  "entry_device w devicesDir dev =
     (if \<not> snd dev then
        (if fst dev = DeviceInfoFile
         then Some (parseDeviceInfoFile w (filepath_Join [devicesDir, DeviceInfoFile])) else None)
      else Some (parseDeviceInfoFile w (filepath_Join [devicesDir, fst dev, DeviceInfoFile])))"

type_synonym listing = "DeviceInfo list \<times> string set" \<comment> \<open>the devices, and the keys seen\<close>

definition list_entry :: "world \<Rightarrow> string \<Rightarrow> listing \<Rightarrow> string \<times> bool \<Rightarrow> listing" where
  "list_entry w devicesDir st dev =
     (case entry_device w devicesDir dev of
        Some (Inr info) \<Rightarrow>
          if device_key info \<in> snd st then st
          else (fst st @ [info], insert (device_key info) (snd st))
      | _ \<Rightarrow> st)"

definition list_account :: "world \<Rightarrow> string \<Rightarrow> listing \<Rightarrow> string \<times> bool \<Rightarrow> listing" where
  "list_account w dir st acc =
     (if \<not> snd acc then st
      else let devicesDir = filepath_Join [dir, fst acc, DevicesDir] in
        (case os_ReadDir w devicesDir of
           Inl _ \<Rightarrow> st
         | Inr entries \<Rightarrow> foldl (list_entry w devicesDir) st entries))"

definition list_dir :: "world \<Rightarrow> listing \<Rightarrow> string \<Rightarrow> listing" where
  "list_dir w st dir = (case os_ReadDir w dir of
      Inl _ \<Rightarrow> st | Inr accounts \<Rightarrow> foldl (list_account w dir) st accounts)"

definition data_dirs :: "DataStore \<Rightarrow> world \<Rightarrow> string list" where
  "data_dirs ds w = (if os_exists w (DataDir ds) then [DataDir ds] else [])
     @ (if DataDir ds \<noteq> altDir \<and> os_exists w altDir then [altDir] else [])"

definition ListAllDevices :: "DataStore \<Rightarrow> world \<Rightarrow> DeviceInfo list result" where
  "ListAllDevices ds w = Inr (fst (foldl (list_dir w) ([], {}) (data_dirs ds w)))"

section \<open>Directories and ETags\<close>

definition Initialize :: "DataStore \<Rightarrow> world \<Rightarrow> unit result \<times> world" where
  "Initialize ds w =
     (case os_MkdirAll w (DataDir ds) of
        (Inl e, w1) \<Rightarrow> (Inl (Wrapped ''failed to create data directory: '' e), w1)
      | (Inr _, w1) \<Rightarrow>
          (case os_MkdirAll w1 (AccountDir ds ''default'') of
             (Inl e, w2) \<Rightarrow> (Inl (Wrapped ''failed to create default account directory: '' e), w2)
           | (Inr _, w2) \<Rightarrow>
               (case os_MkdirAll w2 (AccountDevicesDir ds ''default'') of
                  (Inl e, w3) \<Rightarrow> (Inl (Wrapped ''failed to create default devices directory: '' e), w3)
                | (Inr _, w3) \<Rightarrow> (Inr (), w3))))"

text \<open>The ETag of a file is its modification time in milliseconds, and 0 without the file.\<close>

definition etag_of_file :: "world \<Rightarrow> string \<Rightarrow> int" where
  "etag_of_file w path = (case os_Stat w path of Inl _ \<Rightarrow> 0 | Inr t \<Rightarrow> go_div t 1000000)"

definition GetETagForPresets :: "DataStore \<Rightarrow> world \<Rightarrow> string \<Rightarrow> int" where
  "GetETagForPresets ds w account = etag_of_file w (presets_path ds account)"

definition GetETagForSources :: "DataStore \<Rightarrow> world \<Rightarrow> string \<Rightarrow> int" where
  "GetETagForSources ds w account = etag_of_file w (sources_path ds account)"

definition GetETagForRecents :: "DataStore \<Rightarrow> world \<Rightarrow> string \<Rightarrow> int" where
  "GetETagForRecents ds w account = etag_of_file w (recents_path ds account)"

definition GetETagForAccount :: "DataStore \<Rightarrow> world \<Rightarrow> string \<Rightarrow> int" where
  "GetETagForAccount ds w account =
     (let e1 = GetETagForPresets ds w account;
          e2 = GetETagForSources ds w account;
          e3 = GetETagForRecents ds w account;
          m1 = e1;
          m2 = (if e2 > m1 then e2 else m1)
      in if e3 > m2 then e3 else m2)"

section \<open>Device events\<close>

definition AddDeviceEvent :: "DataStore \<Rightarrow> string \<Rightarrow> DeviceEvent \<Rightarrow> DataStore" where
  "AddDeviceEvent ds deviceID event =
     (let old = (case deviceEvents ds deviceID of None \<Rightarrow> [] | Some es \<Rightarrow> es);
          events = old @ [event];
          kept = (if length events > 100 then drop (length events - 100) events else events)
      in ds\<lparr>deviceEvents := (deviceEvents ds)(deviceID \<mapsto> kept)\<rparr>)"

definition GetDeviceEvents :: "DataStore \<Rightarrow> string \<Rightarrow> DeviceEvent list" where
  "GetDeviceEvents ds deviceID =
     (case deviceEvents ds deviceID of None \<Rightarrow> [] | Some events \<Rightarrow> events)"

end
