(* ===== verification/Ssh.thy ===== *)
theory Ssh
  imports Prelude
begin

text \<open>
  \<open>internal/ssh/ssh.go\<close>: the client that runs commands and uploads files on a speaker.  The package
  \<open>golang.org/x/crypto/ssh\<close> and the speaker behind it are a parameter, a function from the calls made
  so far (the last one included) to what the last call returns; so a call may be answered differently
  each time.  The state of an operation is the list of calls.  What reaches the speaker is the list of
  commands and inputs in it; the locale \<open>remote_shell\<close> states what the callers of the client rely on.
\<close>

section \<open>The client\<close>

record Client =
  Host :: string
  User :: string

datatype key_algo = KeyAlgoRSASHA256 | KeyAlgoRSASHA512 | KeyAlgoRSA | KeyAlgoDSA
  | KeyAlgoECDSA256 | KeyAlgoECDSA384 | KeyAlgoECDSA521 | KeyAlgoED25519

text \<open>The configuration: password authentication, no check of the host key, the time limit in
  nanoseconds, and the algorithms in order of preference.\<close>

record ClientConfig =
  cc_User :: string
  cc_Passwords :: "string list"
  cc_IgnoreHostKey :: bool
  cc_Timeout :: int
  cc_KeyExchanges :: "string list"
  cc_Ciphers :: "string list"
  cc_HostKeyAlgorithms :: "key_algo list"

datatype ssh_call =
    Dial string string ClientConfig
  | NewSession
  | CombinedOutput string
  | StdinPipe
  | StderrPipe
  | Start string
  | WriteInput string
  | CloseInput
  | Wait
  | ReadErrors
  | CloseSession
  | CloseClient

type_synonym ssh_history = "ssh_call list"

text \<open>The output of the call, where it has one, and its error.\<close>

type_synonym ssh_library = "ssh_history \<Rightarrow> string \<times> go_error option"

definition NewClient :: "string \<Rightarrow> Client" where
  "NewClient host = \<lparr>Host = host, User = ''root''\<rparr>"

definition getConfig :: "Client \<Rightarrow> ClientConfig" where
  "getConfig c = \<lparr>
     cc_User = User c,
     cc_Passwords = [[]],
     cc_IgnoreHostKey = True,
     cc_Timeout = 10 * 1000000000,
     cc_KeyExchanges = [''diffie-hellman-group1-sha1'', ''diffie-hellman-group14-sha1'', ''ecdh-sha2-nistp256'',
       ''ecdh-sha2-nistp384'', ''ecdh-sha2-nistp521'', ''curve25519-sha256@libssh.org''],
     cc_Ciphers = [''aes128-ctr'', ''aes192-ctr'', ''aes256-ctr'', ''aes128-cbc'', ''3des-cbc'',
       ''aes128-gcm@openssh.com'', ''arcfour256'', ''arcfour128''],
     cc_HostKeyAlgorithms = [KeyAlgoRSASHA256, KeyAlgoRSASHA512, KeyAlgoRSA, KeyAlgoDSA, KeyAlgoECDSA256,
       KeyAlgoECDSA384, KeyAlgoECDSA521, KeyAlgoED25519]\<rparr>"

definition ssh_call :: "ssh_library \<Rightarrow> ssh_call \<Rightarrow> ssh_history \<Rightarrow> (string \<times> go_error option) \<times> ssh_history" where
  "ssh_call lib c h = (lib (h @ [c]), h @ [c])"

text \<open>Both operations open a connection and a session, run their body in it, and close what was opened.\<close>

definition with_session ::
  "ssh_library \<Rightarrow> Client \<Rightarrow> (go_error \<Rightarrow> 'a) \<Rightarrow> (ssh_history \<Rightarrow> 'a \<times> ssh_history) \<Rightarrow> ssh_history \<Rightarrow> 'a \<times> ssh_history" where
  "with_session lib c fail body h =
     (case ssh_call lib (Dial ''tcp'' (Host c @ '':22'') (getConfig c)) h of
        ((_, Some err), h1) \<Rightarrow> (fail (Wrapped ''failed to dial: '' err), h1)
      | ((_, None), h1) \<Rightarrow>
          (case ssh_call lib NewSession h1 of
             ((_, Some err), h2) \<Rightarrow> (fail (Wrapped ''failed to create session: '' err), h2 @ [CloseClient])
           | ((_, None), h2) \<Rightarrow> (case body h2 of (r, h3) \<Rightarrow> (r, h3 @ [CloseSession, CloseClient]))))"

definition ssh_Run :: "ssh_library \<Rightarrow> Client \<Rightarrow> string \<Rightarrow> ssh_history \<Rightarrow> (string \<times> go_error option) \<times> ssh_history" where
  "ssh_Run lib c command = with_session lib c (\<lambda>e. ([], Some e)) (ssh_call lib (CombinedOutput command))"

definition write_cmd :: "string \<Rightarrow> string" where "write_cmd path = ''cat > '' @ path"

text \<open>
  The errors of the remote command are copied concurrently; \<open>ReadErrors\<close> stands for what has arrived
  when \<open>Wait\<close> has reported a failure.
\<close>

definition upload_body :: "ssh_library \<Rightarrow> string \<Rightarrow> string \<Rightarrow> ssh_history \<Rightarrow> go_error option \<times> ssh_history" where
  "upload_body lib content remotePath h =
     (case ssh_call lib StdinPipe h of
        ((_, Some err), h1) \<Rightarrow> (Some (Wrapped ''failed to get stdin pipe: '' err), h1)
      | ((_, None), h1) \<Rightarrow>
     (case ssh_call lib StderrPipe h1 of
        ((_, Some err), h2) \<Rightarrow> (Some (Wrapped ''failed to get stderr pipe: '' err), h2)
      | ((_, None), h2) \<Rightarrow>
     (case ssh_call lib (Start (write_cmd remotePath)) h2 of
        ((_, Some err), h3) \<Rightarrow> (Some (Wrapped ''failed to start upload command: '' err), h3)
      | ((_, None), h3) \<Rightarrow>
     (case ssh_call lib (WriteInput content) h3 of
        ((_, Some err), h4) \<Rightarrow> (Some (Wrapped ''failed to write content to stdin: '' err), h4 @ [CloseInput])
      | ((_, None), h4) \<Rightarrow>
     (case ssh_call lib Wait (h4 @ [CloseInput]) of
        ((_, None), h5) \<Rightarrow> (None, h5)
      | ((_, Some err), h5) \<Rightarrow>
          (case ssh_call lib ReadErrors h5 of
             ((errors, _), h6) \<Rightarrow> (Some (WrappedIn ''failed to finish upload: '' err ('' (stderr: '' @ errors @ '')'')), h6)))))))"

definition ssh_UploadContent ::
  "ssh_library \<Rightarrow> Client \<Rightarrow> string \<Rightarrow> string \<Rightarrow> ssh_history \<Rightarrow> go_error option \<times> ssh_history" where
  "ssh_UploadContent lib c content remotePath = with_session lib c Some (upload_body lib content remotePath)"

section \<open>What reaches the speaker\<close>

datatype remote_op = Exec string | Input string

fun reaches :: "ssh_call \<Rightarrow> remote_op list" where
  "reaches (CombinedOutput c) = [Exec c]"
| "reaches (Start c) = [Exec c]"
| "reaches (WriteInput t) = [Input t]"
| "reaches _ = []"

definition remote_log :: "ssh_history \<Rightarrow> remote_op list" where
  "remote_log h = concat (map reaches h)"

lemma remote_log_simps [simp]:
  "remote_log [] = []" "remote_log (c # h) = reaches c @ remote_log h"
  "remote_log (h @ h') = remote_log h @ remote_log h'"
  by (simp_all add: remote_log_def)

text \<open>The two commands of a successful upload, and what is left of them when it fails.\<close>

definition upload_ops :: "string \<Rightarrow> string \<Rightarrow> remote_op list" where
  "upload_ops content path = [Exec (write_cmd path), Input content]"

text \<open>
  The interface between the client and its callers: a command or an upload that reports success has
  reached the speaker exactly once; one that reports an error may have reached it, as a whole or, for
  an upload, in part; and nothing else reaches it.
\<close>

locale remote_shell =
  fixes run :: "string \<Rightarrow> 'h \<Rightarrow> (string \<times> go_error option) \<times> 'h"
    and upload :: "string \<Rightarrow> string \<Rightarrow> 'h \<Rightarrow> go_error option \<times> 'h"
    and log :: "'h \<Rightarrow> remote_op list"
  assumes run_log: "run c h = (r, h') \<Longrightarrow>
      log h' = log h @ [Exec c] \<or> (log h' = log h \<and> snd r \<noteq> None \<and> fst r = [])"
    and upload_log: "upload t p h = (e, h') \<Longrightarrow>
      log h' = log h @ upload_ops t p \<or> (e \<noteq> None \<and> log h' \<in> {log h, log h @ [Exec (write_cmd p)]})"
begin

lemma run_ok: "run c h = ((out, None), h') \<Longrightarrow> log h' = log h @ [Exec c]"
  using run_log by fastforce

lemma run_sends: "run c h = (r, h') \<Longrightarrow> \<exists>new. log h' = log h @ new \<and> set new \<subseteq> {Exec c}"
  using run_log [of c h r h'] by auto

lemma upload_ok: "upload t p h = (None, h') \<Longrightarrow> log h' = log h @ upload_ops t p"
  using upload_log by fastforce

lemma upload_sends:
  "upload t p h = (e, h') \<Longrightarrow> \<exists>new. log h' = log h @ new \<and> set new \<subseteq> {Exec (write_cmd p), Input t}"
  using upload_log [of t p h e h'] by (auto simp: upload_ops_def)

end

lemma with_session_cases:
  assumes "with_session lib c fail body h = (r, h')"
  obtains (closed) e where "r = fail e" "remote_log h' = remote_log h"
  | (opened) h2 h3 where "body h2 = (r, h3)" "remote_log h2 = remote_log h" "remote_log h' = remote_log h3"
  using assms by (auto simp: with_session_def ssh_call_def split: prod.splits option.splits)

interpretation ssh: remote_shell "ssh_Run lib c" "ssh_UploadContent lib c" remote_log for lib c
proof unfold_locales
  fix cmd h r h'
  assume "ssh_Run lib c cmd h = (r, h')"
  then show "remote_log h' = remote_log h @ [Exec cmd] \<or> (remote_log h' = remote_log h \<and> snd r \<noteq> None \<and> fst r = [])"
    unfolding ssh_Run_def by (cases rule: with_session_cases) (auto simp: ssh_call_def)
next
  fix t p h e h'
  assume "ssh_UploadContent lib c t p h = (e, h')"
  then show "remote_log h' = remote_log h @ upload_ops t p
      \<or> (e \<noteq> None \<and> remote_log h' \<in> {remote_log h, remote_log h @ [Exec (write_cmd p)]})"
    unfolding ssh_UploadContent_def
  proof (cases rule: with_session_cases)
    case (opened h2 h3)
    then show ?thesis
      by (auto simp: upload_body_def ssh_call_def upload_ops_def split: prod.splits option.splits)
  qed simp
qed

end
