(* ===== verification/Go_Text.thy ===== *)
theory Go_Text
  imports Go_UTF8
begin

text \<open>
  More of Go's packages \<open>strings\<close> and \<open>strconv\<close>, on texts that need not be ASCII: trimming of white
  space, case-insensitive comparison with an ASCII text, replacement, and the values of type \<open>bool\<close>.
\<close>

section \<open>White space\<close>

text \<open>The runes of \<open>unicode.IsSpace\<close> in UTF-8: U+0009 to U+000D, U+0020, U+0085, U+00A0, U+1680,
  U+2000 to U+200A, U+2028, U+2029, U+202F, U+205F and U+3000.\<close>

definition space_texts :: "string list" where
  "space_texts = map (\<lambda>c. [c]) [CHR 0x20, CHR 0x0A, CHR 0x09, CHR 0x0D, CHR 0x0B, CHR 0x0C]
     @ [[CHR 0xC2, CHR 0x85], [CHR 0xC2, CHR 0xA0], [CHR 0xE1, CHR 0x9A, CHR 0x80]]
     @ map (\<lambda>c. [CHR 0xE2, CHR 0x80, c])
         [CHR 0x80, CHR 0x81, CHR 0x82, CHR 0x83, CHR 0x84, CHR 0x85, CHR 0x86, CHR 0x87, CHR 0x88, CHR 0x89,
          CHR 0x8A, CHR 0xA8, CHR 0xA9, CHR 0xAF]
     @ [[CHR 0xE2, CHR 0x81, CHR 0x9F], [CHR 0xE3, CHR 0x80, CHR 0x80]]"

function trim_texts :: "string list \<Rightarrow> string \<Rightarrow> string" where
  "trim_texts ts s = (case find_first (\<lambda>t. t \<noteq> [] \<and> strings_HasPrefix s t) ts of
      None \<Rightarrow> s | Some t \<Rightarrow> trim_texts ts (drop (length t) s))"
  by pat_completeness auto
termination
proof (relation "measure (length \<circ> snd)", goal_cases)
  case (2 ts s t)
  from find_first_Some [OF 2] have "t \<noteq> []" "take (length t) s = t" by (auto simp: strings_HasPrefix_def)
  then have "s \<noteq> []" "0 < length t" by auto
  then show ?case by simp
qed simp

declare trim_texts.simps [simp del]

text \<open>\<open>strings.TrimSpace\<close>: at the end the encodings are compared from the back.\<close>

definition strings_TrimSpace :: "string \<Rightarrow> string" where
  "strings_TrimSpace s = rev (trim_texts (map rev space_texts) (rev (trim_texts space_texts s)))"

definition no_space_ends :: "string \<Rightarrow> bool" where
  "no_space_ends s \<longleftrightarrow> (\<forall>t \<in> set space_texts. \<not> strings_HasPrefix s t \<and> \<not> strings_HasPrefix (rev s) (rev t))"

lemma trim_texts_stop: "(\<And>t. t \<in> set ts \<Longrightarrow> t \<noteq> [] \<Longrightarrow> \<not> strings_HasPrefix s t) \<Longrightarrow> trim_texts ts s = s"
  by (subst trim_texts.simps) (auto split: option.splits dest: find_first_Some)

lemma TrimSpace_id: "no_space_ends s \<Longrightarrow> strings_TrimSpace s = s"
proof -
  assume h: "no_space_ends s"
  then have a: "trim_texts space_texts s = s" by (intro trim_texts_stop) (auto simp: no_space_ends_def)
  from h have "trim_texts (map rev space_texts) (rev s) = rev s"
    by (intro trim_texts_stop) (auto simp: no_space_ends_def)
  with a show ?thesis by (simp add: strings_TrimSpace_def)
qed

lemma trim_texts_suffix: "\<exists>p. s = p @ trim_texts ts s"
proof (induction ts s rule: trim_texts.induct)
  case (1 ts s)
  show ?case
  proof (cases "find_first (\<lambda>t. t \<noteq> [] \<and> strings_HasPrefix s t) ts")
    case (Some t)
    from 1 [OF Some] obtain p where p: "drop (length t) s = p @ trim_texts ts (drop (length t) s)" by blast
    have "trim_texts ts s = trim_texts ts (drop (length t) s)"
      by (subst trim_texts.simps) (simp add: Some)
    with p have "s = (take (length t) s @ p) @ trim_texts ts s"
      by (metis append.assoc append_take_drop_id)
    then show ?thesis by blast
  qed (simp add: trim_texts.simps)
qed

section \<open>Comparison without case\<close>

definition lower_byte :: "char \<Rightarrow> char" where
  "lower_byte c = (if 65 \<le> byte c \<and> byte c \<le> 90 then char_of (byte c + 32) else c)"

text \<open>
  \<open>strings.EqualFold(a, s)\<close> for an ASCII text \<open>a\<close>: apart from the other case of a letter, \<open>k\<close> also
  equals the Kelvin sign and \<open>s\<close> the long \<open>s\<close>.
\<close>

definition fold_rune :: "nat \<Rightarrow> nat" where
  "fold_rune r = (if 65 \<le> r \<and> r \<le> 90 then r + 32 else if r = 0x212A then 107 else if r = 0x17F then 115 else r)"

function EqualFold_ascii :: "string \<Rightarrow> string \<Rightarrow> bool" where
  "EqualFold_ascii [] t \<longleftrightarrow> t = []"
| "EqualFold_ascii (a # as) [] \<longleftrightarrow> False"
| "EqualFold_ascii (a # as) (c # cs) \<longleftrightarrow>
     (let (r, n) = utf8_DecodeRune (c # cs) in
      fold_rune r = byte (lower_byte a) \<and> EqualFold_ascii as (drop n (c # cs)))"
  by pat_completeness auto
termination by (relation "measure (length \<circ> fst)") auto

text \<open>The ASCII letters of a text in lower case.  (\<open>strings.ToLower\<close> makes no other rune one of the
  letters of \<open>xml\<close>, \<open>json\<close> and \<open>text\<close>, which is what the program searches for.)\<close>

definition lower_ascii :: "string \<Rightarrow> string" where
  "lower_ascii s = map lower_byte s"

lemma EqualFold_lower:
  assumes "list_all (\<lambda>c. byte c < 128) s"
  shows "EqualFold_ascii a s \<longleftrightarrow> lower_ascii a = lower_ascii s"
  using assms unfolding lower_ascii_def
proof (induction a s rule: EqualFold_ascii.induct)
  case (3 a as c cs)
  then have c: "byte c < 128" by simp
  then have d: "utf8_DecodeRune (c # cs) = (byte c, 1)" by (simp add: decode_lead_def)
  have "fold_rune (byte c) = byte (lower_byte c)"
    using c by (simp add: fold_rune_def lower_byte_def)
  with 3 d show ?case by auto
qed auto

declare EqualFold_ascii.simps [simp del]

section \<open>Booleans\<close>

definition strconv_ParseBool :: "string \<Rightarrow> bool option" where
  "strconv_ParseBool s =
     (if s \<in> {''1'', ''t'', ''T'', ''TRUE'', ''true'', ''True''} then Some True
      else if s \<in> {''0'', ''f'', ''F'', ''FALSE'', ''false'', ''False''} then Some False else None)"

definition strconv_FormatBool :: "bool \<Rightarrow> string" where
  "strconv_FormatBool b = (if b then ''true'' else ''false'')"

lemma no_space_ends_bool: "no_space_ends (strconv_FormatBool b)"
proof -
  have "no_space_ends ''true''" "no_space_ends ''false''"
    by (simp_all add: no_space_ends_def space_texts_def strings_HasPrefix_def)
  then show ?thesis by (simp add: strconv_FormatBool_def)
qed

lemma ParseBool_FormatBool [simp]: "strconv_ParseBool (strings_TrimSpace (strconv_FormatBool b)) = Some b"
  using TrimSpace_id [OF no_space_ends_bool, of b] by (simp add: strconv_ParseBool_def strconv_FormatBool_def)

section \<open>Replacement\<close>

text \<open>\<open>strings.ReplaceAll\<close> of a text that is not empty.\<close>

function strings_ReplaceAll :: "string \<Rightarrow> string \<Rightarrow> string \<Rightarrow> string" where
  "strings_ReplaceAll old new [] = []"
| "strings_ReplaceAll old new (c # cs) =
     (if old \<noteq> [] \<and> strings_HasPrefix (c # cs) old
      then new @ strings_ReplaceAll old new (drop (length old) (c # cs))
      else c # strings_ReplaceAll old new cs)"
  by pat_completeness auto
termination by (relation "measure (\<lambda>(old, new, s). length s)") (auto simp: neq_Nil_conv)

end
