(* ===== verification/Setup.thy ===== *)
theory Setup
  imports Datastore Ssh Go_Text
begin

text \<open>
  \<open>internal/setup/setup.go\<close>: reading a speaker's live information, and planning and performing its
  migration to this service.  The operations on the speaker take the two operations of the ssh client as
  \<open>run\<close> and \<open>upload\<close> (they are called on a client for the speaker's address) and thread the history of
  calls; what is printed on the console is left out.  \<open>get\<close> is what fetching a URL gives.
\<close>

definition SoundTouchSdkPrivateCfgPath :: string where
  "SoundTouchSdkPrivateCfgPath = ''/opt/Bose/etc/SoundTouchSdkPrivateCfg.xml''"

record PrivateCfg =
  pc_MargeServerUrl :: string
  pc_StatsServerUrl :: string
  pc_SwUpdateUrl :: string
  pc_UsePandoraProductionServer :: bool
  pc_IsZeroconfEnabled :: bool
  pc_SaveMargeCustomerReport :: bool
  pc_BmxRegistryUrl :: string

record MigrationSummary =
  ms_SSHSuccess :: bool
  ms_CurrentConfig :: string
  ms_PlannedConfig :: string
  ms_OriginalConfig :: string
  ms_ParsedCurrentConfig :: "PrivateCfg option"
  ms_RemoteServicesEnabled :: bool
  ms_RemoteServicesPersistent :: bool
  ms_RemoteServicesFound :: "string list"
  ms_RemoteServicesCheckErr :: string
  ms_DeviceName :: string
  ms_DeviceModel :: string
  ms_DeviceSerial :: string
  ms_FirmwareVersion :: string

record Manager =
  mg_ServerURL :: string
  mg_DataStore :: "DataStore option"

definition NewManager :: "string \<Rightarrow> DataStore option \<Rightarrow> Manager" where
  "NewManager serverURL ds = \<lparr>mg_ServerURL = serverURL, mg_DataStore = ds\<rparr>"

section \<open>Live information\<close>

record DeviceInfoXML =
  lx_DeviceID :: string
  lx_Name :: string
  lx_Type :: string
  lx_MaccAddress :: string
  lx_SoftwareVer :: string
  lx_SerialNumber :: string
  lx_Components :: "component_xml list"

definition live_child :: "string \<Rightarrow> xattrs \<Rightarrow> xml list \<Rightarrow> DeviceInfoXML \<Rightarrow> DeviceInfoXML" where
  "live_child l as cs x =
     (if l = ''name'' then x\<lparr>lx_Name := chardata cs\<rparr>
      else if l = ''type'' then x\<lparr>lx_Type := chardata cs\<rparr>
      else if l = ''maccAddress'' then x\<lparr>lx_MaccAddress := chardata cs\<rparr>
      else if l = ''components'' then
        x\<lparr>lx_Components := fold_children
           (\<lambda>l as cs ys. if l = ''component'' then ys @ [decode_component cs] else ys) cs (lx_Components x)\<rparr>
      else x)"

definition decode_live :: "xattrs \<Rightarrow> xml list \<Rightarrow> DeviceInfoXML" where
  "decode_live as cs = fold_children live_child cs
     \<lparr>lx_DeviceID = attr_into ''deviceID'' as [], lx_Name = [], lx_Type = [], lx_MaccAddress = [],
      lx_SoftwareVer = [], lx_SerialNumber = [], lx_Components = []\<rparr>"

text \<open>Whether \<open>net.SplitHostPort\<close> finds a host and a port.\<close>

definition has_port :: "string \<Rightarrow> bool" where
  "has_port s \<longleftrightarrow> CHR '':'' \<in> set s \<and>
     (let i = length s - 1 - length (takeWhile (\<lambda>c. c \<noteq> CHR '':'') (rev s)) in
      if hd s = CHR ''['' then
        (let e = length (takeWhile (\<lambda>c. c \<noteq> CHR '']'') s) in
         CHR '']'' \<in> set s \<and> e + 1 = i \<and> CHR ''['' \<notin> set (drop 1 s) \<and> CHR '']'' \<notin> set (drop (e + 1) s))
      else CHR '':'' \<notin> set (take i s) \<and> CHR ''['' \<notin> set s \<and> CHR '']'' \<notin> set s)"

definition info_url :: "string \<Rightarrow> string" where
  "info_url deviceIP =
     (if has_port deviceIP then ''http://'' @ deviceIP @ ''/info'' else ''http://'' @ deviceIP @ '':8090/info'')"

definition live_component :: "DeviceInfoXML \<Rightarrow> component_xml \<Rightarrow> DeviceInfoXML" where
  "live_component x c =
     (let serial = (if lx_SerialNumber x = [] then co_SerialNumber c else lx_SerialNumber x) in
      if co_Category c = ''SCM'' then x\<lparr>lx_SoftwareVer := co_SoftwareVersion c, lx_SerialNumber := serial\<rparr>
      else if co_Category c = ''PackagedProduct'' then x\<lparr>lx_SerialNumber := serial\<rparr>
      else x)"

definition GetLiveDeviceInfo :: "(string \<Rightarrow> string result) \<Rightarrow> string \<Rightarrow> DeviceInfoXML result" where
  "GetLiveDeviceInfo get deviceIP =
     (let infoURL = info_url deviceIP in
      case get infoURL of
        Inl e \<Rightarrow> Inl (Wrapped (''failed to fetch info from '' @ infoURL @ '': '') e)
      | Inr body \<Rightarrow>
          (case xml_Unmarshal (Some ''info'') decode_live body of
             Inl e \<Rightarrow> Inl (Wrapped (''failed to decode info XML from '' @ infoURL @ '': '') e)
           | Inr infoXML \<Rightarrow> Inr (foldl live_component infoXML (lx_Components infoXML))))"

section \<open>The speaker's configuration\<close>

definition zero_cfg :: PrivateCfg where
  "zero_cfg = \<lparr>pc_MargeServerUrl = [], pc_StatsServerUrl = [], pc_SwUpdateUrl = [],
     pc_UsePandoraProductionServer = False, pc_IsZeroconfEnabled = False, pc_SaveMargeCustomerReport = False,
     pc_BmxRegistryUrl = []\<rparr>"

text \<open>A field of type \<open>bool\<close>: an empty element is false, any other text must be a boolean.\<close>

definition bool_field :: "(bool \<Rightarrow> PrivateCfg) \<Rightarrow> string \<Rightarrow> PrivateCfg option" where
  "bool_field upd s = (if s = [] then Some (upd False) else map_option upd (strconv_ParseBool (strings_TrimSpace s)))"

definition cfg_child :: "string \<Rightarrow> xattrs \<Rightarrow> xml list \<Rightarrow> PrivateCfg option \<Rightarrow> PrivateCfg option" where
  "cfg_child l as cs r = (case r of None \<Rightarrow> None | Some c \<Rightarrow>
     (if l = ''margeServerUrl'' then Some (c\<lparr>pc_MargeServerUrl := chardata cs\<rparr>)
      else if l = ''statsServerUrl'' then Some (c\<lparr>pc_StatsServerUrl := chardata cs\<rparr>)
      else if l = ''swUpdateUrl'' then Some (c\<lparr>pc_SwUpdateUrl := chardata cs\<rparr>)
      else if l = ''usePandoraProductionServer'' then
        bool_field (\<lambda>b. c\<lparr>pc_UsePandoraProductionServer := b\<rparr>) (chardata cs)
      else if l = ''isZeroconfEnabled'' then bool_field (\<lambda>b. c\<lparr>pc_IsZeroconfEnabled := b\<rparr>) (chardata cs)
      else if l = ''saveMargeCustomerReport'' then
        bool_field (\<lambda>b. c\<lparr>pc_SaveMargeCustomerReport := b\<rparr>) (chardata cs)
      else if l = ''bmxRegistryUrl'' then Some (c\<lparr>pc_BmxRegistryUrl := chardata cs\<rparr>)
      else Some c))"

text \<open>The program only asks whether decoding succeeded.\<close>

definition decode_cfg :: "string \<Rightarrow> PrivateCfg option" where
  "decode_cfg data =
     (case xml_Unmarshal (Some ''SoundTouchSdkPrivateCfg'')
             (\<lambda>as cs. fold_children cfg_child cs (Some zero_cfg)) data of
        Inl _ \<Rightarrow> None | Inr r \<Rightarrow> r)"

definition encode_cfg :: "PrivateCfg \<Rightarrow> mtree" where
  "encode_cfg c = MElems ''SoundTouchSdkPrivateCfg'' []
     [MText ''margeServerUrl'' [] (pc_MargeServerUrl c),
      MText ''statsServerUrl'' [] (pc_StatsServerUrl c),
      MText ''swUpdateUrl'' [] (pc_SwUpdateUrl c),
      MText ''usePandoraProductionServer'' [] (strconv_FormatBool (pc_UsePandoraProductionServer c)),
      MText ''isZeroconfEnabled'' [] (strconv_FormatBool (pc_IsZeroconfEnabled c)),
      MText ''saveMargeCustomerReport'' [] (strconv_FormatBool (pc_SaveMargeCustomerReport c)),
      MText ''bmxRegistryUrl'' [] (pc_BmxRegistryUrl c)]"

definition config_document :: "PrivateCfg \<Rightarrow> string" where
  "config_document c = xml_decl ''utf-8'' @ xml_MarshalIndent (replicate 2 CHR 0x20) (encode_cfg c)"

definition planned_cfg :: "string \<Rightarrow> PrivateCfg" where
  "planned_cfg targetURL = \<lparr>
     pc_MargeServerUrl = targetURL @ ''/marge'',
     pc_StatsServerUrl = targetURL,
     pc_SwUpdateUrl = targetURL @ ''/updates/soundtouch'',
     pc_UsePandoraProductionServer = True,
     pc_IsZeroconfEnabled = True,
     pc_SaveMargeCustomerReport = False,
     pc_BmxRegistryUrl = targetURL @ ''/bmx/registry/v1/services''\<rparr>"

text \<open>A nil map of options is \<open>None\<close>; a missing key of a Go map reads as the empty text.\<close>

type_synonym options = "(string \<Rightarrow> string option) option"

definition map_get :: "(string \<Rightarrow> string option) \<Rightarrow> string \<Rightarrow> string" where
  "map_get m k = (case m k of None \<Rightarrow> [] | Some v \<Rightarrow> v)"

definition proxied :: "string \<Rightarrow> string \<Rightarrow> string" where
  "proxied proxyURL url = proxyURL @ ''/proxy/'' @ url"

definition apply_options :: "string \<Rightarrow> options \<Rightarrow> PrivateCfg \<Rightarrow> PrivateCfg \<Rightarrow> PrivateCfg" where
  "apply_options proxyURL options currentCfg cfg =
     (let all = cfg\<lparr>pc_MargeServerUrl := proxied proxyURL (pc_MargeServerUrl currentCfg),
            pc_StatsServerUrl := proxied proxyURL (pc_StatsServerUrl currentCfg),
            pc_SwUpdateUrl := proxied proxyURL (pc_SwUpdateUrl currentCfg),
            pc_BmxRegistryUrl := proxied proxyURL (pc_BmxRegistryUrl currentCfg)\<rparr>
      in case options of
        Some ops \<Rightarrow> cfg\<lparr>
          pc_MargeServerUrl := (if map_get ops ''marge'' = ''original'' then pc_MargeServerUrl all else pc_MargeServerUrl cfg),
          pc_StatsServerUrl := (if map_get ops ''stats'' = ''original'' then pc_StatsServerUrl all else pc_StatsServerUrl cfg),
          pc_SwUpdateUrl := (if map_get ops ''sw_update'' = ''original'' then pc_SwUpdateUrl all else pc_SwUpdateUrl cfg),
          pc_BmxRegistryUrl := (if map_get ops ''bmx'' = ''original'' then pc_BmxRegistryUrl all else pc_BmxRegistryUrl cfg)\<rparr>
      | None \<Rightarrow> if proxyURL \<noteq> [] then all else cfg)"

text \<open>The configuration for a speaker whose current one was read as given (output and error of \<open>cat\<close>).\<close>

definition migration_cfg :: "string \<Rightarrow> string \<Rightarrow> options \<Rightarrow> string \<times> go_error option \<Rightarrow> PrivateCfg" where
  "migration_cfg targetURL proxyURL options current =
     (let cfg = planned_cfg targetURL in
      if snd current = None \<and> fst current \<noteq> [] then
        (case decode_cfg (fst current) of
           None \<Rightarrow> cfg
         | Some currentCfg \<Rightarrow>
             apply_options (if proxyURL = [] then targetURL else proxyURL) options currentCfg cfg)
      else cfg)"

section \<open>Operations on the speaker\<close>

type_synonym 'h run = "string \<Rightarrow> 'h \<Rightarrow> (string \<times> go_error option) \<times> 'h"
type_synonym 'h upload = "string \<Rightarrow> string \<Rightarrow> 'h \<Rightarrow> go_error option \<times> 'h"

definition rwCmd :: string where "rwCmd = ''(rw || mount -o remount,rw /)''"

definition original_path :: string where "original_path = SoundTouchSdkPrivateCfgPath @ ''.original''"

definition cat_cmd :: "string \<Rightarrow> string" where "cat_cmd path = ''cat '' @ path"
definition test_original :: string where "test_original = ''[ -f '' @ original_path @ '' ]''"
definition copy_original :: string where
  "copy_original = rwCmd @ '' && cp '' @ SoundTouchSdkPrivateCfgPath @ '' '' @ original_path"

definition locations :: "string list" where
  "locations = [''/etc/remote_services'', ''/mnt/nv/remote_services'', ''/tmp/remote_services'']"

fun ensure_loop :: "'h run \<Rightarrow> string list \<Rightarrow> 'h \<Rightarrow> unit result \<times> 'h" where
  "ensure_loop run [] h =
     (Inl (Errorf ''failed to enable remote services in any of the locations: [/etc/remote_services /mnt/nv/remote_services /tmp/remote_services]''), h)"
| "ensure_loop run (loc # locs) h =
     (case run (rwCmd @ '' && touch '' @ loc) h of
        ((_, None), h1) \<Rightarrow> (Inr (), h1)
      | ((_, Some _), h1) \<Rightarrow>
          (case run (''touch '' @ loc) h1 of
             ((_, None), h2) \<Rightarrow> (Inr (), h2)
           | ((_, Some _), h2) \<Rightarrow> ensure_loop run locs h2))"

definition ensure_services :: "'h run \<Rightarrow> 'h \<Rightarrow> unit result \<times> 'h" where
  "ensure_services run = ensure_loop run locations"

definition EnsureRemoteServices :: "ssh_library \<Rightarrow> string \<Rightarrow> ssh_history \<Rightarrow> unit result \<times> ssh_history" where
  "EnsureRemoteServices lib deviceIP = ensure_services (ssh_Run lib (NewClient deviceIP))"

text \<open>The backup step of a migration: its failures are only printed.\<close>

definition backup_original :: "'h run \<Rightarrow> 'h upload \<Rightarrow> 'h \<Rightarrow> 'h" where
  "backup_original run upload h =
     (case run test_original h of
        ((_, None), h1) \<Rightarrow> h1
      | ((_, Some _), h1) \<Rightarrow>
          (case run copy_original h1 of
             ((_, None), h2) \<Rightarrow> h2
           | ((_, Some _), h2) \<Rightarrow>
               (case run (cat_cmd SoundTouchSdkPrivateCfgPath) h2 of
                  ((config, None), h3) \<Rightarrow>
                    if config \<noteq> [] then snd (upload config original_path h3) else h3
                | ((_, Some _), h3) \<Rightarrow> h3)))"

definition reboot_cmd :: string where "reboot_cmd = rwCmd @ '' && reboot''"

definition migrate ::
  "'h run \<Rightarrow> 'h upload \<Rightarrow> string \<Rightarrow> string \<Rightarrow> options \<Rightarrow> 'h \<Rightarrow> unit result \<times> 'h" where
  "migrate run upload targetURL proxyURL options h =
     (let (_, h1) = ensure_services run h;
          (current, h2) = run (cat_cmd SoundTouchSdkPrivateCfgPath) h1;
          xmlContent = config_document (migration_cfg targetURL proxyURL options current);
          h3 = backup_original run upload h2;
          (_, h4) = run rwCmd h3
      in case upload xmlContent SoundTouchSdkPrivateCfgPath h4 of
           (Some e, h5) \<Rightarrow> (Inl (Wrapped ''failed to upload config: '' e), h5)
         | (None, h5) \<Rightarrow>
             (case run reboot_cmd h5 of
                ((_, Some e), h6) \<Rightarrow> (Inl (Wrapped ''failed to reboot speaker: '' e), h6)
              | ((_, None), h6) \<Rightarrow> (Inr (), h6)))"

definition target_url :: "Manager \<Rightarrow> string \<Rightarrow> string" where
  "target_url m targetURL = (if targetURL = [] then mg_ServerURL m else targetURL)"

definition MigrateSpeaker ::
  "ssh_library \<Rightarrow> Manager \<Rightarrow> string \<Rightarrow> string \<Rightarrow> string \<Rightarrow> options \<Rightarrow> ssh_history \<Rightarrow> unit result \<times> ssh_history" where
  "MigrateSpeaker lib m deviceIP targetURL proxyURL options =
     migrate (ssh_Run lib (NewClient deviceIP)) (ssh_UploadContent lib (NewClient deviceIP))
       (target_url m targetURL) proxyURL options"

definition backup :: "'h run \<Rightarrow> 'h upload \<Rightarrow> 'h \<Rightarrow> unit result \<times> 'h" where
  "backup run upload h =
     (case run test_original h of
        ((_, None), h1) \<Rightarrow> (Inl (Errorf (''backup already exists at '' @ original_path)), h1)
      | ((_, Some _), h1) \<Rightarrow>
     (case run copy_original h1 of
        ((_, None), h2) \<Rightarrow> (Inr (), h2)
      | ((_, Some _), h2) \<Rightarrow>
     (case run (cat_cmd SoundTouchSdkPrivateCfgPath) h2 of
        ((_, Some e), h3) \<Rightarrow> (Inl (Wrapped ''failed to read current config: '' e), h3)
      | ((config, None), h3) \<Rightarrow>
          if config = [] then (Inl (Errorf ''failed to read current config: <nil>''), h3)
          else let (_, h4) = run rwCmd h3 in
            (case upload config original_path h4 of
               (Some e, h5) \<Rightarrow> (Inl (Wrapped ''failed to upload backup config: '' e), h5)
             | (None, h5) \<Rightarrow> (Inr (), h5)))))"

definition BackupConfig :: "ssh_library \<Rightarrow> string \<Rightarrow> ssh_history \<Rightarrow> unit result \<times> ssh_history" where
  "BackupConfig lib deviceIP =
     backup (ssh_Run lib (NewClient deviceIP)) (ssh_UploadContent lib (NewClient deviceIP))"

section \<open>The summary of a migration\<close>

definition zero_summary :: MigrationSummary where
  "zero_summary = \<lparr>ms_SSHSuccess = False, ms_CurrentConfig = [], ms_PlannedConfig = [], ms_OriginalConfig = [],
     ms_ParsedCurrentConfig = None, ms_RemoteServicesEnabled = False, ms_RemoteServicesPersistent = False,
     ms_RemoteServicesFound = [], ms_RemoteServicesCheckErr = [], ms_DeviceName = [], ms_DeviceModel = [],
     ms_DeviceSerial = [], ms_FirmwareVersion = []\<rparr>"

text \<open>The first known device at the address, then what the speaker itself says, where it says something.\<close>

definition summary_from_store :: "DataStore option \<Rightarrow> world \<Rightarrow> string \<Rightarrow> MigrationSummary \<Rightarrow> MigrationSummary" where
  "summary_from_store ds w deviceIP s =
     (case ds of None \<Rightarrow> s | Some ds \<Rightarrow>
     (case ListAllDevices ds w of Inl _ \<Rightarrow> s | Inr devices \<Rightarrow>
     (case find_first (\<lambda>d. di_IPAddress d = deviceIP) devices of None \<Rightarrow> s | Some d \<Rightarrow>
        s\<lparr>ms_DeviceName := di_Name d, ms_DeviceModel := di_ProductCode d,
          ms_DeviceSerial := di_DeviceSerialNumber d, ms_FirmwareVersion := di_FirmwareVersion d\<rparr>)))"

definition override :: "string \<Rightarrow> string \<Rightarrow> string" where
  "override new old = (if new \<noteq> [] then new else old)"

definition summary_from_live :: "DeviceInfoXML result \<Rightarrow> MigrationSummary \<Rightarrow> MigrationSummary" where
  "summary_from_live r s = (case r of Inl _ \<Rightarrow> s | Inr x \<Rightarrow>
     s\<lparr>ms_DeviceName := override (lx_Name x) (ms_DeviceName s),
       ms_DeviceModel := override (lx_Type x) (ms_DeviceModel s),
       ms_DeviceSerial := override (lx_SerialNumber x) (ms_DeviceSerial s),
       ms_FirmwareVersion := override (lx_SoftwareVer x) (ms_FirmwareVersion s)\<rparr>)"

definition summary_original :: "'h run \<Rightarrow> MigrationSummary \<Rightarrow> 'h \<Rightarrow> MigrationSummary \<times> 'h" where
  "summary_original run s h =
     (case run test_original h of
        ((_, Some _), h1) \<Rightarrow> (s, h1)
      | ((_, None), h1) \<Rightarrow>
          (case run (cat_cmd original_path) h1 of
             ((originalConfig, _), h2) \<Rightarrow>
               (if originalConfig \<noteq> [] then s\<lparr>ms_OriginalConfig := originalConfig\<rparr> else s, h2)))"

definition summary_unreadable ::
  "(go_error \<Rightarrow> string) \<Rightarrow> 'h run \<Rightarrow> string \<Rightarrow> string \<times> go_error option \<Rightarrow> MigrationSummary \<Rightarrow> 'h \<Rightarrow> MigrationSummary \<times> 'h" where
  "summary_unreadable msg run fileInfo current s h =
     (let h1 = (if fst current = [] \<and> fileInfo \<noteq> [] then snd (run (''base64 '' @ SoundTouchSdkPrivateCfgPath) h) else h)
      in case run ''ls /'' h1 of
        ((_, None), h2) \<Rightarrow>
          (s\<lparr>ms_SSHSuccess := True,
             ms_CurrentConfig := (case snd current of
                Some e \<Rightarrow> ''Error reading config: '' @ msg e | None \<Rightarrow> fst current)\<rparr>, h2)
      | ((_, Some e), h2) \<Rightarrow>
          (s\<lparr>ms_SSHSuccess := False, ms_CurrentConfig := ''SSH connection failed: '' @ msg e\<rparr>, h2))"

definition summary_current ::
  "(go_error \<Rightarrow> string) \<Rightarrow> 'h run \<Rightarrow> string \<Rightarrow> string \<times> go_error option \<Rightarrow> MigrationSummary \<Rightarrow> 'h \<Rightarrow> MigrationSummary \<times> 'h" where
  "summary_current msg run fileInfo current s h =
     (if snd current = None \<and> fst current \<noteq> [] then
        (s\<lparr>ms_SSHSuccess := True, ms_CurrentConfig := fst current,
           ms_ParsedCurrentConfig := decode_cfg (fst current)\<rparr>, h)
      else summary_unreadable msg run fileInfo current s h)"

fun summary_services :: "'h run \<Rightarrow> string list \<Rightarrow> MigrationSummary \<Rightarrow> 'h \<Rightarrow> MigrationSummary \<times> 'h" where
  "summary_services run [] s h = (s, h)"
| "summary_services run (loc # locs) s h =
     (case run (''[ -e '' @ loc @ '' ]'') h of
        ((_, Some _), h1) \<Rightarrow> summary_services run locs s h1
      | ((_, None), h1) \<Rightarrow> summary_services run locs
          (s\<lparr>ms_RemoteServicesFound := ms_RemoteServicesFound s @ [loc], ms_RemoteServicesEnabled := True,
             ms_RemoteServicesPersistent := (loc \<noteq> ''/tmp/remote_services'' \<or> ms_RemoteServicesPersistent s)\<rparr>) h1)"

definition summarize ::
  "(go_error \<Rightarrow> string) \<Rightarrow> 'h run \<Rightarrow> string \<Rightarrow> string \<Rightarrow> options \<Rightarrow> MigrationSummary \<Rightarrow> 'h \<Rightarrow> MigrationSummary \<times> 'h" where
  "summarize msg run targetURL proxyURL options s0 h =
     (let (s1, h1) = summary_original run s0 h;
          ((fileInfo, _), h2) = run (''ls -l '' @ SoundTouchSdkPrivateCfgPath) h1;
          (current, h3) = run (cat_cmd SoundTouchSdkPrivateCfgPath) h2;
          (s2, h4) = summary_current msg run fileInfo current s1 h3;
          s3 = s2\<lparr>ms_PlannedConfig := config_document (migration_cfg targetURL proxyURL options current)\<rparr>
      in summary_services run locations s3 h4)"

text \<open>Marshalling the planned configuration cannot fail, so there is always a summary.\<close>

definition GetMigrationSummary ::
  "(go_error \<Rightarrow> string) \<Rightarrow> ssh_library \<Rightarrow> (string \<Rightarrow> string result) \<Rightarrow> Manager \<Rightarrow> world \<Rightarrow> string \<Rightarrow> string \<Rightarrow> string
    \<Rightarrow> options \<Rightarrow> ssh_history \<Rightarrow> MigrationSummary \<times> ssh_history" where
  "GetMigrationSummary msg lib get m w deviceIP targetURL proxyURL options =
     summarize msg (ssh_Run lib (NewClient deviceIP)) (target_url m targetURL) proxyURL options
       (summary_from_live (GetLiveDeviceInfo get deviceIP)
         (summary_from_store (mg_DataStore m) w deviceIP zero_summary))"

end
