(* ===== verification/Discovery.thy ===== *)
theory Discovery
  imports Setup
begin

text \<open>
  The discovery of speakers in \<open>soundcork-go/main.go\<close>: what \<open>discoverDevices\<close> does with the speakers the
  discovery library reports (a parameter: a list of them, or an error), and how overlapping runs of it
  share the server's \<open>discovering\<close> flag.  Log lines are left out.
\<close>

text \<open>What the library says about a speaker, as far as the program uses it.\<close>

record DiscoveredDevice =
  dd_Name :: string
  dd_Host :: string
  dd_SerialNo :: string
  dd_ModelID :: string

record Server =
  sv_ds :: DataStore
  sv_sm :: Manager
  sv_serverURL :: string
  sv_proxyURL :: string
  sv_discovering :: bool
  sv_proxyRedact :: bool
  sv_proxyLogBody :: bool

section \<open>One speaker\<close>

text \<open>The id under which a known device with the speaker's serial number is stored, empty when there is none.\<close>

definition existing_id :: "DataStore \<Rightarrow> world \<Rightarrow> DiscoveredDevice \<Rightarrow> string" where
  "existing_id ds w d =
     (let allDevices = (case ListAllDevices ds w of Inl _ \<Rightarrow> [] | Inr devices \<Rightarrow> devices) in
      case find_first (\<lambda>known. dd_SerialNo d \<noteq> [] \<and>
             (di_DeviceID known = dd_SerialNo d \<or> di_DeviceSerialNumber known = dd_SerialNo d)) allDevices of
        None \<Rightarrow> []
      | Some known \<Rightarrow> if di_DeviceID known = [] then di_IPAddress known else di_DeviceID known)"

definition with_serial :: "(string \<Rightarrow> string result) \<Rightarrow> DiscoveredDevice \<Rightarrow> DiscoveredDevice" where
  "with_serial get d =
     (if dd_SerialNo d = [] then
        (case GetLiveDeviceInfo get (dd_Host d) of
           Inl _ \<Rightarrow> d
         | Inr liveInfo \<Rightarrow> if lx_SerialNumber liveInfo \<noteq> [] then d\<lparr>dd_SerialNo := lx_SerialNumber liveInfo\<rparr> else d)
      else d)"

definition discovered_id :: "DiscoveredDevice \<Rightarrow> string" where
  "discovered_id d = (if dd_SerialNo d = [] then dd_Host d else dd_SerialNo d)"

definition discovered_info :: "DiscoveredDevice \<Rightarrow> DeviceInfo" where
  "discovered_info d = zero_DeviceInfo\<lparr>di_DeviceID := dd_SerialNo d, di_Name := dd_Name d, di_IPAddress := dd_Host d,
     di_DeviceSerialNumber := dd_SerialNo d, di_ProductCode := dd_ModelID d, di_FirmwareVersion := ''0.0.0''\<rparr>"

text \<open>The result of saving is returned here; the loop only logs it.\<close>

definition discover_device ::
  "DataStore \<Rightarrow> (string \<Rightarrow> string result) \<Rightarrow> world \<Rightarrow> DiscoveredDevice \<Rightarrow> unit result \<times> world" where
  "discover_device ds get w d0 =
     (let existingID = existing_id ds w d0;
          d = with_serial get d0;
          w1 = (if dd_SerialNo d \<noteq> [] \<and> existingID \<noteq> [] \<and> existingID \<noteq> dd_SerialNo d
                then snd (RemoveDevice ds w ''default'' existingID) else w)
      in SaveDeviceInfo ds w1 ''default'' (discovered_id d) (discovered_info d))"

section \<open>One run\<close>

definition discover_all ::
  "DataStore \<Rightarrow> (world \<Rightarrow> string \<Rightarrow> string result) \<Rightarrow> world \<Rightarrow> DiscoveredDevice list \<Rightarrow> world" where
  "discover_all ds net w devices = foldl (\<lambda>w d. snd (discover_device ds (net w) w d)) w devices"

definition discoverDevices ::
  "(world \<Rightarrow> string \<Rightarrow> string result) \<Rightarrow> DiscoveredDevice list result \<Rightarrow> Server \<Rightarrow> world \<Rightarrow> Server \<times> world" where
  "discoverDevices net found s w =
     (let s1 = s\<lparr>sv_discovering := True\<rparr>;
          w1 = (case found of Inl _ \<Rightarrow> w | Inr devices \<Rightarrow> discover_all (sv_ds s1) net w devices)
      in (s1\<lparr>sv_discovering := False\<rparr>, w1))"

section \<open>Overlapping runs\<close>

text \<open>
  A run is started every five minutes and by each request for a discovery, whether one is running or not.
  The state: the server, the speakers each running one has still to handle, and the environment.
  The handling of one speaker is one step.
\<close>

type_synonym scans = "Server \<times> DiscoveredDevice list list \<times> world"

inductive scan_step :: "(world \<Rightarrow> string \<Rightarrow> string result) \<Rightarrow> scans \<Rightarrow> scans \<Rightarrow> bool" for net where
  start: "scan_step net (s, rs, w) (s\<lparr>sv_discovering := True\<rparr>, rs @ [devices], w)"
| device: "i < length rs \<Longrightarrow> rs ! i = d # ds' \<Longrightarrow>
    scan_step net (s, rs, w) (s, rs[i := ds'], snd (discover_device (sv_ds s) (net w) w d))"
| finish: "i < length rs \<Longrightarrow> rs ! i = [] \<Longrightarrow>
    scan_step net (s, rs, w) (s\<lparr>sv_discovering := False\<rparr>, take i rs @ drop (Suc i) rs, w)"

inductive_cases scan_stepE: "scan_step net (s, rs, w) c"

definition scan_run :: "(world \<Rightarrow> string \<Rightarrow> string result) \<Rightarrow> scans \<Rightarrow> scans \<Rightarrow> bool" where
  "scan_run net = (scan_step net)\<^sup>*\<^sup>*"

section \<open>Forwarding\<close>

text \<open>The address a request to \<open>/proxy/*\<close> is forwarded to; a double slash lost on the way is put back.\<close>

definition proxy_target :: "string \<Rightarrow> string option" where
  "proxy_target path =
     (let target = strings_TrimPrefix path ''/proxy/'' in
      if target = [] then None
      else if strings_HasPrefix target ''http://'' \<or> strings_HasPrefix target ''https://'' then Some target
      else if strings_HasPrefix target ''http:/'' then Some (''http://'' @ strings_TrimPrefix target ''http:/'')
      else if strings_HasPrefix target ''https:/'' then Some (''https://'' @ strings_TrimPrefix target ''https:/'')
      else Some target)"

end
