(* ===== verification/Go_JSON.thy ===== *)
theory Go_JSON
  imports Go_UTF8 Models "HOL-Library.List_Lexorder"
begin

text \<open>
  Package \<open>encoding/json\<close> as the program uses it.  The encoder prints a value without white space, with
  the characters escaped that HTML treats specially; the decoder is split into the syntax (bytes to a
  value, with the limit on nesting) and the reading of fields in the theories that decode structs.
  A number is kept as the text it is written with.
\<close>

section \<open>Encoding\<close>

definition hex_digit :: "nat \<Rightarrow> char" where
  "hex_digit n = (if n < 10 then char_of (48 + n) else char_of (87 + n))"

definition json_byte :: "char \<Rightarrow> string" where
  "json_byte c =
     (if c = CHR 0x22 \<or> c = CHR 0x5C then [CHR 0x5C, c]
      else if c = CHR 0x08 then [CHR 0x5C, CHR ''b'']
      else if c = CHR 0x0C then [CHR 0x5C, CHR ''f'']
      else if c = CHR 0x0A then [CHR 0x5C, CHR ''n'']
      else if c = CHR 0x0D then [CHR 0x5C, CHR ''r'']
      else if c = CHR 0x09 then [CHR 0x5C, CHR ''t'']
      else if byte c < 0x20 \<or> c \<in> {CHR 0x3C, CHR 0x3E, CHR 0x26}
        then [CHR 0x5C, CHR ''u'', CHR ''0'', CHR ''0'', hex_digit (byte c div 16), hex_digit (byte c mod 16)]
      else [c])"

text \<open>The separators U+2028 and U+2029 are escaped as well.\<close>

fun json_escape :: "string \<Rightarrow> string" where
  "json_escape [] = []"
| "json_escape (c # cs) =
     (if byte c < 0x80 then json_byte c @ json_escape cs
      else let (r, n) = utf8_DecodeRune (c # cs) in
        (if (r, n) = (rune_error, 1) then CHR 0x5C # ''ufffd''
         else if take 3 (c # cs) = [CHR 0xE2, CHR 0x80, CHR 0xA8] then CHR 0x5C # ''u2028''
         else if take 3 (c # cs) = [CHR 0xE2, CHR 0x80, CHR 0xA9] then CHR 0x5C # ''u2029''
         else c # take (n - 1) cs)
        @ json_escape (drop (n - 1) cs))"

definition json_string :: "string \<Rightarrow> string" where
  "json_string s = [CHR 0x22] @ json_escape s @ [CHR 0x22]"

fun join_comma :: "string list \<Rightarrow> string" where
  "join_comma [] = []"
| "join_comma [x] = x"
| "join_comma (x # y # ys) = x @ CHR '','' # join_comma (y # ys)"

fun json_text :: "json \<Rightarrow> string" where
  "json_text JNull = ''null''"
| "json_text (JBool b) = (if b then ''true'' else ''false'')"
| "json_text (JNum n) = n"
| "json_text (JString s) = json_string s"
| "json_text (JArray vs) = ''['' @ join_comma (map json_text vs) @ '']''"
| "json_text (JObject es) = ''{'' @ join_comma (map (\<lambda>(k, v). json_string k @ CHR '':'' # json_text v) es) @ ''}''"

text \<open>\<open>json.NewEncoder(w).Encode(v)\<close> ends the value with a newline.\<close>

definition json_Encode :: "json \<Rightarrow> string" where
  "json_Encode v = json_text v @ [CHR 0x0A]"

definition json_int :: "int \<Rightarrow> json" where "json_int n = JNum (strconv_Itoa n)"

text \<open>Fields with \<open>omitempty\<close>.\<close>

definition omit_string :: "string \<Rightarrow> string \<Rightarrow> (string \<times> json) list" where
  "omit_string k v = (if v = [] then [] else [(k, JString v)])"

definition omit_int :: "string \<Rightarrow> int \<Rightarrow> (string \<times> json) list" where
  "omit_int k v = (if v = 0 then [] else [(k, json_int v)])"

definition omit_false :: "string \<Rightarrow> bool \<Rightarrow> (string \<times> json) list" where
  "omit_false k v = (if v then [(k, JBool v)] else [])"

definition omit_nil :: "string \<Rightarrow> json option \<Rightarrow> (string \<times> json) list" where
  "omit_nil k v = (case v of None \<Rightarrow> [] | Some j \<Rightarrow> [(k, j)])"

section \<open>Syntax\<close>

definition json_space :: "char \<Rightarrow> bool" where
  "json_space c \<longleftrightarrow> c \<in> {CHR 0x20, CHR 0x09, CHR 0x0D, CHR 0x0A}"

definition skip_ws :: "string \<Rightarrow> string" where
  "skip_ws s = dropWhile json_space s"

definition hex4 :: "string \<Rightarrow> (nat \<times> string) option" where
  "hex4 s = (case s of a # b # c # d # r \<Rightarrow>
       (case (hex_val a, hex_val b, hex_val c, hex_val d) of
          (Some i, Some j, Some k, Some l) \<Rightarrow> Some (((i * 16 + j) * 16 + k) * 16 + l, r)
        | _ \<Rightarrow> None)
     | _ \<Rightarrow> None)"

definition is_surrogate :: "nat \<Rightarrow> bool" where
  "is_surrogate u \<longleftrightarrow> 0xD800 \<le> u \<and> u \<le> 0xDFFF"

text \<open>The second half of a surrogate pair, escaped as well.\<close>

definition low_half :: "nat \<Rightarrow> string \<Rightarrow> (nat \<times> string) option" where
  "low_half u s = (case s of a # b # r \<Rightarrow>
       if a = CHR 0x5C \<and> b = CHR ''u'' then
         (case hex4 r of
            Some (v, r') \<Rightarrow>
              if u < 0xDC00 \<and> 0xDC00 \<le> v \<and> v \<le> 0xDFFF
              then Some ((u - 0xD800) * 1024 + (v - 0xDC00) + 0x10000, r') else None
          | None \<Rightarrow> None)
       else None
     | _ \<Rightarrow> None)"

text \<open>What follows a backslash.\<close>

definition unescape :: "string \<Rightarrow> (string \<times> string) option" where
  "unescape s = (case s of [] \<Rightarrow> None
     | c # r \<Rightarrow>
         if c \<in> {CHR 0x22, CHR 0x5C, CHR ''/''} then Some ([c], r)
         else if c = CHR ''b'' then Some ([CHR 0x08], r)
         else if c = CHR ''f'' then Some ([CHR 0x0C], r)
         else if c = CHR ''n'' then Some ([CHR 0x0A], r)
         else if c = CHR ''r'' then Some ([CHR 0x0D], r)
         else if c = CHR ''t'' then Some ([CHR 0x09], r)
         else if c = CHR ''u'' then
           (case hex4 r of None \<Rightarrow> None
            | Some (u, r1) \<Rightarrow>
                if is_surrogate u then
                  (case low_half u r1 of
                     Some (v, r2) \<Rightarrow> Some (utf8_EncodeRune v, r2)
                   | None \<Rightarrow> Some (replacement, r1))
                else Some (utf8_EncodeRune u, r1))
         else None)"

lemma hex4_length: "hex4 s = Some (u, r) \<Longrightarrow> length r < length s"
  by (auto simp: hex4_def split: list.splits option.splits)

lemma unescape_length: "unescape s = Some (t, r) \<Longrightarrow> length r < length s"
  by (auto simp: unescape_def low_half_def split: list.splits option.splits if_splits dest!: hex4_length)

text \<open>A string after its opening quote; bytes that are not UTF-8 are replaced.\<close>

function json_chars :: "string \<Rightarrow> (string \<times> string) option" where
  "json_chars [] = None"
| "json_chars (c # cs) =
     (if c = CHR 0x22 then Some ([], cs)
      else if c = CHR 0x5C then
        (case unescape cs of None \<Rightarrow> None
         | Some (t, r) \<Rightarrow> map_option (\<lambda>(s, r'). (t @ s, r')) (json_chars r))
      else if byte c < 0x20 then None
      else let rn = utf8_DecodeRune (c # cs); w = snd rn - 1 in
        map_option (\<lambda>(s, r'). ((if rn = (rune_error, 1) then replacement else c # take w cs) @ s, r'))
          (json_chars (drop w cs)))"
  by pat_completeness auto
termination by (relation "measure length") (auto dest: unescape_length)

declare json_chars.simps(2) [simp del]

text \<open>Numbers.\<close>

definition json_digits :: "string \<Rightarrow> (string \<times> string) option" where
  "json_digits s = (if takeWhile is_digit s = [] then None else Some (takeWhile is_digit s, dropWhile is_digit s))"

definition json_integer :: "string \<Rightarrow> (string \<times> string) option" where
  "json_integer s = (case s of [] \<Rightarrow> None
     | c # cs \<Rightarrow> if c = CHR ''0'' then Some ([c], cs) else json_digits s)"

definition json_fraction :: "string \<Rightarrow> (string \<times> string) option" where
  "json_fraction s = (case s of [] \<Rightarrow> Some ([], [])
     | c # cs \<Rightarrow> if c = CHR ''.'' then map_option (\<lambda>(d, r). (c # d, r)) (json_digits cs) else Some ([], s))"

definition json_exponent :: "string \<Rightarrow> (string \<times> string) option" where
  "json_exponent s = (case s of [] \<Rightarrow> Some ([], [])
     | c # cs \<Rightarrow>
         if c = CHR ''e'' \<or> c = CHR ''E'' then
           (case cs of
              d # ds \<Rightarrow>
                if d = CHR ''+'' \<or> d = CHR ''-'' then map_option (\<lambda>(t, r). (c # d # t, r)) (json_digits ds)
                else map_option (\<lambda>(t, r). (c # t, r)) (json_digits cs)
            | [] \<Rightarrow> None)
         else Some ([], s))"

definition json_number :: "string \<Rightarrow> (string \<times> string) option" where
  "json_number s =
     (let sign = (if s \<noteq> [] \<and> hd s = CHR ''-'' then ''-'' else []); s0 = drop (length sign) s in
      case json_integer s0 of None \<Rightarrow> None | Some (i, s1) \<Rightarrow>
     (case json_fraction s1 of None \<Rightarrow> None | Some (f, s2) \<Rightarrow>
     (case json_exponent s2 of None \<Rightarrow> None | Some (e, s3) \<Rightarrow> Some (sign @ i @ f @ e, s3))))"

definition json_scalar :: "string \<Rightarrow> (json \<times> string) option" where
  "json_scalar s =
     (if strings_HasPrefix s ''null'' then Some (JNull, drop 4 s)
      else if strings_HasPrefix s ''true'' then Some (JBool True, drop 4 s)
      else if strings_HasPrefix s ''false'' then Some (JBool False, drop 5 s)
      else if strings_HasPrefix s [CHR 0x22] then map_option (\<lambda>(t, r). (JString t, r)) (json_chars (drop 1 s))
      else map_option (\<lambda>(t, r). (JNum t, r)) (json_number s))"

text \<open>
  The elements of an array and the entries of an object, separated by commas, up to the closing bracket;
  \<open>item\<close> reads one of them.
\<close>

function json_items :: "(string \<Rightarrow> ('a \<times> string) option) \<Rightarrow> char \<Rightarrow> string \<Rightarrow> ('a list \<times> string) option" where
  "json_items item close s =
     (case item (skip_ws s) of None \<Rightarrow> None
      | Some (v, r) \<Rightarrow>
          (case skip_ws r of [] \<Rightarrow> None
           | c # r' \<Rightarrow>
               if c = close then Some ([v], r')
               else if c = CHR '','' \<and> length r' < length s
                 then map_option (\<lambda>(vs, q). (v # vs, q)) (json_items item close r')
               else None))"
  by pat_completeness auto
termination by (relation "measure (\<lambda>(item, close, s). length s)") auto

declare json_items.simps [simp del]

definition json_many :: "(string \<Rightarrow> ('a \<times> string) option) \<Rightarrow> char \<Rightarrow> string \<Rightarrow> ('a list \<times> string) option" where
  "json_many item close s =
     (case skip_ws s of [] \<Rightarrow> None | c # r \<Rightarrow> if c = close then Some ([], r) else json_items item close s)"

definition json_entry :: "(string \<Rightarrow> (json \<times> string) option) \<Rightarrow> string \<Rightarrow> ((string \<times> json) \<times> string) option" where
  "json_entry val s =
     (if strings_HasPrefix s [CHR 0x22] then
        (case json_chars (drop 1 s) of None \<Rightarrow> None
         | Some (k, r) \<Rightarrow>
             (case skip_ws r of [] \<Rightarrow> None
              | c # r' \<Rightarrow> if c = CHR '':'' then map_option (\<lambda>(v, q). ((k, v), q)) (val (skip_ws r')) else None))
      else None)"

text \<open>A value with at most \<open>d\<close> open brackets.\<close>

primrec json_value :: "nat \<Rightarrow> string \<Rightarrow> (json \<times> string) option" where
  "json_value 0 s = (if strings_HasPrefix s ''['' \<or> strings_HasPrefix s ''{'' then None else json_scalar s)"
| "json_value (Suc d) s =
     (if strings_HasPrefix s ''['' then map_option (\<lambda>(vs, r). (JArray vs, r)) (json_many (json_value d) CHR '']'' (drop 1 s))
      else if strings_HasPrefix s ''{'' then
        map_option (\<lambda>(es, r). (JObject es, r)) (json_many (json_entry (json_value d)) CHR ''}'' (drop 1 s))
      else json_scalar s)"

definition max_nesting :: nat where "max_nesting = 10000"

text \<open>A complete document: one value and nothing but white space around it.\<close>

definition json_parse :: "string \<Rightarrow> json option" where
  "json_parse s = (case json_value max_nesting (skip_ws s) of
      None \<Rightarrow> None | Some (v, r) \<Rightarrow> if skip_ws r = [] then Some v else None)"

section \<open>Fields of structs\<close>

text \<open>A string field: \<open>null\<close> leaves it as it is, any other value than a string is an error.\<close>

definition string_entry :: "string \<Rightarrow> json \<Rightarrow> string option" where
  "string_entry old v = (case v of JString s \<Rightarrow> Some s | JNull \<Rightarrow> Some old | _ \<Rightarrow> None)"

text \<open>\<open>json.Unmarshal\<close> into a struct that has a value already; \<open>entry\<close> stores one entry of the object.\<close>

definition json_into :: "(string \<times> json \<Rightarrow> 's option \<Rightarrow> 's option) \<Rightarrow> string \<Rightarrow> 's \<Rightarrow> 's option" where
  "json_into entry body x = (case json_parse body of
      Some (JObject es) \<Rightarrow> fold entry es (Some x) | Some JNull \<Rightarrow> Some x | _ \<Rightarrow> None)"

end
