(* ===== verification/JSON_Roundtrip.thy ===== *)
theory JSON_Roundtrip
  imports Go_JSON
begin

text \<open>
  What the decoder reads of an encoded JSON value: the value itself, with the bytes of its texts that are
  not UTF-8 replaced.
\<close>

fun utf8_clean :: "string \<Rightarrow> string" where
  "utf8_clean [] = []"
| "utf8_clean (c # cs) =
     (let rn = utf8_DecodeRune (c # cs); w = snd rn - 1 in
      (if rn = (rune_error, 1) then replacement else c # take w cs) @ utf8_clean (drop w cs))"

declare utf8_clean.simps(2) [simp del]

fun json_clean :: "json \<Rightarrow> json" where
  "json_clean (JString s) = JString (utf8_clean s)"
| "json_clean (JArray vs) = JArray (map json_clean vs)"
| "json_clean (JObject es) = JObject (map (\<lambda>(k, v). (utf8_clean k, json_clean v)) es)"
| "json_clean v = v"

text \<open>Values with integers as numbers and at most \<open>d\<close> open brackets.\<close>

fun json_ok :: "nat \<Rightarrow> json \<Rightarrow> bool" where
  "json_ok d (JNum n) \<longleftrightarrow> (\<exists>z. n = strconv_Itoa z)"
| "json_ok (Suc d) (JArray vs) \<longleftrightarrow> (\<forall>v \<in> set vs. json_ok d v)"
| "json_ok (Suc d) (JObject es) \<longleftrightarrow> (\<forall>e \<in> set es. json_ok d (snd e))"
| "json_ok 0 (JArray vs) \<longleftrightarrow> False"
| "json_ok 0 (JObject es) \<longleftrightarrow> False"
| "json_ok d v \<longleftrightarrow> True"

lemma utf8_clean_ascii [simp]: "ascii_text s \<Longrightarrow> utf8_clean s = s"
  by (induction s) (auto simp: utf8_clean.simps(2) ascii_text_def Let_def rune_error_def)

section \<open>Strings\<close>

lemma hex_val_digit [simp]: "n < 16 \<Longrightarrow> hex_val (hex_digit n) = Some n"
  by (auto simp: hex_val_def hex_digit_def is_digit_def digit_val_def)

lemma EncodeRune_byte: "byte c < 0x80 \<Longrightarrow> utf8_EncodeRune (byte c) = [c]"
  by (simp add: utf8_EncodeRune_def Let_def)

lemma json_chars_plain:
  "byte c < 0x80 \<Longrightarrow> \<not> byte c < 0x20 \<Longrightarrow> c \<notin> {CHR 0x22, CHR 0x5C} \<Longrightarrow>
    json_chars (c # cs) = map_option (\<lambda>(s, r'). (c # s, r')) (json_chars cs)"
  by (simp add: json_chars.simps(2) Let_def rune_error_def)

lemma hex4_byte: "byte c < 0x80 \<Longrightarrow> hex4 (CHR ''0'' # CHR ''0'' # hex_digit (byte c div 16) # hex_digit (byte c mod 16) # r)
    = Some (byte c, r)"
proof -
  assume "byte c < 0x80"
  then have "byte c div 16 < 16" "byte c mod 16 < 16" by auto
  moreover have "hex_val CHR ''0'' = Some 0" by (simp add: hex_val_def is_digit_def digit_val_def)
  ultimately show ?thesis by (simp add: hex4_def)
qed

lemma json_chars_escaped:
  "unescape (t @ cs) = Some (u, cs) \<Longrightarrow>
    json_chars (CHR 0x5C # t @ cs) = map_option (\<lambda>(s, r'). (u @ s, r')) (json_chars cs)"
  by (simp add: json_chars.simps(2))

lemma short_escape:
  "json_chars (CHR 0x5C # CHR 0x22 # cs) = map_option (\<lambda>(s, r'). (CHR 0x22 # s, r')) (json_chars cs)"
  "json_chars (CHR 0x5C # CHR 0x5C # cs) = map_option (\<lambda>(s, r'). (CHR 0x5C # s, r')) (json_chars cs)"
  "json_chars (CHR 0x5C # CHR ''b'' # cs) = map_option (\<lambda>(s, r'). (CHR 0x08 # s, r')) (json_chars cs)"
  "json_chars (CHR 0x5C # CHR ''f'' # cs) = map_option (\<lambda>(s, r'). (CHR 0x0C # s, r')) (json_chars cs)"
  "json_chars (CHR 0x5C # CHR ''n'' # cs) = map_option (\<lambda>(s, r'). (CHR 0x0A # s, r')) (json_chars cs)"
  "json_chars (CHR 0x5C # CHR ''r'' # cs) = map_option (\<lambda>(s, r'). (CHR 0x0D # s, r')) (json_chars cs)"
  "json_chars (CHR 0x5C # CHR ''t'' # cs) = map_option (\<lambda>(s, r'). (CHR 0x09 # s, r')) (json_chars cs)"
  using json_chars_escaped [of "[x]" cs for x] by (simp_all add: unescape_def)

lemma json_byte_read:
  assumes "byte c < 0x80"
  shows "json_chars (json_byte c @ cs) = map_option (\<lambda>(s, r'). (c # s, r')) (json_chars cs)"
proof -
  let ?u = "[CHR ''u'', CHR ''0'', CHR ''0'', hex_digit (byte c div 16), hex_digit (byte c mod 16)]"
  have u: "unescape (?u @ cs) = Some ([c], cs)"
    using assms by (simp add: unescape_def hex4_byte is_surrogate_def EncodeRune_byte)
  define S where "S = {CHR 0x22, CHR 0x5C, CHR 0x08, CHR 0x0C, CHR 0x0A, CHR 0x0D, CHR 0x09}"
  define P where "P \<longleftrightarrow> byte c < 0x20 \<or> c \<in> {CHR 0x3C, CHR 0x3E, CHR 0x26}"
  consider "c \<in> S" | "c \<notin> S" P | "c \<notin> S" "\<not> P" by blast
  then show ?thesis
  proof cases
    case 1
    then show ?thesis unfolding S_def by (auto simp: json_byte_def short_escape)
  next
    case 2
    then have "json_byte c = CHR 0x5C # ?u" unfolding S_def P_def by (auto simp: json_byte_def)
    with json_chars_escaped [OF u] show ?thesis by simp
  next
    case 3
    then show ?thesis using assms unfolding S_def P_def by (simp add: json_byte_def json_chars_plain)
  qed
qed

lemma json_chars_high:
  assumes "\<forall>d \<in> set ds. 0x80 \<le> byte d" "utf8_DecodeRune (ds @ cs) = (r, length ds)" "(r, length ds) \<noteq> (rune_error, 1)" "ds \<noteq> []"
  shows "json_chars (ds @ cs) = map_option (\<lambda>(s, r'). (ds @ s, r')) (json_chars cs)"
proof -
  obtain d ds' where d: "ds = d # ds'" using assms(4) by (cases ds) auto
  with assms(1) have "\<not> byte d < 0x20" "d \<noteq> CHR 0x22" "d \<noteq> CHR 0x5C" by auto
  with d assms(2,3) show ?thesis by (auto simp: json_chars.simps(2) Let_def)
qed

lemma escaped_runes:
  "json_chars (CHR 0x5C # ''ufffd'' @ cs) = map_option (\<lambda>(s, r'). (replacement @ s, r')) (json_chars cs)"
  "json_chars (CHR 0x5C # ''u2028'' @ cs) = map_option (\<lambda>(s, r'). ([CHR 0xE2, CHR 0x80, CHR 0xA8] @ s, r')) (json_chars cs)"
  "json_chars (CHR 0x5C # ''u2029'' @ cs) = map_option (\<lambda>(s, r'). ([CHR 0xE2, CHR 0x80, CHR 0xA9] @ s, r')) (json_chars cs)"
proof -
  have h: "hex_val CHR ''f'' = Some 15" "hex_val CHR ''d'' = Some 13" "hex_val CHR ''2'' = Some 2"
    "hex_val CHR ''0'' = Some 0" "hex_val CHR ''8'' = Some 8" "hex_val CHR ''9'' = Some 9"
    by (simp_all add: hex_val_def is_digit_def digit_val_def)
  have codes: "char_of (239 :: nat) = CHR 0xEF" "char_of (191 :: nat) = CHR 0xBF" "char_of (189 :: nat) = CHR 0xBD"
    "char_of (226 :: nat) = CHR 0xE2" "char_of (128 :: nat) = CHR 0x80" "char_of (168 :: nat) = CHR 0xA8"
    "char_of (169 :: nat) = CHR 0xA9"
    by code_simp+
  have e: "utf8_EncodeRune 65533 = replacement" "utf8_EncodeRune 8232 = [CHR 0xE2, CHR 0x80, CHR 0xA8]"
    "utf8_EncodeRune 8233 = [CHR 0xE2, CHR 0x80, CHR 0xA9]"
    by (simp_all add: utf8_EncodeRune_def Let_def codes replacement_def)
  have u: "unescape (''ufffd'' @ cs) = Some (replacement, cs)"
    "unescape (''u2028'' @ cs) = Some ([CHR 0xE2, CHR 0x80, CHR 0xA8], cs)"
    "unescape (''u2029'' @ cs) = Some ([CHR 0xE2, CHR 0x80, CHR 0xA9], cs)"
    by (simp_all add: unescape_def hex4_def h e is_surrogate_def)
  show "json_chars (CHR 0x5C # ''ufffd'' @ cs) = map_option (\<lambda>(s, r'). (replacement @ s, r')) (json_chars cs)"
    "json_chars (CHR 0x5C # ''u2028'' @ cs) = map_option (\<lambda>(s, r'). ([CHR 0xE2, CHR 0x80, CHR 0xA8] @ s, r')) (json_chars cs)"
    "json_chars (CHR 0x5C # ''u2029'' @ cs) = map_option (\<lambda>(s, r'). ([CHR 0xE2, CHR 0x80, CHR 0xA9] @ s, r')) (json_chars cs)"
    by (rule json_chars_escaped [OF u(1)] json_chars_escaped [OF u(2)] json_chars_escaped [OF u(3)])+
qed

lemma separator_width:
  assumes "take 3 (c # cs) = [CHR 0xE2, CHR 0x80, x]" "x \<in> {CHR 0xA8, CHR 0xA9}" "utf8_DecodeRune (c # cs) = (u, n)"
  shows "n = 3"
proof -
  obtain ds where "c = CHR 0xE2" "cs = CHR 0x80 # x # ds"
    using assms(1) by (cases cs; cases "tl cs") auto
  with assms(2,3) show ?thesis
    by (auto simp: utf8_DecodeRune.simps decode_lead_def cont_byte_def second_lo_def second_hi_def trail_len_def
        trail_ok_def numeral_2_eq_2)
qed

theorem json_chars_escape: "json_chars (json_escape s @ CHR 0x22 # r) = Some (utf8_clean s, r)"
proof (induction s rule: json_escape.induct)
  case 1
  then show ?case by (simp add: json_chars.simps(2))
next
  case (2 c cs)
  obtain u n where rn: "utf8_DecodeRune (c # cs) = (u, n)" by force
  show ?case
  proof (cases "byte c < 0x80")
    case True
    with 2 show ?thesis by (simp add: json_byte_read utf8_clean.simps(2) rune_error_def Let_def)
  next
    case False
    let ?rest = "drop (n - 1) cs"
    have IH: "json_chars (json_escape ?rest @ CHR 0x22 # r) = Some (utf8_clean ?rest, r)"
      using "2.IH"(2) [OF False] rn by simp
    have "\<exists>E K. json_escape (c # cs) = E @ json_escape ?rest \<and> utf8_clean (c # cs) = K @ utf8_clean ?rest
        \<and> json_chars (E @ json_escape ?rest @ CHR 0x22 # r)
          = map_option (\<lambda>(s, r'). (K @ s, r')) (json_chars (json_escape ?rest @ CHR 0x22 # r))"
    proof -
      consider "(u, n) = (rune_error, 1)"
        | "(u, n) \<noteq> (rune_error, 1)" "take 3 (c # cs) = [CHR 0xE2, CHR 0x80, CHR 0xA8]"
        | "(u, n) \<noteq> (rune_error, 1)" "take 3 (c # cs) = [CHR 0xE2, CHR 0x80, CHR 0xA9]"
        | "(u, n) \<noteq> (rune_error, 1)" "take 3 (c # cs) \<noteq> [CHR 0xE2, CHR 0x80, CHR 0xA8]"
          "take 3 (c # cs) \<noteq> [CHR 0xE2, CHR 0x80, CHR 0xA9]" by blast
      then show ?thesis
      proof cases
        case 1
        then have un: "u = rune_error" "n = 1" by simp_all
        have "json_escape (c # cs) = (CHR 0x5C # ''ufffd'') @ json_escape ?rest"
          "utf8_clean (c # cs) = replacement @ utf8_clean ?rest"
          using False rn [unfolded un] un by (simp_all only: json_escape.simps utf8_clean.simps Let_def if_True if_False prod.case fst_conv snd_conv simp_thms)
        with escaped_runes(1) show ?thesis by (metis append_Cons)
      next
        case 2
        have "n = 3" using separator_width [OF 2(2) _ rn] by simp
        have "json_escape (c # cs) = (CHR 0x5C # ''u2028'') @ json_escape ?rest"
          "utf8_clean (c # cs) = (c # take (n - 1) cs) @ utf8_clean ?rest"
          using False rn 2 by (simp_all only: json_escape.simps utf8_clean.simps Let_def if_True if_False prod.case fst_conv snd_conv simp_thms)
        moreover have "c # take (n - 1) cs = [CHR 0xE2, CHR 0x80, CHR 0xA8]" using \<open>n = 3\<close> 2(2) by simp
        ultimately show ?thesis using escaped_runes(2) by (metis append_Cons)
      next
        case 3
        have "n = 3" using separator_width [OF 3(2) _ rn] by simp
        have "take 3 (c # cs) \<noteq> [CHR 0xE2, CHR 0x80, CHR 0xA8]" using 3(2) by simp
        then have "json_escape (c # cs) = (CHR 0x5C # ''u2029'') @ json_escape ?rest"
          "utf8_clean (c # cs) = (c # take (n - 1) cs) @ utf8_clean ?rest"
          using False rn 3 by (simp_all only: json_escape.simps utf8_clean.simps Let_def if_True if_False prod.case fst_conv snd_conv simp_thms)
        moreover have "c # take (n - 1) cs = [CHR 0xE2, CHR 0x80, CHR 0xA9]" using \<open>n = 3\<close> 3(2) by simp
        ultimately show ?thesis using escaped_runes(3) by (metis append_Cons)
      next
        case 4
        have w: "1 \<le> n" "n - 1 \<le> length cs" using decode_width [OF rn] by auto
        let ?ds = "c # take (n - 1) cs" and ?more = "json_escape ?rest @ CHR 0x22 # r"
        have "json_chars (?ds @ ?more) = map_option (\<lambda>(s, r'). (?ds @ s, r')) (json_chars ?more)"
          using decode_stable [OF rn 4(1), of ?more] decode_multi [OF rn False 4(1)] 4(1) w
          by (intro json_chars_high [where r = u]) auto
        moreover have "json_escape (c # cs) = ?ds @ json_escape ?rest" "utf8_clean (c # cs) = ?ds @ utf8_clean ?rest"
          using False rn 4 by (simp_all only: json_escape.simps utf8_clean.simps Let_def if_True if_False prod.case fst_conv snd_conv simp_thms)
        ultimately show ?thesis by blast
      qed
    qed
    then obtain E K where "json_escape (c # cs) = E @ json_escape ?rest" "utf8_clean (c # cs) = K @ utf8_clean ?rest"
      "json_chars (E @ json_escape ?rest @ CHR 0x22 # r)
        = map_option (\<lambda>(s, r'). (K @ s, r')) (json_chars (json_escape ?rest @ CHR 0x22 # r))" by blast
    with IH show ?thesis by simp
  qed
qed

lemma json_string_read: "json_chars (drop 1 (json_string s @ r)) = Some (utf8_clean s, r)"
  by (simp add: json_string_def json_chars_escape)

section \<open>Values\<close>

text \<open>What may follow a value inside an array, an object or a document.\<close>

definition value_end :: "string \<Rightarrow> bool" where
  "value_end r \<longleftrightarrow> r = [] \<or> hd r \<in> {CHR '','', CHR '']'', CHR ''}'', CHR 0x0A}"

lemma value_end_simps [simp]:
  "value_end []" "value_end (CHR '','' # r)" "value_end (CHR '']'' # r)" "value_end (CHR ''}'' # r)" "value_end (CHR 0x0A # r)"
  by (simp_all add: value_end_def)

lemma value_end_no_digit: "value_end r \<Longrightarrow> takeWhile is_digit r = [] \<and> dropWhile is_digit r = r"
  by (cases r) (auto simp: value_end_def is_digit_def)

lemma number_stops: "value_end r \<Longrightarrow> json_fraction r = Some ([], r) \<and> json_exponent r = Some ([], r)"
  by (cases r) (auto simp: value_end_def json_fraction_def json_exponent_def)

lemma dec_digits_zero: "dec_digits n = CHR ''0'' # t \<Longrightarrow> t = []"
proof (induction n arbitrary: t rule: dec_digits.induct)
  case (1 n)
  show ?case
  proof (cases "n < 10")
    case True
    with "1.prems" show ?thesis by (simp add: dec_digits.simps [of n])
  next
    case False
    then have e: "dec_digits n = dec_digits (n div 10) @ [digit_char (n mod 10)]" by (simp add: dec_digits.simps [of n])
    with "1.prems" obtain t' where t': "dec_digits (n div 10) = CHR ''0'' # t'"
      by (cases "dec_digits (n div 10)") auto
    from "1.IH" [OF False t'] t' have "dec_digits (n div 10) = ''0''" by simp
    then have "foldl (\<lambda>n c. 10 * n + digit_val c) 0 ''0'' = n div 10" using foldl_dec_digits by metis
    then have "n div 10 = 0" by (simp add: digit_val_def)
    with False show ?thesis by simp
  qed
qed

lemma json_integer_digits: "value_end r \<Longrightarrow> json_integer (dec_digits n @ r) = Some (dec_digits n, r)"
proof -
  assume r: "value_end r"
  obtain c t where c: "dec_digits n = c # t" by (cases "dec_digits n") auto
  have d: "\<forall>x \<in> set (dec_digits n). is_digit x" using dec_digits_are_digits by blast
  show ?thesis
  proof (cases "c = CHR ''0''")
    case True
    with c dec_digits_zero have "t = []" by blast
    with True c show ?thesis by (simp add: json_integer_def)
  next
    case False
    have "takeWhile is_digit (dec_digits n @ r) = dec_digits n" "dropWhile is_digit (dec_digits n @ r) = r"
      using d value_end_no_digit [OF r] by (simp_all add: takeWhile_append dropWhile_append)
    with False c show ?thesis by (simp add: json_integer_def json_digits_def)
  qed
qed

lemma json_number_Itoa: "value_end r \<Longrightarrow> json_number (strconv_Itoa z @ r) = Some (strconv_Itoa z, r)"
proof -
  assume r: "value_end r"
  obtain c t where c: "dec_digits (nat z) = c # t" by (cases "dec_digits (nat z)") auto
  then have "is_digit c" by (rule dec_digits_hd)
  then have "c \<noteq> CHR ''-''" by auto
  with json_integer_digits [OF r, of "nat z"] json_integer_digits [OF r, of "nat (- z)"] number_stops [OF r] c show ?thesis
    by (auto simp: json_number_def strconv_Itoa_def Let_def)
qed

lemma Itoa_hd: "\<exists>c t. strconv_Itoa z = c # t \<and> (is_digit c \<or> c = CHR ''-'')"
proof -
  obtain c t where "strconv_Itoa z = c # t" by (cases "strconv_Itoa z") auto
  with Itoa_chars [of c z] show ?thesis by auto
qed

text \<open>The first byte of a value is no white space and no closing bracket or comma.\<close>

lemma text_hd:
  assumes "json_ok d v"
  obtains c t where "json_text v = c # t" "\<not> json_space c" "c \<notin> {CHR '']'', CHR ''}'', CHR '',''}"
proof -
  have "\<exists>c t. json_text v = c # t \<and> \<not> json_space c \<and> c \<notin> {CHR '']'', CHR ''}'', CHR '',''}"
  proof (cases v)
    case (JNum n)
    with assms obtain z where "n = strconv_Itoa z" by (cases d) auto
    with Itoa_hd [of z] JNum show ?thesis by (auto simp: json_space_def is_digit_def)
  qed (auto simp: json_space_def json_string_def)
  then show ?thesis using that by blast
qed

lemma skip_ws_text: "json_ok d v \<Longrightarrow> skip_ws (json_text v @ r) = json_text v @ r"
  by (erule text_hd [of d v]) (simp add: skip_ws_def)

lemma skip_ws_keep [simp]: "\<not> json_space c \<Longrightarrow> skip_ws (c # r) = c # r" "skip_ws [] = []"
  by (simp_all add: skip_ws_def)

lemma json_space_no [simp]:
  "\<not> json_space (CHR '','')" "\<not> json_space (CHR '']'')" "\<not> json_space (CHR ''}'')" "\<not> json_space (CHR '':'')"
  "\<not> json_space (CHR ''['')" "\<not> json_space (CHR ''{'')" "\<not> json_space (CHR 0x22)"
  by (simp_all add: json_space_def)

text \<open>Items that are read one by one are read as a list, with white space before an item and before the
  closing bracket (\<open>sp\<close>).\<close>

lemma json_items_read:
  assumes "vs \<noteq> []" "close \<noteq> CHR '',''" "value_end (sp @ close # r)" "skip_ws (sp @ close # r) = close # r"
    and "\<And>v q. v \<in> set vs \<Longrightarrow> value_end q \<Longrightarrow> item (skip_ws (txt v @ q)) = Some (f v, q)"
    and "\<And>v. v \<in> set vs \<Longrightarrow> txt v \<noteq> []"
  shows "json_items item close (join_comma (map txt vs) @ sp @ close # r) = Some (map f vs, r)"
  using assms
proof (induction "map txt vs" arbitrary: vs rule: join_comma.induct)
  case (2 x)
  then obtain v where v: "vs = [v]" "x = txt v" by (cases vs) auto
  with "2.prems" show ?case by (subst json_items.simps) simp
next
  case (3 x y ys)
  then obtain v vs' where v: "vs = v # vs'" "x = txt v" "map txt vs' = y # ys" by (cases vs) auto
  let ?more = "join_comma (map txt vs') @ sp @ close # r"
  have IH: "json_items item close ?more = Some (map f vs', r)"
    using "3.hyps"(1) [of vs'] "3.prems" v by (cases vs') auto
  have j: "join_comma (map txt vs) @ sp @ close # r = txt v @ CHR '','' # ?more" using v by (cases vs') auto
  have "txt v \<noteq> []" using "3.prems" v by simp
  then have "length ?more < length (txt v @ CHR '','' # ?more)" by (cases "txt v") auto
  moreover have "item (skip_ws (txt v @ CHR '','' # ?more)) = Some (f v, CHR '','' # ?more)"
    using "3.prems"(5) [of v "CHR '','' # ?more"] v by simp
  ultimately show ?case
    unfolding j using IH v(1) "3.prems"(2) by (subst json_items.simps) simp
qed simp

lemma json_many_read:
  assumes "close \<noteq> CHR '',''" "value_end (sp @ close # r)" "skip_ws (sp @ close # r) = close # r"
    and "\<And>v q. v \<in> set vs \<Longrightarrow> value_end q \<Longrightarrow> item (skip_ws (txt v @ q)) = Some (f v, q)"
    and "\<And>v. v \<in> set vs \<Longrightarrow> \<exists>w c t. txt v = w @ c # t \<and> (\<forall>x \<in> set w. json_space x) \<and> \<not> json_space c \<and> c \<noteq> close"
  shows "json_many item close (join_comma (map txt vs) @ sp @ close # r) = Some (map f vs, r)"
proof (cases vs)
  case Nil
  then show ?thesis using assms(3) by (simp add: json_many_def)
next
  case (Cons v vs')
  obtain w c t where c: "txt v = w @ c # t" "\<forall>x \<in> set w. json_space x" "\<not> json_space c" "c \<noteq> close"
    using assms(5) [of v] Cons by auto
  then obtain u where "join_comma (map txt vs) @ sp @ close # r = w @ c # u" using Cons by (cases vs') auto
  then have u: "skip_ws (join_comma (map txt vs) @ sp @ close # r) = c # u" using c by (simp add: skip_ws_def)
  have "txt x \<noteq> []" if "x \<in> set vs" for x using assms(5) [OF that] by auto
  then have "json_items item close (join_comma (map txt vs) @ sp @ close # r) = Some (map f vs, r)"
    using Cons assms(1-4) by (intro json_items_read) auto
  with u c show ?thesis by (simp add: json_many_def)
qed

lemma HasPrefix_Cons [simp]:
  "strings_HasPrefix s []" "strings_HasPrefix (a # s) (b # p) \<longleftrightarrow> a = b \<and> strings_HasPrefix s p"
  "\<not> strings_HasPrefix [] (b # p)"
  by (auto simp: strings_HasPrefix_def)

lemma json_entry_read:
  assumes "val (json_text v @ q) = Some (x, q)" "skip_ws (json_text v @ q) = json_text v @ q"
  shows "json_entry val (json_string k @ CHR '':'' # json_text v @ q) = Some ((utf8_clean k, x), q)"
  using assms by (simp add: json_entry_def json_string_def json_chars_escape)

lemma json_value_scalar:
  "\<not> strings_HasPrefix s ''['' \<Longrightarrow> \<not> strings_HasPrefix s ''{'' \<Longrightarrow> json_value d s = json_scalar s"
  by (cases d) simp_all

text \<open>An encoded value is read back, whatever may follow it.\<close>

theorem json_value_text:
  "json_ok d v \<Longrightarrow> value_end r \<Longrightarrow> json_value d (json_text v @ r) = Some (json_clean v, r)"
proof (induction d v arbitrary: r rule: json_ok.induct)
  case (1 d n)
  then obtain z where z: "n = strconv_Itoa z" by auto
  obtain c t where c: "strconv_Itoa z = c # t" "is_digit c \<or> c = CHR ''-''" using Itoa_hd by blast
  from json_number_Itoa [OF "1.prems"(2)] z have "json_number (n @ r) = Some (n, r)" by simp
  moreover have "c \<notin> {CHR ''['', CHR ''{'', CHR ''n'', CHR ''t'', CHR ''f'', CHR 0x22}"
    using c(2) by (auto simp: is_digit_def)
  ultimately show ?case using z c(1) by (cases d) (auto simp: json_scalar_def)
next
  case (2 d vs)
  have "json_many (json_value d) CHR '']'' (join_comma (map json_text vs) @ [] @ CHR '']'' # r) = Some (map json_clean vs, r)"
  proof (rule json_many_read)
    fix v q assume v: "v \<in> set vs" "value_end q"
    with 2 have "json_ok d v" by auto
    with "2.IH" [OF v(1) _ v(2)] skip_ws_text show "json_value d (skip_ws (json_text v @ q)) = Some (json_clean v, q)" by auto
  next
    fix v assume "v \<in> set vs"
    with 2 have "json_ok d v" by auto
    then show "\<exists>w c t. json_text v = w @ c # t \<and> (\<forall>x \<in> set w. json_space x) \<and> \<not> json_space c \<and> c \<noteq> CHR '']''"
      by (rule text_hd) (intro exI [of _ "[]"], auto)
  qed simp_all
  then show ?case by simp
next
  case (3 d es)
  let ?txt = "\<lambda>(k, v). json_string k @ CHR '':'' # json_text v"
  have "json_many (json_entry (json_value d)) CHR ''}'' (join_comma (map ?txt es) @ [] @ CHR ''}'' # r)
      = Some (map (\<lambda>(k, v). (utf8_clean k, json_clean v)) es, r)"
  proof (rule json_many_read)
    fix e q assume e: "e \<in> set es" "value_end q"
    obtain k v where kv: "e = (k, v)" by force
    with 3 e have ok: "json_ok d v" by auto
    with "3.IH" [OF e(1) _ e(2)] kv have "json_value d (json_text v @ q) = Some (json_clean v, q)" by auto
    from json_entry_read [where k = k and v = v and q = q and val = "json_value d" and x = "json_clean v", OF this skip_ws_text [OF ok, of q]] kv
    show "json_entry (json_value d) (skip_ws (?txt e @ q)) = Some (case e of (k, v) \<Rightarrow> (utf8_clean k, json_clean v), q)"
      by (simp add: json_string_def)
  next
    fix e assume "e \<in> set es"
    show "\<exists>w c t. ?txt e = w @ c # t \<and> (\<forall>x \<in> set w. json_space x) \<and> \<not> json_space c \<and> c \<noteq> CHR ''}''"
      by (cases e) (intro exI [of _ "[]"], simp add: json_string_def)
  qed simp_all
  then show ?case by simp
qed (auto simp: json_value_scalar json_scalar_def json_string_def json_chars_escape)

theorem json_parse_Encode:
  "json_ok max_nesting v \<Longrightarrow> json_parse (json_Encode v) = Some (json_clean v)"
  using json_value_text [of max_nesting v "[CHR 0x0A]"] skip_ws_text [of max_nesting v "[CHR 0x0A]"]
  by (simp add: json_parse_def json_Encode_def) (simp add: skip_ws_def json_space_def)

end
