(* ===== verification/Go_URL.thy ===== *)
theory Go_URL
  imports Go_UTF8 "HOL-Library.List_Lexorder" "HOL-Library.Char_ord"
begin

text \<open>
  Package \<open>net/url\<close> as the program uses it: parsing of a query (\<open>r.URL.Query()\<close>, which drops the parts that
  are malformed), and the encoding of values into one.  A query with more than ten thousand parameters, which
  recent versions of the package refuse, is not considered.
\<close>

section \<open>Decoding\<close>

function url_unescape :: "string \<Rightarrow> string option" where
  "url_unescape [] = Some []"
| "url_unescape (c # cs) =
     (if c = CHR ''%'' then
        (case cs of a # b # r \<Rightarrow>
             (case (hex_val a, hex_val b) of
                (Some i, Some j) \<Rightarrow> map_option (\<lambda>t. char_of (16 * i + j) # t) (url_unescape r)
              | _ \<Rightarrow> None)
         | _ \<Rightarrow> None)
      else if c = CHR ''+'' then map_option (\<lambda>t. CHR '' '' # t) (url_unescape cs)
      else map_option (\<lambda>t. c # t) (url_unescape cs))"
  by pat_completeness auto
termination by (relation "measure length") auto

text \<open>The values of a query in order; one key may occur several times.\<close>

type_synonym query = "(string \<times> string) list"

definition parse_param :: "string \<Rightarrow> query" where
  "parse_param p =
     (if CHR '';'' \<in> set p \<or> p = [] then []
      else case (url_unescape (takeWhile (\<lambda>c. c \<noteq> CHR ''='') p), url_unescape (drop 1 (dropWhile (\<lambda>c. c \<noteq> CHR ''='') p))) of
        (Some k, Some v) \<Rightarrow> [(k, v)]
      | _ \<Rightarrow> [])"

definition url_Query :: "string \<Rightarrow> query" where
  "url_Query s = concat (map parse_param (split_char CHR ''&'' s))"

text \<open>\<open>Values.Get\<close>: the first value, or the empty text.\<close>

definition query_Get :: "query \<Rightarrow> string \<Rightarrow> string" where
  "query_Get q k = (case map_of q k of None \<Rightarrow> [] | Some v \<Rightarrow> v)"

section \<open>Encoding\<close>

definition url_unreserved :: "char \<Rightarrow> bool" where
  "url_unreserved c \<longleftrightarrow> (65 \<le> byte c \<and> byte c \<le> 90) \<or> (97 \<le> byte c \<and> byte c \<le> 122) \<or> is_digit c
     \<or> c \<in> {CHR ''-'', CHR ''_'', CHR ''.'', CHR ''~''}"

definition upper_hex :: "nat \<Rightarrow> char" where
  "upper_hex n = (if n < 10 then char_of (48 + n) else char_of (55 + n))"

definition url_escape_byte :: "char \<Rightarrow> string" where
  "url_escape_byte c =
     (if url_unreserved c then [c] else if c = CHR '' '' then ''+''
      else [CHR ''%'', upper_hex (byte c div 16), upper_hex (byte c mod 16)])"

definition url_QueryEscape :: "string \<Rightarrow> string" where
  "url_QueryEscape s = concat (map url_escape_byte s)"

text \<open>\<open>Values.Encode\<close> for values set once: sorted by key.\<close>

definition url_Encode :: "query \<Rightarrow> string" where
  "url_Encode q = join_char CHR ''&''
     (map (\<lambda>(k, v). url_QueryEscape k @ ''='' @ url_QueryEscape v) (sort_key fst q))"

lemma hex_val_upper: "n < 16 \<Longrightarrow> hex_val (upper_hex n) = Some n"
  by (auto simp: hex_val_def upper_hex_def is_digit_def digit_val_def)

lemma unescape_byte: "url_unescape (url_escape_byte c @ s) = map_option (\<lambda>t. c # t) (url_unescape s)"
proof (cases "url_unreserved c \<or> c = CHR '' ''")
  case True
  then show ?thesis
    by (auto simp: url_escape_byte_def url_unreserved_def is_digit_def)
next
  case False
  have "byte c div 16 < 16" "byte c mod 16 < 16" by (auto simp: div_less_iff_less_mult)
  with False show ?thesis by (simp add: url_escape_byte_def hex_val_upper)
qed

lemma QueryUnescape_QueryEscape: "url_unescape (url_QueryEscape s) = Some s"
  by (induction s) (simp_all add: url_QueryEscape_def unescape_byte)

lemma escape_chars: "c \<in> set (url_QueryEscape s) \<Longrightarrow> c \<notin> {CHR ''&'', CHR ''='', CHR '';''}"
proof -
  have "c \<notin> {CHR ''&'', CHR ''='', CHR '';''}" if "c \<in> set (url_escape_byte d)" for d
  proof -
    have "upper_hex n \<notin> {CHR ''&'', CHR ''='', CHR '';''}" if "n < 16" for n
    proof
      assume "upper_hex n \<in> {CHR ''&'', CHR ''='', CHR '';''}"
      moreover have "hex_val CHR ''&'' = None" "hex_val CHR ''='' = None" "hex_val CHR '';'' = None"
        by (simp_all add: hex_val_def is_digit_def)
      ultimately show False using hex_val_upper [OF that] by auto
    qed
    moreover have "byte d div 16 < 16" "byte d mod 16 < 16" by (auto simp: div_less_iff_less_mult)
    ultimately show ?thesis
      using that by (auto simp: url_escape_byte_def url_unreserved_def is_digit_def split: if_splits)
  qed
  then show "c \<in> set (url_QueryEscape s) \<Longrightarrow> ?thesis" by (auto simp: url_QueryEscape_def)
qed

lemma parse_encoded_param: "parse_param (url_QueryEscape k @ ''='' @ url_QueryEscape v) = [(k, v)]"
proof -
  have "takeWhile (\<lambda>c. c \<noteq> CHR ''='') (url_QueryEscape k @ CHR ''='' # url_QueryEscape v) = url_QueryEscape k"
    "dropWhile (\<lambda>c. c \<noteq> CHR ''='') (url_QueryEscape k @ CHR ''='' # url_QueryEscape v) = CHR ''='' # url_QueryEscape v"
    using escape_chars [of _ k] by (auto simp: takeWhile_append dropWhile_append)
  then show ?thesis
    using escape_chars [of "CHR '';''" k] escape_chars [of "CHR '';''" v]
    by (auto simp: parse_param_def QueryUnescape_QueryEscape)
qed

text \<open>An encoded query is parsed to its values, ordered by their keys.\<close>

theorem Query_Encode: "q \<noteq> [] \<Longrightarrow> url_Query (url_Encode q) = sort_key fst q"
proof -
  assume q: "q \<noteq> []"
  let ?p = "\<lambda>(k, v). url_QueryEscape k @ ''='' @ url_QueryEscape v"
  have sorted: "sort_key fst q \<noteq> []" using q by (metis length_sort length_0_conv)
  have "CHR ''&'' \<notin> set (?p e)" for e
    using escape_chars [of "CHR ''&''" "fst e"] escape_chars [of "CHR ''&''" "snd e"] by (auto split: prod.splits)
  then have "split_char CHR ''&'' (url_Encode q) = map ?p (sort_key fst q)"
    unfolding url_Encode_def using sorted by (intro split_join) auto
  moreover have "concat (map parse_param (map ?p es)) = es" for es
    by (induction es) (auto simp del: append.simps simp: parse_encoded_param)
  ultimately show ?thesis by (simp add: url_Query_def)
qed

end
