(* ===== verification/Go_Time.thy ===== *)
theory Go_Time
  imports Go_Strings
begin

text \<open>
  Go's package \<open>time\<close> as far as the program uses it: seconds since 1970, their RFC 3339 text in a
  zone given by its offset, and \<open>time.Parse(time.RFC3339, _)\<close> with what it accepts beyond the
  standard (one-digit hours, fractions after a point or a comma, offsets up to 24:60).
\<close>

section \<open>Calendar\<close>

definition is_leap :: "int \<Rightarrow> bool" where
  "is_leap y \<longleftrightarrow> y mod 4 = 0 \<and> (y mod 100 \<noteq> 0 \<or> y mod 400 = 0)"

definition days_in :: "int \<Rightarrow> int \<Rightarrow> int" where
  "days_in m y = (if m = 2 then (if is_leap y then 29 else 28) else if m \<in> {4, 6, 9, 11} then 30 else 31)"

text \<open>Days since 1 January 1970, in the calendar whose years start in March.\<close>

definition days_of_date :: "int \<Rightarrow> int \<Rightarrow> int \<Rightarrow> int" where
  "days_of_date y m d =
     (let y' = (if m \<le> 2 then y - 1 else y);
          mp = (if m > 2 then m - 3 else m + 9)
      in 365 * y' + y' div 4 - y' div 100 + y' div 400 + (153 * mp + 2) div 5 + d - 1 - 719468)"

definition date_of_days :: "int \<Rightarrow> int \<times> int \<times> int" where
  "date_of_days z =
     (let z' = z + 719468;
          era = z' div 146097;
          doe = z' mod 146097;
          yoe = (doe - doe div 1460 + doe div 36524 - doe div 146096) div 365;
          doy = doe - (365 * yoe + yoe div 4 - yoe div 100);
          mp = (5 * doy + 2) div 153;
          d = doy - (153 * mp + 2) div 5 + 1;
          m = (if mp < 10 then mp + 3 else mp - 9)
      in (yoe + era * 400 + (if m \<le> 2 then 1 else 0), m, d))"

section \<open>Format\<close>

text \<open>\<open>appendInt\<close>: decimal digits padded with zeros to a width.\<close>

definition pad_int :: "nat \<Rightarrow> int \<Rightarrow> string" where
  "pad_int w n = (let ds = dec_digits (nat \<bar>n\<bar>) in
     (if n < 0 then ''-'' else []) @ replicate (w - length ds) CHR ''0'' @ ds)"

text \<open>
  The package counts absolute seconds from March of the year -292277022400, in 64 bits; texts of
  instants outside that range wrap around.
\<close>

definition unix_to_absolute :: int where "unix_to_absolute = 9223372028741760000"

definition absolute_unix :: "int \<Rightarrow> int \<Rightarrow> int" where
  "absolute_unix offset sec = (sec + offset + unix_to_absolute) mod 2 ^ 64 - unix_to_absolute"

definition zone_text :: "int \<Rightarrow> string" where
  "zone_text offset =
     (if offset = 0 then ''Z''
      else let zone = go_div offset 60 in
        (if zone < 0 then ''-'' else ''+'') @ pad_int 2 (\<bar>zone\<bar> div 60) @ '':'' @ pad_int 2 (\<bar>zone\<bar> mod 60))"

definition time_Format_RFC3339 :: "(int \<Rightarrow> int) \<Rightarrow> int \<Rightarrow> string" where
  "time_Format_RFC3339 zone sec =
     (let offset = zone sec;
          t = absolute_unix offset sec;
          (y, m, d) = date_of_days (t div 86400);
          s = t mod 86400
      in pad_int 4 y @ ''-'' @ pad_int 2 m @ ''-'' @ pad_int 2 d @ ''T''
         @ pad_int 2 (s div 3600) @ '':'' @ pad_int 2 (s mod 3600 div 60) @ '':'' @ pad_int 2 (s mod 60)
         @ zone_text offset)"

section \<open>Parse\<close>

text \<open>\<open>getnum\<close>: two digits, or one when it need not be fixed; with the rest of the text.\<close>

fun getnum :: "bool \<Rightarrow> string \<Rightarrow> (int \<times> string) option" where
  "getnum fixed (c # d # s) =
     (if is_digit c then
        (if is_digit d then Some (int (10 * digit_val c + digit_val d), s)
         else if fixed then None else Some (int (digit_val c), d # s))
      else None)"
| "getnum fixed [c] = (if is_digit c \<and> \<not> fixed then Some (int (digit_val c), []) else None)"
| "getnum fixed [] = None"

fun eat :: "char \<Rightarrow> string \<Rightarrow> string option" where
  "eat c [] = None"
| "eat c (d # s) = (if c = d then Some s else None)"

definition getyear :: "string \<Rightarrow> (int \<times> string) option" where
  "getyear s = (if length s < 4 then None
     else case parse_dec (take 4 s) of None \<Rightarrow> None | Some n \<Rightarrow> Some (int n, drop 4 s))"

text \<open>A fraction after the seconds is skipped: the program only uses whole seconds.\<close>

fun skip_fraction :: "string \<Rightarrow> string" where
  "skip_fraction (c # d # s) =
     (if (c = CHR ''.'' \<or> c = CHR '','') \<and> is_digit d then dropWhile is_digit s else c # d # s)"
| "skip_fraction s = s"

definition getzone :: "string \<Rightarrow> (int \<times> string) option" where
  "getzone s =
     (case s of
        CHR ''Z'' # r \<Rightarrow> Some (0, r)
      | sign # h1 # h2 # CHR '':'' # m1 # m2 # r \<Rightarrow>
          (case (getnum True [h1, h2], getnum True [m1, m2]) of
             (Some (hr, _), Some (mm, _)) \<Rightarrow>
               if hr > 24 \<or> mm > 60 then None
               else if sign = CHR ''+'' then Some ((hr * 60 + mm) * 60, r)
               else if sign = CHR ''-'' then Some (- ((hr * 60 + mm) * 60), r)
               else None
           | _ \<Rightarrow> None)
      | _ \<Rightarrow> None)"

definition in_range :: "int \<Rightarrow> int \<Rightarrow> int \<times> string \<Rightarrow> (int \<times> string) option" where
  "in_range lo hi r = (if lo \<le> fst r \<and> fst r \<le> hi then Some r else None)"

text \<open>The Unix time of a text, or nothing when \<open>time.Parse\<close> reports an error.\<close>

definition time_Parse_RFC3339 :: "string \<Rightarrow> int option" where
  "time_Parse_RFC3339 s =
     Option.bind (getyear s) (\<lambda>(y, s). Option.bind (eat CHR ''-'' s) (\<lambda>s.
     Option.bind (Option.bind (getnum True s) (in_range 1 12)) (\<lambda>(mo, s). Option.bind (eat CHR ''-'' s) (\<lambda>s.
     Option.bind (getnum True s) (\<lambda>(d, s). Option.bind (eat CHR ''T'' s) (\<lambda>s.
     Option.bind (Option.bind (getnum False s) (in_range 0 23)) (\<lambda>(h, s). Option.bind (eat CHR '':'' s) (\<lambda>s.
     Option.bind (Option.bind (getnum True s) (in_range 0 59)) (\<lambda>(mi, s). Option.bind (eat CHR '':'' s) (\<lambda>s.
     Option.bind (Option.bind (getnum True s) (in_range 0 59)) (\<lambda>(sec, s).
     Option.bind (getzone (skip_fraction s)) (\<lambda>(off, s).
       if s \<noteq> [] \<or> d < 1 \<or> d > days_in mo y then None
       else Some (days_of_date y mo d * 86400 + h * 3600 + mi * 60 + sec - off)))))))))))))"

end
