(* ===== verification/Handlers_Setup.thy ===== *)
theory Handlers_Setup
  imports Http Discovery JSON_Roundtrip Go_URL Go_Time
begin

text \<open>
  \<open>handlers_setup.go\<close>, \<open>handlers_events.go\<close>, \<open>handlers_health.go\<close> and the start page of
  \<open>handlers_media.go\<close>: the JSON interface of the service.  \<open>msg\<close> is the text of an error.
\<close>

definition json_type :: string where "json_type = ''application/json''"

text \<open>Setting the content type and encoding a value.\<close>

definition json_reply :: "json \<Rightarrow> response" where
  "json_reply v = Write (json_Encode v) (Header_Set ''Content-Type'' json_type new_response)"

definition json_status :: "int \<Rightarrow> json \<Rightarrow> response" where
  "json_status code v = Write (json_Encode v) (WriteHeader code (Header_Set ''Content-Type'' json_type new_response))"

text \<open>\<open>map[string]interface{}{"ok": ..., "message": ...}\<close>: the keys of a map are printed in order.\<close>

definition ok_message :: "bool \<Rightarrow> string \<Rightarrow> json" where
  "ok_message b m = JObject [(''message'', JString m), (''ok'', JBool b)]"

section \<open>Discovery and settings\<close>

definition json_of_device :: "DeviceInfo \<Rightarrow> json" where
  "json_of_device d = JObject [(''device_id'', JString (di_DeviceID d)), (''product_code'', JString (di_ProductCode d)),
     (''device_serial_number'', JString (di_DeviceSerialNumber d)),
     (''product_serial_number'', JString (di_ProductSerialNumber d)),
     (''firmware_version'', JString (di_FirmwareVersion d)), (''ip_address'', JString (di_IPAddress d)),
     (''name'', JString (di_Name d))]"

definition handleListDiscoveredDevices :: "(go_error \<Rightarrow> string) \<Rightarrow> Server \<Rightarrow> world \<Rightarrow> request \<Rightarrow> response" where
  "handleListDiscoveredDevices msg s w r =
     (case ListAllDevices (sv_ds s) w of
        Inl e \<Rightarrow> http_Error (msg e) 500 new_response
      | Inr devices \<Rightarrow> json_reply (JArray (map json_of_device devices)))"

text \<open>A run over the speakers that will be found is started; the content type is left to the server.\<close>

definition handleTriggerDiscovery :: "DiscoveredDevice list \<Rightarrow> scans \<Rightarrow> request \<Rightarrow> response \<times> scans" where
  "handleTriggerDiscovery devices c r =
     (case c of (s, rs, w) \<Rightarrow>
        (Write ''{\"status\": \"Discovery started\"}'' (WriteHeader 202 new_response),
         (s\<lparr>sv_discovering := True\<rparr>, rs @ [devices], w)))"

definition handleGetDiscoveryStatus :: "Server \<Rightarrow> request \<Rightarrow> response" where
  "handleGetDiscoveryStatus s r = json_reply (JObject [(''discovering'', JBool (sv_discovering s))])"

definition handleGetSettings :: "Server \<Rightarrow> request \<Rightarrow> response" where
  "handleGetSettings s r = json_reply (JObject [(''proxy_url'', JString (sv_proxyURL s)), (''server_url'', JString (sv_serverURL s))])"

definition json_of_live :: "DeviceInfoXML \<Rightarrow> json" where
  "json_of_live x = JObject [(''deviceID'', JString (lx_DeviceID x)), (''name'', JString (lx_Name x)),
     (''type'', JString (lx_Type x)), (''maccAddress'', JString (lx_MaccAddress x)),
     (''softwareVersion'', JString (lx_SoftwareVer x)), (''serialNumber'', JString (lx_SerialNumber x))]"

definition handleGetDeviceInfo :: "(go_error \<Rightarrow> string) \<Rightarrow> (string \<Rightarrow> string result) \<Rightarrow> request \<Rightarrow> response" where
  "handleGetDeviceInfo msg get r =
     (let deviceIP = rq_Param r ''deviceIP'' in
      if deviceIP = [] then http_Error ''Device IP is required'' 400 new_response
      else case GetLiveDeviceInfo get deviceIP of
        Inl e \<Rightarrow> http_Error (msg e) 500 new_response
      | Inr info \<Rightarrow> json_reply (json_of_live info))"

section \<open>Migration\<close>

text \<open>The options among the values of the query: the first value of each of four keys.\<close>

definition query_options :: "query \<Rightarrow> options" where
  "query_options q = Some (\<lambda>k. if k \<in> {''marge'', ''stats'', ''sw_update'', ''bmx''} then map_of q k else None)"

definition json_of_cfg :: "PrivateCfg \<Rightarrow> json" where
  "json_of_cfg c = JObject [(''margeServerUrl'', JString (pc_MargeServerUrl c)),
     (''statsServerUrl'', JString (pc_StatsServerUrl c)), (''swUpdateUrl'', JString (pc_SwUpdateUrl c)),
     (''usePandoraProductionServer'', JBool (pc_UsePandoraProductionServer c)),
     (''isZeroconfEnabled'', JBool (pc_IsZeroconfEnabled c)),
     (''saveMargeCustomerReport'', JBool (pc_SaveMargeCustomerReport c)),
     (''bmxRegistryUrl'', JString (pc_BmxRegistryUrl c))]"

text \<open>A slice that was never appended to is \<open>null\<close>.\<close>

definition json_of_summary :: "MigrationSummary \<Rightarrow> json" where
  "json_of_summary m = JObject
     ([(''ssh_success'', JBool (ms_SSHSuccess m)), (''current_config'', JString (ms_CurrentConfig m)),
       (''planned_config'', JString (ms_PlannedConfig m))]
      @ omit_string ''original_config'' (ms_OriginalConfig m)
      @ omit_nil ''parsed_current_config'' (map_option json_of_cfg (ms_ParsedCurrentConfig m))
      @ [(''remote_services_enabled'', JBool (ms_RemoteServicesEnabled m)),
         (''remote_services_persistent'', JBool (ms_RemoteServicesPersistent m)),
         (''remote_services_found'', if ms_RemoteServicesFound m = [] then JNull
            else JArray (map JString (ms_RemoteServicesFound m)))]
      @ omit_string ''remote_services_check_err'' (ms_RemoteServicesCheckErr m)
      @ omit_string ''device_name'' (ms_DeviceName m) @ omit_string ''device_model'' (ms_DeviceModel m)
      @ omit_string ''device_serial'' (ms_DeviceSerial m) @ omit_string ''firmware_version'' (ms_FirmwareVersion m))"

definition handleGetMigrationSummary ::
  "(go_error \<Rightarrow> string) \<Rightarrow> ssh_library \<Rightarrow> (string \<Rightarrow> string result) \<Rightarrow> Server \<Rightarrow> world \<Rightarrow> request \<Rightarrow> ssh_history
    \<Rightarrow> response \<times> ssh_history" where
  "handleGetMigrationSummary msg lib get s w r h =
     (let deviceIP = rq_Param r ''deviceIP''; q = url_Query (rq_RawQuery r) in
      if deviceIP = [] then (http_Error ''Device IP is required'' 400 new_response, h)
      else let (summary, h') = GetMigrationSummary msg lib get (sv_sm s) w deviceIP (query_Get q ''target_url'')
             (query_Get q ''proxy_url'') (query_options q) h
           in (json_reply (json_of_summary summary), h'))"

text \<open>The answers of the three operations that change a speaker.\<close>

definition ok_reply :: "(go_error \<Rightarrow> string) \<Rightarrow> string \<Rightarrow> unit result \<Rightarrow> response" where
  "ok_reply msg success result =
     (case result of Inl e \<Rightarrow> json_status 500 (ok_message False (msg e)) | Inr _ \<Rightarrow> json_reply (ok_message True success))"

definition missing_ip :: response where
  "missing_ip = json_status 400 (ok_message False ''Device IP is required'')"

definition handleMigrateDevice ::
  "(go_error \<Rightarrow> string) \<Rightarrow> ssh_library \<Rightarrow> Server \<Rightarrow> request \<Rightarrow> ssh_history \<Rightarrow> response \<times> ssh_history" where
  "handleMigrateDevice msg lib s r h =
     (let deviceIP = rq_Param r ''deviceIP''; q = url_Query (rq_RawQuery r) in
      if deviceIP = [] then (missing_ip, h)
      else let (result, h') = MigrateSpeaker lib (sv_sm s) deviceIP (query_Get q ''target_url'')
             (query_Get q ''proxy_url'') (query_options q) h
           in (ok_reply msg ''Migration started'' result, h'))"

definition handleEnsureRemoteServices ::
  "(go_error \<Rightarrow> string) \<Rightarrow> ssh_library \<Rightarrow> request \<Rightarrow> ssh_history \<Rightarrow> response \<times> ssh_history" where
  "handleEnsureRemoteServices msg lib r h =
     (let deviceIP = rq_Param r ''deviceIP'' in
      if deviceIP = [] then (missing_ip, h)
      else let (result, h') = EnsureRemoteServices lib deviceIP h
           in (ok_reply msg ''Remote services ensured'' result, h'))"

definition handleBackupConfig ::
  "(go_error \<Rightarrow> string) \<Rightarrow> ssh_library \<Rightarrow> request \<Rightarrow> ssh_history \<Rightarrow> response \<times> ssh_history" where
  "handleBackupConfig msg lib r h =
     (let deviceIP = rq_Param r ''deviceIP'' in
      if deviceIP = [] then (missing_ip, h)
      else let (result, h') = BackupConfig lib deviceIP h
           in (ok_reply msg ''Backup created'' result, h'))"

section \<open>Logging of the proxy\<close>

definition handleGetProxySettings :: "Server \<Rightarrow> request \<Rightarrow> response" where
  "handleGetProxySettings s r =
     json_reply (JObject [(''log_body'', JBool (sv_proxyLogBody s)), (''redact'', JBool (sv_proxyRedact s))])"

text \<open>
  Decoding into a struct of two booleans: keys are compared without case, \<open>null\<close> leaves a field as it is,
  any other value than a boolean is an error.  \<open>None\<close> is an error; the decoder reads one value and ignores
  what follows it.
\<close>

definition bool_entry :: "bool \<Rightarrow> json \<Rightarrow> bool option" where
  "bool_entry old v = (case v of JBool b \<Rightarrow> Some b | JNull \<Rightarrow> Some old | _ \<Rightarrow> None)"

definition settings_entry :: "string \<times> json \<Rightarrow> (bool \<times> bool) option \<Rightarrow> (bool \<times> bool) option" where
  "settings_entry e st = (case st of None \<Rightarrow> None | Some (redact, log_body) \<Rightarrow>
     (if EqualFold_ascii ''redact'' (fst e) then map_option (\<lambda>b. (b, log_body)) (bool_entry redact (snd e))
      else if EqualFold_ascii ''log_body'' (fst e) then map_option (\<lambda>b. (redact, b)) (bool_entry log_body (snd e))
      else st))"

definition decode_settings :: "string \<Rightarrow> (bool \<times> bool) option" where
  "decode_settings body = (case json_value max_nesting (skip_ws body) of
      Some (JObject es, _) \<Rightarrow> fold settings_entry es (Some (False, False))
    | Some (JNull, _) \<Rightarrow> Some (False, False)
    | _ \<Rightarrow> None)"

text \<open>\<open>bad\<close> is the text of the decoder's error for a body.\<close>

definition handleUpdateProxySettings :: "(string result \<Rightarrow> string) \<Rightarrow> Server \<Rightarrow> request \<Rightarrow> response \<times> Server" where
  "handleUpdateProxySettings bad s r =
     (case rq_Body r of
        Inl e \<Rightarrow> (http_Error (bad (Inl e)) 400 new_response, s)
      | Inr body \<Rightarrow>
          (case decode_settings body of
             None \<Rightarrow> (http_Error (bad (Inr body)) 400 new_response, s)
           | Some (redact, log_body) \<Rightarrow>
               (json_reply (ok_message True ''Proxy settings updated''),
                s\<lparr>sv_proxyRedact := redact, sv_proxyLogBody := log_body\<rparr>)))"

section \<open>Events, health, start page\<close>

text \<open>A map is printed in the order of its keys; a nil map is \<open>null\<close>.\<close>

definition json_of_map :: "(string \<times> json) list option \<Rightarrow> json" where
  "json_of_map m = (case m of None \<Rightarrow> JNull | Some es \<Rightarrow> JObject (sort_key fst es))"

definition json_of_event :: "DeviceEvent \<Rightarrow> json" where
  "json_of_event e = JObject [(''type'', JString (de_Type e)), (''time'', JString (de_Time e)),
     (''monoTime'', json_int (de_MonoTime e)), (''data'', json_of_map (de_Data e))]"

definition handleGetDeviceEvents :: "DataStore \<Rightarrow> request \<Rightarrow> response" where
  "handleGetDeviceEvents ds r =
     (let deviceID = rq_Param r ''deviceId'' in
      if deviceID = [] then http_Error ''Device ID is required'' 400 new_response
      else json_reply (JObject [(''events'', JArray (map json_of_event (GetDeviceEvents ds deviceID)))]))"

text \<open>What \<open>debug.ReadBuildInfo\<close> gives: the version of the module and its settings.\<close>

type_synonym build_info = "(string \<times> (string \<times> string) list) option"

definition last_setting :: "string \<Rightarrow> (string \<times> string) list \<Rightarrow> string" where
  "last_setting k settings = foldl (\<lambda>v e. if fst e = k then snd e else v) [] settings"

definition handleHealth :: "build_info \<Rightarrow> world \<Rightarrow> request \<Rightarrow> response \<times> world" where
  "handleHealth info w r =
     (let version = (case info of Some (v, _) \<Rightarrow> if v \<noteq> [] \<and> v \<noteq> ''(devel)'' then v else ''0.0.1'' | None \<Rightarrow> ''0.0.1'');
          setting = (\<lambda>k. case info of Some (_, settings) \<Rightarrow> last_setting k settings | None \<Rightarrow> []);
          (now, w1) = time_Now w
      in (json_status 200 (JObject
            ([(''status'', JString ''up''),
              (''timestamp'', JString (time_Format_RFC3339 (w_zone w) (now div 1000000000)))]
             @ omit_string ''vcs_modified'' (setting ''vcs.modified'')
             @ omit_string ''vcs_revision'' (setting ''vcs.revision'')
             @ omit_string ''vcs_time'' (setting ''vcs.time'')
             @ [(''version'', JString version)])), w1))"

definition handleRoot :: "string \<Rightarrow> request \<Rightarrow> response" where
  "handleRoot indexHTML r =
     (let accept = rq_Header r ''Accept'' in
      if \<not> strings_Contains accept ''text/html''
         \<and> (strings_Contains accept json_type \<or> accept = ''*/*'' \<or> accept = [])
      then Write ''{\"Bose\": \"Can't Brick Us\", \"service\": \"Go/Chi\"}'' (Header_Set ''Content-Type'' json_type new_response)
      else Write indexHTML (Header_Set ''Content-Type'' ''text/html'' new_response))"

end
