(* ===== verification/Datastore_Laws.thy ===== *)
theory Datastore_Laws
  imports Datastore
begin

text \<open>
  What the methods of \<open>DataStore\<close> promise their callers: what was saved is loaded (up to the
  replacement of bytes XML cannot carry, and the fields that are not stored), saving one kind of
  record leaves the others alone, and where the files lie.  The locale \<open>record_store\<close> states the
  contract of one kind of record over the file interface; it is interpreted for presets, recents,
  sources and device information.
\<close>

section \<open>The contract of a record store\<close>

locale record_store = file_medium rd wr apart
  for rd :: "'w \<Rightarrow> 'p \<Rightarrow> 'e + string" and wr and apart +
  fixes path :: "'k \<Rightarrow> 'p"
    and enc :: "'a \<Rightarrow> string"
    and dec :: "'p \<Rightarrow> string \<Rightarrow> 'e + 'b"
    and norm :: "'a \<Rightarrow> 'b"
    and save :: "'w \<Rightarrow> 'k \<Rightarrow> 'a \<Rightarrow> ('e + unit) \<times> 'w"
    and load :: "'w \<Rightarrow> 'k \<Rightarrow> 'e + 'b"
  assumes dec_enc: "dec p (enc x) = Inr (norm x)"
    and save_writes: "save w k x = (Inr (), w') \<Longrightarrow>
      \<exists>w1. wr w1 (path k) (enc x) = (Inr (), w') \<and> (\<forall>q t. rd w q = Inr t \<longrightarrow> rd w1 q = Inr t)
        \<and> apart w1 = apart w"
    and load_reads: "load w k = (case rd w (path k) of Inl e \<Rightarrow> Inl e | Inr t \<Rightarrow> dec (path k) t)"
begin

lemma load_saved:
  assumes "save w k x = (Inr (), w')"
  shows "load w' k = Inr (norm x)"
proof -
  from save_writes [OF assms] obtain w1 where "wr w1 (path k) (enc x) = (Inr (), w')" by blast
  then have "rd w' (path k) = Inr (enc x)" by (rule read_written)
  then show ?thesis by (simp add: load_reads dec_enc)
qed

lemma saved_apart:
  assumes "save w k x = (Inr (), w')" "apart w (path k) q" "rd w q = Inr t"
  shows "rd w' q = Inr t"
proof -
  from save_writes [OF assms(1)] obtain w1 where w1: "wr w1 (path k) (enc x) = (Inr (), w')"
    "rd w1 q = Inr t" "apart w1 = apart w" using assms(3) by blast
  with read_apart [OF w1(1)] assms(2) show ?thesis by simp
qed

lemma load_other:
  assumes "save w k x = (Inr (), w')" "apart w (path k) (path j)" "load w j = Inr y"
  shows "load w' j = Inr y"
proof -
  from assms(3) obtain t where "rd w (path j) = Inr t"
    by (cases "rd w (path j)") (auto simp: load_reads)
  with saved_apart [OF assms(1,2) this] assms(3) show ?thesis by (simp add: load_reads)
qed

end

section \<open>Codecs\<close>

lemmas tag_eval = tag_name_def name_byte_eval omit_empty_def omit_empty_elem_def

lemmas codec_simps = go_xml fold_children_kids attr_into_simps attr_into_omit attrs_tree.simps
  feed.simps chardata_text

declare text_nodes.simps [simp del]

definition clean_content :: "content_xml \<Rightarrow> content_xml" where
  "clean_content x = \<lparr>cx_Source = sanitize (cx_Source x), cx_Type = sanitize (cx_Type x),
     cx_Location = sanitize (cx_Location x), cx_SourceAccount = sanitize (cx_SourceAccount x),
     cx_IsPresetable = sanitize (cx_IsPresetable x), cx_ItemName = sanitize (cx_ItemName x),
     cx_ContainerArt = sanitize (cx_ContainerArt x)\<rparr>"

lemma names_content [simp]: "tag_name tag \<Longrightarrow> names_ok (encode_content tag x)"
  by (auto simp: encode_content_def content_attrs_def omit_empty_def) (simp_all add: tag_eval)

lemma feed_content [simp]:
  "feed nl d f s (encode_content tag x) =
     f tag (attrs_tree (content_attrs x))
      (kids nl d [MText ''itemName'' [] (cx_ItemName x), MText ''containerArt'' [] (cx_ContainerArt x)]) s"
  by (simp add: encode_content_def)

lemma decode_encode_content:
  "decode_content (attrs_tree (content_attrs x))
      (kids nl d [MText ''itemName'' [] (cx_ItemName x), MText ''containerArt'' [] (cx_ContainerArt x)])
      zero_content = clean_content x"
  by (cases x) (simp add: decode_content_def content_attrs_def codec_simps content_child_def zero_content_def clean_content_def)

lemma foldl_snoc_map:
  "(\<And>s m. m \<in> set ms \<Longrightarrow> g s m = s @ [h m]) \<Longrightarrow> foldl g s ms = s @ map h ms"
  by (induction ms arbitrary: s) auto

subsection \<open>Presets\<close>

definition clean_preset_xml :: "preset_xml \<Rightarrow> preset_xml" where
  "clean_preset_xml p = \<lparr>px_ID = sanitize (px_ID p), px_CreatedOn = sanitize (px_CreatedOn p),
     px_UpdatedOn = sanitize (px_UpdatedOn p), px_ContentItem = clean_content (px_ContentItem p)\<rparr>"

text \<open>A preset as it comes back from disk: the source id is not stored, \<open>isPresetable\<close> is fixed.\<close>

definition stored_preset :: "Preset \<Rightarrow> Preset" where
  "stored_preset p =
     \<lparr>ci_ID = sanitize (ci_ID p), ci_Name = sanitize (ci_Name p), ci_Source = sanitize (ci_Source p),
      ci_Type = sanitize (ci_Type p), ci_Location = sanitize (ci_Location p),
      ci_SourceAccount = sanitize (ci_SourceAccount p), ci_SourceID = [], ci_IsPresetable = ''true'',
      p_ContainerArt = sanitize (p_ContainerArt p), p_CreatedOn = sanitize (p_CreatedOn p),
      p_UpdatedOn = sanitize (p_UpdatedOn p)\<rparr>"

lemma sanitize_true [simp]: "sanitize ''true'' = ''true''"
  by (simp add: sanitize_ascii ascii_text_def)

lemma stored_preset_xml: "preset_of_xml (clean_preset_xml (xml_of_preset p)) = stored_preset p"
  by (simp add: stored_preset_def preset_of_xml_def clean_preset_xml_def xml_of_preset_def clean_content_def Let_def)

lemma decode_encode_preset:
  "decode_preset (attrs_tree [(''id'', px_ID p), (''createdOn'', px_CreatedOn p), (''updatedOn'', px_UpdatedOn p)])
     (kids nl d [encode_content ''ContentItem'' (px_ContentItem p)]) = clean_preset_xml p"
  by (cases p) (simp add: decode_preset_def codec_simps preset_child_def decode_encode_content clean_preset_xml_def)

lemma names_presets: "names_ok (MElems ''presets'' [] (map (encode_preset \<circ> xml_of_preset) ps))"
proof -
  have "tag_name ''ContentItem''" by (simp add: tag_eval)
  then show ?thesis by (auto simp: encode_preset_def) (simp_all add: tag_eval)
qed

lemma read_presets_document: "read_presets path (presets_document ps) = Inr (map stored_preset ps)"
proof -
  have "foldl (feed nl d (\<lambda>l as cs ps. if l = ''preset'' then ps @ [decode_preset as cs] else ps)) []
      (map (encode_preset \<circ> xml_of_preset) ps) = map (clean_preset_xml \<circ> xml_of_preset) ps" for nl d
    by (subst foldl_map, subst foldl_snoc_map [where h = "clean_preset_xml \<circ> xml_of_preset"])
       (simp_all add: encode_preset_def decode_encode_preset del: attrs_tree.simps)
  then have "decode_presets as (kids nl d (map (encode_preset \<circ> xml_of_preset) ps))
      = map (clean_preset_xml \<circ> xml_of_preset) ps" for as nl d
    by (simp add: decode_presets_def fold_children_kids)
  then show ?thesis
    using Unmarshal_MarshalIndent [OF names_presets, of None decode_presets 4 ps]
    by (simp add: read_presets_def presets_document_def stored_preset_xml [symmetric])
qed

subsection \<open>Recents\<close>

definition clean_recent_xml :: "recent_xml \<Rightarrow> recent_xml" where
  "clean_recent_xml r = \<lparr>rx_ID = sanitize (rx_ID r), rx_DeviceID = sanitize (rx_DeviceID r),
     rx_UtcTime = sanitize (rx_UtcTime r), rx_ContentItem = clean_content (rx_ContentItem r)\<rparr>"

definition stored_recent :: "Recent \<Rightarrow> Recent" where
  "stored_recent r =
     \<lparr>ci_ID = sanitize (ci_ID r), ci_Name = sanitize (ci_Name r), ci_Source = sanitize (ci_Source r),
      ci_Type = sanitize (ci_Type r), ci_Location = sanitize (ci_Location r),
      ci_SourceAccount = sanitize (ci_SourceAccount r), ci_SourceID = [],
      ci_IsPresetable = (if ci_IsPresetable r = [] then ''true'' else sanitize (ci_IsPresetable r)),
      r_DeviceID = sanitize (r_DeviceID r), r_UtcTime = sanitize (r_UtcTime r),
      r_ContainerArt = sanitize (r_ContainerArt r)\<rparr>"

lemma stored_recent_xml: "recent_of_xml (clean_recent_xml (xml_of_recent r)) = stored_recent r"
  by (simp add: stored_recent_def recent_of_xml_def clean_recent_xml_def xml_of_recent_def clean_content_def Let_def)

lemma decode_encode_recent:
  "decode_recent (attrs_tree [(''id'', rx_ID r), (''deviceID'', rx_DeviceID r), (''utcTime'', rx_UtcTime r)])
     (kids nl d [encode_content ''contentItem'' (rx_ContentItem r)]) = clean_recent_xml r"
  by (cases r) (simp add: decode_recent_def codec_simps recent_child_def decode_encode_content clean_recent_xml_def)

lemma names_recents: "names_ok (MElems ''recents'' [] (map (encode_recent \<circ> xml_of_recent) rs))"
proof -
  have "tag_name ''contentItem''" by (simp add: tag_eval)
  then show ?thesis by (auto simp: encode_recent_def) (simp_all add: tag_eval)
qed

lemma read_recents_document: "read_recents path (recents_document rs) = Inr (map stored_recent rs)"
proof -
  have "foldl (feed nl d (\<lambda>l as cs rs. if l = ''recent'' then rs @ [decode_recent as cs] else rs)) []
      (map (encode_recent \<circ> xml_of_recent) rs) = map (clean_recent_xml \<circ> xml_of_recent) rs" for nl d
    by (subst foldl_map, subst foldl_snoc_map [where h = "clean_recent_xml \<circ> xml_of_recent"])
       (simp_all add: encode_recent_def decode_encode_recent del: attrs_tree.simps)
  then have "decode_recents as (kids nl d (map (encode_recent \<circ> xml_of_recent) rs))
      = map (clean_recent_xml \<circ> xml_of_recent) rs" for as nl d
    by (simp add: decode_recents_def fold_children_kids)
  then show ?thesis
    using Unmarshal_MarshalIndent [OF names_recents, of None decode_recents 4 rs]
    by (simp add: read_recents_def recents_document_def stored_recent_xml [symmetric])
qed

subsection \<open>Sources\<close>

definition clean_source_xml :: "source_xml \<Rightarrow> source_xml" where
  "clean_source_xml s = \<lparr>sx_DisplayName = sanitize (sx_DisplayName s), sx_ID = sanitize (sx_ID s),
     sx_Secret = sanitize (sx_Secret s), sx_SecretType = sanitize (sx_SecretType s),
     sx_Account = sanitize (sx_Account s), sx_Type = sanitize (sx_Type s)\<rparr>"

definition stored_sources :: "ConfiguredSource list \<Rightarrow> ConfiguredSource list" where
  "stored_sources ss = number_sources 100001 (map (clean_source_xml \<circ> xml_of_source) ss)"

lemma decode_encode_source:
  "decode_source (attrs_tree [(''displayName'', sx_DisplayName s), (''id'', sx_ID s), (''secret'', sx_Secret s),
      (''secretType'', sx_SecretType s)])
     (kids nl d [MElems ''sourceKey'' [(''account'', sx_Account s), (''type'', sx_Type s)] []]) = clean_source_xml s"
  by (cases s) (simp add: decode_source_def codec_simps source_child_def clean_source_xml_def)

lemma names_sources: "names_ok (MElems ''sources'' [] (map (encode_source \<circ> xml_of_source) ss))"
  by (auto simp: encode_source_def) (simp_all add: tag_eval)

lemma read_sources_document: "read_sources path (sources_document ss) = Inr (stored_sources ss)"
proof -
  have "foldl (feed nl d (\<lambda>l as cs ss. if l = ''source'' then ss @ [decode_source as cs] else ss)) []
      (map (encode_source \<circ> xml_of_source) ss) = map (clean_source_xml \<circ> xml_of_source) ss" for nl d
    by (subst foldl_map, subst foldl_snoc_map [where h = "clean_source_xml \<circ> xml_of_source"])
       (simp_all add: encode_source_def decode_encode_source del: attrs_tree.simps)
  then have "decode_sources as (kids nl d (map (encode_source \<circ> xml_of_source) ss))
      = map (clean_source_xml \<circ> xml_of_source) ss" for as nl d
    by (simp add: decode_sources_def fold_children_kids)
  then show ?thesis
    using Unmarshal_MarshalIndent [OF names_sources, of None decode_sources 4 ss]
    by (simp add: read_sources_def sources_document_def stored_sources_def)
qed

subsection \<open>Device information\<close>

definition stored_device :: "DeviceInfo \<Rightarrow> DeviceInfo" where
  "stored_device d =
     \<lparr>di_DeviceID = sanitize (di_DeviceID d),
      di_ProductCode = sanitize (fst (split_product (di_ProductCode d))) @ '' ''
        @ sanitize (snd (split_product (di_ProductCode d))),
      di_DeviceSerialNumber = sanitize (di_DeviceSerialNumber d),
      di_ProductSerialNumber = sanitize (di_ProductSerialNumber d),
      di_FirmwareVersion = sanitize (di_FirmwareVersion d),
      di_IPAddress = sanitize (di_IPAddress d), di_Name = sanitize (di_Name d)\<rparr>"

lemma component_feed:
  "foldl (feed nl d component_child) s (omit_empty_elem ''softwareVersion'' v) =
     (if v = [] then s else s\<lparr>co_SoftwareVersion := sanitize v\<rparr>)"
  "foldl (feed nl d component_child) s (omit_empty_elem ''serialNumber'' v) =
     (if v = [] then s else s\<lparr>co_SerialNumber := sanitize v\<rparr>)"
  by (simp_all add: omit_empty_elem_def component_child_def chardata_text)

lemma decode_component_kids:
  "decode_component (kids nl d (MText ''componentCategory'' [] c
      # omit_empty_elem ''softwareVersion'' v @ omit_empty_elem ''serialNumber'' n)) =
     \<lparr>co_Category = sanitize c, co_SoftwareVersion = sanitize v, co_SerialNumber = sanitize n\<rparr>"
  by (simp add: decode_component_def fold_children_kids component_feed) (simp add: component_child_def chardata_text)

lemma feed_component:
  "feed nl d (\<lambda>l as cs ys. if l = ''component'' then ys @ [decode_component cs] else ys) ys (encode_component c) =
     ys @ [\<lparr>co_Category = sanitize (co_Category c), co_SoftwareVersion = sanitize (co_SoftwareVersion c),
       co_SerialNumber = sanitize (co_SerialNumber c)\<rparr>]"
  by (simp add: encode_component_def decode_component_kids)

lemma sanitize_categories: "sanitize ''SCM'' = ''SCM''" "sanitize ''PackagedProduct'' = ''PackagedProduct''"
  by (simp_all add: sanitize_ascii ascii_text_def)

lemma names_device: "names_ok (encode_device d)"
proof -
  have tags: "tag_name ''softwareVersion''" "tag_name ''serialNumber''" by (simp_all add: tag_eval)
  have "names_ok (encode_component c)" for c
    by (auto simp: encode_component_def omit_empty_elem_def tags) (simp_all add: tag_eval)
  then show ?thesis by (auto simp: encode_device_def split: prod.splits) (simp_all add: tag_eval)
qed

lemma read_device_document: "read_device (device_document d) = Inr (stored_device d)"
proof -
  obtain ty mo where sp: "split_product (di_ProductCode d) = (ty, mo)" by force
  from Unmarshal_MarshalIndent [where root = "Some ''info''" and n = "''info''" and k = 4 and dec = decode_info]
    names_device [of d] sp
  show ?thesis
    by (simp add: read_device_def device_document_def encode_device_def decode_info_def fold_children_kids
        info_child_def chardata_text feed_component decode_network_def network_child_def attr_into_simps
        device_of_xml_def take_component_def take_network_def stored_device_def zero_DeviceInfo_def
        sanitize_categories)
qed

section \<open>The four record stores\<close>

interpretation presets: record_store os_ReadFile os_WriteFile apart_paths "presets_path ds"
  presets_document read_presets "map stored_preset" "SavePresets ds" "GetPresets ds" for ds
  by unfold_locales (auto simp: read_presets_document SavePresets_def GetPresets_def Let_def)

interpretation recents: record_store os_ReadFile os_WriteFile apart_paths "recents_path ds"
  recents_document read_recents "map stored_recent" "SaveRecents ds" "GetRecents ds" for ds
  by unfold_locales (auto simp: read_recents_document SaveRecents_def GetRecents_def Let_def)

interpretation sources: record_store os_ReadFile os_WriteFile apart_paths "sources_path ds"
  sources_document read_sources stored_sources "SaveConfiguredSources ds" "GetConfiguredSources ds" for ds
  by unfold_locales
     (auto simp: read_sources_document SaveConfiguredSources_def GetConfiguredSources_def Let_def
        split: prod.splits intro: MkdirAll_keeps_file dest: apart_MkdirAll)

interpretation devices: record_store os_ReadFile os_WriteFile apart_paths
  "\<lambda>(account, device). device_path ds account device" device_document "\<lambda>_. read_device" stored_device
  "\<lambda>w (account, device). SaveDeviceInfo ds w account device"
  "\<lambda>w (account, device). GetDeviceInfo ds w account device" for ds
  by unfold_locales
     (auto simp: read_device_document SaveDeviceInfo_def GetDeviceInfo_def
        split: prod.splits sum.splits if_splits intro: MkdirAll_keeps_file dest: apart_MkdirAll)

end
