(* ===== verification/Setup_Laws.thy ===== *)
theory Setup_Laws
  imports Setup Datastore_Laws "HOL-Library.Sublist"
begin

text \<open>
  What a migration does to a speaker.  The lemmas about sequences of commands are proved for every
  implementation of the interface \<open>remote_shell\<close>, and used for the ssh client; the properties speak
  about the commands that reach the speaker.
\<close>

declare text_nodes.simps [simp del]

section \<open>Growing logs\<close>

definition grows :: "remote_op set \<Rightarrow> remote_op list \<Rightarrow> remote_op list \<Rightarrow> bool" where
  "grows S a b \<longleftrightarrow> (\<exists>new. b = a @ new \<and> set new \<subseteq> S)"

lemma grows_refl [simp]: "grows S a a"
  by (simp add: grows_def)

lemma grows_trans: "grows S a b \<Longrightarrow> grows S b c \<Longrightarrow> grows S a c"
  by (auto simp: grows_def)

lemma grows_mono: "grows S a b \<Longrightarrow> S \<subseteq> T \<Longrightarrow> grows T a b"
  by (auto simp: grows_def)

text \<open>The commands that write the backup, and those that write the configuration or restart.\<close>

definition writes_original :: "remote_op set" where
  "writes_original = {Exec copy_original, Exec (write_cmd original_path)}"

definition commits :: "remote_op set" where
  "commits = {Exec (write_cmd SoundTouchSdkPrivateCfgPath), Exec reboot_cmd}"

definition touch_commands :: "string list" where
  "touch_commands = concat (map (\<lambda>loc. [rwCmd @ '' && touch '' @ loc, ''touch '' @ loc]) locations)"

text \<open>The reference for trying commands: stop at the first that succeeds.\<close>

fun first_ok :: "'h run \<Rightarrow> string list \<Rightarrow> 'h \<Rightarrow> bool \<times> 'h" where
  "first_ok run [] h = (False, h)"
| "first_ok run (c # cs) h = (case run c h of
     ((_, None), h1) \<Rightarrow> (True, h1) | ((_, Some _), h1) \<Rightarrow> first_ok run cs h1)"

lemma ensure_loop_first_ok:
  "ensure_loop run locs h =
    (let (ok, h') = first_ok run (concat (map (\<lambda>loc. [rwCmd @ '' && touch '' @ loc, ''touch '' @ loc]) locs)) h
     in (if ok then Inr () else fst (ensure_loop run [] h'), h'))"
  by (induction locs arbitrary: h) (auto split: prod.splits option.splits)

lemma ensure_first_ok:
  "ensure_services run h =
    (let (ok, h') = first_ok run touch_commands h in (if ok then Inr () else fst (ensure_loop run [] h'), h'))"
  unfolding ensure_services_def touch_commands_def by (rule ensure_loop_first_ok)

lemmas speaker_commands = test_original_def copy_original_def cat_cmd_def original_path_def rwCmd_def
  write_cmd_def reboot_cmd_def SoundTouchSdkPrivateCfgPath_def

lemma distinct_commands [simp]:
  "Exec test_original \<notin> writes_original" "Exec rwCmd \<notin> writes_original"
  "Exec (cat_cmd SoundTouchSdkPrivateCfgPath) \<notin> writes_original"
  "Exec (write_cmd SoundTouchSdkPrivateCfgPath) \<notin> writes_original"
  "Exec reboot_cmd \<notin> writes_original" "Input t \<notin> writes_original"
  "Exec test_original \<notin> commits" "Exec rwCmd \<notin> commits" "Exec copy_original \<notin> commits"
  "Exec (cat_cmd SoundTouchSdkPrivateCfgPath) \<notin> commits"
  "Exec (write_cmd original_path) \<notin> commits" "Input t \<notin> commits"
  by (simp_all add: writes_original_def commits_def speaker_commands)

lemma touch_harmless: "c \<in> set touch_commands \<Longrightarrow> Exec c \<notin> writes_original \<and> Exec c \<notin> commits"
  by (auto simp: touch_commands_def locations_def writes_original_def commits_def speaker_commands)

context remote_shell
begin

lemma run_grows: "run c h = (r, h') \<Longrightarrow> Exec c \<in> S \<Longrightarrow> grows S (log h) (log h')"
  using run_sends [of c h r h'] by (fastforce simp: grows_def)

lemma upload_grows:
  "upload t p h = (e, h') \<Longrightarrow> Exec (write_cmd p) \<in> S \<Longrightarrow> Input t \<in> S \<Longrightarrow> grows S (log h) (log h')"
  using upload_sends [of t p h e h'] by (fastforce simp: grows_def)

lemma first_ok_grows:
  "first_ok run cs h = (ok, h') \<Longrightarrow> Exec ` set cs \<subseteq> S \<Longrightarrow> grows S (log h) (log h')"
proof (induction cs arbitrary: h)
  case (Cons c cs)
  obtain out e h1 where r: "run c h = ((out, e), h1)" by (cases "run c h") auto
  with Cons have "grows S (log h) (log h1)" by (auto intro: run_grows)
  moreover have "grows S (log h1) (log h')" using Cons r by (cases e) auto
  ultimately show ?case by (rule grows_trans)
qed simp

lemma first_ok_length: "first_ok run cs h = (ok, h') \<Longrightarrow> length (log h') \<le> length (log h) + length cs"
proof (induction cs arbitrary: h)
  case (Cons c cs)
  obtain out e h1 where r: "run c h = ((out, e), h1)" by (cases "run c h") auto
  then have "length (log h1) \<le> length (log h) + 1" using run_log [OF r] by auto
  moreover have "length (log h') \<le> length (log h1) + length cs" using Cons r by (cases e) auto
  ultimately show ?case by simp
qed simp

lemma ensure_grows:
  assumes "ensure_services run h = (r, h')" shows "grows (Exec ` set touch_commands) (log h) (log h')"
proof -
  from assms obtain ok where "first_ok run touch_commands h = (ok, h')"
    by (auto simp: ensure_first_ok split: prod.splits)
  then show ?thesis by (rule first_ok_grows) simp
qed

end

definition test_failed :: "'h run \<Rightarrow> bool" where
  "test_failed run \<longleftrightarrow> (\<exists>h out e h'. run test_original h = ((out, Some e), h'))"

text \<open>What a migration sends at the end, as far as it gets: the configuration, and the restart.\<close>

definition commit_ops :: "PrivateCfg \<Rightarrow> remote_op list" where
  "commit_ops cfg = upload_ops (config_document cfg) SoundTouchSdkPrivateCfgPath @ [Exec reboot_cmd]"

context remote_shell
begin

lemma backup_original_grows:
  "backup_original run upload h = h' \<Longrightarrow>
    grows (- commits) (log h) (log h') \<and> (grows (- writes_original) (log h) (log h') \<or> test_failed run)"
proof -
  assume b: "backup_original run upload h = h'"
  obtain out e h1 where t: "run test_original h = ((out, e), h1)" by (cases "run test_original h") auto
  have g1: "grows (- commits \<inter> - writes_original) (log h) (log h1)" using t by (rule run_grows) simp
  show ?thesis
  proof (cases e)
    case None
    with b t have "h' = h1" by (simp add: backup_original_def)
    with g1 show ?thesis by (blast intro: grows_mono)
  next
    case (Some err)
    obtain out2 e2 h2 where c: "run copy_original h1 = ((out2, e2), h2)" by (cases "run copy_original h1") auto
    obtain config e3 h3 where k: "run (cat_cmd SoundTouchSdkPrivateCfgPath) h2 = ((config, e3), h3)"
      by (cases "run (cat_cmd SoundTouchSdkPrivateCfgPath) h2") auto
    obtain e4 h4 where u: "upload config original_path h3 = (e4, h4)" by (cases "upload config original_path h3") auto
    have "h' \<in> {h2, h3, h4}"
      using b t Some c k u by (auto simp: backup_original_def split: option.splits if_splits)
    moreover have "grows (- commits) (log h1) (log h2)" using c by (rule run_grows) simp
    moreover have "grows (- commits) (log h2) (log h3)" using k by (rule run_grows) simp
    moreover have "grows (- commits) (log h3) (log h4)" using u by (rule upload_grows) simp_all
    moreover have "test_failed run" using t Some by (auto simp: test_failed_def)
    ultimately show ?thesis using grows_mono [OF g1] by (blast intro: grows_trans)
  qed
qed

lemma migrate_steps:
  assumes "migrate run upload targetURL proxyURL options h = (r, h')"
  obtains h1 current h2 h4 where
    "grows (- commits \<inter> - writes_original) (log h) (log h1)"
    "run (cat_cmd SoundTouchSdkPrivateCfgPath) h1 = (current, h2)"
    "grows (- commits) (log h1) (log h4)" "grows (- writes_original) (log h1) (log h4) \<or> test_failed run"
    "\<exists>post. log h' = log h4 @ post \<and> prefix post (commit_ops (migration_cfg targetURL proxyURL options current))
      \<and> (r = Inr () \<longrightarrow> post = commit_ops (migration_cfg targetURL proxyURL options current))"
proof -
  let ?cat = "cat_cmd SoundTouchSdkPrivateCfgPath"
  obtain r1 h1 where e: "ensure_services run h = (r1, h1)" by force
  obtain current h2 where c: "run ?cat h1 = (current, h2)" by (cases "run ?cat h1") auto
  obtain h3 where b: "backup_original run upload h2 = h3" by simp
  obtain x h4 where w: "run rwCmd h3 = (x, h4)" by (cases "run rwCmd h3") auto
  let ?doc = "config_document (migration_cfg targetURL proxyURL options current)"
  obtain e5 h5 where u: "upload ?doc SoundTouchSdkPrivateCfgPath h4 = (e5, h5)" by (cases "upload ?doc SoundTouchSdkPrivateCfgPath h4") auto
  obtain o6 e6 h6 where rb: "run reboot_cmd h5 = ((o6, e6), h6)"
    by (cases "run reboot_cmd h5") auto
  note all = assms e c b w u rb
  have 1: "grows (- commits \<inter> - writes_original) (log h) (log h1)"
    using ensure_grows [OF e] touch_harmless by (auto intro: grows_mono)
  have 2: "grows (- commits \<inter> - writes_original) (log h1) (log h2)"
    "grows (- commits \<inter> - writes_original) (log h3) (log h4)"
    using run_grows [OF c] run_grows [OF w] by simp_all
  have 3: "grows (- commits) (log h1) (log h4)" "grows (- writes_original) (log h1) (log h4) \<or> test_failed run"
    using backup_original_grows [OF b] grows_mono [OF 2(1)] grows_mono [OF 2(2)] by (blast intro: grows_trans)+
  have "\<exists>post. log h' = log h4 @ post \<and> prefix post (upload_ops ?doc SoundTouchSdkPrivateCfgPath @ [Exec reboot_cmd])
      \<and> (r = Inr () \<longrightarrow> post = upload_ops ?doc SoundTouchSdkPrivateCfgPath @ [Exec reboot_cmd])"
  proof (cases e5)
    case (Some err)
    with all have "r \<noteq> Inr ()" "h' = h5" by (auto simp: migrate_def)
    with upload_log [OF u] Some show ?thesis by (auto simp: upload_ops_def)
  next
    case None
    with all have r: "h' = h6" "r = Inr () \<Longrightarrow> e6 = None"
      by (auto simp: migrate_def split: option.splits)
    from upload_ok [of ?doc] u None have "log h5 = log h4 @ upload_ops ?doc SoundTouchSdkPrivateCfgPath" by blast
    with run_log [OF rb] r show ?thesis by (auto simp: upload_ops_def)
  qed
  with 1 3 c show ?thesis by (intro that) (auto simp: commit_ops_def)
qed

lemma backup_grows:
  "backup run upload h = (r, h') \<Longrightarrow> grows (- commits) (log h) (log h')
    \<and> (test_failed run \<or> grows (- writes_original) (log h) (log h') \<and> (\<exists>t. r = Inl (Errorf t)))"
proof -
  assume b: "backup run upload h = (r, h')"
  obtain out e h1 where t: "run test_original h = ((out, e), h1)" by (cases "run test_original h") auto
  have g1: "grows (- commits \<inter> - writes_original) (log h) (log h1)" using t by (rule run_grows) simp
  show ?thesis
  proof (cases e)
    case None
    with b t have "h' = h1" "r = Inl (Errorf (''backup already exists at '' @ original_path))" by (simp_all add: backup_def)
    with g1 show ?thesis by (blast intro: grows_mono)
  next
    case (Some err)
    obtain out2 e2 h2 where c: "run copy_original h1 = ((out2, e2), h2)" by (cases "run copy_original h1") auto
    obtain config e3 h3 where k: "run (cat_cmd SoundTouchSdkPrivateCfgPath) h2 = ((config, e3), h3)"
      by (cases "run (cat_cmd SoundTouchSdkPrivateCfgPath) h2") auto
    obtain x h4 where w: "run rwCmd h3 = (x, h4)" by (cases "run rwCmd h3") auto
    obtain e5 h5 where u: "upload config original_path h4 = (e5, h5)" by (cases "upload config original_path h4") auto
    have "h' \<in> {h2, h3, h5}"
      using b t Some c k w u by (auto simp: backup_def split: option.splits if_splits)
    moreover have 2: "grows (- commits) (log h) (log h2)"
      using grows_mono [OF g1] run_grows [OF c, of "- commits"] by (auto intro: grows_trans)
    moreover from this have 3: "grows (- commits) (log h) (log h3)"
      using run_grows [OF k, of "- commits"] by (auto intro: grows_trans)
    moreover have "grows (- commits) (log h) (log h5)"
      using grows_trans [OF grows_trans [OF 3 run_grows [OF w]] upload_grows [OF u]] by simp
    moreover have "test_failed run" using t Some by (auto simp: test_failed_def)
    ultimately show ?thesis by blast
  qed
qed

lemma migrate_keeps_original:
  assumes "migrate run upload targetURL proxyURL options h = (r, h')"
  shows "grows (- writes_original) (log h) (log h') \<or> test_failed run"
  using assms
proof (rule migrate_steps)
  fix h1 current h2 h4
  let ?ops = "commit_ops (migration_cfg targetURL proxyURL options current)"
  assume 1: "grows (- commits \<inter> - writes_original) (log h) (log h1)"
    and 2: "grows (- writes_original) (log h1) (log h4) \<or> test_failed run"
    and 3: "\<exists>post. log h' = log h4 @ post \<and> prefix post ?ops \<and> (r = Inr () \<longrightarrow> post = ?ops)"
  have "set ?ops \<subseteq> - writes_original" by (auto simp: commit_ops_def upload_ops_def)
  with 3 have "grows (- writes_original) (log h4) (log h')" by (auto simp: grows_def dest: set_mono_prefix)
  with 1 2 show ?thesis by (blast intro: grows_trans grows_mono)
qed

end

lemma grows_disjoint: "grows (- S) a b \<longleftrightarrow> (\<exists>new. b = a @ new \<and> set new \<inter> S = {})"
  by (auto simp: grows_def)

section \<open>The speaker's backup and configuration\<close>

text \<open>C10: A migration or a backup writes the file with the original configuration only after the test for
  it has reported an error: while the test reports that the file is there, no command that writes it reaches
  the speaker, and asking for a backup is answered with an error.\<close>

theorem backup_written_only_after_failed_test:
  assumes "\<And>h. snd (fst (ssh_Run lib (NewClient ip) test_original h)) = None"
  shows "(MigrateSpeaker lib m ip target proxy options h = (r1, h1) \<longrightarrow>
        (\<exists>new. remote_log h1 = remote_log h @ new \<and> set new \<inter> writes_original = {}))
    \<and> (BackupConfig lib ip h = (r2, h2) \<longrightarrow> (\<exists>t. r2 = Inl (Errorf t)) \<and>
        (\<exists>new. remote_log h2 = remote_log h @ new \<and> set new \<inter> writes_original = {}))"
proof -
  have t: "\<not> test_failed (ssh_Run lib (NewClient ip))"
    using assms by (auto simp: test_failed_def) (metis fst_conv option.distinct(1) snd_conv)
  show ?thesis
    using ssh.migrate_keeps_original [of lib "NewClient ip"] ssh.backup_grows [of lib "NewClient ip"] t
    unfolding MigrateSpeaker_def BackupConfig_def by (simp add: grows_disjoint)
qed

text \<open>C9: What a migration sends ends with the configuration (computed from the answer to reading the
  current one) and the restart, in this order and as far as no error is reported; all of it when the
  migration reports success, and neither the configuration file is written nor the restart sent before.\<close>

theorem migration_uploads_then_restarts:
  assumes "MigrateSpeaker lib m ip target proxy options h = (r, h')"
  shows "\<exists>current pre post. remote_log h' = remote_log h @ pre @ post
    \<and> current \<in> range (fst \<circ> ssh_Run lib (NewClient ip) (cat_cmd SoundTouchSdkPrivateCfgPath))
    \<and> set pre \<inter> commits = {}
    \<and> prefix post (commit_ops (migration_cfg (target_url m target) proxy options current))
    \<and> (r = Inr () \<longrightarrow> post = commit_ops (migration_cfg (target_url m target) proxy options current))"
  using assms unfolding MigrateSpeaker_def
proof (rule ssh.migrate_steps)
  fix h1 current h2 h4
  let ?ops = "commit_ops (migration_cfg (target_url m target) proxy options current)"
  assume 1: "grows (- commits \<inter> - writes_original) (remote_log h) (remote_log h1)"
    "grows (- commits) (remote_log h1) (remote_log h4)"
    and 2: "ssh_Run lib (NewClient ip) (cat_cmd SoundTouchSdkPrivateCfgPath) h1 = (current, h2)"
    and 3: "\<exists>post. remote_log h' = remote_log h4 @ post \<and> prefix post ?ops \<and> (r = Inr () \<longrightarrow> post = ?ops)"
  from 1 have "grows (- commits) (remote_log h) (remote_log h4)" by (blast intro: grows_trans grows_mono)
  then obtain pre where p: "remote_log h4 = remote_log h @ pre" "set pre \<inter> commits = {}" by (auto simp: grows_disjoint)
  from 3 obtain post where q: "remote_log h' = remote_log h4 @ post" "prefix post ?ops" "r = Inr () \<longrightarrow> post = ?ops"
    by blast
  from 2 have "current \<in> range (fst \<circ> ssh_Run lib (NewClient ip) (cat_cmd SoundTouchSdkPrivateCfgPath))"
    by (auto intro: range_eqI [of _ _ h1])
  with p q show ?thesis by (intro exI [of _ current] exI [of _ pre] exI [of _ post]) simp
qed

text \<open>Enabling the remote services tries the three places in order, each with the file system made
  writable and without, and stops at the first command that reports success: at most six commands.\<close>

theorem ensure_services_tries_in_order:
  "EnsureRemoteServices lib ip h =
     (let (ok, h') = first_ok (ssh_Run lib (NewClient ip)) touch_commands h
      in (if ok then Inr () else fst (ensure_loop (ssh_Run lib (NewClient ip)) [] h'), h'))
   \<and> length (remote_log (snd (EnsureRemoteServices lib ip h))) \<le> length (remote_log h) + 6
   \<and> length touch_commands = 6"
proof -
  obtain ok h' where f: "first_ok (ssh_Run lib (NewClient ip)) touch_commands h = (ok, h')" by force
  have n: "length touch_commands = 6" by (simp add: touch_commands_def locations_def)
  from ssh.first_ok_length [OF f] n f show ?thesis
    by (simp add: EnsureRemoteServices_def ensure_first_ok del: ensure_loop.simps)
qed

section \<open>The planned configuration\<close>

text \<open>The configuration as it comes back from a document.\<close>

definition clean_cfg :: "PrivateCfg \<Rightarrow> PrivateCfg" where
  "clean_cfg c = c\<lparr>pc_MargeServerUrl := sanitize (pc_MargeServerUrl c),
     pc_StatsServerUrl := sanitize (pc_StatsServerUrl c), pc_SwUpdateUrl := sanitize (pc_SwUpdateUrl c),
     pc_BmxRegistryUrl := sanitize (pc_BmxRegistryUrl c)\<rparr>"

lemma names_cfg: "names_ok (encode_cfg c)"
  by (simp add: encode_cfg_def) (simp add: tag_eval)

lemma sanitize_bool [simp]: "sanitize (strconv_FormatBool b) = strconv_FormatBool b"
  by (simp add: strconv_FormatBool_def sanitize_ascii ascii_text_def)

lemma bool_field_printed [simp]: "bool_field upd (strconv_FormatBool b) = Some (upd b)"
  by (simp add: bool_field_def) (simp add: strconv_FormatBool_def)

lemma cfg_child_eval [simp]:
  "cfg_child ''margeServerUrl'' as cs (Some c) = Some (c\<lparr>pc_MargeServerUrl := chardata cs\<rparr>)"
  "cfg_child ''statsServerUrl'' as cs (Some c) = Some (c\<lparr>pc_StatsServerUrl := chardata cs\<rparr>)"
  "cfg_child ''swUpdateUrl'' as cs (Some c) = Some (c\<lparr>pc_SwUpdateUrl := chardata cs\<rparr>)"
  "cfg_child ''usePandoraProductionServer'' as cs (Some c) =
     bool_field (\<lambda>b. c\<lparr>pc_UsePandoraProductionServer := b\<rparr>) (chardata cs)"
  "cfg_child ''isZeroconfEnabled'' as cs (Some c) = bool_field (\<lambda>b. c\<lparr>pc_IsZeroconfEnabled := b\<rparr>) (chardata cs)"
  "cfg_child ''saveMargeCustomerReport'' as cs (Some c) =
     bool_field (\<lambda>b. c\<lparr>pc_SaveMargeCustomerReport := b\<rparr>) (chardata cs)"
  "cfg_child ''bmxRegistryUrl'' as cs (Some c) = Some (c\<lparr>pc_BmxRegistryUrl := chardata cs\<rparr>)"
  by (simp_all add: cfg_child_def)

lemma config_document_read_back_plain: "decode_cfg (config_document c) = Some (clean_cfg c)"
  using Unmarshal_MarshalIndent_decl [of "''SoundTouchSdkPrivateCfg''" "[]" _ "Some ''SoundTouchSdkPrivateCfg''"
      "''utf-8''" "\<lambda>as cs. fold_children cfg_child cs (Some zero_cfg)" 2] names_cfg [of c]
  by (simp add: decode_cfg_def config_document_def encode_cfg_def codec_simps zero_cfg_def clean_cfg_def)

text \<open>Decoding the document of a configuration gives the configuration back, its texts without the
  bytes XML cannot carry, and reading it once more changes nothing.\<close>

theorem config_document_read_back:
  "decode_cfg (config_document c) = Some (clean_cfg c)
    \<and> decode_cfg (config_document (clean_cfg c)) = Some (clean_cfg c)"
  using config_document_read_back_plain [of c] config_document_read_back_plain [of "clean_cfg c"]
  by (simp add: clean_cfg_def sanitize_idem)

lemma apply_no_options: "apply_options p (Some Map.empty) cur cfg = cfg"
  by (simp add: apply_options_def map_get_def Let_def)

lemma planned_services: "ms_PlannedConfig (fst (summary_services run locs t h)) = ms_PlannedConfig t"
  by (induction run locs t h rule: summary_services.induct) (auto split: prod.splits option.splits)

lemma planned_summarize:
  "(\<And>h. fst (run (cat_cmd SoundTouchSdkPrivateCfgPath) h) = current) \<Longrightarrow>
    ms_PlannedConfig (fst (summarize msg run target proxy options s0 h))
      = config_document (migration_cfg target proxy options current)"
  by (simp add: summarize_def Let_def split_beta planned_services)


text \<open>C12: A speaker that was migrated with the original streaming service behind the proxy and is migrated
  again gets the address of the proxy twice: the configuration on the speaker is taken for the original one,
  although the original was saved next to it.\<close>

theorem remigration_nests_proxies:
  assumes "decode_cfg text = Some c0" "text \<noteq> []" "map_get ops ''marge'' = ''original''"
    and "cfg1 = migration_cfg target proxy (Some ops) (text, None)"
    and "p = (if proxy = [] then target else proxy)"
  shows "pc_MargeServerUrl cfg1 = proxied p (pc_MargeServerUrl c0)
    \<and> pc_MargeServerUrl (migration_cfg target proxy (Some ops) (config_document cfg1, None))
        = proxied p (sanitize (proxied p (pc_MargeServerUrl c0)))"
proof -
  have "config_document cfg1 \<noteq> []" by (simp add: config_document_def xml_decl_def)
  with assms config_document_read_back_plain [of cfg1] show ?thesis
    by (simp add: migration_cfg_def apply_options_def Let_def clean_cfg_def)
qed

text \<open>C13: A connection that fails is taken for a missing backup: when the test cannot reach the speaker and the
  next command can, the backup is written, without the test having been run.\<close>

theorem lost_connection_overwrites_backup:
  assumes "lib (h @ [Dial ''tcp'' (ip @ '':22'') (getConfig (NewClient ip))]) = (out, Some e)"
    and "ssh_Run lib (NewClient ip) copy_original (h @ [Dial ''tcp'' (ip @ '':22'') (getConfig (NewClient ip))]) = ((out', None), h')"
  shows "BackupConfig lib ip h = (Inr (), h') \<and> remote_log h' = remote_log h @ [Exec copy_original]"
proof -
  have t: "ssh_Run lib (NewClient ip) test_original h
      = (([], Some (Wrapped ''failed to dial: '' e)), h @ [Dial ''tcp'' (ip @ '':22'') (getConfig (NewClient ip))])"
    using assms(1) by (simp add: ssh_Run_def with_session_def ssh_call_def NewClient_def)
  from ssh.run_ok [OF assms(2)] t assms(2) show ?thesis by (simp add: BackupConfig_def backup_def)
qed

section \<open>Live information\<close>

fun first_nonempty :: "string list \<Rightarrow> string" where
  "first_nonempty [] = []"
| "first_nonempty (x # xs) = (if x = [] then first_nonempty xs else x)"

definition serials :: "component_xml list \<Rightarrow> string list" where
  "serials cs = map co_SerialNumber (filter (\<lambda>c. co_Category c \<in> {''SCM'', ''PackagedProduct''}) cs)"

lemma live_components:
  "lx_SerialNumber (foldl live_component x cs) = first_nonempty (lx_SerialNumber x # serials cs)
    \<and> lx_Name (foldl live_component x cs) = lx_Name x"
  by (induction cs arbitrary: x) (auto simp: live_component_def serials_def Let_def)

end
