(* ===== verification/Handlers_Setup_Laws.thy ===== *)
theory Handlers_Setup_Laws
  imports Handlers_Setup Setup_Laws
begin

text \<open>
  What clients of the JSON interface can rely on: the answers are JSON, settings that were read can be
  written back, the parameters of a migration arrive as they were encoded, and requests that cannot be
  carried out change nothing.
\<close>

section \<open>Answers\<close>

lemma body_json_reply [simp]: "rs_Body (json_reply v) = json_Encode v" "status_of (json_reply v) = 200"
  by (simp_all add: json_reply_def http_defs status_of_def)

lemma body_json_status [simp]: "rs_Body (json_status c v) = json_Encode v" "status_of (json_status c v) = c"
  by (simp_all add: json_status_def http_defs status_of_def)

lemma json_ok_brackets:
  "0 < d \<Longrightarrow> json_ok d (JArray vs) \<longleftrightarrow> (\<forall>v \<in> set vs. json_ok (d - 1) v)"
  "0 < d \<Longrightarrow> json_ok d (JObject es) \<longleftrightarrow> (\<forall>e \<in> set es. json_ok (d - 1) (snd e))"
  by (cases d; simp)+

lemmas nesting = json_ok_brackets max_nesting_def

lemma json_ok_scalar [simp]: "json_ok d (JString s)" "json_ok d (JBool b)" "json_ok d JNull" "json_ok d (json_int n)"
  by (auto simp: json_int_def)

text \<open>The list of devices is answered as JSON: a parser gets one object per device, in order, with the texts
  of its fields (their bytes that are not UTF-8 replaced).\<close>

theorem device_list_is_json:
  assumes "ListAllDevices (sv_ds s) w = Inr devices"
  shows "status_of (handleListDiscoveredDevices msg s w r) = 200
    \<and> json_parse (rs_Body (handleListDiscoveredDevices msg s w r))
        = Some (JArray (map (\<lambda>d. JObject
            [(''device_id'', JString (utf8_clean (di_DeviceID d))), (''product_code'', JString (utf8_clean (di_ProductCode d))),
             (''device_serial_number'', JString (utf8_clean (di_DeviceSerialNumber d))),
             (''product_serial_number'', JString (utf8_clean (di_ProductSerialNumber d))),
             (''firmware_version'', JString (utf8_clean (di_FirmwareVersion d))),
             (''ip_address'', JString (utf8_clean (di_IPAddress d))), (''name'', JString (utf8_clean (di_Name d)))]) devices))"
proof -
  have "json_ok max_nesting (JArray (map json_of_device devices))"
    by (auto simp: nesting json_of_device_def)
  from json_parse_Encode [OF this] assms show ?thesis
    by (simp add: handleListDiscoveredDevices_def json_of_device_def comp_def ascii_text_def)
qed

section \<open>Settings\<close>

lemma read_settings:
  "decode_settings (json_Encode (JObject [(''log_body'', JBool b), (''redact'', JBool a)])) = Some (a, b)"
proof -
  let ?v = "JObject [(''log_body'', JBool b), (''redact'', JBool a)]"
  have ok: "json_ok max_nesting ?v" by (simp add: nesting)
  have f: "EqualFold_ascii ''redact'' ''redact''" "\<not> EqualFold_ascii ''redact'' ''log_body''"
    "EqualFold_ascii ''log_body'' ''log_body''"
    by (simp_all add: EqualFold_lower lower_ascii_def lower_byte_def)
  have "json_value max_nesting (skip_ws (json_Encode ?v)) = Some (json_clean ?v, [CHR 0x0A])"
    using json_value_text [OF ok, of "[CHR 0x0A]"] skip_ws_text [OF ok, of "[CHR 0x0A]"]
    by (simp only: json_Encode_def value_end_simps simp_thms)
  then show ?thesis
    by (simp add: decode_settings_def settings_entry_def bool_entry_def f ascii_text_def)
qed

text \<open>The settings of the proxy that one server answers are taken over by a server to which they are sent,
  and are then its answer; a body that is refused changes nothing.\<close>

theorem proxy_settings_read_back:
  assumes "rq_Body r = Inr (rs_Body (handleGetProxySettings s r0))"
    and "handleUpdateProxySettings bad t r = (resp, t')"
  shows "status_of resp = 200 \<and> sv_proxyRedact t' = sv_proxyRedact s \<and> sv_proxyLogBody t' = sv_proxyLogBody s
    \<and> handleGetProxySettings t' r0 = handleGetProxySettings s r0
    \<and> (\<forall>r2 resp2 t2. handleUpdateProxySettings bad t r2 = (resp2, t2) \<and> status_of resp2 \<noteq> 200 \<longrightarrow> t2 = t)"
proof -
  have d: "decode_settings (rs_Body (handleGetProxySettings s r0)) = Some (sv_proxyRedact s, sv_proxyLogBody s)"
    by (simp add: handleGetProxySettings_def read_settings)
  have "t2 = t" if "handleUpdateProxySettings bad t r2 = (resp2, t2)" "status_of resp2 \<noteq> 200" for r2 resp2 t2
    using that by (auto simp: handleUpdateProxySettings_def split: sum.splits option.splits prod.splits)
  with d assms show ?thesis
    by (auto simp: handleUpdateProxySettings_def handleGetProxySettings_def)
qed

section \<open>Migrations\<close>

lemma map_of_insort: "k \<notin> fst ` set xs \<Longrightarrow> map_of (insort_key fst (k, v) xs) = (map_of xs)(k \<mapsto> v)"
  by (induction xs) (auto simp: fun_eq_iff)

lemma map_of_sort_key: "distinct (map fst xs) \<Longrightarrow> map_of (sort_key fst xs) = map_of xs"
proof (induction xs)
  case (Cons x xs)
  then show ?case by (cases x) (simp add: map_of_insort)
qed simp

lemma query_of_encoded:
  "q \<noteq> [] \<Longrightarrow> distinct (map fst q) \<Longrightarrow> map_of (url_Query (url_Encode q)) = map_of q"
  by (simp add: Query_Encode map_of_sort_key)

text \<open>C30: A request for a migration with encoded parameters performs the migration with these parameters; it is
  answered with status 200 exactly if the migration succeeds, and as JSON; without an address nothing is sent
  to any speaker.\<close>

theorem migration_request:
  assumes "handleMigrateDevice msg lib s r h = (resp, h')"
    and "rq_RawQuery r = url_Encode q" "q \<noteq> []" "distinct (map fst q)"
    and "result = MigrateSpeaker lib (sv_sm s) (rq_Param r ''deviceIP'') (query_Get q ''target_url'') (query_Get q ''proxy_url'')
        (Some (map_of q |` {''marge'', ''stats'', ''sw_update'', ''bmx''})) h"
  shows "(rq_Param r ''deviceIP'' \<noteq> [] \<longrightarrow> h' = snd result \<and> (status_of resp = 200 \<longleftrightarrow> fst result = Inr ()))
    \<and> (rq_Param r ''deviceIP'' = [] \<longrightarrow> h' = h \<and> status_of resp = 400)
    \<and> (\<exists>b m. json_parse (rs_Body resp) = Some (JObject [(''message'', JString m), (''ok'', JBool b)]) \<and> (b \<longleftrightarrow> status_of resp = 200))"
proof -
  have q: "map_of (url_Query (rq_RawQuery r)) = map_of q" using query_of_encoded assms(2-4) by simp
  have o: "query_options (url_Query (rq_RawQuery r)) = Some (map_of q |` {''marge'', ''stats'', ''sw_update'', ''bmx''})"
    "query_Get (url_Query (rq_RawQuery r)) = query_Get q"
    by (simp_all add: query_options_def query_Get_def q restrict_map_def fun_eq_iff)
  have ok: "json_ok max_nesting (ok_message b m)" for b m by (simp add: ok_message_def nesting)
  have p: "json_parse (json_Encode (ok_message b m)) = Some (JObject [(''message'', JString (utf8_clean m)), (''ok'', JBool b)])" for b m
    using json_parse_Encode [OF ok] by (simp add: ok_message_def ascii_text_def)
  show ?thesis
  proof (cases "rq_Param r ''deviceIP'' = []")
    case True
    with assms(1) show ?thesis by (auto simp: handleMigrateDevice_def missing_ip_def p)
  next
    case False
    obtain res h1 where m: "result = (res, h1)" by force
    note m' = m [unfolded assms(5)]
    have "resp = ok_reply msg ''Migration started'' res" "h' = h1"
      using assms(1) False by (simp_all add: handleMigrateDevice_def o m' Let_def)
    with m False show ?thesis by (cases res) (auto simp: ok_reply_def p)
  qed
qed

end
