(* ===== verification/Datastore_Files.thy ===== *)
theory Datastore_Files
  imports Datastore_Laws
begin

text \<open>
  Where the files of the store lie, and what follows for its operations: names without separators
  and dots keep every file inside the directory of its account, so that operations on different
  accounts, devices or kinds of record cannot disturb each other; names that are not checked leave
  the data directory.  The properties of reading, saving and removing records are here.
\<close>

section \<open>Locations\<close>

lemma plain_constants [simp]:
  "plain_name ''devices''" "plain_name ''DeviceInfo.xml''" "plain_name ''Presets.xml''"
  "plain_name ''Recents.xml''" "plain_name ''Sources.xml''" "plain_name ''default''"
  by (simp_all add: plain_name_def)

lemma at_AccountDir:
  "DataDir ds \<noteq> [] \<Longrightarrow> plain_name a \<Longrightarrow> at_path w (AccountDir ds a) = at_path w (DataDir ds) @ [a]"
  by (simp add: AccountDir_def resolve_Join del: filepath_Join.simps)

lemma at_AccountDevicesDir:
  "DataDir ds \<noteq> [] \<Longrightarrow> plain_name a \<Longrightarrow>
    at_path w (AccountDevicesDir ds a) = at_path w (DataDir ds) @ [a, ''devices'']"
  by (simp add: AccountDevicesDir_def resolve_Join file_names del: filepath_Join.simps)

lemma dirs_nonempty [simp]:
  "DataDir ds \<noteq> [] \<Longrightarrow> AccountDir ds a \<noteq> []"
  "DataDir ds \<noteq> [] \<Longrightarrow> AccountDevicesDir ds a \<noteq> []"
  "DataDir ds \<noteq> [] \<Longrightarrow> AccountDeviceDir ds a d \<noteq> []"
  by (simp_all add: AccountDir_def AccountDevicesDir_def AccountDeviceDir_def)

lemma at_AccountDeviceDir:
  "DataDir ds \<noteq> [] \<Longrightarrow> plain_name a \<Longrightarrow> plain_name d \<Longrightarrow>
    at_path w (AccountDeviceDir ds a d) = at_path w (DataDir ds) @ [a, ''devices'', d]"
  by (simp add: AccountDeviceDir_def resolve_Join at_AccountDevicesDir del: filepath_Join.simps)

lemma at_record_paths:
  assumes "DataDir ds \<noteq> []" "plain_name a"
  shows "at_path w (presets_path ds a) = at_path w (DataDir ds) @ [a, ''Presets.xml'']"
    "at_path w (recents_path ds a) = at_path w (DataDir ds) @ [a, ''Recents.xml'']"
    "at_path w (sources_path ds a) = at_path w (DataDir ds) @ [a, ''Sources.xml'']"
  using assms
  by (simp_all add: presets_path_def recents_path_def sources_path_def resolve_Join at_AccountDir file_names
      del: filepath_Join.simps)

lemma at_device_path:
  "DataDir ds \<noteq> [] \<Longrightarrow> plain_name a \<Longrightarrow> plain_name d \<Longrightarrow>
    at_path w (device_path ds a d) = at_path w (DataDir ds) @ [a, ''devices'', d, ''DeviceInfo.xml'']"
  by (simp add: device_path_def resolve_Join at_AccountDeviceDir file_names del: filepath_Join.simps)

lemmas at_paths = at_AccountDir at_AccountDevicesDir at_AccountDeviceDir at_record_paths at_device_path

lemma at_sources_dir:
  "DataDir ds \<noteq> [] \<Longrightarrow> plain_name a \<Longrightarrow>
    at_path w (filepath_Dir (sources_path ds a)) = at_path w (DataDir ds) @ [a]"
  by (simp add: sources_path_def resolve_Dir_Join file_names at_AccountDir del: filepath_Join.simps)

lemma parallel_base [simp]: "(xs @ ys) \<parallel> (xs @ zs) \<longleftrightarrow> ys \<parallel> zs"
  by (simp add: parallel_def)

lemma parallel_Cons [simp]: "(x # xs) \<parallel> (y # ys) \<longleftrightarrow> x \<noteq> y \<or> xs \<parallel> ys"
  by (auto simp: parallel_def)

lemma parallel_Nil [simp]: "\<not> [] \<parallel> xs" "\<not> xs \<parallel> []"
  by (auto simp: parallel_def)

section \<open>Properties: saving and loading\<close>

text \<open>Presets that were saved are loaded back in order with all their stored fields (id, name,
  source, type, location, account, art, times), where bytes XML cannot carry became the replacement
  character; the source id is dropped and every preset is presetable.\<close>

theorem presets_read_back:
  assumes "SavePresets ds w account ps = (Inr (), w')"
  shows "GetPresets ds w' account = Inr (map (\<lambda>p.
     \<lparr>ci_ID = sanitize (ci_ID p), ci_Name = sanitize (ci_Name p), ci_Source = sanitize (ci_Source p),
      ci_Type = sanitize (ci_Type p), ci_Location = sanitize (ci_Location p),
      ci_SourceAccount = sanitize (ci_SourceAccount p), ci_SourceID = [], ci_IsPresetable = ''true'',
      p_ContainerArt = sanitize (p_ContainerArt p), p_CreatedOn = sanitize (p_CreatedOn p),
      p_UpdatedOn = sanitize (p_UpdatedOn p)\<rparr>) ps)"
  using presets.load_saved [OF assms] by (simp add: stored_preset_def)

text \<open>Recents that were saved are loaded back in order with all their stored fields; an empty
  \<open>isPresetable\<close> comes back as true and the source id is dropped.\<close>

theorem recents_read_back:
  assumes "SaveRecents ds w account rs = (Inr (), w')"
  shows "GetRecents ds w' account = Inr (map (\<lambda>r.
     \<lparr>ci_ID = sanitize (ci_ID r), ci_Name = sanitize (ci_Name r), ci_Source = sanitize (ci_Source r),
      ci_Type = sanitize (ci_Type r), ci_Location = sanitize (ci_Location r),
      ci_SourceAccount = sanitize (ci_SourceAccount r), ci_SourceID = [],
      ci_IsPresetable = (if ci_IsPresetable r = [] then ''true'' else sanitize (ci_IsPresetable r)),
      r_DeviceID = sanitize (r_DeviceID r), r_UtcTime = sanitize (r_UtcTime r),
      r_ContainerArt = sanitize (r_ContainerArt r)\<rparr>) rs)"
  using recents.load_saved [OF assms] by (simp add: stored_recent_def)

lemma number_sources_nth:
  assumes "0 \<le> n" "n + int (length ss) \<le> int64_max" "i < length ss"
  shows "number_sources n ss ! i =
    (let s = ss ! i in source_of_xml (if sx_ID s = []
       then strconv_Itoa (n + int (length (filter (\<lambda>s. sx_ID s = []) (take i ss)))) else sx_ID s) s)"
  using assms
proof (induction ss arbitrary: n i)
  case (Cons s ss)
  then have "wrap64 (n + 1) = n + 1"
    by (intro wrap64_id) (simp add: in_int64_def int64_min_def)
  with Cons show ?case
    by (cases i) (auto simp: Let_def algebra_simps)
qed simp

lemma length_number_sources [simp]: "length (number_sources n ss) = length ss"
  by (induction n ss rule: number_sources.induct) auto

lemma number_sources_ids: "s \<in> set (number_sources n ss) \<Longrightarrow> cs_ID s \<noteq> []"
  by (induction n ss rule: number_sources.induct)
     (auto simp: source_of_xml_def Itoa_nonempty split: if_splits)

text \<open>C14: Sources that were saved are loaded back in order with all their fields; the sources without
  an id get the numbers from 100001 on in their order, the others keep their id.\<close>

theorem sources_read_back:
  assumes "SaveConfiguredSources ds w account ss = (Inr (), w')" "int (length ss) < 2 ^ 62"
  shows "GetConfiguredSources ds w' account = Inr (map (\<lambda>i.
     \<lparr>cs_DisplayName = sanitize (cs_DisplayName (ss ! i)),
      cs_ID = (if cs_ID (ss ! i) = []
        then strconv_Itoa (100001 + int (length (filter (\<lambda>s. cs_ID s = []) (take i ss))))
        else sanitize (cs_ID (ss ! i))),
      cs_Secret = sanitize (cs_Secret (ss ! i)), cs_SecretType = sanitize (cs_SecretType (ss ! i)),
      cs_SourceKeyType = sanitize (cs_SourceKeyType (ss ! i)),
      cs_SourceKeyAccount = sanitize (cs_SourceKeyAccount (ss ! i))\<rparr>) [0..<length ss])"
proof -
  let ?c = "clean_source_xml \<circ> xml_of_source"
  have empty: "(sx_ID (?c s) = []) = (cs_ID s = [])" for s
    by (simp add: clean_source_xml_def xml_of_source_def sanitize_Nil_iff)
  have count: "length (filter (\<lambda>s. sx_ID s = []) (take i (map ?c ss)))
      = length (filter (\<lambda>s. cs_ID s = []) (take i ss))" for i
    by (simp only: take_map filter_map length_map o_def [of "\<lambda>s. sx_ID s = []"] empty)
  have bound: "100001 + int (length (map ?c ss)) \<le> int64_max"
    using assms(2) by (simp add: int64_max_def)
  have entry: "number_sources 100001 (map ?c ss) ! i = source_of_xml (if cs_ID (ss ! i) = []
      then strconv_Itoa (100001 + int (length (filter (\<lambda>s. cs_ID s = []) (take i ss))))
      else sx_ID (?c (ss ! i))) (?c (ss ! i))" if "i < length ss" for i
    using number_sources_nth [OF _ bound, of i] that
    by (simp only: Let_def count empty nth_map length_map)
  have fields: "source_of_xml (if b then n else sx_ID (?c s)) (?c s) =
      \<lparr>cs_DisplayName = sanitize (cs_DisplayName s), cs_ID = (if b then n else sanitize (cs_ID s)),
      cs_Secret = sanitize (cs_Secret s), cs_SecretType = sanitize (cs_SecretType s),
      cs_SourceKeyType = sanitize (cs_SourceKeyType s),
      cs_SourceKeyAccount = sanitize (cs_SourceKeyAccount s)\<rparr>" for b n s
    by (simp add: source_of_xml_def clean_source_xml_def xml_of_source_def)
  show ?thesis
    unfolding sources.load_saved [OF assms(1)] stored_sources_def
    by (rule arg_cong [where f = Inr], rule nth_equalityI) (simp_all only: entry fields nth_map_upt length_map
      length_number_sources length_upt diff_zero nth_upt nth_map add_0)
qed

text \<open>Whatever the sources file holds, a source that was loaded has an id.\<close>

theorem loaded_sources_have_ids:
  assumes "GetConfiguredSources ds w account = Inr ss" "s \<in> set ss"
  shows "cs_ID s \<noteq> []"
  using assms number_sources_ids
  by (auto simp: GetConfiguredSources_def read_sources_def Let_def split: sum.splits)

text \<open>Device information that was saved is loaded back; the product code is stored as type and
  module type, so that one without a space comes back with a space appended.\<close>

theorem device_read_back:
  assumes "SaveDeviceInfo ds w account device d = (Inr (), w')"
  shows "GetDeviceInfo ds w' account device = Inr
     \<lparr>di_DeviceID = sanitize (di_DeviceID d),
      di_ProductCode = (if CHR 0x20 \<in> set (di_ProductCode d)
        then sanitize (takeWhile (\<lambda>c. c \<noteq> CHR 0x20) (di_ProductCode d)) @ '' ''
          @ sanitize (tl (dropWhile (\<lambda>c. c \<noteq> CHR 0x20) (di_ProductCode d)))
        else sanitize (di_ProductCode d) @ '' ''),
      di_DeviceSerialNumber = sanitize (di_DeviceSerialNumber d),
      di_ProductSerialNumber = sanitize (di_ProductSerialNumber d),
      di_FirmwareVersion = sanitize (di_FirmwareVersion d),
      di_IPAddress = sanitize (di_IPAddress d), di_Name = sanitize (di_Name d)\<rparr>"
proof -
  have none: "split_product p = (p, [])" if "CHR 0x20 \<notin> set p" for p
    unfolding split_product_def using that by (induction p) auto
  have some: "split_product p = (takeWhile (\<lambda>c. c \<noteq> CHR 0x20) p, tl (dropWhile (\<lambda>c. c \<noteq> CHR 0x20) p))"
    if "CHR 0x20 \<in> set p" for p
    by (simp add: split_product_def drop_Suc)
  have nil: "sanitize [] = []" by (simp add: sanitize_Nil_iff)
  have "GetDeviceInfo ds w' account device = Inr (stored_device d)"
    using devices.load_saved [where k = "(account, device)" and ds = ds and x = d] assms by simp
  then show ?thesis
    by (cases "CHR 0x20 \<in> set (di_ProductCode d)") (simp_all only: stored_device_def none some nil
        fst_conv snd_conv append_Nil2 if_True if_False not_False_eq_True simp_thms)
qed

section \<open>Properties: independence of accounts\<close>

text \<open>The operations on one account, each with any outcome.\<close>

inductive account_step :: "DataStore \<Rightarrow> string \<Rightarrow> world \<Rightarrow> world \<Rightarrow> bool" for ds a w where
  save_presets: "SavePresets ds w a ps = (r, w') \<Longrightarrow> account_step ds a w w'"
| save_recents: "SaveRecents ds w a rs = (r, w') \<Longrightarrow> account_step ds a w w'"
| save_sources: "SaveConfiguredSources ds w a ss = (r, w') \<Longrightarrow> account_step ds a w w'"
| save_device: "plain_name d \<Longrightarrow> SaveDeviceInfo ds w a d info = (r, w') \<Longrightarrow> account_step ds a w w'"
| remove_device: "plain_name d \<Longrightarrow> RemoveDevice ds w a d = (r, w') \<Longrightarrow> account_step ds a w w'"



text \<open>Some step on an account other than \<open>b\<close>.\<close>

definition elsewhere :: "DataStore \<Rightarrow> string \<Rightarrow> world \<Rightarrow> world \<Rightarrow> bool" where
  "elsewhere ds b w w' \<longleftrightarrow> (\<exists>a. plain_name a \<and> a \<noteq> b \<and> account_step ds a w w')"

text \<open>Every file that can be read at \<open>q\<close> reads the same after the step.\<close>

definition kept :: "world \<Rightarrow> world \<Rightarrow> string \<Rightarrow> bool" where
  "kept w w' q \<longleftrightarrow> w_cwd w' = w_cwd w \<and> (\<forall>t. os_ReadFile w q = Inr t \<longrightarrow> os_ReadFile w' q = Inr t)"

lemma kept_trans: "kept w w1 q \<Longrightarrow> kept w1 w' q \<Longrightarrow> kept w w' q"
  by (simp add: kept_def)

lemma WriteFile_kept: "os_WriteFile w p t = (r, w') \<Longrightarrow> apart_paths w p q \<Longrightarrow> kept w w' q"
  using os.read_apart [of w p t r w' q] by (simp add: kept_def WriteFile_cwd)

lemma MkdirAll_kept: "os_MkdirAll w p = (r, w') \<Longrightarrow> kept w w' q"
  by (simp add: kept_def MkdirAll_world MkdirAll_keeps_file)

lemma RemoveAll_kept:
  assumes "os_RemoveAll w p = (r, w')" "apart_paths w p q"
  shows "kept w w' q"
proof -
  have "at_path w p \<noteq> []" using assms(2) by (auto simp: apart_paths_def)
  with assms(1) have "w' = w \<or> (\<exists>n. change (at_path w p) (\<lambda>_. Inr None) (w_root w) = Inr n \<and> w' = w\<lparr>w_root := n\<rparr>)"
    by (auto simp: os_RemoveAll_def Let_def split: if_splits sum.splits errno.splits)
  with assms(2) lookup_change_other show ?thesis
    by (fastforce simp: kept_def os_ReadFile_def apart_paths_def)
qed

lemma account_step_kept:
  assumes "account_step ds a w w'" "DataDir ds \<noteq> []" "plain_name a" "b \<noteq> a"
    "at_path w q = at_path w (DataDir ds) @ b # rest"
  shows "kept w w' q"
proof -
  note locs = assms(2-5) assms(4) [symmetric] apart_paths_def
  from assms(1) show ?thesis
  proof (cases rule: account_step.cases)
    case (save_presets ps r)
    then show ?thesis
      by (auto simp: SavePresets_def locs at_paths intro!: WriteFile_kept)
  next
    case (save_recents rs r)
    then show ?thesis
      by (auto simp: SaveRecents_def locs at_paths intro!: WriteFile_kept)
  next
    case (save_sources ss r)
    then obtain r1 w1 where s: "os_MkdirAll w (filepath_Dir (sources_path ds a)) = (r1, w1)"
      "os_WriteFile w1 (sources_path ds a) (sources_document ss) = (r, w')"
      by (auto simp: SaveConfiguredSources_def Let_def split: prod.splits)
    from MkdirAll_world(1) [OF s(1)] have "apart_paths w1 (sources_path ds a) q"
      by (simp add: locs at_paths)
    with s MkdirAll_kept WriteFile_kept kept_trans show ?thesis by blast
  next
    case (save_device d info r)
    show ?thesis
    proof (cases "w' = w")
      case False
      with save_device obtain r1 w1 where s: "os_MkdirAll w (AccountDeviceDir ds a d) = (r1, w1)"
        "w' = w1 \<or> os_WriteFile w1 (device_path ds a d) (device_document info) = (r, w')"
        by (auto simp: SaveDeviceInfo_def split: prod.splits sum.splits if_splits)
      from MkdirAll_world(1) [OF s(1)] have "apart_paths w1 (device_path ds a d) q"
        by (simp add: locs at_paths save_device)
      with s MkdirAll_kept WriteFile_kept kept_trans show ?thesis by blast
    qed (simp add: kept_def)
  next
    case (remove_device d r)
    then show ?thesis
      by (auto simp: RemoveDevice_def locs at_paths intro!: RemoveAll_kept)
  qed
qed

lemma elsewhere_kept:
  assumes "(elsewhere ds b)\<^sup>*\<^sup>* w w'" "DataDir ds \<noteq> []" "at_path w q = at_path w (DataDir ds) @ b # rest"
  shows "kept w w' q"
  using assms(1)
proof (induction rule: rtranclp_induct)
  case (step w1 w2)
  then obtain a where a: "plain_name a" "b \<noteq> a" "account_step ds a w1 w2" by (auto simp: elsewhere_def)
  from step.IH have "w_cwd w1 = w_cwd w" by (simp add: kept_def)
  then have "at_path w1 q = at_path w1 (DataDir ds) @ b # rest" using assms(3) by simp
  with account_step_kept [OF a(3) assms(2) a(1,2)] step.IH kept_trans show ?case by blast
qed (simp add: kept_def)

text \<open>Whatever sequence of operations runs on other accounts, with whatever results, the presets,
  recents, sources and devices that could be loaded for an account are loaded unchanged.\<close>

theorem accounts_are_isolated:
  assumes "(elsewhere ds b)\<^sup>*\<^sup>* w w'" "DataDir ds \<noteq> []" "plain_name b" "plain_name d"
  shows "(GetPresets ds w b = Inr ps \<longrightarrow> GetPresets ds w' b = Inr ps)
    \<and> (GetRecents ds w b = Inr rs \<longrightarrow> GetRecents ds w' b = Inr rs)
    \<and> (GetConfiguredSources ds w b = Inr ss \<longrightarrow> GetConfiguredSources ds w' b = Inr ss)
    \<and> (GetDeviceInfo ds w b d = Inr i \<longrightarrow> GetDeviceInfo ds w' b d = Inr i)"
proof -
  note at = at_paths [OF assms(2,3)]
  have "kept w w' (presets_path ds b)" "kept w w' (recents_path ds b)" "kept w w' (sources_path ds b)"
    "kept w w' (device_path ds b d)"
    using assms(4) by (auto intro: elsewhere_kept [OF assms(1,2)] simp: at at_device_path [OF assms(2-4)])
  then show ?thesis
    by (auto simp: kept_def GetPresets_def GetRecents_def GetConfiguredSources_def GetDeviceInfo_def Let_def
        split: sum.splits)
qed

end
