(* ===== verification/Datastore_Service.thy ===== *)
theory Datastore_Service
  imports Datastore_Files
begin

text \<open>
  The rest of the store's contract: removal of devices (and what it removes for names that are not
  plain), the listing of all devices, initialisation, the ETags derived from modification times, and
  the bounded log of events, stated as the locale \<open>bounded_log\<close> and interpreted for \<open>DataStore\<close>.
\<close>

section \<open>Removing devices\<close>

lemma RemoveAll_gone:
  assumes "os_RemoveAll w p = (Inr (), w')" "p \<noteq> []"
  shows "lookup (w_root w') (at_path w p) = Inl ENOENT \<and> w_cwd w' = w_cwd w"
proof -
  have "new = None" if "(\<lambda>_. Inr None) old = Inr new" for old :: "node option" and new :: "node option"
    using that by simp
  with assms lookup_changed [of "at_path w p" "\<lambda>_. Inr None" "w_root w" _ None] show ?thesis
    by (auto simp: os_RemoveAll_def Let_def split: if_splits sum.splits errno.splits)
qed

lemma ReadFile_below_gone:
  assumes "lookup (w_root w) p = Inl ENOENT" "at_path w q = p @ rest"
  shows "os_ReadFile w q = Inl (PathError ''open'' q ENOENT)"
  using assms by (simp add: os_ReadFile_def lookup_append)

text \<open>After a device was removed from an account its information cannot be loaded, and the
  account's presets, recents, sources and other devices are loaded as before.\<close>

theorem removed_device_is_gone:
  assumes "RemoveDevice ds w a d = (Inr (), w')" "DataDir ds \<noteq> []" "plain_name a" "plain_name d"
  shows "GetDeviceInfo ds w' a d = Inl (PathError ''open'' (device_path ds a d) ENOENT)
    \<and> (GetPresets ds w a = Inr ps \<longrightarrow> GetPresets ds w' a = Inr ps)
    \<and> (GetRecents ds w a = Inr rs \<longrightarrow> GetRecents ds w' a = Inr rs)
    \<and> (GetConfiguredSources ds w a = Inr ss \<longrightarrow> GetConfiguredSources ds w' a = Inr ss)
    \<and> (plain_name e \<and> e \<noteq> d \<and> GetDeviceInfo ds w a e = Inr i \<longrightarrow> GetDeviceInfo ds w' a e = Inr i)"
proof -
  note rm = assms(1) [unfolded RemoveDevice_def]
  note at = at_paths [OF assms(2,3)]
  from RemoveAll_gone [OF rm] assms(2) at(3) [OF assms(4)]
  have gone: "lookup (w_root w') (at_path w (DataDir ds) @ [a, ''devices'', d]) = Inl ENOENT" "w_cwd w' = w_cwd w"
    by simp_all
  have lost: "GetDeviceInfo ds w' a d = Inl (PathError ''open'' (device_path ds a d) ENOENT)"
    using ReadFile_below_gone [OF gone(1), of "device_path ds a d" "[''DeviceInfo.xml'']"] gone(2)
    by (simp add: GetDeviceInfo_def at_device_path [OF assms(2-4)])
  have other: "kept w w' q" if "at_path w q = at_path w (DataDir ds) @ [a, f]" "f \<noteq> ''devices''" for q f
    by (rule RemoveAll_kept [OF rm]) (use that in \<open>auto simp: apart_paths_def at(3) assms(4)\<close>)
  have rest: "kept w w' (presets_path ds a)" "kept w w' (recents_path ds a)" "kept w w' (sources_path ds a)"
    by (rule other [OF at(4)] other [OF at(5)] other [OF at(6)], simp)+
  have dev: "kept w w' (device_path ds a e)" if "plain_name e" "e \<noteq> d"
    by (rule RemoveAll_kept [OF rm])
      (use that in \<open>simp add: apart_paths_def at(3) assms(4) at_device_path [OF assms(2,3)]\<close>)
  from lost rest dev show ?thesis
    by (auto simp: kept_def GetPresets_def GetRecents_def GetConfiguredSources_def GetDeviceInfo_def Let_def
        split: sum.splits)
qed

text \<open>C24: The names are not checked: removing device \<open>..\<close> of account \<open>..\<close> removes the directory that
  contains the data directory, so that afterwards nothing of any account can be loaded.\<close>

theorem dots_remove_the_data_directory:
  assumes "RemoveDevice ds w ''..'' ''..'' = (Inr (), w')" "DataDir ds \<noteq> []" "at_path w (DataDir ds) \<noteq> []"
    "plain_name a"
  shows "lookup (w_root w') (butlast (at_path w (DataDir ds))) = Inl ENOENT
    \<and> GetPresets ds w' a = Inl (PathError ''open'' (presets_path ds a) ENOENT)
    \<and> GetRecents ds w' a = Inl (PathError ''open'' (recents_path ds a) ENOENT)
    \<and> GetConfiguredSources ds w' a = Inl (PathError ''open'' (sources_path ds a) ENOENT)"
proof -
  have dots: "path_comps ''..'' = [''..'']" "path_comps ''devices'' = [''devices'']"
    by (simp_all add: split_char_free)
  have "walk_step b ''..'' = butlast b" for b by (simp add: walk_step_def skip_comp_def)
  then have "at_path w (AccountDeviceDir ds ''..'' ''..'') = butlast (at_path w (DataDir ds))"
    using assms(2) by (simp add: AccountDeviceDir_def AccountDevicesDir_def resolve_Join dots file_names
        del: filepath_Join.simps)
  with RemoveAll_gone [OF assms(1) [unfolded RemoveDevice_def]] assms(2)
  have gone: "lookup (w_root w') (butlast (at_path w (DataDir ds))) = Inl ENOENT" "w_cwd w' = w_cwd w"
    by simp_all
  have "at_path w' q = butlast (at_path w (DataDir ds)) @ (last (at_path w (DataDir ds)) # rest)"
    if "at_path w q = at_path w (DataDir ds) @ rest" for q rest
    using that assms(3) gone(2) by simp
  with ReadFile_below_gone [OF gone(1)] at_record_paths [OF assms(2,4), of w] gone(1)
  show ?thesis by (simp add: GetPresets_def GetRecents_def GetConfiguredSources_def Let_def)
qed

section \<open>Listing all devices\<close>

text \<open>Every device information the listing comes across, in its order, with repetitions.\<close>

definition entry_infos :: "world \<Rightarrow> string \<Rightarrow> (string \<times> bool) list \<Rightarrow> DeviceInfo list" where
  "entry_infos w devicesDir entries =
     concat (map (\<lambda>e. case entry_device w devicesDir e of Some (Inr i) \<Rightarrow> [i] | _ \<Rightarrow> []) entries)"

definition account_infos :: "world \<Rightarrow> string \<Rightarrow> string \<times> bool \<Rightarrow> DeviceInfo list" where
  "account_infos w dir acc =
     (if \<not> snd acc then []
      else case os_ReadDir w (filepath_Join [dir, fst acc, DevicesDir]) of
        Inl _ \<Rightarrow> [] | Inr entries \<Rightarrow> entry_infos w (filepath_Join [dir, fst acc, DevicesDir]) entries)"

definition dir_infos :: "world \<Rightarrow> string \<Rightarrow> DeviceInfo list" where
  "dir_infos w dir =
     (case os_ReadDir w dir of Inl _ \<Rightarrow> [] | Inr accounts \<Rightarrow> concat (map (account_infos w dir) accounts))"

definition all_infos :: "DataStore \<Rightarrow> world \<Rightarrow> DeviceInfo list" where
  "all_infos ds w = concat (map (dir_infos w) (data_dirs ds w))"

text \<open>The first element of each key, in order.\<close>

fun firsts :: "('a \<Rightarrow> 'k) \<Rightarrow> 'k set \<Rightarrow> 'a list \<Rightarrow> 'a list" where
  "firsts k seen [] = []"
| "firsts k seen (x # xs) = (if k x \<in> seen then firsts k seen xs else x # firsts k (insert (k x) seen) xs)"

lemma firsts_append: "firsts k seen (xs @ ys) = firsts k seen xs @ firsts k (seen \<union> k ` set xs) ys"
  by (induction k seen xs rule: firsts.induct) (auto simp: insert_absorb)

lemma firsts_props:
  "distinct (map k (firsts k seen xs)) \<and> k ` set (firsts k seen xs) = k ` set xs - seen
    \<and> set (firsts k seen xs) \<subseteq> set xs"
  by (induction k seen xs rule: firsts.induct) auto

definition extend_listing :: "listing \<Rightarrow> DeviceInfo list \<Rightarrow> listing" where
  "extend_listing st is = (fst st @ firsts device_key (snd st) is, snd st \<union> device_key ` set is)"

lemma extend_listing_simps [simp]:
  "extend_listing st [] = st"
  "extend_listing (extend_listing st is) js = extend_listing st (is @ js)"
  by (simp_all add: extend_listing_def firsts_append Un_assoc image_Un)

lemma foldl_listing:
  "(\<And>st x. step st x = extend_listing st (h x)) \<Longrightarrow> foldl step st xs = extend_listing st (concat (map h xs))"
  by (induction xs arbitrary: st) auto

lemma list_entry_extend:
  "list_entry w dd st e = extend_listing st (case entry_device w dd e of Some (Inr i) \<Rightarrow> [i] | _ \<Rightarrow> [])"
  by (auto simp: list_entry_def extend_listing_def insert_absorb split: option.splits sum.splits)

lemma list_account_extend: "list_account w dir st acc = extend_listing st (account_infos w dir acc)"
  by (auto simp: list_account_def account_infos_def entry_infos_def Let_def foldl_listing [OF list_entry_extend]
      split: sum.splits)

lemma list_dir_extend: "list_dir w st dir = extend_listing st (dir_infos w dir)"
  by (auto simp: list_dir_def dir_infos_def foldl_listing [OF list_account_extend] split: sum.splits)

text \<open>\<open>ListAllDevices\<close> returns, of all device files below the data directories that can be read,
  the first of each key (the device id, or the address when there is none), in order: it is the
  list without repetitions of what a traversal finds.\<close>

theorem listing_is_first_of_each_key:
  "ListAllDevices ds w = Inr (firsts device_key {} (all_infos ds w))"
  by (simp add: ListAllDevices_def all_infos_def foldl_listing [OF list_dir_extend])
     (simp add: extend_listing_def)

lemma listing_keys:
  assumes "ListAllDevices ds w = Inr xs"
  shows "distinct (map device_key xs) \<and> device_key ` set xs = device_key ` set (all_infos ds w)"
proof -
  have "ListAllDevices ds w = Inr (firsts device_key {} (all_infos ds w))"
    by (simp add: ListAllDevices_def all_infos_def foldl_listing [OF list_dir_extend])
       (simp add: extend_listing_def)
  with assms firsts_props [of device_key "{}" "all_infos ds w"] show ?thesis by simp
qed

lemma ReadDir_entry:
  assumes "lookup (w_root w) (at_path w p @ c # d # rest) = Inr n"
  shows "\<exists>es. os_ReadDir w p = Inr es \<and> (c, True) \<in> set es"
proof -
  from assms obtain k where k: "lookup (w_root w) (at_path w p) = Inr k" "lookup k (c # d # rest) = Inr n"
    by (auto simp: lookup_append split: sum.splits)
  then obtain es m where m: "k = Dir es" "map_of es c = Some m" "lookup m (d # rest) = Inr n"
    by (cases k) (auto split: option.splits)
  then have "(c, True) \<in> set (map (\<lambda>(c, n). (c, is_dir n)) es)"
    using map_of_SomeD [OF m(2)] by (cases m) force+
  with k m(1) show ?thesis by (simp add: os_ReadDir_def)
qed

lemma listed_file:
  assumes "GetDeviceInfo ds w a d = Inr i" "DataDir ds \<noteq> []" "plain_name a" "plain_name d"
  shows "i \<in> set (all_infos ds w)"
proof -
  let ?D = "DataDir ds" and ?dd = "filepath_Join [DataDir ds, a, DevicesDir]"
  have at: "at_path w ?dd = at_path w ?D @ [a, ''devices'']"
    "at_path w (filepath_Join [?dd, d, DeviceInfoFile]) = at_path w ?D @ [a, ''devices'', d, ''DeviceInfo.xml'']"
    using assms(2-4) by (simp_all add: resolve_Join file_names del: filepath_Join.simps)
  from assms(1) obtain t where t: "os_ReadFile w (device_path ds a d) = Inr t" "read_device t = Inr i"
    by (auto simp: GetDeviceInfo_def split: sum.splits)
  then obtain m where f: "lookup (w_root w) (at_path w ?D @ [a, ''devices'', d, ''DeviceInfo.xml'']) = Inr (File t m)"
    by (auto simp: os_ReadFile_def at_device_path [OF assms(2-4)] split: sum.splits node.splits)
  with t(2) at(2) have parsed: "entry_device w ?dd (d, True) = Some (Inr i)"
    by (simp add: entry_device_def parseDeviceInfoFile_def os_ReadFile_def)
  from f obtain n where "lookup (w_root w) (at_path w ?D) = Inr n"
    by (auto simp: lookup_append split: sum.splits)
  then have "?D \<in> set (data_dirs ds w)"
    by (auto simp: data_dirs_def os_exists_def os_Stat_def split: node.splits)
  moreover obtain as where as: "os_ReadDir w ?D = Inr as" "(a, True) \<in> set as"
    using ReadDir_entry [OF f] by blast
  moreover have f': "lookup (w_root w) (at_path w ?dd @ [d, ''DeviceInfo.xml'']) = Inr (File t m)"
    using f by (simp add: at(1) del: filepath_Join.simps)
  obtain ds where ds: "os_ReadDir w ?dd = Inr ds" "(d, True) \<in> set ds"
    using ReadDir_entry [OF f'] by blast
  with parsed have "i \<in> set (account_infos w ?D (a, True))"
    by (force simp: account_infos_def entry_infos_def simp del: filepath_Join.simps)
  ultimately show ?thesis
    by (force simp: all_infos_def dir_infos_def)
qed

text \<open>C23: The listing is complete and free of duplicates: no two of its devices have the same key, and
  the key of every device whose information can be loaded is there.\<close>

theorem listing_complete:
  assumes "ListAllDevices ds w = Inr xs" "GetDeviceInfo ds w a d = Inr i"
    "DataDir ds \<noteq> []" "plain_name a" "plain_name d"
  shows "distinct (map device_key xs) \<and> (\<exists>x \<in> set xs. device_key x = device_key i)"
  using listing_keys [OF assms(1)] listed_file [OF assms(2-5)] by (metis imageE imageI)

section \<open>Bounded logs\<close>

definition last_n :: "nat \<Rightarrow> 'a list \<Rightarrow> 'a list" where
  "last_n n xs = drop (length xs - n) xs"

lemma last_n_append: "length (last_n n xs) \<le> n" "last_n n (last_n n xs @ ys) = last_n n (xs @ ys)"
proof -
  show "length (last_n n xs) \<le> n" by (simp add: last_n_def)
  show "last_n n (last_n n xs @ ys) = last_n n (xs @ ys)"
    by (cases "length xs \<le> n") (auto simp: last_n_def add.commute)
qed

text \<open>A log per key that keeps the last \<open>n\<close> entries of each.\<close>

locale bounded_log =
  fixes n :: nat
    and add :: "'s \<Rightarrow> 'k \<Rightarrow> 'e \<Rightarrow> 's"
    and get :: "'s \<Rightarrow> 'k \<Rightarrow> 'e list"
  assumes get_add: "get (add s k e) j = (if j = k then last_n n (get s k @ [e]) else get s j)"
begin

lemma get_bound: "get s k = last_n n (get s k) \<Longrightarrow> get (add s j e) k = last_n n (get (add s j e) k)"
  using last_n_append(2) [of n "get s k @ [e]" "[]"] by (auto simp: get_add)

lemma get_history:
  assumes "get s k = last_n n (get s k)"
  shows "get (foldl (\<lambda>s (j, e). add s j e) s tr) k = last_n n (get s k @ map snd (filter (\<lambda>x. fst x = k) tr))"
  using assms
proof (induction tr arbitrary: s)
  case (Cons x tr)
  obtain j e where x: "x = (j, e)" by force
  from Cons.IH [OF get_bound [OF Cons.prems]] show ?case
    by (simp add: x get_add last_n_append(2))
qed simp

end

lemma get_add_event:
  "GetDeviceEvents (AddDeviceEvent ds k e) j
     = (if j = k then last_n 100 (GetDeviceEvents ds k @ [e]) else GetDeviceEvents ds j)"
  by (simp add: GetDeviceEvents_def AddDeviceEvent_def last_n_def Let_def split: option.split)

interpretation events: bounded_log 100 AddDeviceEvent GetDeviceEvents
  by unfold_locales (rule get_add_event)

text \<open>After any interleaving of events of several devices, starting from a new store, a device's
  log holds exactly its own last hundred events, in the order they came.\<close>

theorem events_are_the_last_hundred:
  "GetDeviceEvents (foldl (\<lambda>ds (device, event). AddDeviceEvent ds device event) (NewDataStore dir) tr) d =
     (let own = map snd (filter (\<lambda>x. fst x = d) tr) in drop (length own - 100) own)"
proof -
  have new: "GetDeviceEvents (NewDataStore dir) d = []"
    by (simp add: GetDeviceEvents_def NewDataStore_def)
  show ?thesis
    using events.get_history [of "NewDataStore dir" d tr] unfolding new by (simp add: last_n_def Let_def)
qed

section \<open>ETags\<close>

lemma etag_cong:
  "w_cwd w' = w_cwd w \<Longrightarrow> w_dirtime w' = w_dirtime w \<Longrightarrow>
   lookup (w_root w') (at_path w q) = lookup (w_root w) (at_path w q) \<Longrightarrow> etag_of_file w' q = etag_of_file w q"
  by (auto simp: etag_of_file_def os_Stat_def split: sum.splits node.splits)

lemma etag_written:
  assumes "os_WriteFile w p t = (Inr (), w')"
  shows "etag_of_file w' p = go_div (w_clock w (w_ticks w)) 1000000"
  using WriteFile_lookup [OF assms] WriteFile_cwd [OF assms] by (simp add: etag_of_file_def os_Stat_def)

lemma etag_apart:
  assumes "os_WriteFile w p t = (r, w')" "apart_paths w p q"
  shows "etag_of_file w' q = etag_of_file w q"
proof -
  from assms(1) have "w_dirtime w' = w_dirtime w" by (cases rule: WriteFile_cases) simp_all
  with WriteFile_lookup_apart [OF assms] WriteFile_cwd [OF assms(1)] show ?thesis
    by (intro etag_cong)
qed

lemma GetETagForAccount_max:
  "GetETagForAccount ds w a = max (GetETagForPresets ds w a) (max (GetETagForSources ds w a) (GetETagForRecents ds w a))"
  by (simp add: GetETagForAccount_def Let_def)

text \<open>Saving presets or recents sets the ETag of that file to the time of the write in milliseconds
  and leaves the ETags of the account's other files; so the ETag of the account, the greatest of the
  three, becomes the time of the write when that is later than all of them.\<close>

theorem etags_after_saving:
  assumes "DataDir ds \<noteq> []" "plain_name a" "now = go_div (w_clock w (w_ticks w)) 1000000"
    "GetETagForAccount ds w a < now"
    "SavePresets ds w a ps = (Inr (), w1)" "SaveRecents ds w a rs = (Inr (), w2)"
  shows "GetETagForPresets ds w1 a = now \<and> GetETagForSources ds w1 a = GetETagForSources ds w a
      \<and> GetETagForRecents ds w1 a = GetETagForRecents ds w a \<and> GetETagForAccount ds w1 a = now
    \<and> GetETagForRecents ds w2 a = now \<and> GetETagForSources ds w2 a = GetETagForSources ds w a
      \<and> GetETagForPresets ds w2 a = GetETagForPresets ds w a \<and> GetETagForAccount ds w2 a = now"
proof -
  note at = at_record_paths [OF assms(1,2)]
  note s1 = assms(5) [unfolded SavePresets_def] and s2 = assms(6) [unfolded SaveRecents_def]
  note tags = GetETagForPresets_def GetETagForSources_def GetETagForRecents_def
  have 1: "GetETagForPresets ds w1 a = now" "GetETagForRecents ds w2 a = now"
    using etag_written [OF s1] etag_written [OF s2] assms(3) by (simp_all add: tags)
  have 2: "GetETagForSources ds w1 a = GetETagForSources ds w a" "GetETagForRecents ds w1 a = GetETagForRecents ds w a"
    unfolding tags by (rule etag_apart [OF s1]; simp add: apart_paths_def at)+
  have 3: "GetETagForSources ds w2 a = GetETagForSources ds w a" "GetETagForPresets ds w2 a = GetETagForPresets ds w a"
    unfolding tags by (rule etag_apart [OF s2]; simp add: apart_paths_def at)+
  from 1 2 3 assms(4) show ?thesis by (simp add: GetETagForAccount_max)
qed

section \<open>Initialisation\<close>

lemma Initialize_steps:
  assumes "Initialize ds w = (Inr (), w')"
  obtains w1 w2 where "os_MkdirAll w (DataDir ds) = (Inr (), w1)"
    "os_MkdirAll w1 (AccountDir ds ''default'') = (Inr (), w2)"
    "os_MkdirAll w2 (AccountDevicesDir ds ''default'') = (Inr (), w')"
  using assms by (auto simp: Initialize_def split: prod.splits sum.splits)

text \<open>A successful initialisation keeps every file, and makes the default account usable: unless
  writing there is refused, presets and recents can be saved.\<close>

theorem initialize_prepares_default_account:
  assumes "Initialize ds w = (Inr (), w')" "DataDir ds \<noteq> []" "\<And>q. \<not> w_deny w q"
    "\<And>f es. f \<in> {''Presets.xml'', ''Recents.xml''} \<Longrightarrow>
      lookup (w_root w') (at_path w (DataDir ds) @ [''default'', f]) \<noteq> Inr (Dir es)"
  shows "(\<forall>q t. os_ReadFile w q = Inr t \<longrightarrow> os_ReadFile w' q = Inr t)
    \<and> (\<exists>v. SavePresets ds w' ''default'' ps = (Inr (), v)) \<and> (\<exists>v. SaveRecents ds w' ''default'' rs = (Inr (), v))"
proof -
  from assms(1) obtain w1 w2 where m: "os_MkdirAll w (DataDir ds) = (Inr (), w1)"
    "os_MkdirAll w1 (AccountDir ds ''default'') = (Inr (), w2)"
    "os_MkdirAll w2 (AccountDevicesDir ds ''default'') = (Inr (), w')" by (rule Initialize_steps)
  have w: "w_cwd w' = w_cwd w" "w_deny w' = w_deny w" "w_cwd w2 = w_cwd w"
    using m by (auto simp: MkdirAll_world)
  note at = at_paths [OF assms(2), of "''default''"]
  from MkdirAll_dir [OF m(3)] at(2) w obtain es where
    "lookup (w_root w') (at_path w (DataDir ds) @ [''default'', ''devices'']) = Inr (Dir es)" by auto
  then obtain fs where fs: "lookup (w_root w') (at_path w (DataDir ds) @ [''default'']) = Inr (Dir fs)"
    using lookup_append [of "w_root w'" "at_path w (DataDir ds) @ [''default'']" "[''devices'']"]
    by (auto split: sum.splits) (metis lookup.simps(2) node.exhaust sum.distinct(1))
  have free: "\<not> (\<exists>xs. map_of fs f = Some (Dir xs))" if "f \<in> {''Presets.xml'', ''Recents.xml''}" for f
    using assms(4) [OF that] fs lookup_append [of "w_root w'" "at_path w (DataDir ds) @ [''default'']" "[f]"]
    by fastforce
  have ok: "\<exists>v. os_WriteFile w' p t = (Inr (), v)"
    if "f \<in> {''Presets.xml'', ''Recents.xml''}" "at_path w p = at_path w (DataDir ds) @ [''default'', f]" for p f t
    by (rule WriteFile_ok [OF _ fs]) (use that free w assms(3) in simp_all)
  have "\<exists>v. SavePresets ds w' ''default'' ps = (Inr (), v)" "\<exists>v. SaveRecents ds w' ''default'' rs = (Inr (), v)"
    using ok [of _ "presets_path ds ''default''"] ok [of _ "recents_path ds ''default''"] at(4,5)
    by (simp_all add: SavePresets_def SaveRecents_def)
  with m MkdirAll_keeps_file show ?thesis by blast
qed

end
