(* ===== verification/Datastore_Refinement.thy ===== *)
theory Datastore_Refinement
  imports Datastore_Service
begin

text \<open>
  The store as what its clients think it is: a table of the presets, recents and sources of each account and of the
  devices of each account.  The methods that save and remove update one entry of the table, and those that load look
  it up; how that is laid out in files and directories does not show.
\<close>

section \<open>Simulation\<close>

fun run_all :: "('op \<Rightarrow> 'c \<Rightarrow> 'r \<times> 'c) \<Rightarrow> 'op list \<Rightarrow> 'c \<Rightarrow> 'r list \<times> 'c" where
  "run_all run [] c = ([], c)"
| "run_all run (x # xs) c = (case run x c of (r, c1) \<Rightarrow> (case run_all run xs c1 of (rs, c2) \<Rightarrow> (r # rs, c2)))"

text \<open>Operations with a result on a concrete state, and what they do to its abstraction.  A run of operations is then a
  run of their abstractions.\<close>

locale simulation =
  fixes abs :: "'c \<Rightarrow> 'a"
    and inv :: "'c \<Rightarrow> bool"
    and run :: "'op \<Rightarrow> 'c \<Rightarrow> 'r \<times> 'c"
    and spec :: "'op \<Rightarrow> 'r \<Rightarrow> 'a \<Rightarrow> 'a"
    and valid :: "'op \<Rightarrow> 'r \<Rightarrow> bool"
  assumes step: "run x c = (r, c') \<Longrightarrow> inv c \<Longrightarrow> valid x r \<Longrightarrow> abs c' = spec x r (abs c)"
    and keeps: "run x c = (r, c') \<Longrightarrow> inv c \<Longrightarrow> inv c'"
begin

lemma run_all_refines:
  "run_all run xs c = (rs, c') \<Longrightarrow> inv c \<Longrightarrow> \<forall>(x, r) \<in> set (zip xs rs). valid x r \<Longrightarrow>
    abs c' = fold (\<lambda>(x, r). spec x r) (zip xs rs) (abs c) \<and> inv c' \<and> length rs = length xs"
proof (induction xs arbitrary: c rs)
  case (Cons x xs)
  from Cons.prems(1) obtain r c1 rs' where r: "run x c = (r, c1)" "run_all run xs c1 = (rs', c')" "rs = r # rs'"
    by (auto split: prod.splits)
  with Cons.IH [OF r(2) keeps [OF r(1) Cons.prems(2)]] Cons.prems(2,3) step [OF r(1)] show ?case by simp
qed simp

end

section \<open>The texts of files\<close>

text \<open>What can be read at a place.\<close>

definition text_at :: "world \<Rightarrow> string list \<Rightarrow> string option" where
  "text_at w q = (case lookup (w_root w) q of Inr (File t _) \<Rightarrow> Some t | _ \<Rightarrow> None)"

lemma ReadFile_text: "(os_ReadFile w p = Inr t) = (text_at w (at_path w p) = Some t)"
  by (auto simp: os_ReadFile_def text_at_def split: sum.splits node.splits)

lemma text_at_Some: "text_at w q = Some t \<longleftrightarrow> (\<exists>m. lookup (w_root w) q = Inr (File t m))"
  by (auto simp: text_at_def split: sum.splits node.splits)

lemma mkdirs_no_file:
  "mkdirs deny pre p n = (e, n') \<Longrightarrow> lookup n' q = Inr (File t m) \<Longrightarrow> lookup n q = Inr (File t m)"
proof (induction deny pre p n arbitrary: n' q e rule: mkdirs.induct)
  case (3 deny pre c cs es)
  then obtain d q' where q: "q = d # q'" by (cases q) (auto split: option.splits prod.splits if_splits)
  show ?case
  proof (cases "map_of es c")
    case None
    show ?thesis
    proof (cases "deny (pre @ [c])")
      case False
      obtain e1 n1 where m: "mkdirs deny (pre @ [c]) cs (Dir []) = (e1, n1)" by force
      have "lookup (Dir []) q' = Inr (File t m)" if "lookup n1 q' = Inr (File t m)"
        using "3.IH"(1) [OF None False m that] .
      moreover have "lookup (Dir []) q' \<noteq> Inr (File t m)" by (cases q') auto
      ultimately show ?thesis using "3.prems" q None False m by (auto split: if_splits option.splits)
    qed (use "3.prems" None in simp)
  next
    case (Some k)
    with "3.prems" "3.IH"(2) [OF Some] q show ?thesis by (auto split: prod.splits option.splits if_splits)
  qed
qed auto

lemma text_MkdirAll:
  assumes "os_MkdirAll w p = (r, w')"
  shows "text_at w' q = text_at w q"
proof -
  obtain e n where m: "mkdirs (w_deny w) [] (at_path w p) (w_root w) = (e, n)" by force
  with assms have "w' = w\<lparr>w_root := n\<rparr>" by (auto simp: os_MkdirAll_def Let_def)
  moreover have "(lookup n q = Inr (File t k)) = (lookup (w_root w) q = Inr (File t k))" for t k
    using mkdirs_keeps_file [OF m] mkdirs_no_file [OF m] by (rule iffI [rotated])
  ultimately have "text_at w' q = Some t \<longleftrightarrow> text_at w q = Some t" for t by (simp add: text_at_Some)
  then show ?thesis by (cases "text_at w q"; cases "text_at w' q") auto
qed

lemma text_WriteFile:
  assumes "os_WriteFile w p t = (r, w')" "at_path w p \<parallel> q \<or> \<not> is_ok r"
  shows "text_at w' q = text_at w q"
  using assms(1)
proof (cases rule: WriteFile_cases)
  case written
  with assms(2) lookup_change_other [OF written(2)] show ?thesis by (simp add: text_at_def)
qed (simp add: text_at_def)

lemma text_written: "os_WriteFile w p t = (Inr (), w') \<Longrightarrow> text_at w' (at_path w p) = Some t"
  by (simp add: text_at_def WriteFile_lookup)

lemma text_RemoveAll:
  assumes "os_RemoveAll w p = (r, w')" "at_path w p \<parallel> q"
  shows "text_at w' q = text_at w q"
proof -
  have "at_path w p \<noteq> []" using assms(2) by auto
  with assms(1) have "w' = w \<or> (\<exists>n. change (at_path w p) (\<lambda>_. Inr None) (w_root w) = Inr n \<and> w' = w\<lparr>w_root := n\<rparr>)"
    by (auto simp: os_RemoveAll_def Let_def split: if_splits sum.splits errno.splits)
  with assms(2) lookup_change_other show ?thesis by (fastforce simp: text_at_def)
qed

section \<open>The table\<close>

record store_view =
  tb_presets :: "string \<Rightarrow> Preset list option"
  tb_recents :: "string \<Rightarrow> Recent list option"
  tb_sources :: "string \<Rightarrow> ConfiguredSource list option"
  tb_devices :: "string \<times> string \<Rightarrow> DeviceInfo option"

definition loaded :: "'a result \<Rightarrow> 'a option" where
  "loaded r = (case r of Inl _ \<Rightarrow> None | Inr x \<Rightarrow> Some x)"

text \<open>What the loading methods give, for the names that stay inside their directory.\<close>

definition store_view :: "DataStore \<Rightarrow> world \<Rightarrow> store_view" where
  "store_view ds w =
     \<lparr>tb_presets = (\<lambda>a. if plain_name a then loaded (GetPresets ds w a) else None),
      tb_recents = (\<lambda>a. if plain_name a then loaded (GetRecents ds w a) else None),
      tb_sources = (\<lambda>a. if plain_name a then loaded (GetConfiguredSources ds w a) else None),
      tb_devices = (\<lambda>(a, d). if plain_name a \<and> plain_name d then loaded (GetDeviceInfo ds w a d) else None)\<rparr>"

datatype store_op =
    Presets_Saved string "Preset list"
  | Recents_Saved string "Recent list"
  | Sources_Saved string "ConfiguredSource list"
  | Device_Saved string string DeviceInfo
  | Device_Removed string string

fun run_op :: "DataStore \<Rightarrow> store_op \<Rightarrow> world \<Rightarrow> unit result \<times> world" where
  "run_op ds (Presets_Saved a ps) w = SavePresets ds w a ps"
| "run_op ds (Recents_Saved a rs) w = SaveRecents ds w a rs"
| "run_op ds (Sources_Saved a ss) w = SaveConfiguredSources ds w a ss"
| "run_op ds (Device_Saved a d i) w = SaveDeviceInfo ds w a d i"
| "run_op ds (Device_Removed a d) w = RemoveDevice ds w a d"

fun update_view :: "store_op \<Rightarrow> store_view \<Rightarrow> store_view" where
  "update_view (Presets_Saved a ps) v = v\<lparr>tb_presets := (tb_presets v)(a \<mapsto> map stored_preset ps)\<rparr>"
| "update_view (Recents_Saved a rs) v = v\<lparr>tb_recents := (tb_recents v)(a \<mapsto> map stored_recent rs)\<rparr>"
| "update_view (Sources_Saved a ss) v = v\<lparr>tb_sources := (tb_sources v)(a \<mapsto> stored_sources ss)\<rparr>"
| "update_view (Device_Saved a d i) v = v\<lparr>tb_devices := (tb_devices v)((a, d) \<mapsto> stored_device i)\<rparr>"
| "update_view (Device_Removed a d) v = v\<lparr>tb_devices := (tb_devices v)((a, d) := None)\<rparr>"

text \<open>An operation that reports an error changes nothing.\<close>

definition op_spec :: "store_op \<Rightarrow> unit result \<Rightarrow> store_view \<Rightarrow> store_view" where
  "op_spec x r v = (if is_ok r then update_view x v else v)"

fun plain_op :: "store_op \<Rightarrow> bool" where
  "plain_op (Presets_Saved a ps) \<longleftrightarrow> plain_name a"
| "plain_op (Recents_Saved a rs) \<longleftrightarrow> plain_name a"
| "plain_op (Sources_Saved a ss) \<longleftrightarrow> plain_name a"
| "plain_op (Device_Saved a d i) \<longleftrightarrow> plain_name a \<and> plain_name d"
| "plain_op (Device_Removed a d) \<longleftrightarrow> plain_name a \<and> plain_name d"

fun removal :: "store_op \<Rightarrow> bool" where
  "removal (Device_Removed a d) \<longleftrightarrow> True"
| "removal x \<longleftrightarrow> False"

text \<open>The places of the records below the data directory.\<close>

datatype record_key = Presets_Of string | Recents_Of string | Sources_Of string | Device_Of string string

fun place :: "record_key \<Rightarrow> string list" where
  "place (Presets_Of a) = [a, ''Presets.xml'']"
| "place (Recents_Of a) = [a, ''Recents.xml'']"
| "place (Sources_Of a) = [a, ''Sources.xml'']"
| "place (Device_Of a d) = [a, ''devices'', d, ''DeviceInfo.xml'']"

fun plain_key :: "record_key \<Rightarrow> bool" where
  "plain_key (Device_Of a d) \<longleftrightarrow> plain_name a \<and> plain_name d"
| "plain_key (Presets_Of a) \<longleftrightarrow> plain_name a"
| "plain_key (Recents_Of a) \<longleftrightarrow> plain_name a"
| "plain_key (Sources_Of a) \<longleftrightarrow> plain_name a"

lemma places_apart: "k \<noteq> j \<Longrightarrow> place k \<parallel> place j"
  by (cases k; cases j) auto

fun op_key :: "store_op \<Rightarrow> record_key" where
  "op_key (Presets_Saved a ps) = Presets_Of a"
| "op_key (Recents_Saved a rs) = Recents_Of a"
| "op_key (Sources_Saved a ss) = Sources_Of a"
| "op_key (Device_Saved a d i) = Device_Of a d"
| "op_key (Device_Removed a d) = Device_Of a d"

fun op_text :: "store_op \<Rightarrow> string option" where
  "op_text (Presets_Saved a ps) = Some (presets_document ps)"
| "op_text (Recents_Saved a rs) = Some (recents_document rs)"
| "op_text (Sources_Saved a ss) = Some (sources_document ss)"
| "op_text (Device_Saved a d i) = Some (device_document i)"
| "op_text (Device_Removed a d) = None"

text \<open>The texts of all records, as a function of their keys: each operation changes one of them, or none.\<close>

definition texts :: "DataStore \<Rightarrow> world \<Rightarrow> record_key \<Rightarrow> string option" where
  "texts ds w k = text_at w (at_path w (DataDir ds) @ place k)"

lemma texts_write:
  assumes "os_WriteFile w1 p t = (r, w')" "at_path w1 p = at_path w (DataDir ds) @ place k" "w_cwd w1 = w_cwd w"
    and "\<And>q. text_at w1 q = text_at w q"
  shows "texts ds w' = (if is_ok r then (texts ds w)(k := Some t) else texts ds w) \<and> w_cwd w' = w_cwd w"
proof -
  have c: "w_cwd w' = w_cwd w" using WriteFile_cwd [OF assms(1)] assms(3) by simp
  have "texts ds w' j = (if is_ok r \<and> j = k then Some t else texts ds w j)" for j
  proof (cases "is_ok r \<and> j = k")
    case True
    then show ?thesis using text_written [of w1 p t w'] assms(1,2) c by (cases r) (auto simp: texts_def)
  next
    case False
    then have "at_path w1 p \<parallel> at_path w (DataDir ds) @ place j \<or> \<not> is_ok r"
      using places_apart [of k j] assms(2) by auto
    then show ?thesis using text_WriteFile [OF assms(1)] assms(4) c False by (auto simp: texts_def)
  qed
  with c show ?thesis by (auto simp: fun_eq_iff)
qed

lemma SaveSources_texts:
  assumes "SaveConfiguredSources ds w a ss = (r, w')" "DataDir ds \<noteq> []" "plain_name a"
  shows "texts ds w' = (if is_ok r then (texts ds w)(Sources_Of a \<mapsto> sources_document ss) else texts ds w) \<and> w_cwd w' = w_cwd w"
proof -
  obtain r1 w1 where m: "os_MkdirAll w (filepath_Dir (sources_path ds a)) = (r1, w1)"
    "os_WriteFile w1 (sources_path ds a) (sources_document ss) = (r, w')"
    using assms(1) by (auto simp: SaveConfiguredSources_def Let_def split: prod.splits)
  show ?thesis
    using MkdirAll_world(1) [OF m(1)] at_record_paths(3) [OF assms(2,3)] by (intro texts_write [OF m(2)] text_MkdirAll [OF m(1)]) simp_all
qed

lemma SaveDevice_texts:
  assumes "SaveDeviceInfo ds w a d i = (r, w')" "DataDir ds \<noteq> []" "plain_name a" "plain_name d"
  shows "texts ds w' = (if is_ok r then (texts ds w)(Device_Of a d \<mapsto> device_document i) else texts ds w) \<and> w_cwd w' = w_cwd w"
proof -
  obtain r1 w1 where m: "os_MkdirAll w (AccountDeviceDir ds a d) = (r1, w1)" by force
  have c: "w_cwd w1 = w_cwd w" using MkdirAll_world(1) [OF m] .
  show ?thesis
  proof (cases r1)
    case (Inl e)
    then have "w' = w1" "\<not> is_ok r" using assms(1,4) m by (auto simp: SaveDeviceInfo_def plain_name_def)
    then show ?thesis using c text_MkdirAll [OF m] by (simp add: texts_def fun_eq_iff)
  next
    case (Inr u)
    then have "os_WriteFile w1 (device_path ds a d) (device_document i) = (r, w')"
      using assms(1,4) m by (auto simp: SaveDeviceInfo_def plain_name_def)
    then show ?thesis using c at_device_path [OF assms(2-4)] by (intro texts_write [OF _ _ _ text_MkdirAll [OF m]]) simp_all
  qed
qed

lemma RemoveDevice_texts:
  assumes "RemoveDevice ds w a d = (Inr (), w')" "DataDir ds \<noteq> []" "plain_name a" "plain_name d"
  shows "texts ds w' = (texts ds w)(Device_Of a d := None) \<and> w_cwd w' = w_cwd w"
proof -
  note rm = assms(1) [unfolded RemoveDevice_def]
  note at = at_AccountDeviceDir [OF assms(2-4)]
  have "AccountDeviceDir ds a d \<noteq> []" using assms(2) by simp
  from RemoveAll_gone [OF rm this] have gone: "lookup (w_root w') (at_path w (DataDir ds) @ [a, ''devices'', d]) = Inl ENOENT"
    and c: "w_cwd w' = w_cwd w" by (simp_all add: at)
  have "lookup (w_root w') (at_path w (DataDir ds) @ place (Device_Of a d)) = Inl ENOENT"
    using gone lookup_append [of "w_root w'" "at_path w (DataDir ds) @ [a, ''devices'', d]" "[''DeviceInfo.xml'']"] by simp
  moreover have "texts ds w' k = texts ds w k" if "k \<noteq> Device_Of a d" for k
    using text_RemoveAll [OF rm, of "at_path w (DataDir ds) @ place k"] that c by (cases k) (auto simp: texts_def at)
  ultimately show ?thesis using c by (auto simp: fun_eq_iff texts_def text_at_def)
qed

lemma run_op_texts:
  assumes "run_op ds x w = (r, w')" "DataDir ds \<noteq> []" "plain_op x" "removal x \<longrightarrow> is_ok r"
  shows "texts ds w' = (if is_ok r then (texts ds w)(op_key x := op_text x) else texts ds w) \<and> w_cwd w' = w_cwd w"
proof (cases x)
  case (Presets_Saved a ps)
  with assms at_record_paths(1) [OF assms(2), of a w] show ?thesis
    using texts_write [of w "presets_path ds a" "presets_document ps" r w' w ds "Presets_Of a"] by (simp add: SavePresets_def)
next
  case (Recents_Saved a rs)
  with assms at_record_paths(2) [OF assms(2), of a w] show ?thesis
    using texts_write [of w "recents_path ds a" "recents_document rs" r w' w ds "Recents_Of a"] by (simp add: SaveRecents_def)
next
  case (Device_Removed a d)
  with assms RemoveDevice_texts [of ds w a d w'] show ?thesis by (cases r) auto
qed (use assms SaveSources_texts SaveDevice_texts in auto)

text \<open>The view of the texts.\<close>

definition decoded :: "(string \<Rightarrow> 'a result) \<Rightarrow> string option \<Rightarrow> 'a option" where
  "decoded dec t = (case t of None \<Rightarrow> None | Some s \<Rightarrow> loaded (dec s))"

lemma decoded_simps [simp]: "decoded dec None = None" "decoded dec (Some t) = loaded (dec t)"
  by (simp_all add: decoded_def)

lemma read_decoded:
  "at_path w p = at_path w (DataDir ds) @ place k \<Longrightarrow>
    loaded (case os_ReadFile w p of Inl e \<Rightarrow> Inl e | Inr t \<Rightarrow> dec t) = decoded dec (texts ds w k)"
  by (auto simp: os_ReadFile_def texts_def text_at_def decoded_def loaded_def split: sum.splits node.splits)

lemma view_of_texts:
  assumes "DataDir ds \<noteq> []"
  shows "store_view ds w =
     \<lparr>tb_presets = (\<lambda>a. if plain_name a then decoded (read_presets (presets_path ds a)) (texts ds w (Presets_Of a)) else None),
      tb_recents = (\<lambda>a. if plain_name a then decoded (read_recents (recents_path ds a)) (texts ds w (Recents_Of a)) else None),
      tb_sources = (\<lambda>a. if plain_name a then decoded (read_sources (sources_path ds a)) (texts ds w (Sources_Of a)) else None),
      tb_devices = (\<lambda>(a, d). if plain_name a \<and> plain_name d then decoded read_device (texts ds w (Device_Of a d)) else None)\<rparr>"
  using at_record_paths [OF assms] at_device_path [OF assms]
  by (auto simp: store_view_def fun_eq_iff GetPresets_def GetRecents_def GetConfiguredSources_def GetDeviceInfo_def Let_def
      intro!: read_decoded)

lemma run_op_view:
  assumes "run_op ds x w = (r, w')" "DataDir ds \<noteq> []" "plain_op x" "removal x \<longrightarrow> is_ok r"
  shows "store_view ds w' = op_spec x r (store_view ds w)"
  using run_op_texts [OF assms] assms(3)
  by (cases x) (auto simp: view_of_texts [OF assms(2)] op_spec_def loaded_def read_presets_document read_recents_document
      read_sources_document read_device_document fun_eq_iff)

interpretation store: simulation "store_view ds" "\<lambda>w. DataDir ds \<noteq> []" "run_op ds" op_spec
    "\<lambda>x r. plain_op x \<and> (removal x \<longrightarrow> is_ok r)" for ds
  by unfold_locales (auto intro: run_op_view)

text \<open>C5: The store is a table of records: whatever operations save and remove records under plain names, with whatever
  results (removals that succeed), what can be loaded afterwards, of every kind, account and device, is what is in the
  table after the updates of the operations that succeeded.\<close>

theorem store_is_a_table:
  assumes "run_all (run_op ds) ops w = (rs, w')" "DataDir ds \<noteq> []" "list_all plain_op ops"
    and "\<forall>(x, r) \<in> set (zip ops rs). removal x \<longrightarrow> is_ok r"
  shows "store_view ds w' = fold (\<lambda>(x, r). op_spec x r) (zip ops rs) (store_view ds w)"
proof -
  have "\<forall>(x, r) \<in> set (zip ops rs). plain_op x \<and> (removal x \<longrightarrow> is_ok r)"
    using assms(3,4) by (auto simp: list_all_iff dest: set_zip_leftD)
  with store.run_all_refines [OF assms(1,2)] show ?thesis by simp
qed

end
