(* ===== verification/Example_Deployment.thy ===== *)
theory Example_Deployment
  imports Datastore_Refinement
begin

text \<open>
  A small deployment, on which the theorems with hypotheses are applied: the service runs in
  \<open>/srv\<close> with the data directory \<open>data\<close>, holding the account \<open>default\<close> with one device.
\<close>

definition ex_clock :: "nat \<Rightarrow> int" where
  "ex_clock n = 1700000000000000000 + int n * 1000000000"

definition ex_store :: DataStore where "ex_store = NewDataStore ''data''"

definition ex_source :: ConfiguredSource where
  "ex_source = \<lparr>cs_DisplayName = ''Radio'', cs_ID = [], cs_Secret = ''s<1>'', cs_SecretType = ''token'',
     cs_SourceKeyType = ''TUNEIN'', cs_SourceKeyAccount = ''me''\<rparr>"

definition ex_preset :: Preset where
  "ex_preset = \<lparr>ci_ID = ''1'', ci_Name = ''A & B'', ci_Source = ''TUNEIN'', ci_Type = ''stationurl'',
     ci_Location = ''/v1/1'', ci_SourceAccount = ''me'', ci_SourceID = ''100001'', ci_IsPresetable = [],
     p_ContainerArt = [], p_CreatedOn = ''1'', p_UpdatedOn = ''2''\<rparr>"

definition ex_recent :: "string \<Rightarrow> string \<Rightarrow> Recent" where
  "ex_recent i loc = \<lparr>ci_ID = i, ci_Name = ''n'' @ i, ci_Source = ''TUNEIN'', ci_Type = ''stationurl'',
     ci_Location = loc, ci_SourceAccount = ''me'', ci_SourceID = [], ci_IsPresetable = ''true'',
     r_DeviceID = ''D1'', r_UtcTime = ''1600000000'', r_ContainerArt = []\<rparr>"

definition ex_device :: DeviceInfo where
  "ex_device = \<lparr>di_DeviceID = ''D1'', di_ProductCode = ''ST10'', di_DeviceSerialNumber = ''S1'',
     di_ProductSerialNumber = ''P1'', di_FirmwareVersion = ''27'', di_IPAddress = ''10.0.0.7'', di_Name = ''Kitchen''\<rparr>"

definition ex_world :: world where
  "ex_world = \<lparr>w_root = Dir [(''srv'', Dir [(''data'', Dir [(''default'', Dir [(''devices'', Dir [])])])])],
     w_cwd = [''srv''], w_clock = ex_clock, w_ticks = 0, w_zone = (\<lambda>_. 0), w_deny = (\<lambda>_. False),
     w_dirtime = (\<lambda>_. 0)\<rparr>"

lemma ex_world_simps [simp]:
  "w_root ex_world = Dir [(''srv'', Dir [(''data'', Dir [(''default'', Dir [(''devices'', Dir [])])])])]"
  "w_cwd ex_world = [''srv'']" "w_deny ex_world q = False" "w_ticks ex_world = 0" "w_clock ex_world = ex_clock"
  "w_zone ex_world t = 0"
  by (simp_all add: ex_world_def)

lemma ex_store_simps [simp]: "DataDir ex_store = ''data''" "resolve [''srv''] ''data'' = [''srv'', ''data'']"
  by (simp_all add: ex_store_def NewDataStore_def resolve_def rooted_def plain_name_def skip_comp_def walk_step_def)

lemma ex_plain [simp]: "plain_name ''D1''" "plain_name ''D2''" "plain_name ''other''"
  by (simp_all add: plain_name_def)

lemma ex_at:
  "plain_name a \<Longrightarrow> at_path ex_world (presets_path ex_store a) = [''srv'', ''data'', a, ''Presets.xml'']"
  "plain_name a \<Longrightarrow> at_path ex_world (recents_path ex_store a) = [''srv'', ''data'', a, ''Recents.xml'']"
  "plain_name a \<Longrightarrow> at_path ex_world (sources_path ex_store a) = [''srv'', ''data'', a, ''Sources.xml'']"
  "at_path ex_world (AccountDir ex_store ''default'') = [''srv'', ''data'', ''default'']"
  "at_path ex_world (AccountDevicesDir ex_store ''default'') = [''srv'', ''data'', ''default'', ''devices'']"
  "plain_name d \<Longrightarrow> at_path ex_world (AccountDeviceDir ex_store ''default'' d) = [''srv'', ''data'', ''default'', ''devices'', d]"
  "plain_name d \<Longrightarrow> at_path ex_world (device_path ex_store ''default'' d)
     = [''srv'', ''data'', ''default'', ''devices'', d, ''DeviceInfo.xml'']"
  "at_path ex_world (filepath_Dir (sources_path ex_store ''default'')) = [''srv'', ''data'', ''default'']"
  using at_paths [where ds = ex_store and w = ex_world, simplified]
    at_sources_dir [where ds = ex_store and w = ex_world, simplified] by simp_all

lemmas ex_paths = ex_at [simplified]

lemma ex_saves:
  "\<exists>w'. SavePresets ex_store ex_world ''default'' ps = (Inr (), w')"
  "\<exists>w'. SaveRecents ex_store ex_world ''default'' rs = (Inr (), w')"
  unfolding SavePresets_def SaveRecents_def
  by (rule WriteFile_ok [where d = "[''srv'', ''data'', ''default'']" and f = "''Presets.xml''" and es = "[(''devices'', Dir [])]"]; simp add: ex_paths)
     (rule WriteFile_ok [where d = "[''srv'', ''data'', ''default'']" and f = "''Recents.xml''" and es = "[(''devices'', Dir [])]"]; simp add: ex_paths)

text \<open>Directories of the example that are made before a file is written.\<close>

lemma ex_mkdirs:
  "os_MkdirAll ex_world (filepath_Dir (sources_path ex_store ''default'')) = (Inr (), ex_world)"
  "os_MkdirAll ex_world (AccountDeviceDir ex_store ''default'' ''D1'') = (Inr (),
     ex_world\<lparr>w_root := Dir [(''srv'', Dir [(''data'', Dir [(''default'', Dir [(''devices'', Dir [(''D1'', Dir [])])])])])]\<rparr>)"
  using ex_at by (simp_all add: os_MkdirAll_def ex_world_def)

lemma ex_saves_sources: "\<exists>w'. SaveConfiguredSources ex_store ex_world ''default'' ss = (Inr (), w')"
  unfolding SaveConfiguredSources_def ex_mkdirs Let_def prod.case
  by (rule WriteFile_ok [where d = "[''srv'', ''data'', ''default'']" and f = "''Sources.xml''" and es = "[(''devices'', Dir [])]"]; simp add: ex_paths)

lemma ex_saves_device: "\<exists>w'. SaveDeviceInfo ex_store ex_world ''default'' ''D1'' i = (Inr (), w')"
  unfolding SaveDeviceInfo_def ex_mkdirs prod.case sum.case
  by (simp, rule WriteFile_ok [where d = "[''srv'', ''data'', ''default'', ''devices'', ''D1'']" and f = "''DeviceInfo.xml''" and es = "[]"])
     (use ex_at(7) [of "''D1''"] in simp_all)

section \<open>The store's theorems on the example\<close>

theorem presets_read_back_witness:
  "\<exists>w'. SavePresets ex_store ex_world ''default'' [ex_preset] = (Inr (), w')
    \<and> GetPresets ex_store w' ''default'' = Inr [ex_preset\<lparr>ci_SourceID := [], ci_IsPresetable := ''true''\<rparr>]"
proof -
  obtain w' where "SavePresets ex_store ex_world ''default'' [ex_preset] = (Inr (), w')"
    using ex_saves by blast
  with presets_read_back [OF this] show ?thesis
    by (simp add: ex_preset_def sanitize_ascii ascii_text_def)
qed

theorem recents_read_back_witness:
  "\<exists>w'. SaveRecents ex_store ex_world ''default'' [ex_recent ''1'' ''/a''] = (Inr (), w')
    \<and> GetRecents ex_store w' ''default'' = Inr [ex_recent ''1'' ''/a'']"
proof -
  obtain w' where "SaveRecents ex_store ex_world ''default'' [ex_recent ''1'' ''/a''] = (Inr (), w')"
    using ex_saves by blast
  with recents_read_back [OF this] show ?thesis
    by (simp add: ex_recent_def sanitize_ascii ascii_text_def)
qed

theorem sources_read_back_witness:
  "\<exists>w'. SaveConfiguredSources ex_store ex_world ''default'' [ex_source] = (Inr (), w')
    \<and> GetConfiguredSources ex_store w' ''default'' = Inr [ex_source\<lparr>cs_ID := ''100001''\<rparr>]"
proof -
  obtain w' where "SaveConfiguredSources ex_store ex_world ''default'' [ex_source] = (Inr (), w')"
    using ex_saves_sources by blast
  moreover have "strconv_Itoa 100001 = ''100001''" by (simp add: go_strings)
  ultimately show ?thesis
    using sources_read_back [of ex_store ex_world "''default''" "[ex_source]" w']
    by (simp add: ex_source_def sanitize_ascii ascii_text_def)
qed

theorem loaded_sources_have_ids_witness:
  "\<exists>w' s. GetConfiguredSources ex_store w' ''default'' = Inr [s] \<and> cs_ID s \<noteq> []"
proof -
  obtain w' where "SaveConfiguredSources ex_store ex_world ''default'' [ex_source] = (Inr (), w')"
    using ex_saves_sources by blast
  then have "GetConfiguredSources ex_store w' ''default'' = Inr (stored_sources [ex_source])"
    by (rule sources.load_saved)
  moreover have "length (stored_sources [ex_source]) = 1" by (simp add: stored_sources_def del: number_sources.simps)
  then obtain s where "stored_sources [ex_source] = [s]"
    by (auto simp: length_Suc_conv)
  ultimately have "GetConfiguredSources ex_store w' ''default'' = Inr [s]" by simp
  with loaded_sources_have_ids [OF this, of s] show ?thesis by auto
qed

theorem device_read_back_witness:
  "\<exists>w'. SaveDeviceInfo ex_store ex_world ''default'' ''D1'' ex_device = (Inr (), w')
    \<and> GetDeviceInfo ex_store w' ''default'' ''D1'' = Inr (ex_device\<lparr>di_ProductCode := ''ST10 ''\<rparr>)"
proof -
  obtain w' where "SaveDeviceInfo ex_store ex_world ''default'' ''D1'' ex_device = (Inr (), w')"
    using ex_saves_device by blast
  with device_read_back [OF this] show ?thesis
    by (simp add: ex_device_def sanitize_ascii ascii_text_def)
qed

lemma ex_device_world:
  obtains w' where "SaveDeviceInfo ex_store ex_world ''default'' ''D1'' ex_device = (Inr (), w')"
    "GetDeviceInfo ex_store w' ''default'' ''D1'' = Inr (stored_device ex_device)"
    "account_step ex_store ''default'' ex_world w'"
proof -
  obtain w' where s: "SaveDeviceInfo ex_store ex_world ''default'' ''D1'' ex_device = (Inr (), w')"
    using ex_saves_device by blast
  moreover have "GetDeviceInfo ex_store w' ''default'' ''D1'' = Inr (stored_device ex_device)"
    using devices.load_saved [where k = "(''default'', ''D1'')" and ds = ex_store] s by simp
  ultimately show ?thesis using that account_step.save_device [OF _ s] by simp
qed

theorem accounts_are_isolated_witness:
  "\<exists>w w'. elsewhere ex_store ''default'' w w' \<and> GetDeviceInfo ex_store w ''default'' ''D1'' = Inr (stored_device ex_device)
    \<and> GetDeviceInfo ex_store w' ''default'' ''D1'' = Inr (stored_device ex_device)"
proof -
  obtain w where w: "GetDeviceInfo ex_store w ''default'' ''D1'' = Inr (stored_device ex_device)"
    using ex_device_world by blast
  obtain r w' where "SaveConfiguredSources ex_store w ''other'' [ex_source] = (r, w')" by force
  then have e: "elsewhere ex_store ''default'' w w'"
    unfolding elsewhere_def by (intro exI [of _ "''other''"]) (simp add: account_step.save_sources)
  with accounts_are_isolated [OF r_into_rtranclp [of "elsewhere ex_store ''default''", OF e], of "''D1''"] w
  show ?thesis by (intro exI [of _ w] exI [of _ w']) simp
qed

definition ex_world_D1 :: world where
  "ex_world_D1 = ex_world\<lparr>w_root := Dir [(''srv'', Dir [(''data'', Dir [(''default'', Dir [(''devices'',
     Dir [(''D1'', Dir [(''DeviceInfo.xml'', File ''<info/>'' 5)])])])])])]\<rparr>"

lemma ex_world_D1_simps [simp]:
  "w_cwd ex_world_D1 = [''srv'']" "w_deny ex_world_D1 q = False" "w_ticks ex_world_D1 = 0" "w_clock ex_world_D1 = ex_clock"
  by (simp_all add: ex_world_D1_def)

definition ex_root_no_device :: node where
  "ex_root_no_device = Dir [(''srv'', Dir [(''data'', Dir [(''default'', Dir [(''devices'', Dir [])])])])]"

lemma ex_removes: "RemoveDevice ex_store ex_world_D1 ''default'' ''D1'' = (Inr (), ex_world_D1\<lparr>w_root := ex_root_no_device\<rparr>)"
proof -
  have p: "AccountDeviceDir ex_store ''default'' ''D1'' = ''data/default/devices/D1''"
    "last (path_comps ''data/default/devices/D1'') = ''D1''" by code_simp+
  have at: "resolve [''srv''] ''data/default/devices/D1'' = [''srv'', ''data'', ''default'', ''devices'', ''D1'']"
    using ex_paths(6) [of "''D1''"] by (simp add: p(1))
  have old: "lookup (w_root ex_world_D1) [''srv'', ''data'', ''default'', ''devices'', ''D1'']
      = Inr (Dir [(''DeviceInfo.xml'', File ''<info/>'' 5)])"
    by (simp add: ex_world_D1_def)
  have new: "change [''srv'', ''data'', ''default'', ''devices'', ''D1''] (\<lambda>_. Inr None) (w_root ex_world_D1)
      = Inr ex_root_no_device"
    by (simp add: ex_world_D1_def ex_root_no_device_def del_entry_def)
  show ?thesis
    by (simp add: RemoveDevice_def os_RemoveAll_def Let_def p at old new)
qed

theorem removed_device_is_gone_witness:
  "\<exists>w'. RemoveDevice ex_store ex_world_D1 ''default'' ''D1'' = (Inr (), w')
    \<and> GetDeviceInfo ex_store ex_world_D1 ''default'' ''D1'' \<noteq> GetDeviceInfo ex_store w' ''default'' ''D1''"
proof -
  have "lookup (w_root ex_world_D1) [''srv'', ''data'', ''default'', ''devices'', ''D1'', ''DeviceInfo.xml'']
      = Inr (File ''<info/>'' 5)" by (simp add: ex_world_D1_def)
  then have "os_ReadFile ex_world_D1 (device_path ex_store ''default'' ''D1'') = Inr ''<info/>''"
    using ex_paths(7) [of "''D1''"] by (simp add: os_ReadFile_def)
  then have "GetDeviceInfo ex_store ex_world_D1 ''default'' ''D1'' \<noteq>
      Inl (PathError ''open'' (device_path ex_store ''default'' ''D1'') ENOENT)"
    by (auto simp: GetDeviceInfo_def read_device_def xml_Unmarshal_def split: option.splits xml.splits if_splits)
  with removed_device_is_gone [OF ex_removes, of _ _ _ "''D2''"] ex_removes show ?thesis by auto
qed

theorem dots_remove_the_data_directory_witness:
  "\<exists>w'. RemoveDevice (NewDataStore ''/srv/data'') ex_world ''..'' ''..'' = (Inr (), w') \<and> w_root w' = Dir []
    \<and> (\<exists>e. GetPresets (NewDataStore ''/srv/data'') w' ''default'' = Inl e)"
proof -
  let ?ds = "NewDataStore ''/srv/data''"
  have p: "AccountDeviceDir ?ds ''..'' ''..'' = ''/srv''" "last (path_comps ''/srv'') = ''srv''"
    "resolve [''srv''] ''/srv'' = [''srv'']" "resolve [''srv''] ''/srv/data'' = [''srv'', ''data'']" by code_simp+
  have d: "DataDir ?ds = ''/srv/data''" by (simp add: NewDataStore_def)
  obtain w' where w': "RemoveDevice ?ds ex_world ''..'' ''..'' = (Inr (), w')" "w_root w' = Dir []"
    using p by (simp add: RemoveDevice_def os_RemoveAll_def del_entry_def Let_def)
  from dots_remove_the_data_directory [OF w'(1), of "''default''"] p d w' show ?thesis by auto
qed

theorem listing_complete_witness:
  "\<exists>w xs. GetDeviceInfo ex_store w ''default'' ''D1'' = Inr (stored_device ex_device)
    \<and> ListAllDevices ex_store w = Inr xs \<and> (\<exists>x \<in> set xs. device_key x = device_key (stored_device ex_device))"
proof -
  obtain w where w: "GetDeviceInfo ex_store w ''default'' ''D1'' = Inr (stored_device ex_device)"
    using ex_device_world by blast
  obtain xs where "ListAllDevices ex_store w = Inr xs" by (simp add: ListAllDevices_def)
  with listing_complete [OF this w] w show ?thesis by (intro exI [of _ w] exI [of _ xs]) simp
qed

theorem etags_after_saving_witness:
  "\<exists>w1. SavePresets ex_store ex_world ''default'' [ex_preset] = (Inr (), w1)
    \<and> GetETagForAccount ex_store ex_world ''default'' = 0 \<and> GetETagForAccount ex_store w1 ''default'' = 1700000000000"
proof -
  obtain w1 w2 where s: "SavePresets ex_store ex_world ''default'' [ex_preset] = (Inr (), w1)"
    "SaveRecents ex_store ex_world ''default'' [] = (Inr (), w2)"
    using ex_saves by blast
  have old: "GetETagForAccount ex_store ex_world ''default'' = 0"
    by (simp add: GetETagForAccount_max GetETagForPresets_def GetETagForSources_def GetETagForRecents_def
        etag_of_file_def os_Stat_def ex_paths)
  have now: "go_div (w_clock ex_world (w_ticks ex_world)) 1000000 = 1700000000000"
    by (simp add: ex_clock_def go_div_def)
  from etags_after_saving [OF _ _ now [symmetric] _ s] old s show ?thesis by simp
qed

lemma ex_initialize: "Initialize ex_store ex_world = (Inr (), ex_world)"
proof -
  have "os_MkdirAll ex_world (DataDir ex_store) = (Inr (), ex_world)"
    "os_MkdirAll ex_world (AccountDir ex_store ''default'') = (Inr (), ex_world)"
    "os_MkdirAll ex_world (AccountDevicesDir ex_store ''default'') = (Inr (), ex_world)"
    using ex_at by (simp_all add: os_MkdirAll_def ex_world_def)
  then show ?thesis by (simp add: Initialize_def del: ex_store_simps)
qed

theorem initialize_prepares_default_account_witness:
  "Initialize ex_store ex_world = (Inr (), ex_world)
    \<and> (\<exists>v. SavePresets ex_store ex_world ''default'' [ex_preset] = (Inr (), v))"
proof -
  have "lookup (w_root ex_world) (at_path ex_world (DataDir ex_store) @ [''default'', f]) \<noteq> Inr (Dir es)"
    if "f \<in> {''Presets.xml'', ''Recents.xml''}" for f es
    using that by auto
  from initialize_prepares_default_account [OF ex_initialize _ _ this, of "[ex_preset]" "[]"] ex_initialize
  show ?thesis by auto
qed

text \<open>A save that succeeds, and a second one for another account, whatever its result.\<close>

theorem store_is_a_table_witness:
  "\<exists>r w'. run_all (run_op ex_store) [Presets_Saved ''default'' [ex_preset], Presets_Saved ''other'' []] ex_world = ([Inr (), r], w')
    \<and> tb_presets (store_view ex_store w') ''default'' = Some [ex_preset\<lparr>ci_SourceID := [], ci_IsPresetable := ''true''\<rparr>]"
proof -
  let ?ops = "[Presets_Saved ''default'' [ex_preset], Presets_Saved ''other'' []]"
  obtain w1 where "SavePresets ex_store ex_world ''default'' [ex_preset] = (Inr (), w1)" using ex_saves by blast
  then obtain r w' where r: "run_all (run_op ex_store) ?ops ex_world = ([Inr (), r], w')" by (cases "SavePresets ex_store w1 ''other'' []") auto
  have "store_view ex_store w' = fold (\<lambda>(x, r). op_spec x r) (zip ?ops [Inr (), r]) (store_view ex_store ex_world)"
    by (rule store_is_a_table [OF r]) auto
  then have "tb_presets (store_view ex_store w') ''default'' = Some [ex_preset\<lparr>ci_SourceID := [], ci_IsPresetable := ''true''\<rparr>]"
    by (auto simp: op_spec_def stored_preset_def ex_preset_def sanitize_ascii ascii_text_def)
  with r show ?thesis by blast
qed

end
