(* ===== verification/Example_Setup.thy ===== *)
theory Example_Setup
  imports Setup_Laws Example_Deployment
begin

text \<open>
  The theorems about migrations on an example: a speaker that answers every command with success, whose
  configuration and backup are there, and one whose first connection fails.
\<close>

definition ex_manager :: Manager where "ex_manager = NewManager ''http://soundcork:8000'' None"

definition ex_cfg :: PrivateCfg where
  "ex_cfg = (planned_cfg ''http://old'')\<lparr>pc_MargeServerUrl := ''http://marge''\<rparr>"

definition ex_text :: string where "ex_text = config_document ex_cfg"

definition ex_lib :: ssh_library where
  "ex_lib h = (if last h = CombinedOutput (cat_cmd SoundTouchSdkPrivateCfgPath) then ex_text else [], None)"

definition ex_session :: "Client \<Rightarrow> string \<Rightarrow> ssh_history" where
  "ex_session c cmd = [Dial ''tcp'' (Host c @ '':22'') (getConfig c), NewSession, CombinedOutput cmd, CloseSession, CloseClient]"

lemma ex_run: "ssh_Run ex_lib c cmd h =
    ((if cmd = cat_cmd SoundTouchSdkPrivateCfgPath then ex_text else [], None), h @ ex_session c cmd)"
  by (simp add: ssh_Run_def with_session_def ssh_call_def ex_lib_def ex_session_def)

lemma ex_upload: "fst (ssh_UploadContent ex_lib c t p h) = None"
  by (simp add: ssh_UploadContent_def with_session_def ssh_call_def upload_body_def ex_lib_def)

lemma ex_upload_ok: "ssh_UploadContent ex_lib c t p h \<noteq> (Some e, h')"
  using ex_upload [of c t p h] by (metis fst_conv option.distinct(1))

lemma ex_text: "ex_text \<noteq> []" "decode_cfg ex_text = Some ex_cfg"
  by (simp_all add: ex_text_def config_document_read_back_plain clean_cfg_def ex_cfg_def planned_cfg_def
      sanitize_ascii ascii_text_def) (simp add: config_document_def xml_decl_def)

lemma ex_migrates: "\<exists>h'. MigrateSpeaker ex_lib ex_manager ''10.0.0.2'' [] [] (Some Map.empty) h = (Inr (), h')"
proof -
  have "fst (migrate (ssh_Run ex_lib c) (ssh_UploadContent ex_lib c) t p ops h) = Inr ()" for c t p ops
    by (auto simp: migrate_def Let_def ex_run ex_upload_ok split: prod.splits option.splits)
  then show ?thesis unfolding MigrateSpeaker_def by (metis prod.collapse)
qed

theorem backup_written_only_after_failed_test_witness:
  "\<exists>h1 h2 t. MigrateSpeaker ex_lib ex_manager ''10.0.0.2'' [] [] (Some Map.empty) [] = (Inr (), h1)
    \<and> set (remote_log h1) \<inter> writes_original = {} \<and> BackupConfig ex_lib ''10.0.0.2'' [] = (Inl (Errorf t), h2)"
proof -
  obtain h1 where m: "MigrateSpeaker ex_lib ex_manager ''10.0.0.2'' [] [] (Some Map.empty) [] = (Inr (), h1)"
    using ex_migrates by blast
  obtain r2 h2 where b: "BackupConfig ex_lib ''10.0.0.2'' [] = (r2, h2)" by force
  have "snd (fst (ssh_Run ex_lib (NewClient ''10.0.0.2'') test_original h)) = None" for h by (simp add: ex_run)
  from backup_written_only_after_failed_test [OF this, where m = ex_manager] m b show ?thesis by fastforce
qed

theorem migration_uploads_then_restarts_witness:
  "\<exists>h' pre. MigrateSpeaker ex_lib ex_manager ''10.0.0.2'' [] [] (Some Map.empty) [] = (Inr (), h')
    \<and> remote_log h' = pre @ commit_ops (planned_cfg ''http://soundcork:8000'')"
proof -
  obtain h' where m: "MigrateSpeaker ex_lib ex_manager ''10.0.0.2'' [] [] (Some Map.empty) [] = (Inr (), h')"
    using ex_migrates by blast
  have "migration_cfg t [] (Some Map.empty) current = planned_cfg t" for t current
    using apply_no_options by (auto simp: migration_cfg_def Let_def split: option.splits)
  moreover have "target_url ex_manager [] = ''http://soundcork:8000''"
    by (simp add: target_url_def ex_manager_def NewManager_def)
  ultimately have c: "migration_cfg (target_url ex_manager []) [] (Some Map.empty) current = planned_cfg ''http://soundcork:8000''"
    for current by metis
  from migration_uploads_then_restarts [OF m] obtain pre where
    "remote_log h' = pre @ commit_ops (planned_cfg ''http://soundcork:8000'')" unfolding c by auto
  with m show ?thesis by blast
qed


theorem remigration_nests_proxies_witness:
  "pc_MargeServerUrl (migration_cfg ''http://s'' [] (Some [''marge'' \<mapsto> ''original''])
      (config_document (migration_cfg ''http://s'' [] (Some [''marge'' \<mapsto> ''original'']) (ex_text, None)), None))
    = ''http://s/proxy/http://s/proxy/http://marge''"
  using remigration_nests_proxies [OF ex_text(2,1), of "[''marge'' \<mapsto> ''original'']", OF _ refl refl, of "''http://s''" "[]"]
  by (simp add: map_get_def proxied_def ex_cfg_def sanitize_ascii ascii_text_def)

definition ex_lossy :: ssh_library where
  "ex_lossy h = ([], if length h = 1 then Some (External ''timeout'') else None)"

theorem lost_connection_overwrites_backup_witness:
  "\<exists>h'. BackupConfig ex_lossy ''10.0.0.2'' [] = (Inr (), h') \<and> remote_log h' = [Exec copy_original]"
proof -
  define c where "c = NewClient ''10.0.0.2''"
  define d where "d = Dial ''tcp'' (''10.0.0.2'' @ '':22'') (getConfig c)"
  have h: "Host c = ''10.0.0.2''" by (simp add: c_def NewClient_def)
  have 1: "ex_lossy ([] @ [d]) = ([], Some (External ''timeout''))" by (simp add: ex_lossy_def)
  have 2: "ssh_Run ex_lossy c copy_original ([] @ [d]) = (([], None), d # ex_session c copy_original)"
    by (simp add: ssh_Run_def with_session_def ssh_call_def ex_lossy_def ex_session_def)
  from lost_connection_overwrites_backup [of ex_lossy "[]" "''10.0.0.2''", folded c_def, folded d_def, OF 1 2]
  show ?thesis by (simp only: append_Nil remote_log_simps(1)) blast
qed

end
