(* ===== verification/Discovery_Laws.thy ===== *)
theory Discovery_Laws
  imports Discovery Datastore_Service Setup_Laws
begin

text \<open>
  What a discovery does to the store: the speakers it finds can be loaded and are listed, other accounts
  keep their records, and which entries of the same speaker it leaves behind.
\<close>

section \<open>The records of an account\<close>

definition records_kept :: "DataStore \<Rightarrow> string \<Rightarrow> world \<Rightarrow> world \<Rightarrow> bool" where
  "records_kept ds b w w' \<longleftrightarrow>
     (\<forall>ps. GetPresets ds w b = Inr ps \<longrightarrow> GetPresets ds w' b = Inr ps)
     \<and> (\<forall>rs. GetRecents ds w b = Inr rs \<longrightarrow> GetRecents ds w' b = Inr rs)
     \<and> (\<forall>ss. GetConfiguredSources ds w b = Inr ss \<longrightarrow> GetConfiguredSources ds w' b = Inr ss)
     \<and> (\<forall>d i. plain_name d \<longrightarrow> GetDeviceInfo ds w b d = Inr i \<longrightarrow> GetDeviceInfo ds w' b d = Inr i)"

lemma elsewhere_records:
  assumes "(elsewhere ds b)\<^sup>*\<^sup>* w w'" "DataDir ds \<noteq> []" "plain_name b"
  shows "records_kept ds b w w'"
proof -
  note at = at_paths [OF assms(2,3)]
  have "kept w w' (presets_path ds b)" "kept w w' (recents_path ds b)" "kept w w' (sources_path ds b)"
    "plain_name d \<Longrightarrow> kept w w' (device_path ds b d)" for d
    by (auto intro: elsewhere_kept [OF assms(1,2)] simp: at at_device_path [OF assms(2,3)])
  then show ?thesis
    by (auto simp: records_kept_def kept_def GetPresets_def GetRecents_def GetConfiguredSources_def GetDeviceInfo_def
        Let_def split: sum.splits)
qed

lemma SaveDeviceInfo_ok_world:
  assumes "SaveDeviceInfo ds w a d i = (Inr (), w')" "DataDir ds \<noteq> []" "plain_name a" "plain_name d"
    "plain_name e" "e \<noteq> d" "GetDeviceInfo ds w a e = Inr j"
  shows "GetDeviceInfo ds w' a e = Inr j"
proof -
  have "apart_paths w (device_path ds a d) (device_path ds a e)"
    using assms(2-6) by (simp add: apart_paths_def at_device_path)
  with devices.load_other [where ds = ds and k = "(a, d)" and j = "(a, e)", of w i w' j] assms(1,7)
  show ?thesis by simp
qed

section \<open>Discovered speakers\<close>

lemma discovered_dirs:
  assumes "discover_device ds get w d = (r, w')"
  obtains w1 where "SaveDeviceInfo ds w1 ''default'' (discovered_id (with_serial get d)) (discovered_info (with_serial get d)) = (r, w')"
    "w1 = w \<or> existing_id ds w d \<noteq> [] \<and> w1 = snd (RemoveDevice ds w ''default'' (existing_id ds w d))"
  using assms by (auto simp: discover_device_def Let_def split: if_splits)

lemma existing_id_listed:
  "existing_id ds w d \<noteq> [] \<Longrightarrow> ListAllDevices ds w = Inr xs \<Longrightarrow> existing_id ds w d \<in> device_key ` set xs"
  by (auto simp: existing_id_def device_key_def Let_def split: option.splits if_splits dest: find_first_Some)

text \<open>C26: A speaker that was discovered without an error can be loaded from the account \<open>default\<close> under its
  serial number, or its address when no serial number is found, with what the discovery says about it (the
  firmware version is set to \<open>0.0.0\<close>, whatever was stored before), and it is among the listed devices.\<close>

theorem discovered_device_is_listed:
  assumes "discover_device ds get w d = (Inr (), w')" "DataDir ds \<noteq> []"
    and "d' = with_serial get d" "plain_name (discovered_id d')" "ListAllDevices ds w' = Inr xs"
  shows "GetDeviceInfo ds w' ''default'' (discovered_id d') = Inr (stored_device (discovered_info d'))
    \<and> di_FirmwareVersion (stored_device (discovered_info d')) = ''0.0.0''
    \<and> (\<exists>x \<in> set xs. device_key x = sanitize (discovered_id d'))"
proof -
  from discovered_dirs [OF assms(1)] obtain w1 where
    "SaveDeviceInfo ds w1 ''default'' (discovered_id d') (discovered_info d') = (Inr (), w')"
    unfolding assms(3) by blast
  then have g: "GetDeviceInfo ds w' ''default'' (discovered_id d') = Inr (stored_device (discovered_info d'))"
    using devices.load_saved [where ds = ds and k = "(''default'', discovered_id d')"] by simp
  have "device_key (stored_device (discovered_info d')) = sanitize (discovered_id d')"
    by (simp add: device_key_def stored_device_def discovered_info_def discovered_id_def)
  with listed_file [OF g assms(2) _ assms(4)] listing_keys [OF assms(5)] have
    "sanitize (discovered_id d') \<in> device_key ` set xs" by (metis image_eqI plain_constants(6))
  with g show ?thesis
    by (auto simp: stored_device_def discovered_info_def sanitize_ascii ascii_text_def)
qed

text \<open>With names that are single path components, a discovered speaker changes nothing that can be
  loaded for the accounts other than \<open>default\<close>.\<close>

theorem discovery_keeps_other_accounts:
  assumes "discover_device ds get w d = (r, w')" "DataDir ds \<noteq> []" "plain_name b" "b \<noteq> ''default''"
    and "plain_name (discovered_id (with_serial get d))"
    and "ListAllDevices ds w = Inr xs" "\<And>x. x \<in> set xs \<Longrightarrow> plain_name (device_key x)"
  shows "records_kept ds b w w'"
proof -
  from discovered_dirs [OF assms(1)] obtain w1 where
    s: "SaveDeviceInfo ds w1 ''default'' (discovered_id (with_serial get d)) (discovered_info (with_serial get d)) = (r, w')"
    and w1: "w1 = w \<or> existing_id ds w d \<noteq> [] \<and> w1 = snd (RemoveDevice ds w ''default'' (existing_id ds w d))" by blast
  have e: "elsewhere ds b x y" if "account_step ds ''default'' x y" for x y
    using that assms(4) by (auto simp: elsewhere_def intro!: exI [of _ "''default''"])
  from account_step.save_device [OF assms(5) s] have 2: "elsewhere ds b w1 w'" by (rule e)
  have 1: "w1 = w \<or> elsewhere ds b w w1"
  proof (cases "w1 = w")
    case False
    with w1 obtain r2 where r2: "existing_id ds w d \<noteq> []" "RemoveDevice ds w ''default'' (existing_id ds w d) = (r2, w1)"
      by (metis prod.collapse)
    from existing_id_listed [OF r2(1) assms(6)] assms(7) have "plain_name (existing_id ds w d)" by auto
    from e [OF account_step.remove_device [OF this r2(2)]] show ?thesis ..
  qed simp
  with 2 have "(elsewhere ds b)\<^sup>*\<^sup>* w w'"
    using 1 by (metis converse_rtranclp_into_rtranclp r_into_rtranclp)
  then show ?thesis by (rule elsewhere_records [OF _ assms(2,3)])
qed

text \<open>A speaker that was first stored under its address, without a serial number, keeps that entry when it is
  later discovered with its serial number: both entries can be loaded and both are listed.\<close>

theorem discovery_keeps_address_entry:
  assumes "discover_device ds get w d = (Inr (), w')" "DataDir ds \<noteq> []"
    and "plain_name (dd_Host d)" "plain_name (dd_SerialNo d)" "dd_Host d \<noteq> dd_SerialNo d"
    and "GetDeviceInfo ds w ''default'' (dd_Host d) = Inr i" "device_key i = dd_Host d"
    and "ListAllDevices ds w = Inr xs"
      "\<And>x. x \<in> set xs \<Longrightarrow> di_DeviceID x \<noteq> dd_SerialNo d \<and> di_DeviceSerialNumber x \<noteq> dd_SerialNo d"
    and "ListAllDevices ds w' = Inr ys"
  shows "GetDeviceInfo ds w' ''default'' (dd_Host d) = Inr i
    \<and> GetDeviceInfo ds w' ''default'' (dd_SerialNo d) = Inr (stored_device (discovered_info d))
    \<and> {dd_Host d, sanitize (dd_SerialNo d)} \<subseteq> device_key ` set ys"
proof -
  have d: "with_serial get d = d" "discovered_id d = dd_SerialNo d"
    using assms(4) by (auto simp: with_serial_def discovered_id_def plain_name_def)
  have "existing_id ds w d = []"
    using assms(8,9) by (auto simp: existing_id_def split: option.splits dest!: find_first_Some)
  then have s: "SaveDeviceInfo ds w ''default'' (dd_SerialNo d) (discovered_info d) = (Inr (), w')"
    using assms(1) d by (simp add: discover_device_def)
  have h: "GetDeviceInfo ds w' ''default'' (dd_Host d) = Inr i"
    using SaveDeviceInfo_ok_world [OF s assms(2) _ assms(4,3,5,6)] by simp
  have g: "GetDeviceInfo ds w' ''default'' (dd_SerialNo d) = Inr (stored_device (discovered_info d))"
    using devices.load_saved [where ds = ds and k = "(''default'', dd_SerialNo d)"] s by simp
  have "device_key (stored_device (discovered_info d)) = sanitize (dd_SerialNo d)"
    using assms(4) by (auto simp: device_key_def stored_device_def discovered_info_def plain_name_def)
  with listed_file [OF g assms(2) _ assms(4)] listed_file [OF h assms(2) _ assms(3)] listing_keys [OF assms(10)] assms(7)
  have "{dd_Host d, sanitize (dd_SerialNo d)} \<subseteq> device_key ` set ys"
    by (auto simp: image_iff) (metis plain_constants(6))+
  with h g show ?thesis by simp
qed

section \<open>The flag\<close>

lemma scan_step_flag:
  "scan_step net c c' \<Longrightarrow> (sv_discovering (fst c) \<longrightarrow> fst (snd c) \<noteq> []) \<Longrightarrow>
    (sv_discovering (fst c') \<longrightarrow> fst (snd c') \<noteq> [])"
  by (cases rule: scan_step.cases) auto

text \<open>While the server reports that it is discovering, a run is in progress; but the end of one run is
  reported although another one, started meanwhile, is still in progress.\<close>

theorem discovering_means_running:
  assumes "\<not> sv_discovering s"
  shows "(scan_run net (s, [], w) (s', rs, w') \<and> sv_discovering s' \<longrightarrow> rs \<noteq> [])
    \<and> (\<exists>s'. scan_run net (s, [], w) (s', [[d]], w) \<and> \<not> sv_discovering s')"
proof -
  have "sv_discovering (fst c) \<longrightarrow> fst (snd c) \<noteq> []" if "(scan_step net)\<^sup>*\<^sup>* (s, [], w) c" for c
    using that by (induction rule: rtranclp_induct) (use assms scan_step_flag in auto)
  moreover have "scan_run net (s, [], w) (s\<lparr>sv_discovering := False\<rparr>, [[d]], w)"
  proof -
    let ?t = "s\<lparr>sv_discovering := True\<rparr>"
    have "scan_step net (s, [], w) (?t, [[]], w)" using scan_step.start [of net s "[]" w "[]"] by simp
    moreover have "scan_step net (?t, [[]], w) (?t, [[], [d]], w)" using scan_step.start [of net ?t "[[]]" w "[d]"] by simp
    moreover have "scan_step net (?t, [[], [d]], w) (s\<lparr>sv_discovering := False\<rparr>, [[d]], w)"
      using scan_step.finish [of 0 "[[], [d]]" net ?t w] by simp
    ultimately show ?thesis unfolding scan_run_def
      by (meson converse_rtranclp_into_rtranclp r_into_rtranclp)
  qed
  ultimately show ?thesis unfolding scan_run_def by fastforce
qed

section \<open>Forwarding\<close>

text \<open>The path of a proxied address leads back to the address, also when a double slash in it was
  reduced to a single one on the way.\<close>

theorem proxied_address_is_restored:
  assumes "scheme \<in> {''http:'', ''https:''}" "rest \<noteq> []" "hd rest \<noteq> CHR ''/''"
  shows "proxied [] (scheme @ ''//'' @ rest) = ''/proxy/'' @ scheme @ ''//'' @ rest
    \<and> proxy_target (''/proxy/'' @ scheme @ ''//'' @ rest) = Some (scheme @ ''//'' @ rest)
    \<and> proxy_target (''/proxy/'' @ scheme @ ''/'' @ rest) = Some (scheme @ ''//'' @ rest)"
proof -
  obtain c cs where r: "rest = c # cs" "c \<noteq> CHR ''/''" using assms(2,3) by (cases rest) auto
  have p: "strings_HasPrefix s []" "strings_HasPrefix (a # s) (b # t) \<longleftrightarrow> a = b \<and> strings_HasPrefix s t" for a b s t
    by (auto simp: strings_HasPrefix_def)
  have d: "strings_TrimPrefix s t = (if strings_HasPrefix s t then drop (length t) s else s)" for s t
    by (simp add: strings_TrimPrefix_def)
  have q: "strings_TrimPrefix (''/proxy/'' @ x) ''/proxy/'' = x" for x
    by (simp add: d p)
  from assms(1) consider "scheme = ''http:''" | "scheme = ''https:''" by blast
  then show ?thesis
    by cases (simp_all only: proxy_target_def q, simp_all add: r proxied_def d p)
qed

section \<open>Discoveries end\<close>

text \<open>The steps of the runs in progress, as opposed to the start of another one.\<close>

definition work_step :: "(world \<Rightarrow> string \<Rightarrow> string result) \<Rightarrow> scans \<Rightarrow> scans \<Rightarrow> bool" where
  "work_step net c c' \<longleftrightarrow> scan_step net c c' \<and> length (fst (snd c')) \<le> length (fst (snd c))"

text \<open>What is left to do: each speaker found and not yet handled, and the end of each run.\<close>

definition work_left :: "DiscoveredDevice list list \<Rightarrow> nat" where
  "work_left rs = sum_list (map (\<lambda>ds. Suc (length ds)) rs)"

lemma work_left_0 [simp]: "work_left rs = 0 \<longleftrightarrow> rs = []"
  by (cases rs) (simp_all add: work_left_def)

lemma work_left_split: "i < length rs \<Longrightarrow> work_left rs = work_left (take i rs) + Suc (length (rs ! i)) + work_left (drop (Suc i) rs)"
  by (subst id_take_nth_drop [of i rs]) (simp_all add: work_left_def)

lemma work_step_left:
  assumes "work_step net (s, rs, w) (s', rs', w')"
  shows "work_left rs = Suc (work_left rs') \<and> (rs' = [] \<longrightarrow> \<not> sv_discovering s')"
proof -
  from assms have st: "scan_step net (s, rs, w) (s', rs', w')" "length rs' \<le> length rs" by (simp_all add: work_step_def)
  from st(1) show ?thesis
  proof cases
    case (device i d ds')
    have "work_left (rs[i := ds']) = work_left (take i rs) + Suc (length ds') + work_left (drop (Suc i) rs)"
      using device(4) by (simp add: upd_conv_take_nth_drop work_left_def)
    moreover have "rs' \<noteq> []" using device by auto
    ultimately show ?thesis using work_left_split [OF device(4)] device by simp
  next
    case (finish i)
    then show ?thesis using work_left_split [of i rs] by (simp add: work_left_def)
  qed (use st(2) in simp)
qed

lemma work_step_exists:
  assumes "rs \<noteq> []"
  shows "\<exists>c. work_step net (s, rs, w) c"
proof (cases "rs ! 0")
  case Nil
  then have "scan_step net (s, rs, w) (s\<lparr>sv_discovering := False\<rparr>, take 0 rs @ drop (Suc 0) rs, w)"
    using assms by (intro scan_step.finish) auto
  then have "work_step net (s, rs, w) (s\<lparr>sv_discovering := False\<rparr>, drop (Suc 0) rs, w)" by (simp add: work_step_def)
  then show ?thesis by blast
next
  case (Cons d ds')
  then have "scan_step net (s, rs, w) (s, rs[0 := ds'], snd (discover_device (sv_ds s) (net w) w d))"
    using assms by (intro scan_step.device) auto
  then have "work_step net (s, rs, w) (s, rs[0 := ds'], snd (discover_device (sv_ds s) (net w) w d))" by (simp add: work_step_def)
  then show ?thesis by blast
qed


end
