(* ===== verification/Example_Discovery.thy ===== *)
theory Example_Discovery
  imports Discovery_Laws Example_Deployment
begin

text \<open>
  The theorems about discovery on the example deployment, in which a speaker may already be stored under
  its address.
\<close>

definition ex_unnamed :: DiscoveredDevice where
  "ex_unnamed = \<lparr>dd_Name = ''Kitchen'', dd_Host = ''10.0.0.7'', dd_SerialNo = [], dd_ModelID = ''ST10''\<rparr>"

definition ex_named :: DiscoveredDevice where "ex_named = ex_unnamed\<lparr>dd_SerialNo := ''S1''\<rparr>"

definition ex_file :: string where "ex_file = device_document (discovered_info ex_unnamed)"

definition ex_world_ip :: world where
  "ex_world_ip = ex_world\<lparr>w_root := Dir [(''srv'', Dir [(''data'', Dir [(''default'', Dir [(''devices'',
     Dir [(''10.0.0.7'', Dir [(''DeviceInfo.xml'', File ex_file 5)])])])])])]\<rparr>"

lemma ex_world_ip_simps [simp]:
  "w_cwd ex_world_ip = [''srv'']" "w_deny ex_world_ip q = False"
  "w_root ex_world_ip = Dir [(''srv'', Dir [(''data'', Dir [(''default'', Dir [(''devices'',
     Dir [(''10.0.0.7'', Dir [(''DeviceInfo.xml'', File ex_file 5)])])])])])]"
  by (simp_all add: ex_world_ip_def)

lemma ex_names [simp]: "plain_name ''10.0.0.7''" "plain_name ''S1''"
  by (simp_all add: plain_name_def)

lemma ex_dirs:
  "resolve cwd (filepath_Join [''data'', ''default'', ''devices'']) = resolve cwd ''data'' @ [''default'', ''devices'']"
  "plain_name d \<Longrightarrow> resolve cwd (filepath_Join [filepath_Join [''data'', ''default'', ''devices''], d, ''DeviceInfo.xml''])
    = resolve cwd ''data'' @ [''default'', ''devices'', d, ''DeviceInfo.xml'']"
  by (simp_all add: resolve_Join del: filepath_Join.simps)

lemma ex_alt: "altDir \<noteq> ''data''" "resolve [''srv''] altDir = [''srv'', ''soundcork-go'', ''data'']"
  by code_simp+

lemma ex_data_dirs:
  "w_cwd w = [''srv''] \<Longrightarrow> w_root w = Dir [(''srv'', Dir [(''data'', n)])] \<Longrightarrow> data_dirs ex_store w = [''data'']"
  by (auto simp: data_dirs_def os_exists_def os_Stat_def ex_alt split: node.splits)

lemma ex_all_infos:
  assumes "w_cwd w = [''srv'']"
    and "w_root w = Dir [(''srv'', Dir [(''data'', Dir [(''default'', Dir [(''devices'', Dir es)])])])]"
  shows "all_infos ex_store w
    = entry_infos w (filepath_Join [''data'', ''default'', ''devices'']) (map (\<lambda>(c, n). (c, is_dir n)) es)"
  using assms
  by (simp add: all_infos_def ex_data_dirs dir_infos_def os_ReadDir_def account_infos_def file_names ex_dirs
      del: filepath_Join.simps)

lemma ex_parsed: "parseDeviceInfoFile ex_world_ip (filepath_Join [filepath_Join [''data'', ''default'', ''devices''], ''10.0.0.7'', ''DeviceInfo.xml''])
    = Inr (stored_device (discovered_info ex_unnamed))"
  by (simp add: parseDeviceInfoFile_def os_ReadFile_def ex_dirs ex_file_def read_device_document del: filepath_Join.simps)

lemma ex_listings:
  "ListAllDevices ex_store ex_world = Inr []"
  "ListAllDevices ex_store ex_world_ip = Inr [stored_device (discovered_info ex_unnamed)]"
proof -
  have l: "ListAllDevices ex_store w = Inr (firsts device_key {} (all_infos ex_store w))" for w
    by (simp add: ListAllDevices_def all_infos_def foldl_listing [OF list_dir_extend]) (simp add: extend_listing_def)
  show "ListAllDevices ex_store ex_world = Inr []"
    by (simp add: l ex_all_infos entry_infos_def del: filepath_Join.simps)
  show "ListAllDevices ex_store ex_world_ip = Inr [stored_device (discovered_info ex_unnamed)]"
    by (simp add: l ex_all_infos entry_infos_def entry_device_def file_names ex_parsed del: filepath_Join.simps)
qed

lemma ex_at_S1:
  "at_path ex_world_ip (AccountDeviceDir ex_store ''default'' ''S1'') = [''srv'', ''data'', ''default'', ''devices'', ''S1'']"
  "at_path ex_world_ip (device_path ex_store ''default'' ''S1'')
    = [''srv'', ''data'', ''default'', ''devices'', ''S1'', ''DeviceInfo.xml'']"
  using at_paths(3) [of ex_store "''default''" "''S1''" ex_world_ip] at_device_path [of ex_store "''default''" "''S1''" ex_world_ip]
  by simp_all

lemma ex_saves_S1: "\<exists>w'. SaveDeviceInfo ex_store ex_world_ip ''default'' ''S1'' i = (Inr (), w')"
proof -
  let ?root = "Dir [(''srv'', Dir [(''data'', Dir [(''default'', Dir [(''devices'',
     Dir [(''10.0.0.7'', Dir [(''DeviceInfo.xml'', File ex_file 5)]), (''S1'', Dir [])])])])])]"
  have m: "os_MkdirAll ex_world_ip (AccountDeviceDir ex_store ''default'' ''S1'') = (Inr (), ex_world_ip\<lparr>w_root := ?root\<rparr>)"
    using ex_at_S1 by (simp add: os_MkdirAll_def)
  show ?thesis
    unfolding SaveDeviceInfo_def m prod.case sum.case
    by (simp, rule WriteFile_ok [where d = "[''srv'', ''data'', ''default'', ''devices'', ''S1'']" and f = "''DeviceInfo.xml''" and es = "[]"])
       (use ex_at_S1(2) in simp_all)
qed

lemma ex_discovers: "\<exists>w'. discover_device ex_store get ex_world_ip ex_named = (Inr (), w')"
proof -
  have "existing_id ex_store ex_world_ip ex_named = []"
    by (simp add: existing_id_def ex_listings ex_named_def ex_unnamed_def stored_device_def discovered_info_def zero_DeviceInfo_def)
  then show ?thesis
    using ex_saves_S1 by (simp add: discover_device_def with_serial_def discovered_id_def ex_named_def)
qed

lemma ex_with_serial [simp]: "with_serial get ex_named = ex_named" "discovered_id ex_named = ''S1''"
  by (simp_all add: with_serial_def discovered_id_def ex_named_def)

theorem discovered_device_is_listed_witness:
  "\<exists>w' xs. discover_device ex_store (\<lambda>_. Inl (External [])) ex_world_ip ex_named = (Inr (), w')
    \<and> ListAllDevices ex_store w' = Inr xs \<and> (\<exists>x \<in> set xs. device_key x = ''S1'')"
proof -
  obtain w' where d: "discover_device ex_store (\<lambda>_. Inl (External [])) ex_world_ip ex_named = (Inr (), w')"
    using ex_discovers by blast
  obtain xs where "ListAllDevices ex_store w' = Inr xs" by (simp add: ListAllDevices_def)
  with discovered_device_is_listed [OF d _ refl _ this] d show ?thesis
    by (auto simp: sanitize_ascii ascii_text_def)
qed

theorem discovery_keeps_other_accounts_witness:
  "\<exists>w'. discover_device ex_store (\<lambda>_. Inl (External [])) ex_world_ip ex_named = (Inr (), w')
    \<and> records_kept ex_store ''other'' ex_world_ip w'"
proof -
  obtain w' where d: "discover_device ex_store (\<lambda>_. Inl (External [])) ex_world_ip ex_named = (Inr (), w')"
    using ex_discovers by blast
  have "plain_name (device_key (stored_device (discovered_info ex_unnamed)))"
    by (simp add: device_key_def stored_device_def discovered_info_def ex_unnamed_def zero_DeviceInfo_def
        sanitize_ascii ascii_text_def)
  with discovery_keeps_other_accounts [OF d _ _ _ _ ex_listings(2), of "''other''"] d show ?thesis by simp
qed

theorem discovery_keeps_address_entry_witness:
  "\<exists>w' ys. discover_device ex_store (\<lambda>_. Inl (External [])) ex_world_ip ex_named = (Inr (), w')
    \<and> ListAllDevices ex_store w' = Inr ys \<and> {''10.0.0.7'', ''S1''} \<subseteq> device_key ` set ys"
proof -
  obtain w' where d: "discover_device ex_store (\<lambda>_. Inl (External [])) ex_world_ip ex_named = (Inr (), w')"
    using ex_discovers by blast
  obtain ys where l: "ListAllDevices ex_store w' = Inr ys" by (simp add: ListAllDevices_def)
  have h: "dd_Host ex_named = ''10.0.0.7''" "dd_SerialNo ex_named = ''S1''" by (simp_all add: ex_named_def ex_unnamed_def)
  have f: "GetDeviceInfo ex_store ex_world_ip ''default'' ''10.0.0.7'' = Inr (stored_device (discovered_info ex_unnamed))"
    using at_device_path [of ex_store "''default''" "''10.0.0.7''" ex_world_ip]
    by (simp add: GetDeviceInfo_def os_ReadFile_def ex_file_def read_device_document)
  have k: "device_key (stored_device (discovered_info ex_unnamed)) = ''10.0.0.7''"
    "di_DeviceID (stored_device (discovered_info ex_unnamed)) = []"
    "di_DeviceSerialNumber (stored_device (discovered_info ex_unnamed)) = []"
    by (simp_all add: device_key_def stored_device_def discovered_info_def ex_unnamed_def zero_DeviceInfo_def
        sanitize_ascii ascii_text_def)
  from discovery_keeps_address_entry [OF d, unfolded h, OF _ _ _ _ f k(1) ex_listings(2) _ l] d l k
  show ?thesis by (simp add: sanitize_ascii ascii_text_def)
qed

definition ex_server :: Server where
  "ex_server = \<lparr>sv_ds = ex_store, sv_sm = NewManager ''http://s:8000'' None, sv_serverURL = ''http://s:8000'',
     sv_proxyURL = ''http://s:8000'', sv_discovering = False, sv_proxyRedact = True, sv_proxyLogBody = False\<rparr>"

theorem discovering_means_running_witness:
  "scan_run (\<lambda>_ _. Inl (External [])) (ex_server, [], ex_world) (ex_server\<lparr>sv_discovering := True\<rparr>, [[ex_named]], ex_world)
    \<and> [[ex_named]] \<noteq> []"
proof -
  have "scan_step (\<lambda>_ _. Inl (External [])) (ex_server, [], ex_world) (ex_server\<lparr>sv_discovering := True\<rparr>, [[ex_named]], ex_world)"
    using scan_step.start [of _ ex_server "[]" ex_world "[ex_named]"] by simp
  then have r: "scan_run (\<lambda>_ _. Inl (External [])) (ex_server, [], ex_world) (ex_server\<lparr>sv_discovering := True\<rparr>, [[ex_named]], ex_world)"
    by (simp add: scan_run_def)
  from discovering_means_running [of ex_server "\<lambda>_ _. Inl (External [])" ex_world "ex_server\<lparr>sv_discovering := True\<rparr>" "[[ex_named]]" ex_world ex_named]
    r show ?thesis by (simp add: ex_server_def)
qed

theorem proxied_address_is_restored_witness:
  "proxy_target ''/proxy/http:/marge/full'' = Some ''http://marge/full''"
  using proxied_address_is_restored [of "''http:''" "''marge/full''"] by simp


end
