(* ===== verification/Example_Handlers.thy ===== *)
theory Example_Handlers
  imports Handlers_Setup_Laws Example_Setup Example_Discovery
begin

text \<open>
  The theorems about the JSON interface on the example deployment and the example speaker.
\<close>

definition ex_setup_request :: "string \<Rightarrow> string \<Rightarrow> string \<Rightarrow> request" where
  "ex_setup_request ip q body = \<lparr>rq_Path = [], rq_RawQuery = q, rq_Param = (\<lambda>k. if k = ''deviceIP'' then ip else []),
     rq_Header = (\<lambda>_. []), rq_Body = Inr body\<rparr>"

lemma ex_setup_request_simps [simp]:
  "rq_RawQuery (ex_setup_request ip q body) = q" "rq_Body (ex_setup_request ip q body) = Inr body"
  "rq_Param (ex_setup_request ip q body) ''deviceIP'' = ip"
  by (simp_all add: ex_setup_request_def)

theorem device_list_is_json_witness:
  "\<exists>es. json_parse (rs_Body (handleListDiscoveredDevices (\<lambda>_. []) ex_server ex_world_ip (ex_setup_request [] [] [])))
      = Some (JArray [JObject ((''device_id'', JString []) # es)])
    \<and> (''name'', JString ''Kitchen'') \<in> set es"
proof -
  have "ListAllDevices (sv_ds ex_server) ex_world_ip = Inr [stored_device (discovered_info ex_unnamed)]"
    using ex_listings(2) by (simp add: ex_server_def)
  from device_list_is_json [OF this, of "\<lambda>_. []" "ex_setup_request [] [] []"] show ?thesis
    by (simp add: stored_device_def discovered_info_def ex_unnamed_def zero_DeviceInfo_def sanitize_ascii ascii_text_def)
qed

theorem proxy_settings_read_back_witness:
  "\<exists>resp t'. handleUpdateProxySettings (\<lambda>_. []) (ex_server\<lparr>sv_proxyRedact := False\<rparr>)
      (ex_setup_request [] [] (rs_Body (handleGetProxySettings ex_server (ex_setup_request [] [] [])))) = (resp, t')
    \<and> sv_proxyRedact t' \<and> status_of resp = 200"
proof -
  let ?r = "ex_setup_request [] [] (rs_Body (handleGetProxySettings ex_server (ex_setup_request [] [] [])))"
  obtain resp t' where u: "handleUpdateProxySettings (\<lambda>_. []) (ex_server\<lparr>sv_proxyRedact := False\<rparr>) ?r = (resp, t')"
    by force
  from proxy_settings_read_back [OF _ u, of ex_server "ex_setup_request [] [] []"] u show ?thesis
    by (simp add: ex_server_def)
qed

theorem migration_request_witness:
  "\<exists>resp h'. handleMigrateDevice (\<lambda>_. []) ex_lib (ex_server\<lparr>sv_sm := ex_manager\<rparr>)
      (ex_setup_request ''10.0.0.2'' (url_Encode [(''target_url'', []), (''proxy_url'', [])]) []) [] = (resp, h')
    \<and> status_of resp = 200"
proof -
  let ?q = "[(''target_url'', []), (''proxy_url'', [])] :: query" and ?s = "ex_server\<lparr>sv_sm := ex_manager\<rparr>"
  let ?r = "ex_setup_request ''10.0.0.2'' (url_Encode ?q) []"
  obtain resp h' where d: "handleMigrateDevice (\<lambda>_. []) ex_lib ?s ?r [] = (resp, h')" by force
  obtain h1 where m: "MigrateSpeaker ex_lib ex_manager ''10.0.0.2'' [] [] (Some Map.empty) [] = (Inr (), h1)"
    using ex_migrates by blast
  have o: "map_of ?q |` {''marge'', ''stats'', ''sw_update'', ''bmx''} = Map.empty"
    by (auto simp: restrict_map_def fun_eq_iff)
  have "distinct (map fst ?q)" "query_Get ?q ''target_url'' = []" "query_Get ?q ''proxy_url'' = []"
    by (simp_all add: query_Get_def)
  with migration_request [OF d _ _ _ refl, of ?q] m d show ?thesis by (simp add: o)
qed

end
