(* ===== verification/Bmx_Models.thy ===== *)
theory Bmx_Models
  imports Go_JSON
begin

text \<open>
  The structs of \<open>internal/models/models.go\<close> that the BMX service answers with, and their JSON: the fields
  in the order of the declaration, without those marked \<open>omitempty\<close> that are empty.  A pointer is an option.
\<close>

record Link =
  ln_Href :: string
  ln_UseInternalClient :: string

definition link_to :: "string \<Rightarrow> Link" where
  "link_to href = \<lparr>ln_Href = href, ln_UseInternalClient = []\<rparr>"

definition json_of_link :: "Link \<Rightarrow> json" where
  "json_of_link l = JObject ((''href'', JString (ln_Href l)) # omit_string ''useInternalClient'' (ln_UseInternalClient l))"

record Links =
  lk_BmxLogout :: "Link option"
  lk_BmxNavigate :: "Link option"
  lk_BmxServicesAvailability :: "Link option"
  lk_BmxToken :: "Link option"
  lk_Self :: "Link option"
  lk_BmxAvailability :: "Link option"
  lk_BmxReporting :: "Link option"
  lk_BmxFavorite :: "Link option"
  lk_BmxNowPlaying :: "Link option"
  lk_BmxTrack :: "Link option"

definition no_links :: Links where
  "no_links = \<lparr>lk_BmxLogout = None, lk_BmxNavigate = None, lk_BmxServicesAvailability = None, lk_BmxToken = None,
     lk_Self = None, lk_BmxAvailability = None, lk_BmxReporting = None, lk_BmxFavorite = None,
     lk_BmxNowPlaying = None, lk_BmxTrack = None\<rparr>"

definition link_field :: "string \<Rightarrow> Link option \<Rightarrow> (string \<times> json) list" where
  "link_field k l = omit_nil k (map_option json_of_link l)"

definition json_of_links :: "Links \<Rightarrow> json" where
  "json_of_links l = JObject (link_field ''bmx_logout'' (lk_BmxLogout l) @ link_field ''bmx_navigate'' (lk_BmxNavigate l)
     @ link_field ''bmx_services_availability'' (lk_BmxServicesAvailability l) @ link_field ''bmx_token'' (lk_BmxToken l)
     @ link_field ''self'' (lk_Self l) @ link_field ''bmx_availability'' (lk_BmxAvailability l)
     @ link_field ''bmx_reporting'' (lk_BmxReporting l) @ link_field ''bmx_favorite'' (lk_BmxFavorite l)
     @ link_field ''bmx_nowplaying'' (lk_BmxNowPlaying l) @ link_field ''bmx_track'' (lk_BmxTrack l))"

definition links_field :: "Links option \<Rightarrow> (string \<times> json) list" where
  "links_field l = omit_nil ''_links'' (map_option json_of_links l)"

record Stream =
  sm_Links :: "Links option"
  sm_BufferingTimeout :: int
  sm_ConnectingTimeout :: int
  sm_HasPlaylist :: bool
  sm_IsRealtime :: bool
  sm_StreamUrl :: string

definition json_of_stream :: "Stream \<Rightarrow> json" where
  "json_of_stream s = JObject (links_field (sm_Links s) @ omit_int ''bufferingTimeout'' (sm_BufferingTimeout s)
     @ omit_int ''connectingTimeout'' (sm_ConnectingTimeout s)
     @ [(''hasPlaylist'', JBool (sm_HasPlaylist s)), (''isRealtime'', JBool (sm_IsRealtime s)),
        (''streamUrl'', JString (sm_StreamUrl s))])"

record Audio =
  au_HasPlaylist :: bool
  au_IsRealtime :: bool
  au_MaxTimeout :: int
  au_StreamUrl :: string
  au_Streams :: "Stream list"

text \<open>A slice to which nothing was appended is \<open>null\<close>.\<close>

definition json_of_slice :: "('a \<Rightarrow> json) \<Rightarrow> 'a list \<Rightarrow> json" where
  "json_of_slice f xs = (if xs = [] then JNull else JArray (map f xs))"

definition json_of_audio :: "Audio \<Rightarrow> json" where
  "json_of_audio a = JObject ([(''hasPlaylist'', JBool (au_HasPlaylist a)), (''isRealtime'', JBool (au_IsRealtime a))]
     @ omit_int ''maxTimeout'' (au_MaxTimeout a)
     @ [(''streamUrl'', JString (au_StreamUrl a)), (''streams'', json_of_slice json_of_stream (au_Streams a))])"

record BmxPlaybackResponse =
  pr_Links :: "Links option"
  pr_Artist_Name :: string
  pr_Audio :: Audio
  pr_ImageUrl :: string
  pr_IsFavorite :: "bool option"
  pr_Name :: string
  pr_StreamType :: string
  pr_Duration :: int
  pr_ShuffleDisabled :: bool
  pr_RepeatDisabled :: bool

text \<open>A struct is never empty for \<open>omitempty\<close>, nor is a pointer to \<open>false\<close>.\<close>

definition json_of_playback :: "BmxPlaybackResponse \<Rightarrow> json" where
  "json_of_playback r = JObject (links_field (pr_Links r)
     @ [(''artist'', JObject (omit_string ''name'' (pr_Artist_Name r))), (''audio'', json_of_audio (pr_Audio r)),
        (''imageUrl'', JString (pr_ImageUrl r))]
     @ omit_nil ''isFavorite'' (map_option JBool (pr_IsFavorite r))
     @ [(''name'', JString (pr_Name r)), (''streamType'', JString (pr_StreamType r))]
     @ omit_int ''duration'' (pr_Duration r)
     @ omit_false ''shuffle_disabled'' (pr_ShuffleDisabled r) @ omit_false ''repeat_disabled'' (pr_RepeatDisabled r))"

record Track =
  tr_Links :: "Links option"
  tr_IsSelected :: bool
  tr_Name :: string

definition json_of_track :: "Track \<Rightarrow> json" where
  "json_of_track t = JObject (links_field (tr_Links t)
     @ [(''isSelected'', JBool (tr_IsSelected t)), (''name'', JString (tr_Name t))])"

record BmxPodcastInfoResponse =
  pi_Links :: "Links option"
  pi_Name :: string
  pi_ShuffleDisabled :: bool
  pi_RepeatDisabled :: bool
  pi_StreamType :: string
  pi_Tracks :: "Track list"

definition json_of_podcast :: "BmxPodcastInfoResponse \<Rightarrow> json" where
  "json_of_podcast p = JObject (links_field (pi_Links p)
     @ [(''name'', JString (pi_Name p)), (''shuffleDisabled'', JBool (pi_ShuffleDisabled p)),
        (''repeatDisabled'', JBool (pi_RepeatDisabled p)), (''streamType'', JString (pi_StreamType p)),
        (''tracks'', json_of_slice json_of_track (pi_Tracks p))])"

section \<open>The registry\<close>

text \<open>The structs of the list of services; the service itself sends that list from a file.\<close>

record IconSet =
  ic_DefaultAlbumArt :: string
  ic_LargeSvg :: string
  ic_MonochromePng :: string
  ic_MonochromeSvg :: string
  ic_SmallSvg :: string

definition json_of_icons :: "IconSet \<Rightarrow> json" where
  "json_of_icons i = JObject (omit_string ''defaultAlbumArt'' (ic_DefaultAlbumArt i)
     @ [(''largeSvg'', JString (ic_LargeSvg i)), (''monochromePng'', JString (ic_MonochromePng i)),
        (''monochromeSvg'', JString (ic_MonochromeSvg i)), (''smallSvg'', JString (ic_SmallSvg i))])"

record Asset =
  as_Color :: string
  as_Description :: string
  as_Icons :: IconSet
  as_Name :: string
  as_ShortDescription :: string

definition json_of_asset :: "Asset \<Rightarrow> json" where
  "json_of_asset a = JObject ([(''color'', JString (as_Color a)), (''description'', JString (as_Description a)),
     (''icons'', json_of_icons (as_Icons a)), (''name'', JString (as_Name a))]
     @ omit_string ''shortDescription'' (as_ShortDescription a))"

record ServiceId =
  id_Name :: string
  id_Value :: int

definition json_of_id :: "ServiceId \<Rightarrow> json" where
  "json_of_id i = JObject [(''name'', JString (id_Name i)), (''value'', json_int (id_Value i))]"

text \<open>A map is printed with its keys in order, and a missing one as \<open>null\<close>.\<close>

record BmxService =
  bs_Links :: "Links option"
  bs_AskAdapter :: bool
  bs_Assets :: Asset
  bs_BaseUrl :: string
  bs_SignupUrl :: string
  bs_StreamTypes :: "string list"
  bs_AuthenticationModel :: "(string \<times> json) list option"
  bs_ID :: ServiceId

definition json_of_service :: "BmxService \<Rightarrow> json" where
  "json_of_service s = JObject (links_field (bs_Links s)
     @ [(''askAdapter'', JBool (bs_AskAdapter s)), (''assets'', json_of_asset (bs_Assets s)), (''baseUrl'', JString (bs_BaseUrl s))]
     @ omit_string ''signupUrl'' (bs_SignupUrl s)
     @ [(''streamTypes'', json_of_slice JString (bs_StreamTypes s)),
        (''authenticationModel'', (case bs_AuthenticationModel s of None \<Rightarrow> JNull | Some m \<Rightarrow> JObject (sort_key fst m))),
        (''id'', json_of_id (bs_ID s))])"

record BmxResponse =
  br_Links :: "Links option"
  br_AskAgainAfter :: int
  br_BmxServices :: "BmxService list"

definition json_of_response :: "BmxResponse \<Rightarrow> json" where
  "json_of_response r = JObject (links_field (br_Links r) @ [(''askAgainAfter'', json_int (br_AskAgainAfter r)),
     (''bmx_services'', json_of_slice json_of_service (br_BmxServices r))])"

end
