(* ===== verification/Go_Base64.thy ===== *)
theory Go_Base64
  imports Go_UTF8
begin

text \<open>
  Package \<open>encoding/base64\<close> with padding, for the standard and the URL alphabet (which differ in their last
  two characters), and what decoding gives for an encoded text.
\<close>

datatype alphabet = StdEncoding | URLEncoding

definition b64_last :: "alphabet \<Rightarrow> char \<times> char" where
  "b64_last e = (case e of StdEncoding \<Rightarrow> (CHR ''+'', CHR ''/'') | URLEncoding \<Rightarrow> (CHR ''-'', CHR ''_''))"

definition b64_val :: "alphabet \<Rightarrow> char \<Rightarrow> nat option" where
  "b64_val e c =
     (if 65 \<le> byte c \<and> byte c \<le> 90 then Some (byte c - 65)
      else if 97 \<le> byte c \<and> byte c \<le> 122 then Some (byte c - 71)
      else if is_digit c then Some (byte c + 4)
      else if c = fst (b64_last e) then Some 62
      else if c = snd (b64_last e) then Some 63 else None)"

definition b64_char :: "alphabet \<Rightarrow> nat \<Rightarrow> char" where
  "b64_char e n =
     (if n < 26 then char_of (n + 65) else if n < 52 then char_of (n + 71) else if n < 62 then char_of (n - 4)
      else if n = 62 then fst (b64_last e) else snd (b64_last e))"

text \<open>Four characters give three bytes; a last group may end in padding, with unused bits of any value.\<close>

fun b64_groups :: "alphabet \<Rightarrow> string \<Rightarrow> string option" where
  "b64_groups e [] = Some []"
| "b64_groups e (a # b # c # d # r) =
     (case (b64_val e a, b64_val e b) of
        (Some x, Some y) \<Rightarrow>
          (let b1 = char_of (x * 4 + y div 16) in
           if c = CHR ''='' then (if d = CHR ''='' \<and> r = [] then Some [b1] else None)
           else case b64_val e c of
             None \<Rightarrow> None
           | Some z \<Rightarrow>
               (let b2 = char_of (y mod 16 * 16 + z div 4) in
                if d = CHR ''='' then (if r = [] then Some [b1, b2] else None)
                else case b64_val e d of
                  None \<Rightarrow> None
                | Some u \<Rightarrow> map_option (\<lambda>t. b1 # b2 # char_of (z mod 4 * 64 + u) # t) (b64_groups e r)))
      | _ \<Rightarrow> None)"
| "b64_groups e s = None"

text \<open>\<open>DecodeString\<close>: line ends are skipped; \<open>None\<close> is a \<open>CorruptInputError\<close>.\<close>

definition b64_DecodeString :: "alphabet \<Rightarrow> string \<Rightarrow> string option" where
  "b64_DecodeString e s = b64_groups e (filter (\<lambda>c. c \<noteq> CHR 0x0A \<and> c \<noteq> CHR 0x0D) s)"

fun b64_EncodeToString :: "alphabet \<Rightarrow> string \<Rightarrow> string" where
  "b64_EncodeToString e (a # b # c # r) =
     [b64_char e (byte a div 4), b64_char e (byte a mod 4 * 16 + byte b div 16),
      b64_char e (byte b mod 16 * 4 + byte c div 64), b64_char e (byte c mod 64)] @ b64_EncodeToString e r"
| "b64_EncodeToString e [a, b] =
     [b64_char e (byte a div 4), b64_char e (byte a mod 4 * 16 + byte b div 16), b64_char e (byte b mod 16 * 4), CHR ''='']"
| "b64_EncodeToString e [a] = [b64_char e (byte a div 4), b64_char e (byte a mod 4 * 16), CHR ''='', CHR ''='']"
| "b64_EncodeToString e [] = []"

lemma b64_val_char: "n < 64 \<Longrightarrow> b64_val e (b64_char e n) = Some n"
proof -
  assume "n < 64"
  then consider "n < 26" | "26 \<le> n" "n < 52" | "52 \<le> n" "n < 62" | "n = 62" | "n = 63" by linarith
  then show ?thesis
    by cases (auto simp: b64_val_def b64_char_def b64_last_def is_digit_def split: alphabet.splits)
qed

lemma b64_val_special: "b64_val e CHR ''='' = None" "b64_val e CHR 0x0A = None" "b64_val e CHR 0x0D = None"
  by (auto simp: b64_val_def b64_last_def is_digit_def split: alphabet.splits)

lemma b64_char_plain: "n < 64 \<Longrightarrow> b64_char e n \<noteq> CHR ''='' \<and> b64_char e n \<noteq> CHR 0x0A \<and> b64_char e n \<noteq> CHR 0x0D"
  using b64_val_char [of n e] b64_val_special [of e] by auto

lemma byte_less: "byte c < 256"
  by simp

lemma sextets:
  fixes a b c :: nat
  assumes "a < 256" "b < 256" "c < 256"
  shows "a div 4 < 64" "a mod 4 * 16 + b div 16 < 64" "b mod 16 * 4 + c div 64 < 64" "c mod 64 < 64"
    "a mod 4 * 16 < 64" "b mod 16 * 4 < 64"
proof -
  have *: "b div 16 < 16" "a mod 4 < 4" "b mod 16 < 16" "c div 64 < 4" using assms by (simp_all add: less_mult_imp_div_less)
  show "a div 4 < 64" using assms by (simp add: less_mult_imp_div_less)
  show "a mod 4 * 16 + b div 16 < 64" "b mod 16 * 4 + c div 64 < 64" "c mod 64 < 64" "a mod 4 * 16 < 64" "b mod 16 * 4 < 64"
    using * by (linarith | simp)+
qed

lemma rejoin:
  fixes x y k :: nat
  assumes "y < k"
  shows "(x * k + y) div k = x" "(x * k + y) mod k = y"
  using assms by simp_all

lemma octets:
  fixes a b c :: nat
  assumes "a < 256" "b < 256" "c < 256"
  shows "a div 4 * 4 + (a mod 4 * 16 + b div 16) div 16 = a"
    "(a mod 4 * 16 + b div 16) mod 16 * 16 + (b mod 16 * 4 + c div 64) div 4 = b"
    "(b mod 16 * 4 + c div 64) mod 4 * 64 + c mod 64 = c"
    "a div 4 * 4 + (a mod 4 * 16) div 16 = a"
    "(a mod 4 * 16 + b div 16) mod 16 * 16 + (b mod 16 * 4) div 4 = b"
proof -
  have *: "b div 16 < 16" "c div 64 < 4" using assms by (simp_all add: less_mult_imp_div_less)
  show "a div 4 * 4 + (a mod 4 * 16 + b div 16) div 16 = a" using rejoin [OF *(1)] by simp
  show "(a mod 4 * 16 + b div 16) mod 16 * 16 + (b mod 16 * 4 + c div 64) div 4 = b"
    using rejoin [OF *(1)] rejoin [OF *(2)] by simp
  show "(b mod 16 * 4 + c div 64) mod 4 * 64 + c mod 64 = c" using rejoin [OF *(2)] by simp
  show "a div 4 * 4 + (a mod 4 * 16) div 16 = a" by simp
  show "(a mod 4 * 16 + b div 16) mod 16 * 16 + (b mod 16 * 4) div 4 = b" using rejoin [OF *(1)] by simp
qed

lemmas b64_parts = sextets [OF byte_less byte_less byte_less] octets [OF byte_less byte_less byte_less]

lemma b64_groups_full:
  assumes "x < 64" "y < 64" "z < 64" "u < 64"
    "x * 4 + y div 16 = byte a" "y mod 16 * 16 + z div 4 = byte b" "z mod 4 * 64 + u = byte c" "b64_groups e r = Some t"
  shows "b64_groups e ([b64_char e x, b64_char e y, b64_char e z, b64_char e u] @ r) = Some (a # b # c # t)"
  using assms(1-4,8) by (simp add: b64_val_char b64_char_plain Let_def assms(5-7))

lemma b64_groups_two:
  assumes "x < 64" "y < 64" "z < 64" "x * 4 + y div 16 = byte a" "y mod 16 * 16 + z div 4 = byte b"
  shows "b64_groups e [b64_char e x, b64_char e y, b64_char e z, CHR ''=''] = Some [a, b]"
  using assms(1-3) by (simp add: b64_val_char b64_char_plain Let_def assms(4,5))

lemma b64_groups_one:
  assumes "x < 64" "y < 64" "x * 4 + y div 16 = byte a"
  shows "b64_groups e [b64_char e x, b64_char e y, CHR ''='', CHR ''=''] = Some [a]"
  using assms(1,2) by (simp add: b64_val_char Let_def assms(3))

lemma b64_groups_Encode: "b64_groups e (b64_EncodeToString e s) = Some s"
proof (induction e s rule: b64_EncodeToString.induct)
  case (1 e a b c r)
  show ?case unfolding b64_EncodeToString.simps by (rule b64_groups_full) (use 1 b64_parts in auto)
next
  case (2 e a b)
  show ?case unfolding b64_EncodeToString.simps by (rule b64_groups_two) (rule b64_parts)+
next
  case (3 e a)
  show ?case unfolding b64_EncodeToString.simps by (rule b64_groups_one) (rule b64_parts)+
qed simp

lemma Encode_no_lines: "x \<in> set (b64_EncodeToString e s) \<Longrightarrow> x \<noteq> CHR 0x0A \<and> x \<noteq> CHR 0x0D"
  by (induction e s rule: b64_EncodeToString.induct) (auto simp: b64_char_plain b64_parts)

text \<open>An encoded text is decoded to itself, also when it is broken into lines.\<close>

theorem b64_Decode_Encode:
  assumes "filter (\<lambda>c. c \<noteq> CHR 0x0A \<and> c \<noteq> CHR 0x0D) t = b64_EncodeToString e s"
  shows "b64_DecodeString e t = Some s"
  using assms by (simp add: b64_DecodeString_def b64_groups_Encode)

lemma b64_Decode_Encode_plain: "b64_DecodeString e (b64_EncodeToString e s) = Some s"
proof -
  have "filter (\<lambda>c. c \<noteq> CHR 0x0A \<and> c \<noteq> CHR 0x0D) (b64_EncodeToString e s) = b64_EncodeToString e s"
    using Encode_no_lines by (intro filter_True) auto
  then show ?thesis by (rule b64_Decode_Encode)
qed

text \<open>A text that decodes with both alphabets decodes to the same bytes.\<close>

lemma b64_val_common: "b64_val e c = Some n \<Longrightarrow> b64_val f c = Some m \<Longrightarrow> m = n"
  by (cases e; cases f) (auto simp: b64_val_def b64_last_def split: if_splits)

lemma b64_groups_common: "b64_groups e s = Some t \<Longrightarrow> b64_groups f s = Some u \<Longrightarrow> u = t"
proof (induction e s arbitrary: t u rule: b64_groups.induct)
  case (2 e a b c d r)
  note common = b64_val_common [of e _ _ f]
  from "2.prems" obtain x y where e: "b64_val e a = Some x" "b64_val e b = Some y" by (auto split: option.splits)
  from "2.prems" obtain x' y' where "b64_val f a = Some x'" "b64_val f b = Some y'" by (auto split: option.splits)
  with e common have f: "b64_val f a = Some x" "b64_val f b = Some y" by metis+
  show ?case
  proof (cases "c = CHR ''=''")
    case True
    with "2.prems" e f show ?thesis by (simp add: Let_def split: if_splits)
  next
    case c: False
    from "2.prems" e f c obtain z z' where "b64_val e c = Some z" "b64_val f c = Some z'"
      by (cases "b64_val e c"; cases "b64_val f c") (simp_all add: Let_def)
    with common have z: "b64_val e c = Some z" "b64_val f c = Some z" by metis+
    show ?thesis
    proof (cases "d = CHR ''=''")
      case True
      with "2.prems" e f c z show ?thesis by (simp add: Let_def split: if_splits)
    next
      case d: False
      from "2.prems" e f c d z obtain v v' where "b64_val e d = Some v" "b64_val f d = Some v'"
        by (cases "b64_val e d"; cases "b64_val f d") (simp_all add: Let_def)
      with common have v: "b64_val e d = Some v" "b64_val f d = Some v" by metis+
      from "2.prems" e f c d z v obtain t' u' where r: "b64_groups e r = Some t'" "b64_groups f r = Some u'"
        by (cases "b64_groups e r"; cases "b64_groups f r") (simp_all add: Let_def)
      have "u' = t'" by (rule "2.IH" [OF refl e refl c z(1) refl d v(1) r])
      with "2.prems" e f c d z v r show ?thesis by (simp add: Let_def)
    qed
  qed
qed auto

lemma b64_Decode_common: "b64_DecodeString e s = Some t \<Longrightarrow> b64_DecodeString f s = Some u \<Longrightarrow> u = t"
  unfolding b64_DecodeString_def by (rule b64_groups_common)

end
