(* ===== verification/Bmx.thy ===== *)
theory Bmx
  imports Bmx_Models Go_Base64 Go_Text Go_URL XML_Fields
begin

text \<open>
  \<open>internal/bmx/bmx.go\<close>: playing stations and episodes of TuneIn, and custom streams.  \<open>get\<close> is what
  fetching a URL gives: an error (of \<open>http.Get\<close> or of reading the body), or the body.
\<close>

section \<open>Numbers with \<open>strconv.Atoi\<close>, its error ignored\<close>

text \<open>The digits of a number, as far as they are read: \<open>None\<close> for another character, and the largest
  number of 64 bits as soon as it is exceeded.\<close>

fun uint_value :: "nat \<Rightarrow> string \<Rightarrow> nat option" where
  "uint_value n [] = Some n"
| "uint_value n (c # cs) =
     (if \<not> is_digit c then None
      else let m = 10 * n + digit_val c in if m \<ge> 2 ^ 64 then Some (2 ^ 64 - 1) else uint_value m cs)"

definition Atoi_value :: "string \<Rightarrow> int" where
  "Atoi_value s =
     (let (neg, ds) = (case s of [] \<Rightarrow> (False, [])
        | c # cs \<Rightarrow> if c = CHR ''-'' then (True, cs) else if c = CHR ''+'' then (False, cs) else (False, s))
      in if ds = [] then 0
         else case uint_value 0 ds of None \<Rightarrow> 0
           | Some n \<Rightarrow> if neg then max int64_min (- int n) else min int64_max (int n))"

section \<open>TuneIn\<close>

definition TuneInDescribe :: "string \<Rightarrow> string" where
  "TuneInDescribe i = ''https://opml.radiotime.com/describe.ashx?id='' @ i"

definition TuneInStream :: "string \<Rightarrow> string" where
  "TuneInStream i = ''http://opml.radiotime.com/Tune.ashx?id='' @ i @ ''&formats=mp3,aac,ogg''"

text \<open>The element \<open>name\<close> below \<open>body\<close> and \<open>outline\<close>, whose children are folded into a struct.\<close>

definition in_outline :: "string \<Rightarrow> (string \<Rightarrow> xattrs \<Rightarrow> xml list \<Rightarrow> 's \<Rightarrow> 's) \<Rightarrow> xml list \<Rightarrow> 's \<Rightarrow> 's" where
  "in_outline name child cs s =
     fold_children (\<lambda>l as cs s. if l = ''body'' then
       fold_children (\<lambda>l as cs s. if l = ''outline'' then
         fold_children (\<lambda>l as cs s. if l = name then fold_children child cs s else s) cs s
         else s) cs s
       else s) cs s"

record station =
  st_Name :: string
  st_Logo :: string

definition station_child :: "string \<Rightarrow> xattrs \<Rightarrow> xml list \<Rightarrow> station \<Rightarrow> station" where
  "station_child l as cs x =
     (if l = ''name'' then x\<lparr>st_Name := chardata cs\<rparr> else if l = ''logo'' then x\<lparr>st_Logo := chardata cs\<rparr> else x)"

definition decode_station :: "xattrs \<Rightarrow> xml list \<Rightarrow> station" where
  "decode_station as cs = in_outline ''station'' station_child cs \<lparr>st_Name = [], st_Logo = []\<rparr>"

record topic =
  tp_Title :: string
  tp_ShowTitle :: string
  tp_Duration :: string
  tp_ShowID :: string
  tp_Logo :: string

definition topic_child :: "string \<Rightarrow> xattrs \<Rightarrow> xml list \<Rightarrow> topic \<Rightarrow> topic" where
  "topic_child l as cs x =
     (if l = ''title'' then x\<lparr>tp_Title := chardata cs\<rparr>
      else if l = ''show_title'' then x\<lparr>tp_ShowTitle := chardata cs\<rparr>
      else if l = ''duration'' then x\<lparr>tp_Duration := chardata cs\<rparr>
      else if l = ''show_id'' then x\<lparr>tp_ShowID := chardata cs\<rparr>
      else if l = ''logo'' then x\<lparr>tp_Logo := chardata cs\<rparr> else x)"

definition decode_topic :: "xattrs \<Rightarrow> xml list \<Rightarrow> topic" where
  "decode_topic as cs = in_outline ''topic'' topic_child cs
     \<lparr>tp_Title = [], tp_ShowTitle = [], tp_Duration = [], tp_ShowID = [], tp_Logo = []\<rparr>"

text \<open>The lines of the list of streams.\<close>

definition stream_lines :: "string \<Rightarrow> string list" where
  "stream_lines streamBody = split_char CHR 0x0A (strings_TrimSpace streamBody)"

definition bmx_reporting :: "string \<Rightarrow> string \<Rightarrow> string" where
  "bmx_reporting guideID streamType =
     ''/v1/report?'' @ url_Encode [(''stream_id'', ''e3342''), (''guide_id'', guideID), (''listen_id'', ''3432432423''),
        (''stream_type'', streamType)]"

definition tunein_stream :: "bool \<Rightarrow> string \<Rightarrow> string \<Rightarrow> Stream" where
  "tunein_stream realtime reporting sURL =
     \<lparr>sm_Links = Some (no_links\<lparr>lk_BmxReporting := Some (link_to reporting)\<rparr>),
      sm_BufferingTimeout = 20, sm_ConnectingTimeout = 10, sm_HasPlaylist = True, sm_IsRealtime = realtime,
      sm_StreamUrl = sURL\<rparr>"

definition tunein_audio :: "bool \<Rightarrow> string \<Rightarrow> string list \<Rightarrow> Audio" where
  "tunein_audio realtime reporting streamURLList =
     \<lparr>au_HasPlaylist = True, au_IsRealtime = realtime, au_MaxTimeout = 60, au_StreamUrl = hd streamURLList,
      au_Streams = map (tunein_stream realtime reporting)
        (filter (\<lambda>u. u \<noteq> []) (map strings_TrimSpace streamURLList))\<rparr>"

definition TuneInPlayback :: "(string \<Rightarrow> string result) \<Rightarrow> string \<Rightarrow> BmxPlaybackResponse result" where
  "TuneInPlayback get stationID =
     (case get (TuneInDescribe stationID) of Inl e \<Rightarrow> Inl e | Inr body \<Rightarrow>
     (case xml_Unmarshal None decode_station body of Inl e \<Rightarrow> Inl e | Inr station \<Rightarrow>
     (case get (TuneInStream stationID) of Inl e \<Rightarrow> Inl e | Inr streamBody \<Rightarrow>
        let streamURLList = stream_lines streamBody; reporting = bmx_reporting stationID ''liveRadio'' in
        if hd streamURLList = [] then Inl (Errorf ''no streams found'')
        else Inr \<lparr>pr_Links = Some (no_links\<lparr>
              lk_BmxFavorite := Some (link_to (''/v1/favorite/'' @ stationID)),
              lk_BmxNowPlaying := Some \<lparr>ln_Href = ''/v1/now-playing/station/'' @ stationID, ln_UseInternalClient = ''ALWAYS''\<rparr>,
              lk_BmxReporting := Some (link_to reporting)\<rparr>),
            pr_Artist_Name = [], pr_Audio = tunein_audio True reporting streamURLList,
            pr_ImageUrl = st_Logo station, pr_IsFavorite = Some False, pr_Name = st_Name station,
            pr_StreamType = ''liveRadio'', pr_Duration = 0, pr_ShuffleDisabled = False, pr_RepeatDisabled = False\<rparr>)))"

definition TuneInPlaybackPodcast :: "(string \<Rightarrow> string result) \<Rightarrow> string \<Rightarrow> BmxPlaybackResponse result" where
  "TuneInPlaybackPodcast get podcastID =
     (case get (TuneInDescribe podcastID) of Inl e \<Rightarrow> Inl e | Inr body \<Rightarrow>
     (case xml_Unmarshal None decode_topic body of Inl e \<Rightarrow> Inl e | Inr topic \<Rightarrow>
     (case get (TuneInStream podcastID) of Inl e \<Rightarrow> Inl e | Inr streamBody \<Rightarrow>
        let streamURLList = stream_lines streamBody; reporting = bmx_reporting podcastID ''onDemand'' in
        if hd streamURLList = [] then Inl (Errorf ''no streams found'')
        else Inr \<lparr>pr_Links = Some (no_links\<lparr>
              lk_BmxFavorite := Some (link_to (''/v1/favorite/'' @ tp_ShowID topic)),
              lk_BmxReporting := Some (link_to reporting)\<rparr>),
            pr_Artist_Name = tp_ShowTitle topic, pr_Audio = tunein_audio False reporting streamURLList,
            pr_ImageUrl = tp_Logo topic, pr_IsFavorite = Some False, pr_Name = tp_Title topic,
            pr_StreamType = ''onDemand'', pr_Duration = Atoi_value (tp_Duration topic),
            pr_ShuffleDisabled = True, pr_RepeatDisabled = True\<rparr>)))"

section \<open>Encoded names and streams\<close>

text \<open>The URL alphabet is tried first, then the standard one.\<close>

definition decode_either :: "string \<Rightarrow> string result" where
  "decode_either s = (case b64_DecodeString URLEncoding s of
      Some t \<Rightarrow> Inr t
    | None \<Rightarrow> (case b64_DecodeString StdEncoding s of Some t \<Rightarrow> Inr t | None \<Rightarrow> Inl CorruptInputError))"

definition TuneInPodcastInfo :: "string \<Rightarrow> string \<Rightarrow> BmxPodcastInfoResponse result" where
  "TuneInPodcastInfo podcastID encodedName =
     (case decode_either encodedName of Inl e \<Rightarrow> Inl e
      | Inr name \<Rightarrow> Inr
         \<lparr>pi_Links = Some (no_links\<lparr>lk_Self := Some (link_to (''/v1/playback/episodes/'' @ podcastID @ ''?encoded_name='' @ encodedName))\<rparr>),
          pi_Name = name, pi_ShuffleDisabled = True, pi_RepeatDisabled = True, pi_StreamType = ''onDemand'',
          pi_Tracks = [\<lparr>tr_Links = Some (no_links\<lparr>lk_BmxTrack := Some (link_to (''/v1/playback/episode/'' @ podcastID))\<rparr>),
            tr_IsSelected = False, tr_Name = name\<rparr>]\<rparr>)"

record custom_stream =
  cu_StreamURL :: string
  cu_ImageURL :: string
  cu_Name :: string

definition stream_entry :: "string \<times> json \<Rightarrow> custom_stream option \<Rightarrow> custom_stream option" where
  "stream_entry e st = (case st of None \<Rightarrow> None | Some x \<Rightarrow>
     (if EqualFold_ascii ''streamUrl'' (fst e) then map_option (\<lambda>s. x\<lparr>cu_StreamURL := s\<rparr>) (string_entry (cu_StreamURL x) (snd e))
      else if EqualFold_ascii ''imageUrl'' (fst e) then map_option (\<lambda>s. x\<lparr>cu_ImageURL := s\<rparr>) (string_entry (cu_ImageURL x) (snd e))
      else if EqualFold_ascii ''name'' (fst e) then map_option (\<lambda>s. x\<lparr>cu_Name := s\<rparr>) (string_entry (cu_Name x) (snd e))
      else st))"

definition decode_custom_stream :: "string \<Rightarrow> custom_stream option" where
  "decode_custom_stream jsonStr = json_into stream_entry jsonStr \<lparr>cu_StreamURL = [], cu_ImageURL = [], cu_Name = []\<rparr>"

definition PlayCustomStream :: "string \<Rightarrow> BmxPlaybackResponse result" where
  "PlayCustomStream data =
     (case decode_either data of Inl e \<Rightarrow> Inl e
      | Inr jsonStr \<Rightarrow>
          (case decode_custom_stream jsonStr of
             None \<Rightarrow> Inl JSONError
           | Some jsonObj \<Rightarrow> Inr
               \<lparr>pr_Links = None, pr_Artist_Name = [],
                pr_Audio = \<lparr>au_HasPlaylist = True, au_IsRealtime = True, au_MaxTimeout = 0, au_StreamUrl = cu_StreamURL jsonObj,
                  au_Streams = [\<lparr>sm_Links = None, sm_BufferingTimeout = 0, sm_ConnectingTimeout = 0, sm_HasPlaylist = True,
                    sm_IsRealtime = True, sm_StreamUrl = cu_StreamURL jsonObj\<rparr>]\<rparr>,
                pr_ImageUrl = cu_ImageURL jsonObj, pr_IsFavorite = None, pr_Name = cu_Name jsonObj,
                pr_StreamType = ''liveRadio'', pr_Duration = 0, pr_ShuffleDisabled = False, pr_RepeatDisabled = False\<rparr>))"

end
