(* ===== verification/Handlers_Bmx.thy ===== *)
theory Handlers_Bmx
  imports Bmx Handlers_Setup
begin

text \<open>
  \<open>handlers_bmx.go\<close>.  The registry is a file found in one of three places relative to the working
  directory; \<open>getenv\<close> is the process's environment, \<open>msg\<close> the text of an error.
\<close>

definition registry_paths :: "string list" where
  "registry_paths = [''soundcork/bmx_services.json'', ''../soundcork/bmx_services.json'', ''../../soundcork/bmx_services.json'']"

text \<open>The content of the first of some files that can be read.\<close>

fun first_file :: "world \<Rightarrow> string list \<Rightarrow> string option" where
  "first_file w [] = None"
| "first_file w (p # ps) = (case os_ReadFile w p of Inr data \<Rightarrow> Some data | Inl _ \<Rightarrow> first_file w ps)"

definition base_url :: "(string \<Rightarrow> string) \<Rightarrow> string" where
  "base_url getenv = (if getenv ''BASE_URL'' = [] then ''http://localhost:8000'' else getenv ''BASE_URL'')"

definition registry_content :: "string \<Rightarrow> string \<Rightarrow> string" where
  "registry_content baseURL content =
     strings_ReplaceAll ''{MEDIA_SERVER}'' (baseURL @ ''/media'') (strings_ReplaceAll ''{BMX_SERVER}'' baseURL content)"

definition handleBMXRegistry :: "(string \<Rightarrow> string) \<Rightarrow> world \<Rightarrow> request \<Rightarrow> response" where
  "handleBMXRegistry getenv w r =
     (case first_file w registry_paths of
        None \<Rightarrow> http_Error ''Failed to read services'' 500 new_response
      | Some data \<Rightarrow> Write (registry_content (base_url getenv) data) (Header_Set ''Content-Type'' json_type new_response))"

definition reply_or_500 :: "(go_error \<Rightarrow> string) \<Rightarrow> ('a \<Rightarrow> json) \<Rightarrow> 'a result \<Rightarrow> response" where
  "reply_or_500 msg enc result =
     (case result of Inl e \<Rightarrow> http_Error (msg e) 500 new_response | Inr x \<Rightarrow> json_reply (enc x))"

definition handleTuneInPlayback :: "(go_error \<Rightarrow> string) \<Rightarrow> (string \<Rightarrow> string result) \<Rightarrow> request \<Rightarrow> response" where
  "handleTuneInPlayback msg get r = reply_or_500 msg json_of_playback (TuneInPlayback get (rq_Param r ''stationID''))"

definition handleTuneInPodcastInfo :: "(go_error \<Rightarrow> string) \<Rightarrow> request \<Rightarrow> response" where
  "handleTuneInPodcastInfo msg r =
     reply_or_500 msg json_of_podcast
       (TuneInPodcastInfo (rq_Param r ''podcastID'') (query_Get (url_Query (rq_RawQuery r)) ''encoded_name''))"

definition handleTuneInPlaybackPodcast :: "(go_error \<Rightarrow> string) \<Rightarrow> (string \<Rightarrow> string result) \<Rightarrow> request \<Rightarrow> response" where
  "handleTuneInPlaybackPodcast msg get r =
     reply_or_500 msg json_of_playback (TuneInPlaybackPodcast get (rq_Param r ''podcastID''))"

definition handleOrionPlayback :: "(go_error \<Rightarrow> string) \<Rightarrow> request \<Rightarrow> response" where
  "handleOrionPlayback msg r = reply_or_500 msg json_of_playback (PlayCustomStream (rq_Param r ''data''))"

end
