(* ===== verification/Bmx_Laws.thy ===== *)
theory Bmx_Laws
  imports Handlers_Bmx Handlers_Setup_Laws
begin

text \<open>
  What players get from the BMX service: the streams of a station in the order of TuneIn's list, links that
  lead back to the station, custom streams whichever alphabet their encoding uses, and when a request fails.
\<close>

section \<open>Encoded texts\<close>

text \<open>A text encoded with either alphabet is decoded to itself.\<close>

lemma decode_either_Encode: "decode_either (b64_EncodeToString e s) = Inr s"
proof (cases "b64_DecodeString URLEncoding (b64_EncodeToString e s)")
  case None
  with b64_Decode_Encode_plain [of URLEncoding s] have "e = StdEncoding" by (cases e) auto
  with None show ?thesis by (simp add: decode_either_def b64_Decode_Encode_plain)
next
  case (Some u)
  from b64_Decode_common [OF b64_Decode_Encode_plain Some] show ?thesis by (simp add: decode_either_def Some)
qed

lemma b64_groups_chars: "b64_groups e s = Some t \<Longrightarrow> c \<in> set s \<Longrightarrow> c = CHR ''='' \<or> b64_val e c \<noteq> None"
  by (induction e s arbitrary: t rule: b64_groups.induct) (auto simp: Let_def split: option.splits if_splits)

lemma decode_either_space: "CHR '' '' \<in> set s \<Longrightarrow> decode_either s = Inl CorruptInputError"
proof -
  assume s: "CHR '' '' \<in> set s"
  have v: "b64_val e CHR '' '' = None" for e
    by (cases e) (auto simp: b64_val_def b64_last_def is_digit_def)
  have "b64_DecodeString e s = None" for e
    using b64_groups_chars [of e _ _ "CHR '' ''"] s v by (fastforce simp: b64_DecodeString_def)
  then show ?thesis by (simp add: decode_either_def)
qed

section \<open>Custom streams\<close>

text \<open>The answer for a custom stream, as a parser reads it.\<close>

definition custom_answer :: "string \<Rightarrow> string \<Rightarrow> string \<Rightarrow> json" where
  "custom_answer url pic name = JObject
     [(''artist'', JObject []),
      (''audio'', JObject [(''hasPlaylist'', JBool True), (''isRealtime'', JBool True), (''streamUrl'', JString (utf8_clean url)),
         (''streams'', JArray [JObject [(''hasPlaylist'', JBool True), (''isRealtime'', JBool True),
            (''streamUrl'', JString (utf8_clean url))]])]),
      (''imageUrl'', JString (utf8_clean pic)), (''name'', JString (utf8_clean name)), (''streamType'', JString ''liveRadio'')]"

lemma field_names:
  "EqualFold_ascii ''streamUrl'' ''streamUrl''" "\<not> EqualFold_ascii ''streamUrl'' ''imageUrl''"
  "\<not> EqualFold_ascii ''streamUrl'' ''name''" "EqualFold_ascii ''imageUrl'' ''imageUrl''"
  "\<not> EqualFold_ascii ''imageUrl'' ''name''" "EqualFold_ascii ''name'' ''name''"
  by (simp_all add: EqualFold_lower lower_ascii_def lower_byte_def)

text \<open>C37: A custom stream is played whichever of the two alphabets its description is encoded with: the answer has
  status 200 and a parser reads the stream's address, picture and name from it; a description with a
  blank in it (a plus sign that was taken for one) is answered with status 500.\<close>

theorem custom_stream_plays:
  assumes "json_parse text = Some (JObject [(''streamUrl'', JString url), (''imageUrl'', JString pic), (''name'', JString name)])"
    and "rq_Param r ''data'' = b64_EncodeToString e text"
  shows "status_of (handleOrionPlayback msg r) = 200
    \<and> json_parse (rs_Body (handleOrionPlayback msg r)) = Some (custom_answer url pic name)
    \<and> (CHR '' '' \<in> set (rq_Param r2 ''data'') \<longrightarrow> status_of (handleOrionPlayback msg r2) = 500)"
proof -
  have d: "decode_custom_stream text = Some \<lparr>cu_StreamURL = url, cu_ImageURL = pic, cu_Name = name\<rparr>"
    using assms(1) by (simp add: decode_custom_stream_def json_into_def stream_entry_def string_entry_def field_names)
  let ?v = "JObject
     [(''artist'', JObject []),
      (''audio'', JObject [(''hasPlaylist'', JBool True), (''isRealtime'', JBool True), (''streamUrl'', JString url),
         (''streams'', JArray [JObject [(''hasPlaylist'', JBool True), (''isRealtime'', JBool True), (''streamUrl'', JString url)]])]),
      (''imageUrl'', JString pic), (''name'', JString name), (''streamType'', JString ''liveRadio'')]"
  have ok: "json_ok max_nesting ?v" by (simp add: nesting)
  have a: "handleOrionPlayback msg r = json_reply ?v"
    by (simp add: handleOrionPlayback_def PlayCustomStream_def assms(2) decode_either_Encode d reply_or_500_def
        json_of_playback_def json_of_audio_def json_of_slice_def json_of_stream_def links_field_def omit_nil_def
        omit_string_def omit_int_def omit_false_def)
  have "CHR '' '' \<in> set (rq_Param r2 ''data'') \<Longrightarrow> status_of (handleOrionPlayback msg r2) = 500"
    by (simp add: handleOrionPlayback_def PlayCustomStream_def decode_either_space reply_or_500_def http_defs status_of_def)
  with json_parse_Encode [OF ok] a show ?thesis
    by (simp add: custom_answer_def ascii_text_def)
qed

section \<open>The streams of a station\<close>

text \<open>Addresses of printable ASCII characters, and lists of them, one per line.\<close>

definition plain_url :: "string \<Rightarrow> bool" where
  "plain_url u \<longleftrightarrow> u \<noteq> [] \<and> (\<forall>c \<in> set u. 0x20 < byte c \<and> byte c < 0x7F)"

definition url_list :: "string \<Rightarrow> string list \<Rightarrow> string" where
  "url_list eol us = concat (map (\<lambda>u. u @ eol) us)"

lemma space_texts_ends:
  "t \<in> set space_texts \<Longrightarrow> t \<noteq> [] \<and> \<not> (0x20 < byte (hd t) \<and> byte (hd t) < 0x7F) \<and> \<not> (0x20 < byte (last t) \<and> byte (last t) < 0x7F)"
  by (auto simp: space_texts_def)

lemma trim_stops_left: "0x20 < byte c \<Longrightarrow> byte c < 0x7F \<Longrightarrow> trim_texts space_texts (c # s) = c # s"
proof (rule trim_texts_stop)
  fix t assume c: "0x20 < byte c" "byte c < 0x7F" and t: "t \<in> set space_texts" "t \<noteq> []"
  from t(2) obtain d t' where "t = d # t'" by (cases t) simp_all
  with space_texts_ends [OF t(1)] c show "\<not> strings_HasPrefix (c # s) t" by (auto simp: strings_HasPrefix_def)
qed

lemma trim_stops_right: "0x20 < byte c \<Longrightarrow> byte c < 0x7F \<Longrightarrow> trim_texts (map rev space_texts) (c # s) = c # s"
proof (rule trim_texts_stop)
  fix t assume c: "0x20 < byte c" "byte c < 0x7F" and t: "t \<in> set (map rev space_texts)" "t \<noteq> []"
  then obtain v where v: "v \<in> set space_texts" "t = rev v" by auto
  obtain d t' where d: "t = d # t'" using t(2) by (cases t) auto
  then have "last v = d" using v(2) by (metis last_snoc rev.simps(2) rev_rev_ident)
  with space_texts_ends [OF v(1)] c d show "\<not> strings_HasPrefix (c # s) t" by (auto simp: strings_HasPrefix_def)
qed

lemma trim_eol:
  "trim_texts (map rev space_texts) (CHR 0x0A # s) = trim_texts (map rev space_texts) s"
  "trim_texts (map rev space_texts) (CHR 0x0D # s) = trim_texts (map rev space_texts) s"
  by (subst trim_texts.simps, simp add: space_texts_def strings_HasPrefix_def)+

text \<open>Trimming a text that begins and ends with a printable character, with an end of line after it.\<close>

lemma TrimSpace_eol:
  assumes "s \<noteq> []" "0x20 < byte (hd s)" "byte (hd s) < 0x7F" "0x20 < byte (last s)" "byte (last s) < 0x7F"
    "eol \<in> {[], [CHR 0x0D], [CHR 0x0A], [CHR 0x0D, CHR 0x0A]}"
  shows "strings_TrimSpace (s @ eol) = s"
proof -
  obtain c t where l: "s = c # t" using assms(1) by (cases s) auto
  obtain d v where r: "rev s = d # v" using assms(1) by (cases "rev s") auto
  then have d: "last s = d" by (metis last_snoc rev.simps(2) rev_rev_ident)
  have "trim_texts space_texts (s @ eol) = s @ eol" using assms(2,3) l by (simp add: trim_stops_left)
  moreover have "trim_texts (map rev space_texts) (rev s) = rev s" using assms(4,5) d r trim_stops_right by simp
  then have "trim_texts (map rev space_texts) (rev (s @ eol)) = rev s"
    using assms(6) by (auto simp: trim_eol)
  ultimately show ?thesis by (simp add: strings_TrimSpace_def)
qed

lemma plain_url_ends:
  "plain_url u \<Longrightarrow> u \<noteq> [] \<and> 0x20 < byte (hd u) \<and> byte (hd u) < 0x7F \<and> 0x20 < byte (last u) \<and> byte (last u) < 0x7F
    \<and> CHR 0x0A \<notin> set u"
  by (auto simp: plain_url_def)

lemma url_list_snoc: "url_list eol (us @ [u]) = url_list eol us @ u @ eol"
  by (simp add: url_list_def)

lemma stream_lines_list:
  assumes "eol = cr @ [CHR 0x0A]" "cr \<in> {[], [CHR 0x0D]}" "\<forall>u \<in> set (us @ [v]). plain_url u"
  shows "stream_lines (url_list eol (us @ [v])) = map (\<lambda>u. u @ cr) us @ [v]"
proof -
  have v: "plain_url v" using assms(3) by simp
  let ?s = "url_list eol us @ v"
  have "?s \<noteq> []" "last ?s = last v" using plain_url_ends [OF v] by auto
  moreover have "hd ?s = hd (hd (us @ [v]))"
    using assms(3) by (cases us) (auto simp: url_list_def plain_url_def)
  moreover have "plain_url (hd (us @ [v]))" using assms(3) by (cases us) auto
  ultimately have "strings_TrimSpace (?s @ eol) = ?s"
    using plain_url_ends [OF v] plain_url_ends assms(1,2) by (intro TrimSpace_eol) auto
  then have t: "strings_TrimSpace (url_list eol (us @ [v])) = ?s" by (simp add: url_list_snoc)
  have "split_char CHR 0x0A ?s = map (\<lambda>u. u @ cr) us @ [v]"
    using assms(3)
  proof (induction us)
    case Nil
    with plain_url_ends [OF v] show ?case by (simp add: url_list_def split_char_free)
  next
    case (Cons u us)
    have "url_list eol (u # us) @ v = (u @ cr) @ CHR 0x0A # (url_list eol us @ v)"
      by (simp add: url_list_def assms(1))
    moreover have "split_char CHR 0x0A (u @ cr) = [u @ cr]"
      using Cons.prems plain_url_ends [of u] assms(2) by (intro split_char_free) auto
    ultimately have "split_char CHR 0x0A (url_list eol (u # us) @ v) = [u @ cr] @ split_char CHR 0x0A (url_list eol us @ v)"
      by (simp only: split_char_append)
    with Cons show ?case by simp
  qed
  with t show ?thesis by (simp add: stream_lines_def)
qed

text \<open>C38: From TuneIn's list of plain addresses, one per line, a station or an episode gets one stream per address, in
  order.  The address of the audio itself is the first line, which keeps the carriage return when the lines end
  in one and there are several.\<close>

theorem streams_of_station:
  assumes "TuneInPlayback get i = Inr p \<or> TuneInPlaybackPodcast get i = Inr p"
    and "get (TuneInStream i) = Inr (url_list (cr @ [CHR 0x0A]) us)" "cr \<in> {[], [CHR 0x0D]}"
    and "us \<noteq> []" "\<forall>u \<in> set us. plain_url u"
  shows "map sm_StreamUrl (au_Streams (pr_Audio p)) = us
    \<and> au_StreamUrl (pr_Audio p) = hd us @ (if length us = 1 then [] else cr)"
proof -
  obtain vs v where us: "us = vs @ [v]" using assms(4) by (metis rev_exhaust)
  have lines: "stream_lines (url_list (cr @ [CHR 0x0A]) us) = map (\<lambda>u. u @ cr) vs @ [v]"
    using stream_lines_list [OF refl assms(3)] assms(5) us by simp
  have "strings_TrimSpace (u @ cr) = u" "u \<noteq> []" if "plain_url u" for u
    using TrimSpace_eol [of u cr] plain_url_ends [OF that] assms(3) by auto
  then have "filter (\<lambda>u. u \<noteq> []) (map strings_TrimSpace (map (\<lambda>u. u @ cr) vs @ [v])) = us"
    using assms(5) TrimSpace_eol [of v "[]"] plain_url_ends [of v] unfolding us by (induction vs) auto
  moreover have "hd (map (\<lambda>u. u @ cr) vs @ [v]) = hd us @ (if length us = 1 then [] else cr)"
    using us by (cases vs) auto
  ultimately have "map sm_StreamUrl (au_Streams (tunein_audio b l (map (\<lambda>u. u @ cr) vs @ [v]))) = us"
    "au_StreamUrl (tunein_audio b l (map (\<lambda>u. u @ cr) vs @ [v])) = hd us @ (if length us = 1 then [] else cr)" for b l
    by (simp_all add: tunein_audio_def tunein_stream_def comp_def)
  moreover have "\<exists>b l. pr_Audio p = tunein_audio b l (map (\<lambda>u. u @ cr) vs @ [v])"
    using assms(1,2) lines
    by (fastforce simp: TuneInPlayback_def TuneInPlaybackPodcast_def Let_def split: sum.splits if_splits)
  ultimately show ?thesis by auto
qed

section \<open>Links\<close>

lemma guide_of_report:
  "query_Get (url_Query (drop 11 (bmx_reporting g t))) ''guide_id'' = g"
  "query_Get (url_Query (drop 11 (bmx_reporting g t))) ''stream_type'' = t"
  by (simp_all add: bmx_reporting_def query_Get_def query_of_encoded)

text \<open>The links of an answer lead back to the station or episode, whatever characters its name has: the reporting
  link of the answer and of every stream carries the name in its query, and the favourite link ends in it for a
  station.\<close>

theorem links_name_the_station:
  assumes "TuneInPlayback get i = Inr p"
  shows "\<exists>l f. pr_Links p = Some l \<and> lk_BmxFavorite l = Some f \<and> ln_Href f = ''/v1/favorite/'' @ i
    \<and> (\<forall>m \<in> insert l {m. Some m \<in> sm_Links ` set (au_Streams (pr_Audio p))}.
         \<exists>h. lk_BmxReporting m = Some h \<and> take 11 (ln_Href h) = ''/v1/report?''
           \<and> query_Get (url_Query (drop 11 (ln_Href h))) ''guide_id'' = i)"
proof -
  have t: "take 11 (bmx_reporting i s) = ''/v1/report?''" for s by (simp add: bmx_reporting_def)
  from assms obtain xs l where p: "pr_Audio p = tunein_audio True (bmx_reporting i ''liveRadio'') xs" "pr_Links p = Some l"
    "lk_BmxFavorite l = Some (link_to (''/v1/favorite/'' @ i))" "lk_BmxReporting l = Some (link_to (bmx_reporting i ''liveRadio''))"
    by (fastforce simp: TuneInPlayback_def Let_def split: sum.splits if_splits)
  then show ?thesis
    by (auto simp: tunein_audio_def tunein_stream_def link_to_def t guide_of_report)
qed

section \<open>Requests that fail\<close>

lemma trim_texts_no_prefix: "t \<in> set ts \<Longrightarrow> t \<noteq> [] \<Longrightarrow> \<not> strings_HasPrefix (trim_texts ts s) t"
proof (induction ts s rule: trim_texts.induct)
  case (1 ts s)
  show ?case
  proof (cases "find_first (\<lambda>t. t \<noteq> [] \<and> strings_HasPrefix s t) ts")
    case None
    then have "trim_texts ts s = s" by (subst trim_texts.simps) simp
    with None 1 show ?thesis by (auto simp: find_first_None)
  next
    case (Some u)
    with 1 show ?thesis by (subst trim_texts.simps) simp
  qed
qed

lemma TrimSpace_hd: "strings_TrimSpace s = c # r \<Longrightarrow> c \<noteq> CHR 0x0A"
proof
  assume a: "strings_TrimSpace s = c # r" "c = CHR 0x0A"
  obtain q where "rev (trim_texts space_texts s) = q @ trim_texts (map rev space_texts) (rev (trim_texts space_texts s))"
    using trim_texts_suffix by blast
  then have "trim_texts space_texts s = strings_TrimSpace s @ rev q"
    unfolding strings_TrimSpace_def by (metis rev_append rev_rev_ident)
  then have "strings_HasPrefix (trim_texts space_texts s) [CHR 0x0A]" using a by (simp add: strings_HasPrefix_def)
  moreover have "[CHR 0x0A] \<in> set space_texts" by (simp add: space_texts_def)
  ultimately show False using trim_texts_no_prefix by blast
qed

lemma no_lines: "hd (stream_lines s) = [] \<longleftrightarrow> strings_TrimSpace s = []"
proof (cases "strings_TrimSpace s")
  case (Cons c r)
  with TrimSpace_hd [OF Cons] show ?thesis by (auto simp: stream_lines_def split: list.splits)
qed (simp add: stream_lines_def)

lemma status_http_Error: "status_of (http_Error m c new_response) = c"
  by (simp add: http_defs status_of_def)

lemma status_reply: "status_of (reply_or_500 msg enc x) = (case x of Inl _ \<Rightarrow> 500 | Inr _ \<Rightarrow> 200)"
  by (simp add: reply_or_500_def status_http_Error split: sum.splits)

text \<open>A station is answered with status 200 exactly if its description and its list of streams can be fetched, the
  description is XML and the list is not blank; every other request is answered with status 500.\<close>

theorem station_answers:
  "status_of (handleTuneInPlayback msg get r) =
    (if \<exists>body streams. get (TuneInDescribe (rq_Param r ''stationID'')) = Inr body
        \<and> is_ok (xml_Unmarshal None (\<lambda>as cs. ()) body)
        \<and> get (TuneInStream (rq_Param r ''stationID'')) = Inr streams \<and> strings_TrimSpace streams \<noteq> []
     then 200 else 500)"
proof -
  have x: "is_ok (xml_Unmarshal None f body) = is_ok (xml_Unmarshal None g body)"
    for f :: "xattrs \<Rightarrow> xml list \<Rightarrow> 'a" and g :: "xattrs \<Rightarrow> xml list \<Rightarrow> 'b" and body
    by (auto simp: xml_Unmarshal_def split: option.splits xml.splits)
  have "xml_Unmarshal None decode_station body = Inl e \<Longrightarrow> \<not> is_ok (xml_Unmarshal None (\<lambda>as cs. ()) body)"
    "xml_Unmarshal None decode_station body = Inr v \<Longrightarrow> is_ok (xml_Unmarshal None (\<lambda>as cs. ()) body)" for body e v
    using x [of decode_station body "\<lambda>as cs. ()"] by auto
  then show ?thesis
    by (auto simp: handleTuneInPlayback_def TuneInPlayback_def status_reply no_lines Let_def
        split: sum.splits)
qed

section \<open>The link of an episode to itself\<close>

text \<open>What a client sends that follows the link: the part after the question mark is the query.\<close>

definition follow :: "string \<Rightarrow> string" where
  "follow href = drop 1 (dropWhile (\<lambda>c. c \<noteq> CHR ''?'') href)"

lemma Encode_chars: "c \<in> set (b64_EncodeToString e s) \<Longrightarrow> c = CHR ''='' \<or> b64_val e c \<noteq> None"
  using b64_groups_chars [OF b64_groups_Encode] .

lemma Encode_plain:
  "c \<in> set (b64_EncodeToString e s) \<Longrightarrow> c \<notin> {CHR ''%'', CHR ''&'', CHR '';'', CHR ''?''}"
  using Encode_chars [of c e s]
  by (cases e) (auto simp: b64_val_def b64_last_def is_digit_def)

lemma unescape_plus:
  "CHR ''%'' \<notin> set s \<Longrightarrow> url_unescape s = Some (map (\<lambda>c. if c = CHR ''+'' then CHR '' '' else c) s)"
  by (induction s) auto

lemma query_of_plain:
  assumes "\<And>c. c \<in> set v \<Longrightarrow> c \<notin> {CHR ''%'', CHR ''&'', CHR '';''}"
  shows "query_Get (url_Query (''encoded_name='' @ v)) ''encoded_name'' = map (\<lambda>c. if c = CHR ''+'' then CHR '' '' else c) v"
proof -
  have v: "CHR ''%'' \<notin> set v" using assms by blast
  have "split_char CHR ''&'' (''encoded_name='' @ v) = [''encoded_name='' @ v]"
    using assms by (intro split_char_free) auto
  moreover have "parse_param (''encoded_name='' @ v) = [(''encoded_name'', map (\<lambda>c. if c = CHR ''+'' then CHR '' '' else c) v)]"
    using assms unescape_plus [OF v] by (auto simp: parse_param_def)
  ultimately show ?thesis by (simp add: url_Query_def query_Get_def)
qed


end
