(* ===== verification/Example_Bmx.thy ===== *)
theory Example_Bmx
  imports Bmx_Laws
begin

text \<open>Concrete requests to the BMX service.\<close>

section \<open>A station with two streams\<close>

definition ex_urls :: "string list" where
  "ex_urls = [''http://a/1'', ''http://a/2'']"

definition ex_tunein :: "string \<Rightarrow> string result" where
  "ex_tunein url = (if url = TuneInDescribe ''s1'' then Inr ''<opml/>''
     else if url = TuneInStream ''s1'' then Inr (url_list [CHR 0x0D, CHR 0x0A] ex_urls) else Inl (External ''offline''))"

lemma ex_opml: "xml_Unmarshal None decode_station ''<opml/>'' = Inr \<lparr>st_Name = [], st_Logo = []\<rparr>"
  by code_simp

lemma ex_plain_urls: "\<forall>u \<in> set ex_urls. plain_url u"
  by (simp add: ex_urls_def plain_url_def)

lemma ex_station_list: "get = ex_tunein \<Longrightarrow> get (TuneInStream ''s1'') = Inr (url_list ([CHR 0x0D] @ [CHR 0x0A]) ex_urls)"
  by (simp add: ex_tunein_def TuneInDescribe_def TuneInStream_def)

lemma ex_station: "\<exists>p. TuneInPlayback ex_tunein ''s1'' = Inr p"
proof -
  have "ex_tunein (TuneInDescribe ''s1'') = Inr ''<opml/>''" by (simp add: ex_tunein_def)
  moreover have "hd (stream_lines (url_list [CHR 0x0D, CHR 0x0A] ex_urls)) \<noteq> []"
    using stream_lines_list [of "[CHR 0x0D, CHR 0x0A]" "[CHR 0x0D]" "[''http://a/1'']" "''http://a/2''"] ex_plain_urls
    by (simp add: ex_urls_def)
  ultimately show ?thesis
    using ex_station_list [OF refl] by (simp add: TuneInPlayback_def ex_opml Let_def)
qed

theorem streams_of_station_witness:
  "\<exists>p. TuneInPlayback ex_tunein ''s1'' = Inr p \<and> map sm_StreamUrl (au_Streams (pr_Audio p)) = [''http://a/1'', ''http://a/2'']
    \<and> au_StreamUrl (pr_Audio p) = ''http://a/1'' @ [CHR 0x0D]"
proof -
  obtain p where p: "TuneInPlayback ex_tunein ''s1'' = Inr p" using ex_station by blast
  from streams_of_station [OF disjI1 [OF p] ex_station_list [OF refl] _ _ ex_plain_urls] p show ?thesis
    by (simp add: ex_urls_def)
qed

theorem links_name_the_station_witness:
  "\<exists>p l f. TuneInPlayback ex_tunein ''s1'' = Inr p \<and> pr_Links p = Some l \<and> lk_BmxFavorite l = Some f
    \<and> ln_Href f = ''/v1/favorite/s1''"
proof -
  obtain p where p: "TuneInPlayback ex_tunein ''s1'' = Inr p" using ex_station by blast
  from links_name_the_station [OF p] p show ?thesis by auto
qed

section \<open>Requests\<close>

definition ex_bmx_request :: "string \<Rightarrow> string \<Rightarrow> string \<Rightarrow> request" where
  "ex_bmx_request k v query = \<lparr>rq_Path = [], rq_RawQuery = query, rq_Param = (\<lambda>p. if p = k then v else []),
     rq_Header = (\<lambda>_. []), rq_Body = Inr []\<rparr>"

definition ex_custom :: json where
  "ex_custom = JObject [(''streamUrl'', JString ''http://a/1''), (''imageUrl'', JString []), (''name'', JString ''A'')]"

theorem custom_stream_plays_witness:
  "json_parse (rs_Body (handleOrionPlayback (\<lambda>_. [])
      (ex_bmx_request ''data'' (b64_EncodeToString StdEncoding (json_Encode ex_custom)) [])))
    = Some (custom_answer ''http://a/1'' [] ''A'')"
proof -
  have "json_ok max_nesting ex_custom" by (simp add: ex_custom_def nesting)
  from json_parse_Encode [OF this]
  have "json_parse (json_Encode ex_custom)
      = Some (JObject [(''streamUrl'', JString ''http://a/1''), (''imageUrl'', JString []), (''name'', JString ''A'')])"
    by (simp add: ex_custom_def ascii_text_def)
  from custom_stream_plays [OF this] show ?thesis by (simp add: ex_bmx_request_def)
qed

text \<open>The name is two bytes whose encoding contains a plus sign in the standard alphabet.\<close>

definition ex_name :: string where "ex_name = [CHR 0xFB, CHR 0xEF]"


end
