(* ===== verification/Go_Float.thy ===== *)
theory Go_Float
  imports Go_JSON
begin

text \<open>
  A number of a JSON document that passes through the program as an \<open>interface{}\<close>: \<open>strconv.ParseFloat\<close> gives the
  nearest \<open>float64\<close> (\<open>None\<close> when there is none), and the encoder prints the shortest decimal that is read as the
  same \<open>float64\<close>.  A \<open>float64\<close> is a number \<open>m * 2 ^ k\<close>; decimals are fractions of natural numbers.
\<close>

section \<open>The nearest number\<close>

fun bit_length :: "nat \<Rightarrow> nat" where
  "bit_length n = (if n = 0 then 0 else Suc (bit_length (n div 2)))"

declare bit_length.simps [simp del]

definition round_half_even :: "nat \<Rightarrow> nat \<Rightarrow> nat" where
  "round_half_even p q =
     (let d = p div q; r = p mod q in if 2 * r < q \<or> (2 * r = q \<and> even d) then d else Suc d)"

text \<open>The fraction \<open>p / q\<close> divided by \<open>b ^ k\<close>.\<close>

definition scale_down :: "nat \<Rightarrow> int \<Rightarrow> nat \<times> nat \<Rightarrow> nat \<times> nat" where
  "scale_down b k f = (if k \<ge> 0 then (fst f, snd f * b ^ nat k) else (fst f * b ^ nat (- k), snd f))"

text \<open>The exponent of the largest power of two that is not above \<open>p / q\<close>.\<close>

definition floor_log2 :: "nat \<times> nat \<Rightarrow> int" where
  "floor_log2 f = (let a = int (bit_length (fst f)) - int (bit_length (snd f)); (p, q) = scale_down 2 a f
     in if p \<ge> q then a else a - 1)"

definition nearest_float :: "nat \<times> nat \<Rightarrow> (nat \<times> int) option" where
  "nearest_float f =
     (if fst f = 0 then Some (0, 0)
      else let k = max (- 1074) (floor_log2 f - 52);
               (p, q) = scale_down 2 k f;
               n = round_half_even p q;
               (m, e) = (if n = 2 ^ 53 then (2 ^ 52, k + 1) else (n, k))
           in if e > 971 then None else Some (m, e))"

section \<open>The shortest decimal\<close>

definition float_value :: "nat \<times> int \<Rightarrow> nat \<times> nat" where
  "float_value x = scale_down 2 (- snd x) (fst x, 1)"

text \<open>The position of the decimal point: \<open>p / q\<close> is \<open>0.d... * 10 ^ point\<close>, with \<open>d\<close> not 0.\<close>

definition decimal_point :: "nat \<times> nat \<Rightarrow> int" where
  "decimal_point f =
     (if fst f \<ge> snd f then int (length (dec_digits (fst f div snd f)))
      else case find_first (\<lambda>j. fst f * 10 ^ j \<ge> snd f) [0..<400] of Some j \<Rightarrow> 1 - int j | None \<Rightarrow> 0)"

text \<open>With \<open>n\<close> digits: the nearest decimal, or the one on the other side, if it is read as the number.\<close>

definition decimal_of :: "nat \<times> int \<Rightarrow> nat \<Rightarrow> (nat \<times> int) option" where
  "decimal_of x n =
     (let f = float_value x; e = decimal_point f - int n; (p, q) = scale_down 10 e f;
          c = round_half_even p q; d = (if c = p div q then Suc c else p div q);
          reads = (\<lambda>c. nearest_float (scale_down 10 (- e) (c, 1)) = Some x)
      in if reads c then Some (c, e) else if reads d then Some (d, e) else None)"

definition shortest_decimal :: "nat \<times> int \<Rightarrow> nat \<times> int" where
  "shortest_decimal x = (case find_first (\<lambda>n. decimal_of x n \<noteq> None) [1..<18] of
      Some n \<Rightarrow> the (decimal_of x n) | None \<Rightarrow> (0, 0))"

section \<open>Texts\<close>

text \<open>A literal: its sign, its digits as a number, and the power of ten.\<close>

definition exponent_of :: "string \<Rightarrow> int" where
  "exponent_of s = (case s of [] \<Rightarrow> 0 | _ # t \<Rightarrow>
     (if strings_HasPrefix t ''-'' then - int (foldl (\<lambda>n c. 10 * n + digit_val c) 0 (drop 1 t))
      else int (foldl (\<lambda>n c. 10 * n + digit_val c) 0 (if strings_HasPrefix t ''+'' then drop 1 t else t))))"

definition number_parts :: "string \<Rightarrow> bool \<times> nat \<times> int" where
  "number_parts s =
     (let neg = strings_HasPrefix s ''-''; s0 = (if neg then drop 1 s else s);
          i = takeWhile is_digit s0; s1 = dropWhile is_digit s0;
          f = (if strings_HasPrefix s1 ''.'' then takeWhile is_digit (drop 1 s1) else []);
          s2 = (if strings_HasPrefix s1 ''.'' then dropWhile is_digit (drop 1 s1) else s1)
      in (neg, foldl (\<lambda>n c. 10 * n + digit_val c) 0 (i @ f), exponent_of s2 - int (length f)))"

text \<open>Digits \<open>ds\<close> with the point at \<open>p\<close>, without and with an exponent.\<close>

definition plain_decimal :: "string \<Rightarrow> int \<Rightarrow> string" where
  "plain_decimal ds p =
     (if p \<le> 0 then ''0.'' @ replicate (nat (- p)) CHR ''0'' @ ds
      else if nat p \<ge> length ds then ds @ replicate (nat p - length ds) CHR ''0''
      else take (nat p) ds @ ''.'' @ drop (nat p) ds)"

definition scientific :: "string \<Rightarrow> int \<Rightarrow> string" where
  "scientific ds p =
     take 1 ds @ (if length ds > 1 then ''.'' @ drop 1 ds else []) @ ''e'' @ (if p - 1 < 0 then ''-'' else ''+'')
     @ dec_digits (nat \<bar>p - 1\<bar>)"

definition float_text :: "nat \<times> int \<Rightarrow> string" where
  "float_text x =
     (if fst x = 0 then ''0''
      else let (c, e) = shortest_decimal x; all = dec_digits c;
               ds = rev (dropWhile (\<lambda>c. c = CHR ''0'') (rev all)); p = e + int (length all)
           in if p < - 5 \<or> p > 21 then scientific ds p else plain_decimal ds p)"

definition json_float :: "string \<Rightarrow> string option" where
  "json_float s =
     (let (neg, m, e) = number_parts s in
      map_option (\<lambda>x. (if neg then ''-'' else []) @ float_text x) (nearest_float (scale_down 10 (- e) (m, 1))))"

end
