(* ===== verification/JSON_Indent.thy ===== *)
theory JSON_Indent
  imports JSON_Roundtrip
begin

text \<open>
  \<open>json.MarshalIndent(v, "", "  ")\<close>, and that a parser reads the same value from the indented text as from the
  compact one.
\<close>

definition json_newline :: "nat \<Rightarrow> string" where
  "json_newline d = CHR 0x0A # concat (replicate d ''  '')"

fun json_indent :: "nat \<Rightarrow> json \<Rightarrow> string" where
  "json_indent d (JArray vs) =
     ''['' @ join_comma (map (\<lambda>v. json_newline (Suc d) @ json_indent (Suc d) v) vs)
     @ (if vs = [] then [] else json_newline d) @ '']''"
| "json_indent d (JObject es) =
     ''{'' @ join_comma (map (\<lambda>(k, v). json_newline (Suc d) @ json_string k @ '': '' @ json_indent (Suc d) v) es)
     @ (if es = [] then [] else json_newline d) @ ''}''"
| "json_indent d v = json_text v"

definition json_MarshalIndent :: "json \<Rightarrow> string" where
  "json_MarshalIndent v = json_indent 0 v"

lemma newline_space: "\<forall>x \<in> set (json_newline d). json_space x"
  by (auto simp: json_newline_def json_space_def)

lemma skip_newline [simp]: "skip_ws (json_newline d @ s) = skip_ws s"
  using newline_space [of d] by (simp add: skip_ws_def)

lemma newline_end [simp]: "value_end (json_newline d @ s)"
  by (simp add: json_newline_def)

lemma indent_hd:
  assumes "json_ok d v"
  obtains c t where "json_indent k v = c # t" "\<not> json_space c" "c \<notin> {CHR '']'', CHR ''}'', CHR '',''}"
proof -
  have "\<exists>c t. json_text v = c # t \<and> \<not> json_space c \<and> c \<notin> {CHR '']'', CHR ''}'', CHR '',''}"
    using text_hd [OF assms] by metis
  then have "\<exists>c t. json_indent k v = c # t \<and> \<not> json_space c \<and> c \<notin> {CHR '']'', CHR ''}'', CHR '',''}"
    by (cases v) simp_all
  then show ?thesis using that by blast
qed

lemma skip_indent: "json_ok d v \<Longrightarrow> skip_ws (json_indent k v @ r) = json_indent k v @ r"
  by (erule indent_hd [where k = k]) (simp add: skip_ws_def)

lemma skip_blank: "skip_ws (CHR '' '' # s) = skip_ws s"
  by (simp add: skip_ws_def json_space_def)

lemma closing: "close \<in> {CHR '']'', CHR ''}''} \<Longrightarrow>
    value_end ((if b then [] else json_newline d) @ close # r)
    \<and> skip_ws ((if b then [] else json_newline d) @ close # r) = close # r"
  by auto

text \<open>An indented value is read back, whatever may follow it.\<close>

theorem json_value_indent:
  "json_ok d v \<Longrightarrow> value_end r \<Longrightarrow> json_value d (json_indent k v @ r) = Some (json_clean v, r)"
proof (induction d v arbitrary: r k rule: json_ok.induct)
  case (2 d vs)
  let ?txt = "\<lambda>v. json_newline (Suc k) @ json_indent (Suc k) v"
  have "json_many (json_value d) CHR '']''
      (join_comma (map ?txt vs) @ (if vs = [] then [] else json_newline k) @ CHR '']'' # r) = Some (map json_clean vs, r)"
  proof (rule json_many_read)
    fix v q assume v: "v \<in> set vs" "value_end q"
    with 2 have "json_ok d v" by auto
    with "2.IH" [OF v(1) _ v(2)] skip_indent show "json_value d (skip_ws (?txt v @ q)) = Some (json_clean v, q)" by auto
  next
    fix v assume "v \<in> set vs"
    with 2 have "json_ok d v" by auto
    then show "\<exists>w c t. ?txt v = w @ c # t \<and> (\<forall>x \<in> set w. json_space x) \<and> \<not> json_space c \<and> c \<noteq> CHR '']''"
      by (rule indent_hd [where k = "Suc k"]) (use newline_space in auto)
  qed (use closing [of "CHR '']''" "vs = []" k r] in auto)
  then show ?case by simp
next
  case (3 d es)
  let ?txt = "\<lambda>(k', v). json_newline (Suc k) @ json_string k' @ '': '' @ json_indent (Suc k) v"
  have "json_many (json_entry (json_value d)) CHR ''}''
      (join_comma (map ?txt es) @ (if es = [] then [] else json_newline k) @ CHR ''}'' # r)
      = Some (map (\<lambda>(k, v). (utf8_clean k, json_clean v)) es, r)"
  proof (rule json_many_read)
    fix e q assume e: "e \<in> set es" "value_end q"
    obtain k' v where kv: "e = (k', v)" by force
    with 3 e have ok: "json_ok d v" by auto
    with "3.IH" [OF e(1) _ e(2)] kv have "json_value d (json_indent (Suc k) v @ q) = Some (json_clean v, q)" by auto
    with skip_indent [OF ok] show "json_entry (json_value d) (skip_ws (?txt e @ q))
        = Some (case e of (k, v) \<Rightarrow> (utf8_clean k, json_clean v), q)"
      by (simp add: kv json_entry_def json_string_def json_chars_escape skip_blank)
  next
    fix e assume "e \<in> set es"
    show "\<exists>w c t. ?txt e = w @ c # t \<and> (\<forall>x \<in> set w. json_space x) \<and> \<not> json_space c \<and> c \<noteq> CHR ''}''"
      using newline_space [of "Suc k"]
      by - (cases e, intro exI [of _ "json_newline (Suc k)"], simp add: json_string_def)
  qed (use closing [of "CHR ''}''" "es = []" k r] in auto)
  then show ?case by simp
next
  case (1 d n)
  then show ?case using json_value_text [of d "JNum n" r] by simp
qed (auto simp: json_value_scalar json_scalar_def json_string_def json_chars_escape)

theorem json_parse_MarshalIndent:
  "json_ok max_nesting v \<Longrightarrow> json_parse (json_MarshalIndent v) = Some (json_clean v)"
  using json_value_indent [of max_nesting v "[]" 0] skip_indent [of max_nesting v 0 "[]"]
  by (simp add: json_parse_def json_MarshalIndent_def)

end
