(* ===== verification/Marge.thy ===== *)
theory Marge
  imports Datastore Go_Time
begin

text \<open>
  \<open>internal/marge/marge.go\<close>: the documents of the streaming service built from the store, and the
  operations of speakers on it: updating a preset, recording what was played, adding and removing
  devices.  The documents are built as the code builds them, by concatenating texts.
\<close>

section \<open>Source providers\<close>

definition DateStr :: string where "DateStr = ''2012-09-19T12:43:00.000+00:00''"

definition SourceProviders :: "SourceProvider list" where
  "SourceProviders = map (\<lambda>(i, name). \<lparr>sp_ID = int i + 1, sp_CreatedOn = DateStr, sp_Name = name,
     sp_UpdatedOn = DateStr\<rparr>) (zip [0..<length Providers] Providers)"

definition encode_provider :: "SourceProvider \<Rightarrow> mtree" where
  "encode_provider p = MElems ''sourceProvider'' [(''id'', strconv_Itoa (sp_ID p))]
     [MText ''createdOn'' [] (sp_CreatedOn p), MText ''name'' [] (sp_Name p), MText ''updatedOn'' [] (sp_UpdatedOn p)]"

definition SourceProvidersToXML :: string where
  "SourceProvidersToXML = xml_Header @
     xml_MarshalIndent four_spaces (MElems ''sourceProviders'' [] (map encode_provider SourceProviders))"

text \<open>The number of a source's provider, 0 when it is unknown.\<close>

definition provider_id :: "ConfiguredSource \<Rightarrow> int" where
  "provider_id cs = (case find_index (\<lambda>p. p = cs_SourceKeyType cs) Providers of None \<Rightarrow> 0 | Some i \<Rightarrow> int i + 1)"

definition source_tree :: "ConfiguredSource \<Rightarrow> mtree" where
  "source_tree cs = MElems ''source'' [(''id'', cs_ID cs), (''type'', ''Audio'')]
     [MText ''createdOn'' [] DateStr, MText ''credential'' [(''type'', ''token'')] (cs_Secret cs),
      MText ''name'' [] (cs_SourceKeyAccount cs), MText ''sourceproviderid'' [] (strconv_Itoa (provider_id cs)),
      MText ''sourcename'' [] (cs_DisplayName cs), MText ''sourcesettings'' [] [],
      MText ''updatedOn'' [] DateStr, MText ''username'' [] (cs_SourceKeyAccount cs)]"

definition ConfiguredSourceToXML :: "ConfiguredSource \<Rightarrow> string" where
  "ConfiguredSourceToXML cs = xml_Marshal (source_tree cs)"

definition GetConfiguredSourceXML :: "ConfiguredSource \<Rightarrow> string" where
  "GetConfiguredSourceXML cs =
     ''<source id=\"'' @ cs_ID cs @ ''\" type=\"Audio\"><createdOn>'' @ DateStr
     @ ''</createdOn><credential type=\"token\">'' @ cs_Secret cs @ ''</credential><name>'' @ cs_SourceKeyAccount cs
     @ ''</name><sourceproviderid>'' @ strconv_Itoa (provider_id cs) @ ''</sourceproviderid><sourcename>''
     @ cs_DisplayName cs @ ''</sourcename><sourcesettings></sourcesettings><updatedOn>'' @ DateStr
     @ ''</updatedOn><username>'' @ cs_SourceKeyAccount cs @ ''</username></source>''"

section \<open>Presets and recents\<close>

text \<open>An element with a text, as the format strings write it.\<close>

definition elem_text :: "string \<Rightarrow> string \<Rightarrow> string" where
  "elem_text n v = ''<'' @ n @ ''>'' @ v @ ''</'' @ n @ ''>''"

text \<open>The source of a content item: the first with its id, or with its type and account.\<close>

definition item_source :: "('a ContentItem_scheme) \<Rightarrow> ConfiguredSource list \<Rightarrow> ConfiguredSource option" where
  "item_source c ss = find_first (\<lambda>s. cs_ID s = ci_SourceID c
     \<or> (cs_SourceKeyType s = ci_Source c \<and> cs_SourceKeyAccount s = ci_SourceAccount c)) ss"

definition source_part :: "('a ContentItem_scheme) \<Rightarrow> ConfiguredSource list \<Rightarrow> string" where
  "source_part c ss = (case item_source c ss of None \<Rightarrow> [] | Some s \<Rightarrow> GetConfiguredSourceXML s)"

definition preset_text :: "Preset \<Rightarrow> string \<Rightarrow> string" where
  "preset_text p source =
     ''<preset buttonNumber=\"'' @ ci_ID p @ ''\">'' @ elem_text ''containerArt'' (p_ContainerArt p)
     @ elem_text ''contentItemType'' (ci_Type p) @ elem_text ''createdOn'' DateStr
     @ elem_text ''location'' (ci_Location p) @ elem_text ''name'' (ci_Name p) @ source
     @ elem_text ''updatedOn'' DateStr @ ''</preset>''"

definition PresetsToXML :: "DataStore \<Rightarrow> world \<Rightarrow> string \<Rightarrow> string result" where
  "PresetsToXML ds w account =
     (case GetPresets ds w account of Inl e \<Rightarrow> Inl e
      | Inr presets \<Rightarrow>
        (case GetConfiguredSources ds w account of Inl e \<Rightarrow> Inl e
         | Inr sources \<Rightarrow> Inr (xml_Header @ ''<presets>''
             @ concat (map (\<lambda>p. preset_text p (source_part p sources)) presets) @ ''</presets>'')))"

definition recent_text :: "Recent \<Rightarrow> string \<Rightarrow> string \<Rightarrow> string \<Rightarrow> string" where
  "recent_text r createdOn lastPlayed source =
     ''<recent id=\"'' @ ci_ID r @ ''\">'' @ elem_text ''contentItemType'' (ci_Type r)
     @ elem_text ''createdOn'' createdOn @ elem_text ''lastplayedat'' lastPlayed
     @ elem_text ''location'' (ci_Location r) @ elem_text ''name'' (ci_Name r) @ source
     @ elem_text ''updatedOn'' DateStr @ ''</recent>''"

definition last_played :: "world \<Rightarrow> Recent \<Rightarrow> string" where
  "last_played w r = (case strconv_ParseInt (r_UtcTime r) of
      None \<Rightarrow> [] | Some sec \<Rightarrow> time_Format_RFC3339 (w_zone w) sec)"

definition RecentsToXML :: "DataStore \<Rightarrow> world \<Rightarrow> string \<Rightarrow> string result" where
  "RecentsToXML ds w account =
     (case GetRecents ds w account of Inl e \<Rightarrow> Inl e
      | Inr recents \<Rightarrow>
        (case GetConfiguredSources ds w account of Inl e \<Rightarrow> Inl e
         | Inr sources \<Rightarrow> Inr (xml_Header @ ''<recents>''
             @ concat (map (\<lambda>r. recent_text r DateStr (last_played w r) (source_part r sources)) recents)
             @ ''</recents>'')))"

section \<open>The full account\<close>

definition ProviderSettingsToXML :: "string \<Rightarrow> string" where
  "ProviderSettingsToXML account =
     ''<providerSettings><providerSetting><boseId>'' @ account @ ''</boseId><keyName>ELIGIBLE_FOR_TRIAL</keyName>''
     @ ''<value>true</value><providerId>14</providerId></providerSetting></providerSettings>''"

definition standalone_header :: string where
  "standalone_header = ''<?xml version=\"1.0\" encoding=\"UTF-8\" standalone=\"yes\"?>''"

definition SoftwareUpdateToXML :: string where
  "SoftwareUpdateToXML = standalone_header
     @ ''<software_update><softwareUpdateLocation></softwareUpdateLocation></software_update>''"

text \<open>A document without its header, and nothing in place of an error.\<close>

definition strip_header :: "string result \<Rightarrow> string" where
  "strip_header r = (case r of Inl _ \<Rightarrow> []
     | Inr t \<Rightarrow> if length t > length xml_Header then drop (length xml_Header) t else [])"

definition device_text :: "DataStore \<Rightarrow> world \<Rightarrow> string \<Rightarrow> string \<Rightarrow> DeviceInfo \<Rightarrow> string" where
  "device_text ds w account deviceID info =
     ''<device deviceid=\"'' @ deviceID @ ''\"><attachedProduct product_code=\"'' @ di_ProductCode info
     @ ''\"><components/><productlabel>'' @ di_ProductCode info @ ''</productlabel><serialnumber>''
     @ di_ProductSerialNumber info @ ''</serialnumber></attachedProduct>''
     @ elem_text ''createdOn'' DateStr @ elem_text ''firmwareVersion'' (di_FirmwareVersion info)
     @ elem_text ''ipaddress'' (di_IPAddress info) @ elem_text ''name'' (di_Name info)
     @ strip_header (PresetsToXML ds w account) @ strip_header (RecentsToXML ds w account)
     @ elem_text ''serialnumber'' (di_DeviceSerialNumber info) @ elem_text ''updatedOn'' DateStr @ ''</device>''"

text \<open>One round of the loop over the directory entries: the text so far, and the last device id.\<close>

definition account_entry ::
  "DataStore \<Rightarrow> world \<Rightarrow> string \<Rightarrow> string \<times> string \<Rightarrow> string \<times> bool \<Rightarrow> string \<times> string" where
  "account_entry ds w account st entry =
     (if \<not> snd entry then st
      else let deviceID = fst entry in
        (case GetDeviceInfo ds w account deviceID of
           Inl _ \<Rightarrow> (fst st, deviceID)
         | Inr info \<Rightarrow> (fst st @ device_text ds w account deviceID info, deviceID)))"

definition AccountFullToXML :: "DataStore \<Rightarrow> world \<Rightarrow> string \<Rightarrow> string result" where
  "AccountFullToXML ds w account =
     (case os_ReadDir w (AccountDevicesDir ds account) of Inl e \<Rightarrow> Inl e
      | Inr entries \<Rightarrow>
        (let res0 = standalone_header @ ''<account id=\"'' @ account
               @ ''\"><accountStatus>OK</accountStatus><devices>'';
             (res1, lastDeviceID) = foldl (account_entry ds w account) (res0, []) entries;
             res2 = res1 @ ''</devices><mode>global</mode><preferredLanguage>en</preferredLanguage>''
               @ ProviderSettingsToXML account;
             sources = (case GetConfiguredSources ds w account of Inl _ \<Rightarrow> [] | Inr ss \<Rightarrow> ss);
             res3 = (if lastDeviceID \<noteq> []
               then res2 @ ''<sources>'' @ concat (map GetConfiguredSourceXML sources) @ ''</sources>'' else res2)
         in Inr (res3 @ ''</account>'')))"

section \<open>Updating a preset\<close>

text \<open>The elements a speaker posts for a preset, a recent and a device.\<close>

record new_item =
  ni_Name :: string
  ni_SourceID :: string
  ni_Location :: string
  ni_ContentItemType :: string
  ni_ContainerArt :: string
  ni_LastPlayedAt :: string

definition zero_item :: new_item where
  "zero_item = \<lparr>ni_Name = [], ni_SourceID = [], ni_Location = [], ni_ContentItemType = [],
     ni_ContainerArt = [], ni_LastPlayedAt = []\<rparr>"

definition preset_elem_child :: "string \<Rightarrow> xattrs \<Rightarrow> xml list \<Rightarrow> new_item \<Rightarrow> new_item" where
  "preset_elem_child l as cs x =
     (if l = ''name'' then x\<lparr>ni_Name := chardata cs\<rparr>
      else if l = ''sourceid'' then x\<lparr>ni_SourceID := chardata cs\<rparr>
      else if l = ''location'' then x\<lparr>ni_Location := chardata cs\<rparr>
      else if l = ''contentItemType'' then x\<lparr>ni_ContentItemType := chardata cs\<rparr>
      else if l = ''containerArt'' then x\<lparr>ni_ContainerArt := chardata cs\<rparr>
      else x)"

definition decode_new_preset :: "string \<Rightarrow> new_item result" where
  "decode_new_preset = xml_Unmarshal None (\<lambda>as cs. fold_children preset_elem_child cs zero_item)"

definition recent_elem_child :: "string \<Rightarrow> xattrs \<Rightarrow> xml list \<Rightarrow> new_item \<Rightarrow> new_item" where
  "recent_elem_child l as cs x =
     (if l = ''name'' then x\<lparr>ni_Name := chardata cs\<rparr>
      else if l = ''sourceid'' then x\<lparr>ni_SourceID := chardata cs\<rparr>
      else if l = ''location'' then x\<lparr>ni_Location := chardata cs\<rparr>
      else if l = ''contentItemType'' then x\<lparr>ni_ContentItemType := chardata cs\<rparr>
      else if l = ''lastplayedat'' then x\<lparr>ni_LastPlayedAt := chardata cs\<rparr>
      else x)"

definition decode_new_recent :: "string \<Rightarrow> new_item result" where
  "decode_new_recent = xml_Unmarshal None (\<lambda>as cs. fold_children recent_elem_child cs zero_item)"

definition source_by_id :: "string \<Rightarrow> ConfiguredSource list \<Rightarrow> ConfiguredSource option" where
  "source_by_id i ss = find_first (\<lambda>s. cs_ID s = i) ss"

definition unix_of_nano :: "int \<Rightarrow> int" where "unix_of_nano t = t div 1000000000"

definition new_preset :: "int \<Rightarrow> new_item \<Rightarrow> ConfiguredSource \<Rightarrow> string \<Rightarrow> Preset" where
  "new_preset presetNumber el src nowStr =
     \<lparr>ci_ID = strconv_Itoa presetNumber, ci_Name = ni_Name el, ci_Source = cs_SourceKeyType src,
      ci_Type = ni_ContentItemType el, ci_Location = ni_Location el, ci_SourceAccount = cs_SourceKeyAccount src,
      ci_SourceID = ni_SourceID el, ci_IsPresetable = [], p_ContainerArt = ni_ContainerArt el,
      p_CreatedOn = nowStr, p_UpdatedOn = nowStr\<rparr>"

text \<open>
  The list is extended with empty presets up to the number and the entry at index
  \<open>presetNumber - 1\<close> is replaced; an index outside the list panics.
\<close>

definition put_preset :: "int \<Rightarrow> Preset \<Rightarrow> Preset list \<Rightarrow> Preset list outcome" where
  "put_preset presetNumber p presets =
     (let padded = presets @ replicate (nat presetNumber - length presets) zero_Preset;
          i = wrap64 (presetNumber - 1)
      in if 0 \<le> i \<and> i < int (length padded) then Done (padded[nat i := p])
         else Panicked ''index out of range'')"

definition UpdatePreset ::
  "DataStore \<Rightarrow> world \<Rightarrow> string \<Rightarrow> string \<Rightarrow> int \<Rightarrow> string \<Rightarrow> string result outcome \<times> world" where
  "UpdatePreset ds w account device presetNumber sourceXML =
     (case GetConfiguredSources ds w account of
        Inl e \<Rightarrow> (Done (Inl e), w)
      | Inr sources \<Rightarrow>
     (case GetPresets ds w account of
        Inl e \<Rightarrow> (Done (Inl e), w)
      | Inr presets \<Rightarrow>
     (case decode_new_preset sourceXML of
        Inl e \<Rightarrow> (Done (Inl e), w)
      | Inr el \<Rightarrow>
     (case source_by_id (ni_SourceID el) sources of
        None \<Rightarrow> (Done (Inl (Errorf ''invalid account/source'')), w)
      | Some matchingSrc \<Rightarrow>
         (let (now, w1) = time_Now w;
              presetObj = new_preset presetNumber el matchingSrc (strconv_Itoa (unix_of_nano now))
          in case put_preset presetNumber presetObj presets of
               Panicked m \<Rightarrow> (Panicked m, w1)
             | Done presets' \<Rightarrow>
                 (case SavePresets ds w1 account presets' of
                    (Inl e, w2) \<Rightarrow> (Done (Inl e), w2)
                  | (Inr _, w2) \<Rightarrow>
                      (Done (Inr (xml_Header @ preset_text presetObj (GetConfiguredSourceXML matchingSrc))), w2)))))))"

section \<open>Recording what was played\<close>

text \<open>
  The slice of recents lies in an array that the inner \<open>append(recents[:i], recents[i+1:]...)\<close>
  changes in place: the entries after \<open>i\<close> move down by one and the last slot keeps its value.
  The pointer \<open>recentObj\<close> stays at slot \<open>i\<close>.  The language does not say whether the operand
  \<open>*recentObj\<close> of the outer \<open>append\<close> is read before or after that call, so the order is a parameter.
\<close>

datatype operand_order = LeftFirst | CallFirst

definition shifted :: "nat \<Rightarrow> 'a list \<Rightarrow> 'a list" where
  "shifted i arr = take i arr @ drop (Suc i) arr @ [last arr]"

definition move_to_front :: "operand_order \<Rightarrow> nat \<Rightarrow> 'a list \<Rightarrow> 'a list" where
  "move_to_front ord i arr =
     (let arr' = shifted i arr; rest = take (length arr - 1) arr'
      in (case ord of LeftFirst \<Rightarrow> arr ! i | CallFirst \<Rightarrow> arr' ! i) # rest)"

definition same_item :: "ConfiguredSource \<Rightarrow> new_item \<Rightarrow> Recent \<Rightarrow> bool" where
  "same_item src el r \<longleftrightarrow> ci_Source r = cs_SourceKeyType src \<and> ci_Location r = ni_Location el
     \<and> ci_SourceAccount r = cs_SourceKeyAccount src"

definition max_id :: "Recent list \<Rightarrow> int" where
  "max_id rs = foldl (\<lambda>m r. case strconv_Atoi (ci_ID r) of None \<Rightarrow> m | Some i \<Rightarrow> if i > m then i else m) 0 rs"

definition new_recent :: "string \<Rightarrow> new_item \<Rightarrow> ConfiguredSource \<Rightarrow> int \<Rightarrow> Recent list \<Rightarrow> Recent" where
  "new_recent device el src utcTime rs =
     \<lparr>ci_ID = strconv_Itoa (wrap64 (max_id rs + 1)), ci_Name = ni_Name el, ci_Source = cs_SourceKeyType src,
      ci_Type = ni_ContentItemType el, ci_Location = ni_Location el, ci_SourceAccount = cs_SourceKeyAccount src,
      ci_SourceID = ni_SourceID el, ci_IsPresetable = ''true'', r_DeviceID = device,
      r_UtcTime = strconv_Itoa utcTime, r_ContainerArt = []\<rparr>"

text \<open>The new list, and what \<open>recentObj\<close> points to when the answer is written.\<close>

definition touch_recents ::
  "operand_order \<Rightarrow> string \<Rightarrow> new_item \<Rightarrow> ConfiguredSource \<Rightarrow> int \<Rightarrow> Recent list \<Rightarrow> Recent list \<times> Recent \<times> bool" where
  "touch_recents ord device el src utcTime rs =
     (case find_index (same_item src el) rs of
        Some i \<Rightarrow>
          (let arr = rs[i := (rs ! i)\<lparr>r_UtcTime := strconv_Itoa utcTime\<rparr>]
           in (move_to_front ord i arr, shifted i arr ! i, False))
      | None \<Rightarrow>
          (let r = new_recent device el src utcTime rs; rs' = r # rs
           in (if length rs' > 10 then take 10 rs' else rs', r, True)))"

definition played_at :: "new_item \<Rightarrow> int \<Rightarrow> int" where
  "played_at el now = (if ni_LastPlayedAt el = [] then now
     else case time_Parse_RFC3339 (ni_LastPlayedAt el) of None \<Rightarrow> now | Some t \<Rightarrow> t)"

definition AddRecent ::
  "operand_order \<Rightarrow> DataStore \<Rightarrow> world \<Rightarrow> string \<Rightarrow> string \<Rightarrow> string \<Rightarrow> string result \<times> world" where
  "AddRecent ord ds w account device sourceXML =
     (case GetConfiguredSources ds w account of
        Inl e \<Rightarrow> (Inl e, w)
      | Inr sources \<Rightarrow>
     (case GetRecents ds w account of
        Inl e \<Rightarrow> (Inl e, w)
      | Inr recents \<Rightarrow>
     (case decode_new_recent sourceXML of
        Inl e \<Rightarrow> (Inl e, w)
      | Inr el \<Rightarrow>
     (case source_by_id (ni_SourceID el) sources of
        None \<Rightarrow> (Inl (Errorf ''invalid account/source''), w)
      | Some matchingSrc \<Rightarrow>
         (let (now, w1) = time_Now w;
              utcTime = played_at el (unix_of_nano now);
              (recents', recentObj, created) = touch_recents ord device el matchingSrc utcTime recents;
              (createdOn, w2) = (if created then (let (now2, w2) = time_Now w1 in
                  (time_Format_RFC3339 (w_zone w) (unix_of_nano now2), w2)) else (DateStr, w1))
          in case SaveRecents ds w2 account recents' of
               (Inl e, w3) \<Rightarrow> (Inl e, w3)
             | (Inr _, w3) \<Rightarrow>
                 (Inr (xml_Header @ recent_text recentObj createdOn
                    (time_Format_RFC3339 (w_zone w) utcTime) (GetConfiguredSourceXML matchingSrc)), w3))))))"

section \<open>Devices of an account\<close>

definition decode_new_device :: "string \<Rightarrow> (string \<times> string) result" where
  "decode_new_device = xml_Unmarshal None (\<lambda>as cs.
     (attr_into ''deviceid'' as [], fold_children (\<lambda>l as cs n. if l = ''name'' then chardata cs else n) cs []))"

definition AddDeviceToAccount :: "DataStore \<Rightarrow> world \<Rightarrow> string \<Rightarrow> string \<Rightarrow> string result \<times> world" where
  "AddDeviceToAccount ds w account sourceXML =
     (case decode_new_device sourceXML of
        Inl e \<Rightarrow> (Inl e, w)
      | Inr (deviceID, name) \<Rightarrow>
          (let info = zero_DeviceInfo\<lparr>di_DeviceID := deviceID, di_Name := name\<rparr> in
           case SaveDeviceInfo ds w account deviceID info of
             (Inl e, w1) \<Rightarrow> (Inl e, w1)
           | (Inr _, w1) \<Rightarrow>
               (let (now, w2) = time_Now w1;
                    createdOn = time_Format_RFC3339 (w_zone w) (unix_of_nano now)
                in (Inr (xml_Header @ ''<device deviceid=\"'' @ deviceID @ ''\">'' @ elem_text ''createdOn'' createdOn
                      @ ''<ipaddress></ipaddress>'' @ elem_text ''name'' name
                      @ elem_text ''updatedOn'' createdOn @ ''</device>''), w2))))"

definition RemoveDeviceFromAccount :: "DataStore \<Rightarrow> world \<Rightarrow> string \<Rightarrow> string \<Rightarrow> unit result \<times> world" where
  "RemoveDeviceFromAccount ds w account device = RemoveDevice ds w account device"

end
