(* ===== verification/Stats.thy ===== *)
theory Stats
  imports Handlers_Setup Go_Float JSON_Indent XML_Fields Marge "HOL-Library.AList"
begin

text \<open>
  Statistics of the speakers: \<open>SaveUsageStats\<close> and \<open>SaveErrorStats\<close> of \<open>datastore.go\<close> and the handlers of
  \<open>handlers_stats.go\<close>.  A body is decoded as XML, and if that fails as JSON into the same struct, which keeps
  the fields the XML decoder had set before its error.
\<close>

section \<open>The store\<close>

definition json_of_usage :: "UsageStats \<Rightarrow> json" where
  "json_of_usage s = JObject [(''deviceId'', JString (us_DeviceID s)), (''accountId'', JString (us_AccountID s)),
     (''timestamp'', JString (us_Timestamp s)), (''eventType'', JString (us_EventType s)),
     (''parameters'', json_of_map (us_Parameters s))]"

definition json_of_error :: "ErrorStats \<Rightarrow> json" where
  "json_of_error s = JObject ([(''deviceId'', JString (es_DeviceID s)), (''errorCode'', JString (es_ErrorCode s)),
     (''errorMessage'', JString (es_ErrorMessage s)), (''timestamp'', JString (es_Timestamp s))]
     @ omit_string ''details'' (es_Details s))"

definition stats_dir :: "DataStore \<Rightarrow> string \<Rightarrow> string" where
  "stats_dir ds kind = filepath_Join [DataDir ds, ''stats'', kind]"

definition stats_name :: "int \<Rightarrow> string \<Rightarrow> string" where
  "stats_name nano deviceID = strconv_Itoa (wrap64 nano) @ ''_'' @ deviceID @ ''.json''"

text \<open>The name of the file is the time in nanoseconds and the speaker's id; the error of making the directory is
  not looked at.\<close>

definition save_stats :: "DataStore \<Rightarrow> string \<Rightarrow> string \<Rightarrow> json \<Rightarrow> world \<Rightarrow> unit result \<times> world" where
  "save_stats ds kind deviceID v w =
     (let dir = stats_dir ds kind;
          (_, w1) = os_MkdirAll w dir;
          (now, w2) = time_Now w1;
          path = filepath_Join [dir, stats_name now deviceID]
      in os_WriteFile w2 path (json_MarshalIndent v))"

definition SaveUsageStats :: "DataStore \<Rightarrow> world \<Rightarrow> UsageStats \<Rightarrow> unit result \<times> world" where
  "SaveUsageStats ds w stats = save_stats ds ''usage'' (us_DeviceID stats) (json_of_usage stats) w"

definition SaveErrorStats :: "DataStore \<Rightarrow> world \<Rightarrow> ErrorStats \<Rightarrow> unit result \<times> world" where
  "SaveErrorStats ds w stats = save_stats ds ''error'' (es_DeviceID stats) (json_of_error stats) w"

section \<open>Decoding\<close>

text \<open>The children of the root element that are complete when the XML decoder stops, at the end of the root
  element or at an error.\<close>

function root_children :: "frame list \<Rightarrow> string \<Rightarrow> xml list" where
  "root_children stk s =
     (let open = (case rev stk of [] \<Rightarrow> [] | (_, _, cs) # _ \<Rightarrow> rev cs) in
      case raw_token s of
        None \<Rightarrow> open
      | Some (t, r) \<Rightarrow>
          (case stack_step t stk of
             None \<Rightarrow> open
           | Some (Inl (XElem _ _ cs)) \<Rightarrow> cs
           | Some (Inl (XText _)) \<Rightarrow> []
           | Some (Inr stk') \<Rightarrow> root_children stk' r))"
  by pat_completeness auto
termination by (relation "measure (\<lambda>(stk, s). length s)") (auto dest: raw_token_length)

declare root_children.simps [simp del]

fun elem_named :: "string \<Rightarrow> xml \<Rightarrow> bool" where
  "elem_named n (XElem m _ _) \<longleftrightarrow> snd m = n"
| "elem_named n (XText _) \<longleftrightarrow> False"

definition zero_usage :: UsageStats where
  "zero_usage = \<lparr>us_DeviceID = [], us_AccountID = [], us_Timestamp = [], us_EventType = [], us_Parameters = None\<rparr>"

definition usage_child :: "string \<Rightarrow> xattrs \<Rightarrow> xml list \<Rightarrow> UsageStats \<Rightarrow> UsageStats" where
  "usage_child l as cs x =
     (if l = ''deviceId'' then x\<lparr>us_DeviceID := chardata cs\<rparr>
      else if l = ''accountId'' then x\<lparr>us_AccountID := chardata cs\<rparr>
      else if l = ''timestamp'' then x\<lparr>us_Timestamp := chardata cs\<rparr>
      else if l = ''eventType'' then x\<lparr>us_EventType := chardata cs\<rparr> else x)"

text \<open>The decoder has no rule for a map, so an element \<open>parameters\<close> is an error.\<close>

definition usage_of_xml :: "string \<Rightarrow> bool \<times> UsageStats" where
  "usage_of_xml body =
     (let cs = root_children [] body; known = takeWhile (\<lambda>c. \<not> elem_named ''parameters'' c) cs in
      (parse_xml body \<noteq> None \<and> known = cs, fold_children usage_child known zero_usage))"

text \<open>A value of type \<open>interface{}\<close>: numbers become \<open>float64\<close>, and of entries with the same key the last one counts.\<close>

definition put_entries :: "(string \<times> json) list \<Rightarrow> (string \<times> json) list \<Rightarrow> (string \<times> json) list" where
  "put_entries es m = fold (\<lambda>(k, v). AList.update k v) es m"

fun json_any :: "json \<Rightarrow> json option" where
  "json_any (JNum n) = map_option JNum (json_float n)"
| "json_any (JArray vs) = map_option JArray (those (map json_any vs))"
| "json_any (JObject es) = map_option (\<lambda>vs. JObject (sort_key fst (put_entries (zip (map fst es) vs) [])))
     (those (map (\<lambda>e. json_any (snd e)) es))"
| "json_any v = Some v"

definition params_entry :: "(string \<times> json) list option \<Rightarrow> json \<Rightarrow> (string \<times> json) list option option" where
  "params_entry old v =
     (case v of
        JNull \<Rightarrow> Some None
      | JObject es \<Rightarrow> map_option (\<lambda>vs. Some (put_entries (zip (map fst es) vs) (case old of None \<Rightarrow> [] | Some m \<Rightarrow> m)))
          (those (map (\<lambda>e. json_any (snd e)) es))
      | _ \<Rightarrow> None)"

definition usage_entry :: "string \<times> json \<Rightarrow> UsageStats option \<Rightarrow> UsageStats option" where
  "usage_entry e st = (case st of None \<Rightarrow> None | Some x \<Rightarrow>
     (if EqualFold_ascii ''deviceId'' (fst e) then map_option (\<lambda>s. x\<lparr>us_DeviceID := s\<rparr>) (string_entry (us_DeviceID x) (snd e))
      else if EqualFold_ascii ''accountId'' (fst e) then map_option (\<lambda>s. x\<lparr>us_AccountID := s\<rparr>) (string_entry (us_AccountID x) (snd e))
      else if EqualFold_ascii ''timestamp'' (fst e) then map_option (\<lambda>s. x\<lparr>us_Timestamp := s\<rparr>) (string_entry (us_Timestamp x) (snd e))
      else if EqualFold_ascii ''eventType'' (fst e) then map_option (\<lambda>s. x\<lparr>us_EventType := s\<rparr>) (string_entry (us_EventType x) (snd e))
      else if EqualFold_ascii ''parameters'' (fst e)
        then map_option (\<lambda>m. x\<lparr>us_Parameters := m\<rparr>) (params_entry (us_Parameters x) (snd e))
      else st))"

definition decode_usage :: "string \<Rightarrow> UsageStats option" where
  "decode_usage body = (case usage_of_xml body of (ok, x) \<Rightarrow> if ok then Some x else json_into usage_entry body x)"

definition zero_error :: ErrorStats where
  "zero_error = \<lparr>es_DeviceID = [], es_ErrorCode = [], es_ErrorMessage = [], es_Timestamp = [], es_Details = []\<rparr>"

definition error_child :: "string \<Rightarrow> xattrs \<Rightarrow> xml list \<Rightarrow> ErrorStats \<Rightarrow> ErrorStats" where
  "error_child l as cs x =
     (if l = ''deviceId'' then x\<lparr>es_DeviceID := chardata cs\<rparr>
      else if l = ''errorCode'' then x\<lparr>es_ErrorCode := chardata cs\<rparr>
      else if l = ''errorMessage'' then x\<lparr>es_ErrorMessage := chardata cs\<rparr>
      else if l = ''timestamp'' then x\<lparr>es_Timestamp := chardata cs\<rparr>
      else if l = ''details'' then x\<lparr>es_Details := chardata cs\<rparr> else x)"

definition error_entry :: "string \<times> json \<Rightarrow> ErrorStats option \<Rightarrow> ErrorStats option" where
  "error_entry e st = (case st of None \<Rightarrow> None | Some x \<Rightarrow>
     (if EqualFold_ascii ''deviceId'' (fst e) then map_option (\<lambda>s. x\<lparr>es_DeviceID := s\<rparr>) (string_entry (es_DeviceID x) (snd e))
      else if EqualFold_ascii ''errorCode'' (fst e) then map_option (\<lambda>s. x\<lparr>es_ErrorCode := s\<rparr>) (string_entry (es_ErrorCode x) (snd e))
      else if EqualFold_ascii ''errorMessage'' (fst e) then map_option (\<lambda>s. x\<lparr>es_ErrorMessage := s\<rparr>) (string_entry (es_ErrorMessage x) (snd e))
      else if EqualFold_ascii ''timestamp'' (fst e) then map_option (\<lambda>s. x\<lparr>es_Timestamp := s\<rparr>) (string_entry (es_Timestamp x) (snd e))
      else if EqualFold_ascii ''details'' (fst e) then map_option (\<lambda>s. x\<lparr>es_Details := s\<rparr>) (string_entry (es_Details x) (snd e))
      else st))"

definition decode_error :: "string \<Rightarrow> ErrorStats option" where
  "decode_error body =
     (let x = fold_children error_child (root_children [] body) zero_error in
      if parse_xml body \<noteq> None then Some x else json_into error_entry body x)"

section \<open>Handlers\<close>

text \<open>The event's time is the one in the statistics, or the current one when that is empty.\<close>

definition log_stats :: "DataStore \<Rightarrow> world \<Rightarrow> string \<Rightarrow> string \<Rightarrow> string \<Rightarrow> (string \<times> json) list option \<Rightarrow> DataStore \<times> world" where
  "log_stats ds w deviceID eventType timestamp data =
     (let (now, w1) = time_Now w;
          (timeText, w2) = (if timestamp = [] then
             (let (now', w2) = time_Now w1 in (time_Format_RFC3339 (w_zone w) (unix_of_nano now'), w2)) else (timestamp, w1))
      in (AddDeviceEvent ds deviceID
            \<lparr>de_Type = eventType, de_Time = timeText, de_MonoTime = go_div (wrap64 now) 1000000, de_Data = data\<rparr>, w2))"

definition handleUsageStats :: "DataStore \<Rightarrow> world \<Rightarrow> request \<Rightarrow> response \<times> DataStore \<times> world" where
  "handleUsageStats ds w r =
     (case rq_Body r of
        Inl _ \<Rightarrow> (http_Error ''Failed to read body'' 400 new_response, ds, w)
      | Inr body \<Rightarrow>
          (case decode_usage body of
             None \<Rightarrow> (http_Error ''Invalid stats format'' 400 new_response, ds, w)
           | Some stats \<Rightarrow>
               (case SaveUsageStats ds w stats of
                  (Inl _, w1) \<Rightarrow> (http_Error ''Failed to save usage stats'' 500 new_response, ds, w1)
                | (Inr _, w1) \<Rightarrow>
                    (WriteHeader 200 new_response,
                     log_stats ds w1 (us_DeviceID stats) (us_EventType stats) (us_Timestamp stats) (us_Parameters stats)))))"

definition error_data :: "ErrorStats \<Rightarrow> (string \<times> json) list" where
  "error_data s = [(''errorCode'', JString (es_ErrorCode s)), (''errorMessage'', JString (es_ErrorMessage s)),
     (''details'', JString (es_Details s))]"

definition handleErrorStats :: "DataStore \<Rightarrow> world \<Rightarrow> request \<Rightarrow> response \<times> DataStore \<times> world" where
  "handleErrorStats ds w r =
     (case rq_Body r of
        Inl _ \<Rightarrow> (http_Error ''Failed to read body'' 400 new_response, ds, w)
      | Inr body \<Rightarrow>
          (case decode_error body of
             None \<Rightarrow> (http_Error ''Invalid error stats format'' 400 new_response, ds, w)
           | Some stats \<Rightarrow>
               (case SaveErrorStats ds w stats of
                  (Inl _, w1) \<Rightarrow> (http_Error ''Failed to save error stats'' 500 new_response, ds, w1)
                | (Inr _, w1) \<Rightarrow>
                    (WriteHeader 200 new_response,
                     log_stats ds w1 (es_DeviceID stats) ''device-error'' (es_Timestamp stats) (Some (error_data stats))))))"

end
