(* ===== verification/Go_Float_Laws.thy ===== *)
theory Go_Float_Laws
  imports Go_Float
begin

text \<open>Integers of up to fifteen digits pass through a \<open>float64\<close> unchanged, also as texts.\<close>

section \<open>Integers are numbers\<close>

lemma bit_length_bounds: "0 < n \<Longrightarrow> 0 < bit_length n \<and> 2 ^ (bit_length n - 1) \<le> n \<and> n < 2 ^ bit_length n"
proof (induction n rule: bit_length.induct)
  case (1 n)
  show ?case
  proof (cases "n = 1")
    case False
    with 1 have "0 < n div 2" by linarith
    with 1 have IH: "0 < bit_length (n div 2)" "2 ^ (bit_length (n div 2) - 1) \<le> n div 2" "n div 2 < 2 ^ bit_length (n div 2)" by auto
    have b: "bit_length n = Suc (bit_length (n div 2))" using 1(2) by (subst bit_length.simps) simp
    have "2 * 2 ^ (bit_length (n div 2) - 1) = (2 :: nat) ^ bit_length (n div 2)"
      using IH(1) by (metis Suc_pred' power_Suc)
    with IH b show ?thesis by simp linarith
  qed (simp add: bit_length.simps)
qed

lemma bit_length_le: "n < 2 ^ k \<Longrightarrow> bit_length n \<le> k"
proof (cases "n = 0")
  case False
  assume "n < 2 ^ k"
  with bit_length_bounds [of n] False have "(2 :: nat) ^ (bit_length n - 1) < 2 ^ k" by linarith
  then have "bit_length n - 1 < k" by (rule power_less_imp_less_exp [rotated]) simp
  then show ?thesis by linarith
qed (simp add: bit_length.simps)

lemma round_one [simp]: "round_half_even n 1 = n" "round_half_even n (Suc 0) = n"
  by (simp_all add: round_half_even_def)

lemma nearest_int:
  assumes "0 < m" "m < 2 ^ 53"
  shows "nearest_float (m, 1) = Some (m * 2 ^ (53 - bit_length m), - int (53 - bit_length m))"
proof -
  note b = bit_length_bounds [OF assms(1)] bit_length_le [OF assms(2)]
  have one: "bit_length (Suc 0) = 1" by (simp add: bit_length.simps)
  have "floor_log2 (m, 1) = int (bit_length m) - 1"
    using b by (simp add: floor_log2_def one scale_down_def nat_diff_distrib Let_def)
  then have k: "max (- 1074) (floor_log2 (m, 1) - 52) = - int (53 - bit_length m)" using b by linarith
  have s: "scale_down 2 (- int j) (m, 1) = (m * 2 ^ j, 1)" for j by (simp add: scale_down_def)
  have r: "round_half_even n 1 = n" for n by simp
  have "m * 2 ^ (53 - bit_length m) < 2 ^ bit_length m * 2 ^ (53 - bit_length m)" using b by simp
  also have "\<dots> = 2 ^ 53" using b by (metis le_add_diff_inverse power_add)
  finally have l: "m * 2 ^ (53 - bit_length m) \<noteq> 2 ^ 53" by simp
  show ?thesis
    using assms(1) l unfolding nearest_float_def k s Let_def prod.case r fst_conv by simp
qed

lemma nearest_inj:
  assumes "0 < m" "m < 2 ^ 53" "n < 2 ^ 53" "nearest_float (n, 1) = nearest_float (m, 1)"
  shows "n = m"
proof (cases "n = 0")
  case True
  with assms nearest_int [OF assms(1,2)] show ?thesis by (simp add: nearest_float_def)
next
  case False
  with assms nearest_int have e: "n * 2 ^ (53 - bit_length n) = m * 2 ^ (53 - bit_length m)"
    "53 - bit_length n = 53 - bit_length m" by auto
  then show ?thesis by simp
qed

section \<open>Digits\<close>

lemma dec_digits_bounds: "10 ^ (length (dec_digits n) - 1) \<le> max 1 n \<and> n < 10 ^ length (dec_digits n)"
proof (induction n rule: dec_digits.induct)
  case (1 n)
  show ?case
  proof (cases "n < 10")
    case False
    then have d: "dec_digits n = dec_digits (n div 10) @ [digit_char (n mod 10)]" by (simp add: dec_digits.simps [of n])
    from 1 [OF False] False have IH: "10 ^ (length (dec_digits (n div 10)) - 1) \<le> n div 10"
      "n div 10 < 10 ^ length (dec_digits (n div 10))" by (auto simp: max_def split: if_splits)
    have "10 * 10 ^ (length (dec_digits (n div 10)) - 1) = (10 :: nat) ^ length (dec_digits (n div 10))"
      by (metis Suc_pred' dec_digits_nonempty length_greater_0_conv power_Suc)
    with IH show ?thesis unfolding d by simp linarith
  qed (simp add: dec_digits.simps [of n])
qed

lemma dec_digits_shift: "0 < c \<Longrightarrow> dec_digits (c * 10 ^ e) = dec_digits c @ replicate e CHR ''0''"
proof (induction e)
  case (Suc e)
  have "\<not> c * 10 ^ Suc e < 10" using Suc(2) by simp
  then have "dec_digits (c * 10 ^ Suc e) = dec_digits (c * 10 ^ Suc e div 10) @ [digit_char (c * 10 ^ Suc e mod 10)]"
    by (subst dec_digits.simps) (simp only: if_False)
  moreover have "c * 10 ^ Suc e div 10 = c * 10 ^ e" "c * 10 ^ Suc e mod 10 = 0" by simp_all
  ultimately show ?case using Suc by (simp add: digit_char_eval replicate_append_same [symmetric])
qed simp

lemma find_first_sorted:
  "sorted xs \<Longrightarrow> l \<in> set xs \<Longrightarrow> P l \<Longrightarrow> \<exists>n. find_first P xs = Some n \<and> n \<le> (l :: nat) \<and> n \<in> set xs \<and> P n"
  by (induction xs) auto

section \<open>The shortest decimal of an integer\<close>

text \<open>The number and its decimals with at most as many digits as it has.\<close>

lemma decimal_of_int:
  assumes m: "0 < m" "m < 10 ^ 15" and n: "n \<le> length (dec_digits m)" "0 < n"
    and x: "nearest_float (m, 1) = Some x" and d: "decimal_of x n = Some (c, e)"
  shows "e = int (length (dec_digits m) - n) \<and> c * 10 ^ (length (dec_digits m) - n) = m"
proof -
  define j where "j = 53 - bit_length m"
  define k where "k = length (dec_digits m) - n"
  have m53: "m < 2 ^ 53" using m(2) by simp
  have x': "x = (m * 2 ^ j, - int j)" using nearest_int [OF m(1) m53] x by (simp add: j_def)
  have f: "float_value x = (m * 2 ^ j, 2 ^ j)" by (simp add: x' float_value_def scale_down_def)
  have p: "decimal_point (m * 2 ^ j, 2 ^ j) - int n = int k" using n m(1) by (simp add: decimal_point_def k_def of_nat_diff)
  have "10 ^ (length (dec_digits m) - 1) \<le> m" using dec_digits_bounds [of m] m(1) by simp
  moreover have "(10 :: nat) ^ k \<le> 10 ^ (length (dec_digits m) - 1)" using n(2) by (intro power_increasing) (auto simp: k_def)
  ultimately have k: "10 ^ k \<le> m" by linarith
  let ?a = "m div 10 ^ k" and ?c = "round_half_even (m * 2 ^ j) (2 ^ j * 10 ^ k)"
  have q: "(m * 2 ^ j) div (2 ^ j * 10 ^ k) = ?a" by (simp add: mult.commute)
  have c: "?c = ?a \<or> ?c = Suc ?a" unfolding round_half_even_def q by (simp add: Let_def)
  have s: "scale_down 10 (- int k) (b, 1) = (b * 10 ^ k, 1)" for b by (simp add: scale_down_def)
  have reads: "b * 10 ^ k = m" if "nearest_float (b * 10 ^ k, 1) = Some x" "b \<le> Suc ?a" for b
  proof (rule nearest_inj [OF m(1) m53])
    have "b * 10 ^ k \<le> ?a * 10 ^ k + 10 ^ k" using that(2) by (metis add.commute mult_Suc mult_le_mono1)
    also have "\<dots> \<le> m + m" using k by (intro add_mono) simp_all
    finally show "b * 10 ^ k < 2 ^ 53" using m(2) by simp
  qed (use that x in simp)
  have sk: "scale_down 10 (int k) (m * 2 ^ j, 2 ^ j) = (m * 2 ^ j, 2 ^ j * 10 ^ k)" by (simp add: scale_down_def)
  let ?d = "if ?c = ?a then Suc ?a else ?a"
  have "decimal_of x n = (if nearest_float (?c * 10 ^ k, 1) = Some x then Some (?c, int k)
      else if nearest_float (?d * 10 ^ k, 1) = Some x then Some (?d, int k) else None)"
    unfolding decimal_of_def Let_def f p s sk prod.case q by simp
  with d have "e = int k" "c \<in> {?c, ?d}" "nearest_float (c * 10 ^ k, 1) = Some x" by (auto split: if_splits)
  with reads c show ?thesis by (auto simp: k_def split: if_splits)
qed

lemma decimal_of_all_digits:
  assumes m: "0 < m" "m < 10 ^ 15" and x: "nearest_float (m, 1) = Some x"
  shows "decimal_of x (length (dec_digits m)) \<noteq> None"
proof -
  define j where "j = 53 - bit_length m"
  have m53: "m < 2 ^ 53" using m(2) by simp
  have x': "x = (m * 2 ^ j, - int j)" using nearest_int [OF m(1) m53] x by (simp add: j_def)
  have f: "float_value x = (m * 2 ^ j, 2 ^ j)" by (simp add: x' float_value_def scale_down_def)
  have p: "decimal_point (m * 2 ^ j, 2 ^ j) = int (length (dec_digits m))" using m(1) by (simp add: decimal_point_def)
  have "round_half_even (m * 2 ^ j) (2 ^ j) = m" by (simp add: round_half_even_def Let_def)
  then show ?thesis using x by (simp add: decimal_of_def f p scale_down_def Let_def)
qed

lemma shortest_int:
  assumes m: "0 < m" "m < 10 ^ 15" and x: "nearest_float (m, 1) = Some x"
  obtains c k where "shortest_decimal x = (c, int k)" "c * 10 ^ k = m"
proof -
  have "10 ^ (length (dec_digits m) - 1) < (10 :: nat) ^ 15" using dec_digits_bounds [of m] m by (simp add: max_def split: if_splits)
  then have l: "length (dec_digits m) - 1 < 15" by (rule power_less_imp_less_exp [rotated]) simp
  then have "length (dec_digits m) \<in> set [1..<18]" using dec_digits_nonempty [of m] by (auto simp: Suc_le_eq)
  from find_first_sorted [where P = "\<lambda>n. decimal_of x n \<noteq> None", OF _ this decimal_of_all_digits [OF m x]] obtain n where
    n: "find_first (\<lambda>n. decimal_of x n \<noteq> None) [1..<18] = Some n" "n \<le> length (dec_digits m)" "n \<in> set [1..<18]" "decimal_of x n \<noteq> None"
    by auto
  then obtain c e where d: "decimal_of x n = Some (c, e)" by auto
  have "0 < n" using n(3) by simp
  from decimal_of_int [OF m n(2) this x d] that [of c "length (dec_digits m) - n"] n(1) d show ?thesis
    by (simp add: shortest_decimal_def)
qed

lemma float_text_int:
  assumes m: "0 < m" "m < 10 ^ 15" and x: "nearest_float (m, 1) = Some x"
  shows "float_text x = dec_digits m"
proof -
  obtain c k where s: "shortest_decimal x = (c, int k)" "c * 10 ^ k = m" by (rule shortest_int [OF assms])
  have c: "0 < c" using s(2) m(1) by (cases c) auto
  let ?all = "dec_digits c" and ?ds = "rev (dropWhile (\<lambda>c. c = CHR ''0'') (rev (dec_digits c)))"
  have "rev ?all = takeWhile (\<lambda>c. c = CHR ''0'') (rev ?all) @ dropWhile (\<lambda>c. c = CHR ''0'') (rev ?all)" by simp
  then have "?all = ?ds @ rev (takeWhile (\<lambda>c. c = CHR ''0'') (rev ?all))" by (metis rev_append rev_rev_ident)
  moreover have "rev (takeWhile (\<lambda>c. c = CHR ''0'') (rev ?all)) = replicate (length ?all - length ?ds) CHR ''0''"
  proof (rule replicate_eqI)
    show "length (rev (takeWhile (\<lambda>c. c = CHR ''0'') (rev ?all))) = length ?all - length ?ds"
      using calculation by (metis add_diff_cancel_left' length_append)
  qed (auto dest: set_takeWhileD)
  ultimately have all: "?all = ?ds @ replicate (length ?all - length ?ds) CHR ''0''" by simp
  have dm: "dec_digits m = ?all @ replicate k CHR ''0''" using dec_digits_shift [OF c] s(2) by metis
  have "10 ^ (length (dec_digits m) - 1) < (10 :: nat) ^ 15" using dec_digits_bounds [of m] m by (simp add: max_def split: if_splits)
  then have "length (dec_digits m) - 1 < 15" by (rule power_less_imp_less_exp [rotated]) simp
  then have l: "0 < length (dec_digits m)" "length (dec_digits m) \<le> 15" using dec_digits_nonempty [of m] by auto
  have p: "int k + int (length ?all) = int (length (dec_digits m))" by (simp add: dm)
  have ds: "length ?ds \<le> length ?all" using all by (metis length_append le_add1)
  have le: "length ?ds \<le> length (dec_digits m)" using ds dm by simp
  have "plain_decimal ?ds (int (length (dec_digits m))) = ?ds @ replicate (length (dec_digits m) - length ?ds) CHR ''0''"
    using l le unfolding plain_decimal_def by simp
  also have "\<dots> = ?ds @ replicate (length ?all - length ?ds) CHR ''0'' @ replicate k CHR ''0''"
    using ds by (simp add: dm replicate_add [symmetric])
  also have "\<dots> = dec_digits m" using all dm by (metis append.assoc)
  finally have "plain_decimal ?ds (int (length (dec_digits m))) = dec_digits m" .
  moreover have "fst x \<noteq> 0" using nearest_int [OF m(1)] m x by auto
  ultimately show ?thesis using l unfolding float_text_def s(1) by (simp add: p Let_def)
qed

section \<open>Texts\<close>

lemma number_parts_Itoa: "number_parts (strconv_Itoa z) = (z < 0, nat \<bar>z\<bar>, 0)"
proof -
  have d: "takeWhile is_digit (dec_digits n) = dec_digits n" "dropWhile is_digit (dec_digits n) = []" for n
    using dec_digits_are_digits [of _ n] by (simp_all add: takeWhile_eq_all_conv dropWhile_eq_Nil_conv)
  have h: "\<not> strings_HasPrefix (dec_digits n) ''-''" for n
    using dec_digits_hd [of n "CHR ''-''"] by (cases "dec_digits n") (auto simp: strings_HasPrefix_def)
  have c: "strings_HasPrefix (CHR ''-'' # s) ''-''" "\<not> strings_HasPrefix [] ''.''" for s
    by (simp_all add: strings_HasPrefix_def)
  show ?thesis
    by (cases "z < 0") (simp_all add: number_parts_def strconv_Itoa_def h c d exponent_of_def foldl_dec_digits Let_def)
qed

theorem json_float_Itoa:
  assumes "\<bar>z\<bar> < 10 ^ 15"
  shows "json_float (strconv_Itoa z) = Some (strconv_Itoa z)"
proof -
  define m where "m = nat \<bar>z\<bar>"
  have m: "m < 10 ^ 15" using assms by (simp add: m_def)
  have "json_float (strconv_Itoa z) = map_option (\<lambda>x. (if z < 0 then ''-'' else []) @ float_text x) (nearest_float (m, 1))"
    by (simp add: json_float_def number_parts_Itoa m_def scale_down_def)
  moreover have "map_option float_text (nearest_float (m, 1)) = Some (dec_digits m)"
  proof (cases "m = 0")
    case False
    then obtain x where "nearest_float (m, 1) = Some x" using nearest_int [of m] m by auto
    with float_text_int [OF _ m this] False show ?thesis by simp
  qed (simp add: nearest_float_def float_text_def Itoa_eval)
  ultimately show ?thesis by (auto simp: strconv_Itoa_def m_def)
qed

end
