(* ===== verification/Stats_Laws.thy ===== *)
theory Stats_Laws
  imports Stats Go_Float_Laws Handlers_Bmx Handlers_Setup_Laws Datastore_Service
begin

text \<open>
  What becomes of statistics: a file with the decoded values and an event in the speaker's log; which requests
  are refused; and where the file may lie, since the speaker's id in its name is not checked.
\<close>

section \<open>Saving\<close>

lemma save_stats_file:
  assumes "save_stats ds kind d v w = (Inr (), w')"
  obtains w1 path where "w_cwd w1 = w_cwd w" "path = filepath_Join [stats_dir ds kind, stats_name (w_clock w (w_ticks w)) d]"
    "os_WriteFile w1 path (json_MarshalIndent v) = (Inr (), w')"
proof -
  obtain r w1 where m: "os_MkdirAll w (stats_dir ds kind) = (r, w1)" by force
  let ?path = "filepath_Join [stats_dir ds kind, stats_name (w_clock w (w_ticks w)) d]"
  have "os_WriteFile (snd (time_Now w1)) ?path (json_MarshalIndent v) = (Inr (), w')"
    using MkdirAll_world [OF m] assms by (simp add: save_stats_def Let_def m time_Now_def del: filepath_Join.simps)
  moreover have "w_cwd (snd (time_Now w1)) = w_cwd w" using MkdirAll_world(1) [OF m] by (simp add: time_Now_def)
  ultimately show ?thesis using that by blast
qed

lemma log_stats_world:
  assumes "log_stats ds w d t ts data = (ds', w')"
  shows "os_ReadFile w' p = os_ReadFile w p \<and> w_cwd w' = w_cwd w"
  using assms by (auto simp: log_stats_def Let_def time_Now_def os_ReadFile_def split: if_splits)

lemma log_stats_event:
  assumes "log_stats ds w d t ts data = (ds', w')"
  shows "\<exists>e. ds' = AddDeviceEvent ds d e \<and> de_Type e = t \<and> de_Data e = data \<and> (ts \<noteq> [] \<longrightarrow> de_Time e = ts)"
  using assms by (cases "ts = []") (auto simp: log_stats_def Let_def time_Now_def)

text \<open>C31: Usage statistics that are answered with status 200 are in a file, from which a parser reads the decoded values
  (with integers as numbers and texts cleaned), and the last of the at most one hundred events of the speaker's log
  has their type, parameters and, unless it is empty, time; no other log changes.\<close>

theorem usage_stats_are_kept:
  assumes "handleUsageStats ds w r = (resp, ds', w')" "status_of resp = 200"
  shows "\<exists>body stats path f e. rq_Body r = Inr body \<and> decode_usage body = Some stats
    \<and> os_ReadFile w' path = Inr f
    \<and> (json_ok max_nesting (json_of_usage stats) \<longrightarrow> json_parse f = Some (json_clean (json_of_usage stats)))
    \<and> de_Type e = us_EventType stats \<and> de_Data e = us_Parameters stats \<and> (us_Timestamp stats \<noteq> [] \<longrightarrow> de_Time e = us_Timestamp stats)
    \<and> (\<forall>d. GetDeviceEvents ds' d = (if d = us_DeviceID stats then last_n 100 (GetDeviceEvents ds d @ [e]) else GetDeviceEvents ds d))"
proof -
  from assms obtain body stats w1 where b: "rq_Body r = Inr body" "decode_usage body = Some stats"
    and s: "SaveUsageStats ds w stats = (Inr (), w1)"
    and l: "log_stats ds w1 (us_DeviceID stats) (us_EventType stats) (us_Timestamp stats) (us_Parameters stats) = (ds', w')"
    by (auto simp: handleUsageStats_def http_defs status_of_def split: sum.splits option.splits prod.splits)
  from s obtain w0 path where "os_WriteFile w0 path (json_MarshalIndent (json_of_usage stats)) = (Inr (), w1)"
    unfolding SaveUsageStats_def by (rule save_stats_file)
  then have f: "os_ReadFile w' path = Inr (json_MarshalIndent (json_of_usage stats))"
    using os.read_written log_stats_world [OF l] by simp
  from l obtain e where e: "de_Type e = us_EventType stats" "de_Data e = us_Parameters stats"
    "us_Timestamp stats \<noteq> [] \<longrightarrow> de_Time e = us_Timestamp stats" "ds' = AddDeviceEvent ds (us_DeviceID stats) e"
    using log_stats_event by blast
  show ?thesis
    by (intro exI [of _ body] exI [of _ stats] exI [of _ path] exI [of _ "json_MarshalIndent (json_of_usage stats)"] exI [of _ e])
      (auto simp: b f e get_add_event json_parse_MarshalIndent)
qed

section \<open>Requests that are refused\<close>

lemma root_children_parsed: "parse_run stk s = Some (XElem n as cs) \<Longrightarrow> root_children stk s = cs"
proof (induction stk s rule: parse_run.induct)
  case (1 stk s)
  then show ?case
    by (subst root_children.simps, subst (asm) (2) parse_run.simps)
      (auto simp: Let_def split: option.splits sum.splits prod.splits)
qed

lemma json_refuses_xml: "hd body = CHR 0x3C \<Longrightarrow> body \<noteq> [] \<Longrightarrow> json_parse body = None"
proof -
  assume "hd body = CHR 0x3C" "body \<noteq> []"
  then obtain t where t: "body = CHR 0x3C # t" by (cases body) auto
  have "skip_ws body = body" by (simp add: t skip_ws_def json_space_def)
  moreover have "json_value max_nesting body = None"
    by (simp add: t json_value_scalar json_scalar_def json_number_def json_integer_def json_digits_def is_digit_def)
  ultimately show ?thesis by (simp add: json_parse_def)
qed

text \<open>C32: Usage statistics in XML that have parameters are always refused, and a refused request changes neither the
  files nor the logs.\<close>

theorem xml_parameters_are_refused:
  assumes "rq_Body r = Inr body" "parse_xml body = Some (XElem n as cs)" "hd body = CHR 0x3C"
    and "c \<in> set cs" "elem_named ''parameters'' c"
  shows "status_of (fst (handleUsageStats ds w r)) = 400 \<and> snd (handleUsageStats ds w r) = (ds, w)"
proof -
  have cs: "root_children [] body = cs" using assms(2) root_children_parsed by (simp add: parse_xml_def)
  have "takeWhile (\<lambda>c. \<not> elem_named ''parameters'' c) cs \<noteq> cs"
    using assms(4,5) set_takeWhileD [of c "\<lambda>c. \<not> elem_named ''parameters'' c" cs] by auto
  moreover have "body \<noteq> []" using assms(2) by (auto simp: parse_xml_def parse_run.simps raw_token_def)
  ultimately have "decode_usage body = None"
    using json_refuses_xml [OF assms(3)] by (simp add: decode_usage_def usage_of_xml_def cs Let_def json_into_def)
  then show ?thesis using assms(1) by (simp add: handleUsageStats_def http_defs status_of_def)
qed

section \<open>Where the file lies\<close>

definition registry_id :: string where
  "registry_id = ''/../../../../soundcork/bmx_services''"

lemma plain_prefix: "plain_name (strconv_Itoa n @ ''_'')"
  using Itoa_chars [of "CHR ''/''" n] by (auto simp: plain_name_def is_digit_def)

lemma stats_path_registry:
  assumes "DataDir ds = ''data''" "plain_name kind"
  shows "resolve cwd (filepath_Join [stats_dir ds kind, stats_name n registry_id]) = cwd @ [''soundcork'', ''bmx_services.json'']"
proof -
  let ?rest = "''../../../../soundcork/bmx_services.json''"
  have p: "plain_name ''data''" "plain_name ''stats''" by (simp_all add: plain_name_def)
  have d: "resolve cwd (stats_dir ds kind) = cwd @ [''data'', ''stats'', kind]"
    using assms p by (simp add: stats_dir_def resolve_Join del: filepath_Join.simps) (simp add: resolve_def rooted_def split_char_free walk_step_def skip_comp_def)
  have "stats_name n registry_id = (strconv_Itoa (wrap64 n) @ ''_'') @ CHR ''/'' # ?rest"
    by (simp add: stats_name_def registry_id_def)
  then have "path_comps (stats_name n registry_id) = path_comps (strconv_Itoa (wrap64 n) @ ''_'') @ path_comps ?rest"
    by (simp only: split_char_append)
  then have "path_comps (stats_name n registry_id) = (strconv_Itoa (wrap64 n) @ ''_'') # path_comps ?rest"
    using path_comps_plain [OF plain_prefix] by simp
  moreover have "path_comps ?rest = [''..'', ''..'', ''..'', ''..'', ''soundcork'', ''bmx_services.json'']" by simp
  ultimately have "foldl walk_step (cwd @ [''data'', ''stats'', kind]) (path_comps (stats_name n registry_id))
      = cwd @ [''soundcork'', ''bmx_services.json'']"
    by (simp add: plain_prefix walk_step_def [of _ "''..''"] walk_step_def [of _ "''soundcork''"]
        walk_step_def [of _ "''bmx_services.json''"] skip_comp_def butlast_append)
  moreover have "stats_dir ds kind \<noteq> []" using assms by (simp add: stats_dir_def)
  ultimately show ?thesis by (simp add: resolve_Join d del: filepath_Join.simps)
qed

text \<open>C33: The speaker's id in usage statistics is not checked, so that with the default data directory a request with a
  certain id replaces the registry of services: afterwards every speaker that asks for the registry gets the
  statistics instead.\<close>

theorem stats_replace_registry:
  assumes "handleUsageStats ds w r = (resp, ds', w')" "status_of resp = 200" "DataDir ds = ''data''"
    and "rq_Body r = Inr body" "decode_usage body = Some stats" "us_DeviceID stats = registry_id"
  shows "handleBMXRegistry getenv w' r' =
    Write (registry_content (base_url getenv) (json_MarshalIndent (json_of_usage stats)))
      (Header_Set ''Content-Type'' json_type new_response)"
proof -
  from assms obtain w1 where s: "SaveUsageStats ds w stats = (Inr (), w1)"
    and l: "log_stats ds w1 (us_DeviceID stats) (us_EventType stats) (us_Timestamp stats) (us_Parameters stats) = (ds', w')"
    by (auto simp: handleUsageStats_def http_defs status_of_def split: sum.splits option.splits prod.splits)
  from s obtain w0 path where w0: "w_cwd w0 = w_cwd w"
    "path = filepath_Join [stats_dir ds ''usage'', stats_name (w_clock w (w_ticks w)) registry_id]"
    "os_WriteFile w0 path (json_MarshalIndent (json_of_usage stats)) = (Inr (), w1)"
    unfolding SaveUsageStats_def assms(6) by (rule save_stats_file)
  have "at_path w0 path = at_path w0 ''soundcork/bmx_services.json''"
    unfolding w0(2) by (subst stats_path_registry)
      (simp_all add: assms(3) plain_name_def resolve_def rooted_def walk_step_def skip_comp_def)
  then have "at_path w1 path = at_path w1 ''soundcork/bmx_services.json''" using WriteFile_cwd [OF w0(3)] by simp
  with os.read_written [OF w0(3)] have "os_ReadFile w1 ''soundcork/bmx_services.json'' = Inr (json_MarshalIndent (json_of_usage stats))"
    by (auto simp: os_ReadFile_def split: sum.splits node.splits)
  then show ?thesis
    using log_stats_world [OF l] by (simp add: handleBMXRegistry_def registry_paths_def)
qed

section \<open>Values of parameters\<close>

text \<open>Texts, booleans, nulls and integers of up to fifteen digits.\<close>

fun exact_value :: "json \<Rightarrow> bool" where
  "exact_value (JNum n) \<longleftrightarrow> (\<exists>z. n = strconv_Itoa z \<and> \<bar>z\<bar> < 10 ^ 15)"
| "exact_value (JArray vs) \<longleftrightarrow> False"
| "exact_value (JObject es) \<longleftrightarrow> False"
| "exact_value v \<longleftrightarrow> True"

lemma json_any_exact: "exact_value v \<Longrightarrow> json_any v = Some v"
  by (cases v) (auto simp: json_float_Itoa)

lemma put_entries_distinct:
  "distinct (map fst (m @ es)) \<Longrightarrow> put_entries es m = m @ es"
proof (induction es arbitrary: m)
  case (Cons e es)
  have u: "fst x \<notin> fst ` set m \<Longrightarrow> AList.update (fst x) (snd x) m = m @ [x]" for x and m :: "(string \<times> json) list"
    by (induction m) auto
  have "put_entries (e # es) m = put_entries es (AList.update (fst e) (snd e) m)"
    by (simp add: put_entries_def split: prod.split)
  also have "\<dots> = put_entries es (m @ [e])" using Cons.prems u [of e m] by simp
  finally show ?case using Cons.IH [of "m @ [e]"] Cons.prems by simp
qed (simp add: put_entries_def)

lemma those_exact: "\<forall>e \<in> set es. exact_value (snd e) \<Longrightarrow> those (map (\<lambda>e. json_any (snd e)) es) = Some (map snd es)"
  by (induction es) (auto simp: json_any_exact)

lemma usage_names:
  "EqualFold_ascii ''deviceId'' ''deviceId''" "EqualFold_ascii ''accountId'' ''accountId''"
  "EqualFold_ascii ''timestamp'' ''timestamp''" "EqualFold_ascii ''eventType'' ''eventType''"
  "EqualFold_ascii ''parameters'' ''parameters''"
  "\<not> EqualFold_ascii ''deviceId'' ''accountId''" "\<not> EqualFold_ascii ''deviceId'' ''timestamp''"
  "\<not> EqualFold_ascii ''deviceId'' ''eventType''" "\<not> EqualFold_ascii ''deviceId'' ''parameters''"
  "\<not> EqualFold_ascii ''accountId'' ''timestamp''" "\<not> EqualFold_ascii ''accountId'' ''eventType''"
  "\<not> EqualFold_ascii ''accountId'' ''parameters''" "\<not> EqualFold_ascii ''timestamp'' ''eventType''"
  "\<not> EqualFold_ascii ''timestamp'' ''parameters''" "\<not> EqualFold_ascii ''eventType'' ''parameters''"
  by (simp_all add: EqualFold_lower lower_ascii_def lower_byte_def)

text \<open>A text without a tag is no XML, and leaves nothing behind.\<close>

lemma num_ref_set: "num_ref b n seen s = Some (m, r) \<Longrightarrow> set r \<subseteq> set s"
  by (induction b n seen s rule: num_ref.induct) (auto split: if_splits option.splits)

lemma read_entity_set: "read_entity s = Some (t, r) \<Longrightarrow> set r \<subseteq> set s"
proof -
  have "dropWhile is_name_byte s = c # u \<Longrightarrow> set u \<subseteq> set s" for c u
    by (metis set_dropWhileD set_subset_Cons subset_iff)
  then show "read_entity s = Some (t, r) \<Longrightarrow> ?thesis"
    by (fastforce simp: read_entity_def split: list.splits if_splits option.splits dest!: num_ref_set)
qed

lemma text_loop_no_tag:
  "text_loop None False b0 b1 acc s = Some (t, r) \<Longrightarrow> CHR 0x3C \<notin> set s \<Longrightarrow> r = []"
proof (induction "length s" arbitrary: b0 b1 acc s rule: less_induct)
  case less
  show ?case
  proof (cases s)
    case (Cons b bs)
    have "read_entity bs = Some (u, v) \<Longrightarrow> length v < length s \<and> CHR 0x3C \<notin> set v" for u v
      using read_entity_length [of bs u v] read_entity_set [of bs u v] less.prems(2) Cons by auto
    then show ?thesis
      using less.prems less.hyps [of bs] less.hyps Cons
      by (fastforce simp: text_loop.simps(2) split: if_splits option.splits)
  qed (use less.prems in simp)
qed

lemma no_tag_no_xml:
  assumes "CHR 0x3C \<notin> set s"
  shows "parse_run [] s = None \<and> root_children [] s = []"
proof (cases "raw_token s")
  case None
  then show ?thesis by (simp add: parse_run.simps root_children.simps)
next
  case (Some tr)
  then obtain t where t: "raw_token s = Some (TText t, [])"
    using assms text_loop_no_tag
    by (cases s) (auto simp: raw_token_def read_text_def split: option.splits if_splits)
  have e: "raw_token [] = None" by (simp add: raw_token_def)
  show ?thesis
    by (subst parse_run.simps, subst root_children.simps, simp add: t stack_step_def add_text_def,
        subst parse_run.simps, subst root_children.simps, simp add: e)
qed

text \<open>Usage statistics in JSON are decoded to the values in the document: the texts, and the parameters with their
  texts, booleans, nulls and integers of up to fifteen digits (numbers are read as \<open>float64\<close>).\<close>

theorem json_usage_is_decoded:
  assumes "json_parse body = Some (JObject [(''deviceId'', JString i), (''accountId'', JString a), (''timestamp'', JString t),
      (''eventType'', JString e), (''parameters'', JObject es)])"
    and "CHR 0x3C \<notin> set body"
    and "distinct (map fst es)" "\<forall>e \<in> set es. exact_value (snd e)"
  shows "decode_usage body = Some \<lparr>us_DeviceID = i, us_AccountID = a, us_Timestamp = t, us_EventType = e, us_Parameters = Some es\<rparr>"
proof -
  have "put_entries (zip (map fst es) (map snd es)) [] = es"
    using put_entries_distinct [of "[]" es] assms(3) by (simp add: zip_map_fst_snd)
  then have "json_into usage_entry body zero_usage
      = Some \<lparr>us_DeviceID = i, us_AccountID = a, us_Timestamp = t, us_EventType = e, us_Parameters = Some es\<rparr>"
    by (simp add: json_into_def assms(1) usage_entry_def usage_names string_entry_def params_entry_def those_exact assms(4)
        zero_usage_def)
  with no_tag_no_xml [OF assms(2)] show ?thesis
    by (simp add: decode_usage_def usage_of_xml_def parse_xml_def Let_def zero_usage_def)
qed

end
