(* ===== verification/Example_Stats.thy ===== *)
theory Example_Stats
  imports Stats_Laws
begin

text \<open>Statistics of a speaker, sent to a service with the default data directory.\<close>

definition ex_stats_world :: world where
  "ex_stats_world = \<lparr>w_root = Dir [(''soundcork'', Dir [])], w_cwd = [], w_clock = int, w_ticks = 0, w_zone = (\<lambda>_. 0),
     w_deny = (\<lambda>_. False), w_dirtime = (\<lambda>_. 0)\<rparr>"

definition ex_stats_store :: DataStore where
  "ex_stats_store = NewDataStore ''data''"

definition ex_usage_xml :: string where
  "ex_usage_xml = xml_Marshal (MElems ''usage'' [] [MText ''deviceId'' [] registry_id])"

definition ex_usage :: UsageStats where
  "ex_usage = zero_usage\<lparr>us_DeviceID := registry_id\<rparr>"

definition ex_usage_tree :: mtree where
  "ex_usage_tree = MElems ''usage'' [] [MText ''deviceId'' [] registry_id]"

lemma ex_usage_parsed: "parse_xml ex_usage_xml
    = Some (XElem ([], ''usage'') [] [XElem ([], ''deviceId'') [] (text_nodes (sanitize registry_id))])"
proof -
  have "names_ok ex_usage_tree" by (simp add: ex_usage_tree_def tag_name_def is_name_start_def is_name_byte_def is_digit_def)
  from parse_print(1) [OF this, of "\<lambda>_. []"] show ?thesis
    by (simp add: ex_usage_xml_def ex_usage_tree_def xml_Marshal_def ws_text_def kids_fold kids_def)
qed

lemma ex_decode: "decode_usage ex_usage_xml = Some ex_usage"
proof -
  have s: "sanitize registry_id = registry_id" by (rule sanitize_ascii) (simp add: ascii_text_def registry_id_def)
  have c: "root_children [] ex_usage_xml = [XElem ([], ''deviceId'') [] (text_nodes registry_id)]"
    using root_children_parsed ex_usage_parsed s by (simp add: parse_xml_def)
  show ?thesis
    by (simp add: decode_usage_def usage_of_xml_def c ex_usage_parsed usage_child_def ex_usage_def del: text_nodes.simps)
qed

lemma ex_saved: "fst (SaveUsageStats ex_stats_store ex_stats_world ex_usage) = Inr ()"
  by code_simp

definition ex_post :: "string \<Rightarrow> request" where
  "ex_post body = \<lparr>rq_Path = ''/streaming/stats/usage'', rq_RawQuery = [], rq_Param = (\<lambda>_. []), rq_Header = (\<lambda>_. []),
     rq_Body = Inr body\<rparr>"

lemma ex_usage_run: "\<exists>ds' w'. handleUsageStats ex_stats_store ex_stats_world (ex_post ex_usage_xml) = (WriteHeader 200 new_response, ds', w')"
proof -
  obtain w1 where "SaveUsageStats ex_stats_store ex_stats_world ex_usage = (Inr (), w1)"
    using ex_saved by (cases "SaveUsageStats ex_stats_store ex_stats_world ex_usage") auto
  then show ?thesis by (simp add: handleUsageStats_def ex_post_def ex_decode)
qed

lemma ok_200: "status_of (WriteHeader 200 new_response) = 200"
  by (simp add: http_defs status_of_def)

theorem usage_stats_are_kept_witness:
  "\<exists>ds' w' path e. handleUsageStats ex_stats_store ex_stats_world (ex_post ex_usage_xml) = (WriteHeader 200 new_response, ds', w')
    \<and> is_ok (os_ReadFile w' path) \<and> GetDeviceEvents ds' registry_id = [e] \<and> de_Type e = []"
proof -
  obtain ds' w' where r: "handleUsageStats ex_stats_store ex_stats_world (ex_post ex_usage_xml) = (WriteHeader 200 new_response, ds', w')"
    using ex_usage_run by blast
  from usage_stats_are_kept [OF r ok_200] obtain path f e where
    k: "os_ReadFile w' path = Inr f" "de_Type e = us_EventType ex_usage"
      "GetDeviceEvents ds' registry_id = last_n 100 (GetDeviceEvents ex_stats_store registry_id @ [e])"
    by (auto simp: ex_post_def ex_decode ex_usage_def zero_usage_def)
  from k(3) have "GetDeviceEvents ds' registry_id = [e]"
    by (simp add: GetDeviceEvents_def ex_stats_store_def NewDataStore_def last_n_def)
  moreover have "is_ok (os_ReadFile w' path)" using k(1) by simp
  ultimately show ?thesis using r k(2) by (auto simp: ex_usage_def zero_usage_def)
qed

theorem stats_replace_registry_witness:
  "\<exists>resp ds' w'. handleUsageStats ex_stats_store ex_stats_world (ex_post ex_usage_xml) = (resp, ds', w')
    \<and> status_of (handleBMXRegistry (\<lambda>_. []) ex_stats_world (ex_post [])) = 500
    \<and> rs_Body (handleBMXRegistry (\<lambda>_. []) w' (ex_post []))
        = registry_content ''http://localhost:8000'' (json_MarshalIndent (json_of_usage ex_usage))"
proof -
  obtain ds' w' where r: "handleUsageStats ex_stats_store ex_stats_world (ex_post ex_usage_xml) = (WriteHeader 200 new_response, ds', w')"
    using ex_usage_run by blast
  have "rq_Body (ex_post ex_usage_xml) = Inr ex_usage_xml" "us_DeviceID ex_usage = registry_id" "DataDir ex_stats_store = ''data''"
    by (simp_all add: ex_post_def ex_usage_def ex_stats_store_def NewDataStore_def)
  from stats_replace_registry [OF r ok_200 this(3,1) ex_decode this(2), of "\<lambda>_. []" "ex_post []"] have
    "rs_Body (handleBMXRegistry (\<lambda>_. []) w' (ex_post []))
      = registry_content ''http://localhost:8000'' (json_MarshalIndent (json_of_usage ex_usage))"
    by (simp add: base_url_def http_defs)
  moreover have "status_of (handleBMXRegistry (\<lambda>_. []) ex_stats_world (ex_post [])) = 500"
    by code_simp
  ultimately show ?thesis using r by blast
qed

text \<open>The same document with a parameter.\<close>

definition ex_parameters_xml :: string where
  "ex_parameters_xml = xml_Marshal (MElems ''usage'' [] [MText ''parameters'' [] []])"

theorem xml_parameters_are_refused_witness:
  "status_of (fst (handleUsageStats ex_stats_store ex_stats_world (ex_post ex_parameters_xml))) = 400"
proof -
  let ?m = "MElems ''usage'' [] [MText ''parameters'' [] []]"
  have "names_ok ?m" by (simp add: tag_name_def is_name_start_def is_name_byte_def is_digit_def)
  from parse_print(1) [OF this, of "\<lambda>_. []"] have p: "parse_xml ex_parameters_xml
      = Some (XElem ([], ''usage'') [] [XElem ([], ''parameters'') [] []])"
    by (simp add: ex_parameters_xml_def xml_Marshal_def ws_text_def kids_fold kids_def)
  have "hd ex_parameters_xml = CHR 0x3C" by (simp add: ex_parameters_xml_def xml_Marshal_def print_open_def)
  from xml_parameters_are_refused [OF _ p this, of "ex_post ex_parameters_xml"] show ?thesis
    by (simp add: ex_post_def)
qed

definition ex_usage_json :: json where
  "ex_usage_json = JObject [(''deviceId'', JString ''A1''), (''accountId'', JString []), (''timestamp'', JString []),
     (''eventType'', JString ''play''), (''parameters'', JObject [(''volume'', json_int 42)])]"

theorem json_usage_is_decoded_witness:
  "decode_usage (json_Encode ex_usage_json) = Some \<lparr>us_DeviceID = ''A1'', us_AccountID = [], us_Timestamp = [],
     us_EventType = ''play'', us_Parameters = Some [(''volume'', json_int 42)]\<rparr>"
proof -
  have "json_ok max_nesting ex_usage_json" by (simp add: ex_usage_json_def nesting json_int_def) blast
  from json_parse_Encode [OF this] have p: "json_parse (json_Encode ex_usage_json) = Some (JObject [(''deviceId'', JString ''A1''),
      (''accountId'', JString []), (''timestamp'', JString []), (''eventType'', JString ''play''),
      (''parameters'', JObject [(''volume'', json_int 42)])])"
    by (simp add: ex_usage_json_def ascii_text_def json_int_def)
  have x: "CHR 0x3C \<notin> set (json_Encode ex_usage_json)" by code_simp
  have "\<forall>e \<in> set [(''volume'', json_int 42)]. exact_value (snd e)" by (auto simp: json_int_def)
  from json_usage_is_decoded [OF p x _ this] show ?thesis by simp
qed

end
