(* ===== verification/Handlers_Marge.thy ===== *)
theory Handlers_Marge
  imports Http Marge
begin

text \<open>
  \<open>handlers_marge.go\<close>: the HTTP handlers of the streaming service.  A handler maps the store, the
  environment and a request to a response and the state after it; \<open>msg\<close> is the text of an error
  (\<open>err.Error()\<close>), which the handlers only copy into error responses.
\<close>

definition xml_type :: string where "xml_type = ''application/xml''"

definition etag_text :: "int \<Rightarrow> string" where "etag_text e = strconv_Itoa e"

text \<open>\<open>time.Time.UnixMilli\<close>.\<close>

definition unix_milli :: "int \<Rightarrow> int" where "unix_milli t = t div 1000000"

section \<open>Documents\<close>

definition handleMargeSourceProviders :: "world \<Rightarrow> request \<Rightarrow> response \<times> world" where
  "handleMargeSourceProviders w r =
     (let (now, w1) = time_Now w; etag = etag_text (unix_milli now) in
      if rq_Header r ''If-None-Match'' = etag then (WriteHeader 304 new_response, w1)
      else (Write SourceProvidersToXML (Header_Set ''ETag'' etag (Header_Set ''Content-Type'' xml_type new_response)), w1))"

definition handleMargeAccountFull :: "(go_error \<Rightarrow> string) \<Rightarrow> DataStore \<Rightarrow> world \<Rightarrow> request \<Rightarrow> response" where
  "handleMargeAccountFull msg ds w r =
     (let account = rq_Param r ''account''; etag = etag_text (GetETagForAccount ds w account) in
      if rq_Header r ''If-None-Match'' = etag then WriteHeader 304 new_response
      else case AccountFullToXML ds w account of
        Inl e \<Rightarrow> http_Error (msg e) 500 new_response
      | Inr data \<Rightarrow> Write data (Header_Set ''ETag'' etag (Header_Set ''Content-Type'' xml_type new_response)))"

definition handleMargePowerOn :: "request \<Rightarrow> response" where
  "handleMargePowerOn r = WriteHeader 200 new_response"

definition swupdate_path :: "world \<Rightarrow> string" where
  "swupdate_path w = (if is_ok (os_Stat w ''../soundcork/swupdate.xml'')
     then ''../soundcork/swupdate.xml'' else ''soundcork/swupdate.xml'')"

definition swupdate_etag :: "world \<Rightarrow> string" where
  "swupdate_etag w = (case os_Stat w (swupdate_path w) of Inl _ \<Rightarrow> ''default'' | Inr t \<Rightarrow> etag_text (unix_milli t))"

definition handleMargeSoftwareUpdate :: "world \<Rightarrow> request \<Rightarrow> response" where
  "handleMargeSoftwareUpdate w r =
     (let etag = swupdate_etag w in
      if rq_Header r ''If-None-Match'' = etag then WriteHeader 304 new_response
      else Write (case os_ReadFile w (swupdate_path w) of Inl _ \<Rightarrow> SoftwareUpdateToXML | Inr data \<Rightarrow> data)
        (Header_Set ''ETag'' etag (Header_Set ''Content-Type'' xml_type new_response)))"

definition handleMargePresets :: "(go_error \<Rightarrow> string) \<Rightarrow> DataStore \<Rightarrow> world \<Rightarrow> request \<Rightarrow> response" where
  "handleMargePresets msg ds w r =
     (let account = rq_Param r ''account''; etag = etag_text (GetETagForPresets ds w account) in
      if rq_Header r ''If-None-Match'' = etag then WriteHeader 304 new_response
      else case PresetsToXML ds w account of
        Inl e \<Rightarrow> http_Error (msg e) 500 new_response
      | Inr data \<Rightarrow> Write data (Header_Set ''ETag'' etag (Header_Set ''Content-Type'' xml_type new_response)))"

definition handleMargeProviderSettings :: "request \<Rightarrow> response" where
  "handleMargeProviderSettings r =
     Write (ProviderSettingsToXML (rq_Param r ''account'')) (Header_Set ''Content-Type'' xml_type new_response)"

definition handleMargeStreamingToken :: "world \<Rightarrow> request \<Rightarrow> response \<times> world" where
  "handleMargeStreamingToken w r =
     (let (now, w1) = time_Now w;
          token = ''soundcork-local-token-'' @ strconv_Itoa (unix_of_nano now)
      in (WriteHeader 200 (Header_Set ''Authorization'' (''Bearer '' @ token) new_response), w1))"

section \<open>Updates\<close>

text \<open>A panic of the service function is a panic of the handler (the router's recoverer answers it).\<close>

definition handleMargeUpdatePreset ::
  "(go_error \<Rightarrow> string) \<Rightarrow> DataStore \<Rightarrow> world \<Rightarrow> request \<Rightarrow> response outcome \<times> world" where
  "handleMargeUpdatePreset msg ds w r =
     (let account = rq_Param r ''account''; device = rq_Param r ''device'';
          w0 = Header_Set ''ETag'' (etag_text (GetETagForPresets ds w account)) new_response
      in case strconv_Atoi (rq_Param r ''presetNumber'') of
        None \<Rightarrow> (Done (http_Error ''Invalid preset number'' 400 w0), w)
      | Some presetNumber \<Rightarrow>
        (case rq_Body r of
           Inl _ \<Rightarrow> (Done (http_Error ''Failed to read body'' 500 w0), w)
         | Inr body \<Rightarrow>
           (case UpdatePreset ds w account device presetNumber body of
              (Panicked m, w1) \<Rightarrow> (Panicked m, w1)
            | (Done (Inl e), w1) \<Rightarrow> (Done (http_Error (msg e) 500 w0), w1)
            | (Done (Inr data), w1) \<Rightarrow> (Done (Write data (Header_Set ''Content-Type'' xml_type w0)), w1))))"

definition handleMargeAddRecent ::
  "operand_order \<Rightarrow> (go_error \<Rightarrow> string) \<Rightarrow> DataStore \<Rightarrow> world \<Rightarrow> request \<Rightarrow> response \<times> world" where
  "handleMargeAddRecent ord msg ds w r =
     (let account = rq_Param r ''account''; device = rq_Param r ''device'';
          w0 = Header_Set ''ETag'' (etag_text (GetETagForRecents ds w account)) new_response
      in case rq_Body r of
           Inl _ \<Rightarrow> (http_Error ''Failed to read body'' 500 w0, w)
         | Inr body \<Rightarrow>
           (case AddRecent ord ds w account device body of
              (Inl e, w1) \<Rightarrow> (http_Error (msg e) 500 w0, w1)
            | (Inr data, w1) \<Rightarrow> (Write data (Header_Set ''Content-Type'' xml_type w0), w1)))"

definition handleMargeAddDevice :: "(go_error \<Rightarrow> string) \<Rightarrow> DataStore \<Rightarrow> world \<Rightarrow> request \<Rightarrow> response \<times> world" where
  "handleMargeAddDevice msg ds w r =
     (case rq_Body r of
        Inl _ \<Rightarrow> (http_Error ''Failed to read body'' 500 new_response, w)
      | Inr body \<Rightarrow>
        (case AddDeviceToAccount ds w (rq_Param r ''account'') body of
           (Inl e, w1) \<Rightarrow> (http_Error (msg e) 500 new_response, w1)
         | (Inr data, w1) \<Rightarrow> (Write data (Header_Set ''Content-Type'' xml_type new_response), w1)))"

definition handleMargeRemoveDevice :: "(go_error \<Rightarrow> string) \<Rightarrow> DataStore \<Rightarrow> world \<Rightarrow> request \<Rightarrow> response \<times> world" where
  "handleMargeRemoveDevice msg ds w r =
     (case RemoveDeviceFromAccount ds w (rq_Param r ''account'') (rq_Param r ''device'') of
        (Inl e, w1) \<Rightarrow> (http_Error (msg e) 500 new_response, w1)
      | (Inr _, w1) \<Rightarrow> (Write ''{\"ok\": true}'' (WriteHeader 200 new_response), w1))"

section \<open>Customer support\<close>

definition zero_support :: CustomerSupportRequest where
  "zero_support = \<lparr>sr_ID = [], sr_SerialNumber = [], sr_FirmwareVersion = [], sr_ProductCode = [],
     sr_ProductType = [], sr_ProductSerialNumber = [], sr_RSSI = [], sr_GatewayIP = [], sr_IPAddress = [],
     sr_NetworkConnectionType = [], sr_MacAddresses = []\<rparr>"

definition support_product :: "string \<Rightarrow> xattrs \<Rightarrow> xml list \<Rightarrow> CustomerSupportRequest \<Rightarrow> CustomerSupportRequest" where
  "support_product l as cs q = (if l = ''serialnumber'' then q\<lparr>sr_ProductSerialNumber := chardata cs\<rparr> else q)"

definition support_device :: "string \<Rightarrow> xattrs \<Rightarrow> xml list \<Rightarrow> CustomerSupportRequest \<Rightarrow> CustomerSupportRequest" where
  "support_device l as cs q =
     (if l = ''serialnumber'' then q\<lparr>sr_SerialNumber := chardata cs\<rparr>
      else if l = ''firmware-version'' then q\<lparr>sr_FirmwareVersion := chardata cs\<rparr>
      else if l = ''product'' then fold_children support_product cs
        (q\<lparr>sr_ProductCode := attr_into ''product_code'' as (sr_ProductCode q),
           sr_ProductType := attr_into ''type'' as (sr_ProductType q)\<rparr>)
      else q)"

definition support_mac :: "string \<Rightarrow> xattrs \<Rightarrow> xml list \<Rightarrow> CustomerSupportRequest \<Rightarrow> CustomerSupportRequest" where
  "support_mac l as cs q =
     (if l = ''macaddress'' then q\<lparr>sr_MacAddresses := sr_MacAddresses q @ [chardata cs]\<rparr> else q)"

definition support_landscape :: "string \<Rightarrow> xattrs \<Rightarrow> xml list \<Rightarrow> CustomerSupportRequest \<Rightarrow> CustomerSupportRequest" where
  "support_landscape l as cs q =
     (if l = ''rssi'' then q\<lparr>sr_RSSI := chardata cs\<rparr>
      else if l = ''gateway-ip-address'' then q\<lparr>sr_GatewayIP := chardata cs\<rparr>
      else if l = ''ip-address'' then q\<lparr>sr_IPAddress := chardata cs\<rparr>
      else if l = ''network-connection-type'' then q\<lparr>sr_NetworkConnectionType := chardata cs\<rparr>
      else if l = ''macaddresses'' then fold_children support_mac cs q
      else q)"

definition support_child :: "string \<Rightarrow> xattrs \<Rightarrow> xml list \<Rightarrow> CustomerSupportRequest \<Rightarrow> CustomerSupportRequest" where
  "support_child l as cs q =
     (if l = ''device'' then fold_children support_device cs (q\<lparr>sr_ID := attr_into ''id'' as (sr_ID q)\<rparr>)
      else if l = ''diagnostic-data'' then
        fold_children (\<lambda>l as cs q. if l = ''device-landscape'' then fold_children support_landscape cs q else q) cs q
      else q)"

definition decode_support :: "string \<Rightarrow> CustomerSupportRequest result" where
  "decode_support = xml_Unmarshal (Some ''device-data'') (\<lambda>as cs. fold_children support_child cs zero_support)"

text \<open>
  A body that cannot be decoded is only logged; \<open>partial\<close> is what \<open>xml.Unmarshal\<close> has filled in
  by then, which the package leaves open.
\<close>

definition support_event :: "CustomerSupportRequest \<Rightarrow> string \<Rightarrow> int \<Rightarrow> DeviceEvent" where
  "support_event q timeText monoTime = \<lparr>de_Type = ''customer-support-upload'', de_Time = timeText, de_MonoTime = monoTime,
     de_Data = Some [(''firmware'', JString (sr_FirmwareVersion q)), (''product'', JString (sr_ProductCode q)),
       (''ip'', JString (sr_IPAddress q)), (''rssi'', JString (sr_RSSI q))]\<rparr>"

definition handleMargeCustomerSupport ::
  "(string \<Rightarrow> CustomerSupportRequest) \<Rightarrow> DataStore \<Rightarrow> world \<Rightarrow> request \<Rightarrow> response \<times> DataStore \<times> world" where
  "handleMargeCustomerSupport partial ds w r =
     (case rq_Body r of
        Inl _ \<Rightarrow> (http_Error ''Failed to read body'' 400 new_response, ds, w)
      | Inr body \<Rightarrow>
        (let q = (case decode_support body of Inl _ \<Rightarrow> partial body | Inr q \<Rightarrow> q);
             (now, w1) = time_Now w;
             (now', w2) = time_Now w1;
             event = support_event q (time_Format_RFC3339 (w_zone w) (unix_of_nano now)) (go_div now' 1000000)
         in (WriteHeader 200 (Header_Set ''Content-Type'' ''application/vnd.bose.streaming-v1.2+xml'' new_response),
             AddDeviceEvent ds (sr_ID q) event, w2)))"

end
