(* ===== verification/Proxy.thy ===== *)
theory Proxy
  imports Discovery
begin

text \<open>
  \<open>internal/proxy/proxy.go\<close>: what is logged of a forwarded request and of its response, and the change
  \<open>main.go\<close> makes to the headers of a response.  A header map is the list of its entries in the order in
  which an iteration visits them, which the language leaves open; its keys are distinct.  Logging returns
  the line and the body the message has afterwards; the method and the address come with the request.
\<close>

type_synonym headers = "(string \<times> string list) list"

text \<open>A body: absent, or the bytes that can be read and the error that ends them, if any.\<close>

type_synonym body = "(string \<times> go_error option) option"

definition Header_Get :: "headers \<Rightarrow> string \<Rightarrow> string" where
  "Header_Get h k = (case map_of h k of Some (v # _) \<Rightarrow> v | _ \<Rightarrow> [])"

definition sensitiveHeaders :: "string list" where
  "sensitiveHeaders = [''Authorization'', ''Cookie'', ''X-Bose-Token'']"

record LoggingProxy =
  lp_Redact :: bool
  lp_LogBody :: bool
  lp_MaxBodySize :: int

definition NewLoggingProxy :: "(string \<Rightarrow> string) \<Rightarrow> string \<Rightarrow> bool \<Rightarrow> LoggingProxy" where
  "NewLoggingProxy getenv targetURL redact =
     \<lparr>lp_Redact = redact, lp_LogBody = (getenv ''LOG_PROXY_BODY'' = ''true''), lp_MaxBodySize = 1024 * 10\<rparr>"

definition isSensitive :: "string \<Rightarrow> bool" where
  "isSensitive header \<longleftrightarrow> (\<exists>h \<in> set sensitiveHeaders. EqualFold_ascii h header)"

definition shouldLogBody :: "string \<Rightarrow> bool" where
  "shouldLogBody contentType \<longleftrightarrow>
     (let c = lower_ascii contentType in
      strings_Contains c ''xml'' \<or> strings_Contains c ''json'' \<or> strings_Contains c ''text'' \<or> c = [])"

fun join_with :: "string \<Rightarrow> string list \<Rightarrow> string" where
  "join_with sep [] = []"
| "join_with sep [x] = x"
| "join_with sep (x # y # ys) = x @ sep @ join_with sep (y # ys)"

definition header_line :: "bool \<Rightarrow> string \<times> string list \<Rightarrow> string" where
  "header_line redact kv =
     ''    '' @ fst kv @ '': '' @
       (if redact \<and> isSensitive (fst kv) then ''[REDACTED]'' else join_with '', '' (snd kv)) @ [CHR 0x0A]"

definition trim_newline :: "string \<Rightarrow> string" where
  "trim_newline s = (if s \<noteq> [] \<and> last s = CHR 0x0A then butlast s else s)"

definition formatHeaders :: "headers \<Rightarrow> bool \<Rightarrow> string" where
  "formatHeaders h redact = trim_newline (concat (map (header_line redact) h))"

text \<open>The text shown for a body and the body the message goes on with: reading it drops its error.\<close>

definition shown_body :: "LoggingProxy \<Rightarrow> headers \<Rightarrow> body \<Rightarrow> string \<times> body" where
  "shown_body lp h body =
     (if lp_LogBody lp \<and> shouldLogBody (Header_Get h ''Content-Type'') then
        (case body of
           None \<Rightarrow> (''[EMPTY]'', None)
         | Some (bodyBytes, _) \<Rightarrow>
             (if int (length bodyBytes) > lp_MaxBodySize lp
              then take (nat (lp_MaxBodySize lp)) bodyBytes @ ''... [TRUNCATED]'' else bodyBytes,
              Some (bodyBytes, None)))
      else (''[HIDDEN]'', body))"

definition message_tail :: "string \<Rightarrow> string \<Rightarrow> string" where
  "message_tail headers bodyStr =
     [CHR 0x0A] @ ''  Headers:'' @ [CHR 0x0A] @ headers @ [CHR 0x0A] @ ''  Body: '' @ bodyStr"

definition LogRequest :: "LoggingProxy \<Rightarrow> string \<Rightarrow> string \<Rightarrow> headers \<Rightarrow> body \<Rightarrow> string \<times> body" where
  "LogRequest lp method url h body =
     (let headers = formatHeaders h (lp_Redact lp); (bodyStr, body') = shown_body lp h body
      in (''[PROXY_REQ] '' @ method @ '' '' @ url @ message_tail headers bodyStr, body'))"

definition LogResponse :: "LoggingProxy \<Rightarrow> int \<Rightarrow> string \<Rightarrow> headers \<Rightarrow> body \<Rightarrow> string \<times> body" where
  "LogResponse lp statusCode url h body =
     (let headers = formatHeaders h (lp_Redact lp); (bodyStr, body') = shown_body lp h body
      in (''[PROXY_RES] '' @ strconv_Itoa statusCode @ '' '' @ url @ message_tail headers bodyStr, body'))"

text \<open>\<open>ModifyResponse\<close>: the entity tag of a response is sent under the name \<open>ETag\<close>.\<close>

definition preserve_etag :: "headers \<Rightarrow> headers" where
  "preserve_etag h = (case map_of h ''Etag'' of
      None \<Rightarrow> h
    | Some etags \<Rightarrow> (''ETag'', etags) # filter (\<lambda>(k, _). k \<noteq> ''Etag'' \<and> k \<noteq> ''ETag'') h)"

definition modify_response :: "LoggingProxy \<Rightarrow> int \<Rightarrow> string \<Rightarrow> headers \<Rightarrow> body \<Rightarrow> string \<times> headers \<times> body" where
  "modify_response lp statusCode url h body =
     (let h' = preserve_etag h; (line, body') = LogResponse lp statusCode url h' body in (line, h', body'))"

section \<open>What the log shows\<close>

lemma isSensitive_ascii:
  "list_all (\<lambda>c. of_char c < (128 :: nat)) k \<Longrightarrow>
    isSensitive k \<longleftrightarrow> lower_ascii k \<in> {''authorization'', ''cookie'', ''x-bose-token''}"
proof -
  have l: "lower_ascii ''Authorization'' = ''authorization''" "lower_ascii ''Cookie'' = ''cookie''"
    "lower_ascii ''X-Bose-Token'' = ''x-bose-token''"
    by code_simp+
  assume "list_all (\<lambda>c. of_char c < (128 :: nat)) k"
  then show ?thesis
    unfolding isSensitive_def sensitiveHeaders_def by (auto simp: EqualFold_lower l dest: sym)
qed

lemma content_type_not_sensitive: "\<not> isSensitive ''Content-Type''"
proof -
  have "lower_ascii ''Content-Type'' = ''content-type''" by code_simp
  then show ?thesis by (simp add: isSensitive_ascii)
qed

text \<open>Two header maps that differ in the values of sensitive headers at most.\<close>

definition same_but_secrets :: "headers \<Rightarrow> headers \<Rightarrow> bool" where
  "same_but_secrets = list_all2 (\<lambda>(k, v) (k', v'). k = k' \<and> (isSensitive k \<or> v = v'))"

lemma same_but_secrets_map_of:
  "same_but_secrets h h' \<Longrightarrow> \<not> isSensitive k \<Longrightarrow> map_of h k = map_of h' k"
  unfolding same_but_secrets_def by (induction rule: list_all2_induct) auto

lemma same_but_secrets_format: "same_but_secrets h h' \<Longrightarrow> formatHeaders h True = formatHeaders h' True"
proof -
  assume "same_but_secrets h h'"
  then have "map (header_line True) h = map (header_line True) h'"
    unfolding same_but_secrets_def by (induction rule: list_all2_induct) (auto simp: header_line_def)
  then show ?thesis by (simp add: formatHeaders_def)
qed

text \<open>C28: With redaction on, what is logged of a request or a response does not depend on the values of the
  headers \<open>Authorization\<close>, \<open>Cookie\<close> and \<open>X-Bose-Token\<close>, in whatever case their names are written and in
  whatever order the headers are visited.\<close>

theorem redaction_hides_secrets:
  assumes "lp_Redact lp" "same_but_secrets h h'"
  shows "LogRequest lp method url h body = LogRequest lp method url h' body
    \<and> LogResponse lp code url h body = LogResponse lp code url h' body
    \<and> (list_all (\<lambda>c. of_char c < (128 :: nat)) k \<and> lower_ascii k \<in> {''authorization'', ''cookie'', ''x-bose-token''}
        \<longrightarrow> isSensitive k)"
proof -
  have "shown_body lp h body = shown_body lp h' body"
    using same_but_secrets_map_of [OF assms(2) content_type_not_sensitive] by (simp add: shown_body_def Header_Get_def)
  with same_but_secrets_format [OF assms(2)] assms(1) show ?thesis
    by (simp add: LogRequest_def LogResponse_def isSensitive_ascii)
qed

text \<open>C29: Logging leaves the bytes of a body as they are, and shows at most ten kilobytes of it and a remark; but an
  error that ended the body is lost, so that a body that broke off is passed on as a complete one.\<close>

theorem logging_keeps_body:
  assumes "lp_MaxBodySize lp = 10240" "LogRequest lp method url h body = (line, body')"
  shows "map_option fst body' = map_option fst body
    \<and> length line \<le> length (''[PROXY_REQ] '' @ method @ '' '' @ url
        @ message_tail (formatHeaders h (lp_Redact lp)) []) + 10255
    \<and> (lp_LogBody lp \<and> shouldLogBody (Header_Get h ''Content-Type'') \<longrightarrow> body' = map_option (\<lambda>b. (fst b, None)) body)"
proof -
  obtain t where t: "shown_body lp h body = (t, body')"
    "line = ''[PROXY_REQ] '' @ method @ '' '' @ url @ message_tail (formatHeaders h (lp_Redact lp)) t"
    using assms(2) by (auto simp: LogRequest_def split: prod.splits)
  have "length t \<le> 10255"
    using t(1) assms(1) by (auto simp: shown_body_def split: if_splits option.splits)
  then have "length line \<le> length (''[PROXY_REQ] '' @ method @ '' '' @ url
        @ message_tail (formatHeaders h (lp_Redact lp)) []) + 10255"
    by (simp add: t(2) message_tail_def)
  moreover have "map_option fst body' = map_option fst body"
    "lp_LogBody lp \<and> shouldLogBody (Header_Get h ''Content-Type'') \<longrightarrow> body' = map_option (\<lambda>b. (fst b, None)) body"
    using t(1) by (auto simp: shown_body_def split: if_splits option.splits)
  ultimately show ?thesis by blast
qed

lemma preserve_etag_lookup:
  "map_of h ''Etag'' = Some es \<Longrightarrow> map_of (preserve_etag h) ''ETag'' = Some es \<and> map_of (preserve_etag h) ''Etag'' = None
    \<and> (k \<notin> {''Etag'', ''ETag''} \<longrightarrow> map_of (preserve_etag h) k = map_of h k)"
proof -
  have "map_of (filter (\<lambda>(k, _). k \<noteq> ''Etag'' \<and> k \<noteq> ''ETag'') h) k = (if k \<in> {''Etag'', ''ETag''} then None else map_of h k)" for k
    by (induction h) auto
  then show "map_of h ''Etag'' = Some es \<Longrightarrow> ?thesis" by (simp add: preserve_etag_def)
qed

theorem redaction_hides_secrets_witness:
  "LogRequest (NewLoggingProxy (\<lambda>_. []) [] True) ''GET'' ''/'' [(''AUTHORIZATION'', [''a''])] None
    = LogRequest (NewLoggingProxy (\<lambda>_. []) [] True) ''GET'' ''/'' [(''AUTHORIZATION'', [''b''])] None"
proof -
  have "lower_ascii ''AUTHORIZATION'' = ''authorization''" by code_simp
  then have "same_but_secrets [(''AUTHORIZATION'', [''a''])] [(''AUTHORIZATION'', [''b''])]"
    by (simp add: same_but_secrets_def isSensitive_ascii)
  then show ?thesis
    using redaction_hides_secrets [of "NewLoggingProxy (\<lambda>_. []) [] True"] by (simp add: NewLoggingProxy_def)
qed

theorem logging_keeps_body_witness:
  "snd (LogRequest (NewLoggingProxy (\<lambda>_. ''true'') [] True) ''POST'' ''/'' [] (Some (''<a>'', Some (External ''reset''))))
    = Some (''<a>'', None)"
proof -
  obtain line body' where r: "LogRequest (NewLoggingProxy (\<lambda>_. ''true'') [] True) ''POST'' ''/'' []
      (Some (''<a>'', Some (External ''reset''))) = (line, body')" by force
  have "shouldLogBody (Header_Get [] ''Content-Type'')"
    by (simp add: shouldLogBody_def Header_Get_def lower_ascii_def)
  with logging_keeps_body [OF _ r] r show ?thesis by (simp add: NewLoggingProxy_def)
qed

end
