(* ===== verification/Go_URL_Parse.thy ===== *)
theory Go_URL_Parse
  imports Go_URL Go_Text
begin

text \<open>
  \<open>url.Parse\<close>: the scheme, host, path and query of an address, or an error.  Hosts in brackets (IPv6 addresses and
  zones) are accepted differently by the versions of the package: \<open>ip_literal\<close> is what it makes of the host's text.
\<close>

text \<open>Percent-decoding, where \<open>ok_code\<close> says which codes are allowed and \<open>ok_char\<close> which other characters.\<close>

fun unescape_with :: "(char \<Rightarrow> char \<Rightarrow> bool) \<Rightarrow> (char \<Rightarrow> bool) \<Rightarrow> string \<Rightarrow> string option" where
  "unescape_with ok_code ok_char [] = Some []"
| "unescape_with ok_code ok_char (c # cs) =
     (if c = CHR ''%'' then
        (case cs of a # b # r \<Rightarrow>
             (case (hex_val a, hex_val b) of
                (Some i, Some j) \<Rightarrow>
                  if ok_code a b then map_option (\<lambda>t. char_of (16 * i + j) # t) (unescape_with ok_code ok_char r) else None
              | _ \<Rightarrow> None)
         | _ \<Rightarrow> None)
      else if ok_char c then map_option (\<lambda>t. c # t) (unescape_with ok_code ok_char cs) else None)"

definition path_unescape :: "string \<Rightarrow> string option" where
  "path_unescape = unescape_with (\<lambda>_ _. True) (\<lambda>_. True)"

definition host_byte :: "char \<Rightarrow> bool" where
  "host_byte c \<longleftrightarrow> 128 \<le> byte c \<or> url_unreserved c \<or> c \<in> set ''!$&()*+,;=:[]<>'' \<or> c = CHR 0x27 \<or> c = CHR 0x22"

definition host_unescape :: "string \<Rightarrow> string option" where
  "host_unescape = unescape_with (\<lambda>a b. (case hex_val a of Some i \<Rightarrow> 8 \<le> i | None \<Rightarrow> False) \<or> (a = CHR ''2'' \<and> b = CHR ''5'')) host_byte"

text \<open>\<open>strings.Cut\<close> and \<open>strings.LastIndex\<close> for a character.\<close>

definition cut_at :: "char \<Rightarrow> string \<Rightarrow> string \<times> string" where
  "cut_at c s = (takeWhile (\<lambda>x. x \<noteq> c) s, drop 1 (dropWhile (\<lambda>x. x \<noteq> c) s))"

definition after_last :: "char \<Rightarrow> string \<Rightarrow> string" where
  "after_last c s = rev (takeWhile (\<lambda>x. x \<noteq> c) (rev s))"

definition before_last :: "char \<Rightarrow> string \<Rightarrow> string" where
  "before_last c s = rev (drop 1 (dropWhile (\<lambda>x. x \<noteq> c) (rev s)))"

definition is_letter :: "char \<Rightarrow> bool" where
  "is_letter c \<longleftrightarrow> (65 \<le> byte c \<and> byte c \<le> 90) \<or> (97 \<le> byte c \<and> byte c \<le> 122)"

text \<open>The scheme and the rest; \<open>None\<close> for an address that begins with a colon.\<close>

definition scheme_byte :: "char \<Rightarrow> bool" where
  "scheme_byte c \<longleftrightarrow> is_letter c \<or> is_digit c \<or> c \<in> {CHR ''+'', CHR ''-'', CHR ''.''}"

definition getScheme :: "string \<Rightarrow> (string \<times> string) option" where
  "getScheme s =
     (let p = takeWhile scheme_byte s; r = dropWhile scheme_byte s in
      case r of [] \<Rightarrow> Some ([], s)
      | c # r' \<Rightarrow>
          if c \<noteq> CHR '':'' then Some ([], s)
          else if p = [] then None
          else if is_letter (hd p) then Some (p, r') else Some ([], s))"

definition validUserinfo :: "string \<Rightarrow> bool" where
  "validUserinfo s \<longleftrightarrow> list_all (\<lambda>c. is_letter c \<or> is_digit c \<or> c \<in> set ''-._:~!$&()*+,;=%@'' \<or> c = CHR 0x27) s"

definition validOptionalPort :: "string \<Rightarrow> bool" where
  "validOptionalPort p \<longleftrightarrow> p = [] \<or> (hd p = CHR '':'' \<and> list_all is_digit (tl p))"

definition parseHost :: "(string \<Rightarrow> string option) \<Rightarrow> string \<Rightarrow> string option" where
  "parseHost ip_literal host =
     (if CHR ''['' \<in> set host then ip_literal host
      else if CHR '':'' \<in> set host \<and> \<not> validOptionalPort (CHR '':'' # after_last CHR '':'' host) then None
      else host_unescape host)"

definition parseAuthority :: "(string \<Rightarrow> string option) \<Rightarrow> string \<Rightarrow> string option" where
  "parseAuthority ip_literal authority =
     (if CHR ''@'' \<notin> set authority then parseHost ip_literal authority
      else
        (let userinfo = before_last CHR ''@'' authority; (user, password) = cut_at CHR '':'' userinfo in
         case parseHost ip_literal (after_last CHR ''@'' authority) of
           None \<Rightarrow> None
         | Some host \<Rightarrow>
             if validUserinfo userinfo \<and> path_unescape user \<noteq> None \<and> path_unescape password \<noteq> None then Some host else None))"

record URL =
  u_Scheme :: string
  u_Opaque :: string
  u_Host :: string
  u_Path :: string
  u_RawQuery :: string

definition is_control :: "char \<Rightarrow> bool" where
  "is_control c \<longleftrightarrow> byte c < 32 \<or> byte c = 127"

text \<open>An address without its fragment.\<close>

definition parse_address :: "(string \<Rightarrow> string option) \<Rightarrow> string \<Rightarrow> URL option" where
  "parse_address ip_literal s =
     (if list_ex is_control s then None
      else if s = ''*'' then Some \<lparr>u_Scheme = [], u_Opaque = [], u_Host = [], u_Path = ''*'', u_RawQuery = []\<rparr>
      else case getScheme s of None \<Rightarrow> None
      | Some (scheme0, rest0) \<Rightarrow>
          (let scheme = lower_ascii scheme0;
               (rest, query) = cut_at CHR ''?'' rest0
           in
           if \<not> strings_HasPrefix rest ''/'' \<and> scheme \<noteq> [] then
             Some \<lparr>u_Scheme = scheme, u_Opaque = rest, u_Host = [], u_Path = [], u_RawQuery = query\<rparr>
           else if \<not> strings_HasPrefix rest ''/'' \<and> CHR '':'' \<in> set (fst (cut_at CHR ''/'' rest)) then None
           else
             (let (host, path) =
                (if (scheme \<noteq> [] \<or> \<not> strings_HasPrefix rest ''///'') \<and> strings_HasPrefix rest ''//''
                 then (parseAuthority ip_literal (takeWhile (\<lambda>c. c \<noteq> CHR ''/'') (drop 2 rest)),
                       dropWhile (\<lambda>c. c \<noteq> CHR ''/'') (drop 2 rest))
                 else (Some [], rest))
              in case (host, path_unescape path) of
                   (Some h, Some p) \<Rightarrow> Some \<lparr>u_Scheme = scheme, u_Opaque = [], u_Host = h, u_Path = p, u_RawQuery = query\<rparr>
                 | _ \<Rightarrow> None)))"

definition url_Parse :: "(string \<Rightarrow> string option) \<Rightarrow> string \<Rightarrow> URL result" where
  "url_Parse ip_literal s =
     (let (u, frag) = cut_at CHR ''#'' s in
      case parse_address ip_literal u of
        None \<Rightarrow> Inl (URLError u)
      | Some url \<Rightarrow> if path_unescape frag = None then Inl (URLError s) else Inr url)"

text \<open>A plain address: a host of characters that need no decoding, perhaps with a port, and a path without query and
  fragment.  Its path is decoded, and it is refused exactly if that fails.\<close>

definition plain_host :: "string \<Rightarrow> bool" where
  "plain_host h \<longleftrightarrow> h \<noteq> [] \<and> list_all (\<lambda>c. url_unreserved c) h"

definition plain_path :: "string \<Rightarrow> bool" where
  "plain_path p \<longleftrightarrow> (p = [] \<or> hd p = CHR ''/'') \<and> (\<forall>c \<in> set p. \<not> is_control c \<and> c \<noteq> CHR ''?'' \<and> c \<noteq> CHR ''#'')"

lemma unescape_plain: "list_all ok_char s \<Longrightarrow> CHR ''%'' \<notin> set s \<Longrightarrow> unescape_with ok_code ok_char s = Some s"
  by (induction s) auto

lemma path_unescape_plain: "CHR ''%'' \<notin> set p \<Longrightarrow> path_unescape p = Some p"
  by (simp add: path_unescape_def unescape_plain list_all_iff)

lemma unreserved_chars:
  "url_unreserved c \<Longrightarrow> c \<notin> {CHR ''%'', CHR ''/'', CHR ''@'', CHR ''['', CHR ''?'', CHR ''#'', CHR '':''}"
  by (auto simp: url_unreserved_def is_digit_def)

lemma unreserved_no_control: "url_unreserved c \<Longrightarrow> \<not> is_control c"
  by (auto simp: url_unreserved_def is_digit_def is_control_def)

lemma plain_host_chars:
  assumes "plain_host h" "validOptionalPort port" "c \<in> set (h @ port)"
  shows "host_byte c \<and> c \<notin> {CHR ''%'', CHR ''/'', CHR ''@'', CHR ''['', CHR ''?'', CHR ''#''} \<and> \<not> is_control c"
proof -
  have "c \<in> set port \<Longrightarrow> c = CHR '':'' \<or> url_unreserved c" 
    using assms(2) by (cases port) (auto simp: validOptionalPort_def list_all_iff url_unreserved_def)
  then have "c = CHR '':'' \<or> url_unreserved c" using assms(1,3) by (auto simp: plain_host_def list_all_iff)
  then show ?thesis
  proof
    assume "c = CHR '':''"
    then show ?thesis by (simp add: host_byte_def is_control_def)
  next
    assume u: "url_unreserved c"
    then show ?thesis using unreserved_chars [OF u] unreserved_no_control [OF u] by (simp add: host_byte_def)
  qed
qed

lemma takeWhile_until: "(\<forall>x \<in> set a. x \<noteq> c) \<Longrightarrow> (b = [] \<or> hd b = c) \<Longrightarrow>
    takeWhile (\<lambda>x. x \<noteq> c) (a @ b) = a \<and> dropWhile (\<lambda>x. x \<noteq> c) (a @ b) = b"
  by (cases b) (auto simp: takeWhile_append2 dropWhile_append2)

lemma cut_none: "c \<notin> set s \<Longrightarrow> cut_at c s = (s, [])"
  by (induction s) (auto simp: cut_at_def)

lemma no_colon_host: "plain_host h \<Longrightarrow> CHR '':'' \<notin> set h"
  by (auto simp: plain_host_def list_all_iff url_unreserved_def is_digit_def)

lemma parseHost_plain:
  assumes "plain_host h" "validOptionalPort port"
  shows "parseAuthority ip_literal (h @ port) = Some (h @ port)"
proof -
  note c = plain_host_chars [OF assms]
  have p: "after_last CHR '':'' (h @ port) = tl port" if "port \<noteq> []"
  proof -
    from that assms(2) obtain ds where ds: "port = CHR '':'' # ds" "list_all is_digit ds" by (cases port) (auto simp: validOptionalPort_def)
    then have "\<forall>x \<in> set (rev ds). x \<noteq> CHR '':''" by (auto simp: list_all_iff is_digit_def)
    from takeWhile_until [OF this, of "CHR '':'' # rev h"] ds show ?thesis by (simp add: after_last_def)
  qed
  have "CHR '':'' \<in> set (h @ port) \<Longrightarrow> validOptionalPort (CHR '':'' # after_last CHR '':'' (h @ port))"
    using p assms(2) no_colon_host [OF assms(1)] by (cases port) (auto simp: validOptionalPort_def)
  moreover have "CHR ''['' \<notin> set (h @ port)" "CHR ''@'' \<notin> set (h @ port)" using c by blast+
  moreover have "host_unescape (h @ port) = Some (h @ port)"
    unfolding host_unescape_def by (rule unescape_plain) (use c in \<open>auto simp: list_all_iff\<close>)
  ultimately show ?thesis by (simp only: parseAuthority_def parseHost_def if_True if_False simp_thms not_False_eq_True) auto
qed

theorem Parse_plain:
  assumes "scheme \<in> {''http'', ''https''}" "plain_host h" "validOptionalPort port" "plain_path p"
  shows "url_Parse ip_literal (scheme @ ''://'' @ h @ port @ p) =
    (case path_unescape p of None \<Rightarrow> Inl (URLError (scheme @ ''://'' @ h @ port @ p))
     | Some q \<Rightarrow> Inr \<lparr>u_Scheme = scheme, u_Opaque = [], u_Host = h @ port, u_Path = q, u_RawQuery = []\<rparr>)"
proof -
  let ?s = "scheme @ ''://'' @ h @ port @ p"
  note c = plain_host_chars [OF assms(2,3)]
  have s: "list_all scheme_byte scheme" "scheme \<noteq> []" "is_letter (hd scheme)" "lower_ascii scheme = scheme"
    using assms(1) by (auto simp: scheme_byte_def is_letter_def lower_ascii_def lower_byte_def)
  have pc: "\<not> is_control x \<and> x \<noteq> CHR ''?'' \<and> x \<noteq> CHR ''#''" if "x \<in> set p" for x using assms(4) that by (auto simp: plain_path_def)
  have sc: "\<not> is_control x \<and> x \<noteq> CHR ''?'' \<and> x \<noteq> CHR ''#''" if "x \<in> set scheme" for x
    using s(1) that by (auto simp: list_all_iff scheme_byte_def is_letter_def is_digit_def is_control_def)
  have all: "\<not> is_control x \<and> x \<noteq> CHR ''?'' \<and> x \<noteq> CHR ''#''" if "x \<in> set ?s" for x
    using that pc [of x] sc [of x] c [of x] by (auto simp: is_control_def)
  then have none: "CHR ''#'' \<notin> set ?s" "CHR ''?'' \<notin> set ?s" "\<forall>x \<in> set ?s. \<not> is_control x" by blast+
  have f: "cut_at CHR ''#'' ?s = (?s, [])" "list_ex is_control ?s = False"
    using cut_none [OF none(1)] none(3) unfolding list_ex_iff by blast+
  have q: "cut_at CHR ''?'' (''//'' @ h @ port @ p) = (''//'' @ h @ port @ p, [])"
    by (rule cut_none) (use none(2) in simp)
  have ns: "\<not> scheme_byte CHR '':''" by (simp add: scheme_byte_def is_letter_def is_digit_def)
  have g: "getScheme ?s = Some (scheme, ''//'' @ h @ port @ p)"
    using s(1-3) ns by (simp add: getScheme_def takeWhile_append dropWhile_append list_all_iff)
  have hp: "takeWhile (\<lambda>c. c \<noteq> CHR ''/'') (h @ port @ p) = h @ port \<and> dropWhile (\<lambda>c. c \<noteq> CHR ''/'') (h @ port @ p) = p"
    using takeWhile_until [of "h @ port" "CHR ''/''" p] c assms(4) by (auto simp: plain_path_def)
  have "?s \<noteq> ''*''" using assms(1) by auto
  then have "parse_address ip_literal ?s = (case path_unescape p of None \<Rightarrow> None
      | Some q \<Rightarrow> Some \<lparr>u_Scheme = scheme, u_Opaque = [], u_Host = h @ port, u_Path = q, u_RawQuery = []\<rparr>)"
    by (simp only: parse_address_def f g q s(4) option.case prod.case Let_def if_False)
      (simp add: strings_HasPrefix_def s(2) hp parseHost_plain [OF assms(2,3)] split: option.split)
  then show ?thesis by (simp only: url_Parse_def f(1) Let_def prod.case) (auto simp: path_unescape_def split: option.split)
qed

end
