(* ===== verification/Forwarding.thy ===== *)
theory Forwarding
  imports Proxy Discovery_Laws Http Go_URL_Parse
begin

text \<open>
  Forwarding in \<open>soundcork-go/main.go\<close>: \<open>handleProxyRequest\<close>, which sends a request to the address in its path, and the
  delegation of requests to unknown routes to the backend.  What is modelled is the request that goes out, or the
  answer when there is none, and what is logged; the exchange itself is the library's reverse proxy.
\<close>

text \<open>Messages are logged with the settings of the moment.\<close>

definition logging_proxy :: "(string \<Rightarrow> string) \<Rightarrow> string \<Rightarrow> Server \<Rightarrow> LoggingProxy" where
  "logging_proxy getenv target s = (NewLoggingProxy getenv target (sv_proxyRedact s))\<lparr>lp_LogBody := sv_proxyLogBody s\<rparr>"

section \<open>Requests to an address\<close>

text \<open>The request that goes out, as far as the handler decides it.  The director of the library joins the paths and the
  queries of the target and of the request; the one of the handler replaces both: the path is the target's, the query
  the request's.  The parts of the library's that are left are the scheme and the host.\<close>

record outgoing =
  og_Scheme :: string
  og_Host :: string
  og_Path :: string
  og_RawQuery :: string

datatype proxied_request = Answered response | Forwarded LoggingProxy outgoing

definition proxy_director :: "URL \<Rightarrow> string \<Rightarrow> outgoing" where
  "proxy_director target rawQuery =
     \<lparr>og_Scheme = u_Scheme target, og_Host = u_Host target, og_Path = u_Path target, og_RawQuery = rawQuery\<rparr>"

definition handleProxyRequest ::
  "(string \<Rightarrow> string option) \<Rightarrow> (go_error \<Rightarrow> string) \<Rightarrow> (string \<Rightarrow> string) \<Rightarrow> Server \<Rightarrow> request \<Rightarrow> proxied_request" where
  "handleProxyRequest ip_literal msg getenv s r =
     (case proxy_target (rq_Path r) of
        None \<Rightarrow> Answered (http_Error ''Target URL is required'' 400 new_response)
      | Some targetURL \<Rightarrow>
          (case url_Parse ip_literal targetURL of
             Inl e \<Rightarrow> Answered (http_Error (''Invalid target URL: '' @ msg e) 400 new_response)
           | Inr target \<Rightarrow> Forwarded (logging_proxy getenv targetURL s) (proxy_director target (rq_RawQuery r))))"

section \<open>Delegation\<close>

text \<open>The entity tag of a response of the backend gets its case back.\<close>

definition backend_request ::
  "(string \<Rightarrow> string) \<Rightarrow> string \<Rightarrow> Server \<Rightarrow> string \<Rightarrow> string \<Rightarrow> headers \<Rightarrow> body \<Rightarrow> string \<times> body" where
  "backend_request getenv target s = LogRequest (logging_proxy getenv target s)"

definition backend_response ::
  "(string \<Rightarrow> string) \<Rightarrow> string \<Rightarrow> Server \<Rightarrow> int \<Rightarrow> string \<Rightarrow> headers \<Rightarrow> body \<Rightarrow> string \<times> headers \<times> body" where
  "backend_response getenv target s statusCode url h body =
     (let h' = preserve_etag h; (line, body') = LogResponse (logging_proxy getenv target s) statusCode url h' body
      in (line, h', body'))"

text \<open>The library's director for the backend: the scheme and host of the backend, its path before that of the request,
  its query before the other one.  The paths are those without an encoding of their own.\<close>

definition singleJoiningSlash :: "string \<Rightarrow> string \<Rightarrow> string" where
  "singleJoiningSlash a b =
     (let aslash = strings_HasSuffix a ''/''; bslash = strings_HasPrefix b ''/'' in
      if aslash \<and> bslash then a @ tl b else if \<not> aslash \<and> \<not> bslash then a @ ''/'' @ b else a @ b)"

definition backend_director :: "URL \<Rightarrow> request \<Rightarrow> outgoing" where
  "backend_director target r =
     (let q = u_RawQuery target; p = rq_RawQuery r in
      \<lparr>og_Scheme = u_Scheme target, og_Host = u_Host target, og_Path = singleJoiningSlash (u_Path target) (rq_Path r),
       og_RawQuery = (if q = [] \<or> p = [] then q @ p else q @ ''&'' @ p)\<rparr>)"

text \<open>A request to an unknown route.\<close>

definition delegate :: "(string \<Rightarrow> string) \<Rightarrow> string \<Rightarrow> URL \<Rightarrow> Server \<Rightarrow> request \<Rightarrow> proxied_request" where
  "delegate getenv targetText target s r = Forwarded (logging_proxy getenv targetText s) (backend_director target r)"

section \<open>What is forwarded\<close>

lemma target_of_proxied:
  assumes "scheme \<in> {''http'', ''https''}" "sep \<in> {''//'', ''/''}" "rest \<noteq> []" "hd rest \<noteq> CHR ''/''"
  shows "proxy_target (''/proxy/'' @ scheme @ '':'' @ sep @ rest) = Some (scheme @ ''://'' @ rest)"
  using proxied_address_is_restored [of "scheme @ '':''" rest] assms by auto

text \<open>C36: A request whose path is that of a proxied address is sent to the address's host, with the path of the address
  and the query of the request, also when a double slash was lost on the way.  The path was already decoded once, by
  the server, and is decoded again here: percent signs that were encoded in it are taken for codes, or refused.\<close>

theorem forwarded_path_is_decoded_again:
  assumes "rq_Path r = ''/proxy/'' @ scheme @ '':'' @ sep @ host @ port @ path"
    and "scheme \<in> {''http'', ''https''}" "sep \<in> {''//'', ''/''}"
    and "plain_host host" "validOptionalPort port" "plain_path path"
  shows "handleProxyRequest ip_literal msg getenv s r =
      (case path_unescape path of
         None \<Rightarrow> Answered (http_Error (''Invalid target URL: '' @ msg (URLError (scheme @ ''://'' @ host @ port @ path))) 400 new_response)
       | Some p \<Rightarrow> Forwarded (logging_proxy getenv (scheme @ ''://'' @ host @ port @ path) s)
           \<lparr>og_Scheme = scheme, og_Host = host @ port, og_Path = p, og_RawQuery = rq_RawQuery r\<rparr>)
    \<and> (CHR ''%'' \<notin> set path \<longrightarrow> path_unescape path = Some path)"
proof -
  have "host \<noteq> []" "hd (host @ port @ path) \<noteq> CHR ''/''"
    using assms(4) by (cases host; auto simp: plain_host_def url_unreserved_def is_digit_def)+
  then have "proxy_target (rq_Path r) = Some (scheme @ ''://'' @ host @ port @ path)"
    unfolding assms(1) by (intro target_of_proxied assms(2,3)) simp_all
  then show ?thesis
    using Parse_plain [OF assms(2,4-6)] path_unescape_plain
    by (simp add: handleProxyRequest_def proxy_director_def split: option.split)
qed

text \<open>A request to a route the service does not know goes to the backend as it came, with the same path and query, after
  the path of the backend's address if it has one (without a slash at its end).\<close>

theorem delegated_request_is_unchanged:
  assumes "scheme \<in> {''http'', ''https''}" "plain_host host" "validOptionalPort port"
    and "plain_path base" "CHR ''%'' \<notin> set base" "base = [] \<or> last base \<noteq> CHR ''/''"
    and "strings_HasPrefix (rq_Path r) ''/''"
  shows "\<exists>target. url_Parse ip_literal (scheme @ ''://'' @ host @ port @ base) = Inr target
    \<and> delegate getenv text target s r = Forwarded (logging_proxy getenv text s)
        \<lparr>og_Scheme = scheme, og_Host = host @ port, og_Path = base @ rq_Path r, og_RawQuery = rq_RawQuery r\<rparr>"
proof -
  have "\<not> strings_HasSuffix base ''/''"
    using assms(6) by (cases base rule: rev_cases) (auto simp: strings_HasSuffix_def strings_HasPrefix_def)
  then show ?thesis
    using Parse_plain [OF assms(1-4)] path_unescape_plain [OF assms(5)] assms(7)
    by (simp add: delegate_def backend_director_def singleJoiningSlash_def Let_def)
qed

end
