(* ===== verification/Media.thy ===== *)
theory Media
  imports Go_OS Http Go_URL
begin

text \<open>
  The files of the service: \<open>handleMedia\<close> in \<open>soundcork-go/handlers_media.go\<close> and the route of \<open>/favicon.ico\<close> in
  \<open>main.go\<close>, on top of the library's file server (\<open>http.FileServer\<close> on an \<open>http.Dir\<close>, \<open>http.ServeFile\<close>).  A request
  for a part of a file, or for one that has changed, is answered by a parameter, \<open>part\<close>; of the headers of an answer the
  location of a redirection and the type of a listing are modelled.  The theorems say which files can be reached.
\<close>

section \<open>Paths\<close>

definition ends_in_slash :: "string \<Rightarrow> bool" where
  "ends_in_slash s \<longleftrightarrow> strings_HasSuffix s ''/''"

text \<open>\<open>path.Base\<close>: the last component, without slashes after it.\<close>

definition path_Base :: "string \<Rightarrow> string" where
  "path_Base p =
     (if p = [] then ''.''
      else let s = rev (takeWhile (\<lambda>c. c \<noteq> CHR ''/'') (dropWhile (\<lambda>c. c = CHR ''/'') (rev p))) in
        if s = [] then ''/'' else s)"

section \<open>Opening\<close>

text \<open>\<open>http.Dir.Open\<close>: the name is cleaned as one from the root, and then taken as one below the directory.  A name with
  a zero byte, or one that is not UTF-8, is refused.\<close>

fun utf8_ValidString :: "string \<Rightarrow> bool" where
  "utf8_ValidString [] \<longleftrightarrow> True"
| "utf8_ValidString (c # cs) \<longleftrightarrow>
     utf8_DecodeRune (c # cs) \<noteq> (rune_error, 1) \<and> utf8_ValidString (drop (snd (utf8_DecodeRune (c # cs)) - 1) cs)"

definition local_name :: "string \<Rightarrow> bool" where
  "local_name p \<longleftrightarrow> utf8_ValidString p \<and> CHR 0x00 \<notin> set p"

definition below :: "string \<Rightarrow> string" where
  "below name = (let p = tl (filepath_Clean (CHR ''/'' # name)) in if p = [] then ''.'' else p)"

definition dir_Open :: "world \<Rightarrow> string \<Rightarrow> string \<Rightarrow> errno + node" where
  "dir_Open w d name =
     (if \<not> local_name (below name) then Inl EINVAL
      else lookup (w_root w) (at_path w (filepath_Join [if d = [] then ''.'' else d, below name])))"

text \<open>The errors as answers; a path that goes on below a file is one that does not exist.\<close>

definition open_error :: "errno \<Rightarrow> response" where
  "open_error e =
     (if e \<in> {ENOENT, ENOTDIR} then http_Error ''404 page not found'' 404 new_response
      else if e = EACCES then http_Error ''403 Forbidden'' 403 new_response
      else http_Error ''500 Internal Server Error'' 500 new_response)"

section \<open>Answers\<close>

definition path_byte :: "char \<Rightarrow> string" where
  "path_byte c =
     (if url_unreserved c \<or> c \<in> set ''$&+,/:;=@'' then [c]
      else [CHR ''%'', upper_hex (byte c div 16), upper_hex (byte c mod 16)])"

text \<open>\<open>URL.String\<close> of a relative path: a colon in the first component must not be taken for the end of a scheme.\<close>

definition relative_url :: "string \<Rightarrow> string" where
  "relative_url p =
     (if p = ''*'' then p
      else let e = concat (map path_byte p) in
        if CHR '':'' \<in> set (takeWhile (\<lambda>c. c \<noteq> CHR ''/'') e) then ''./'' @ e else e)"

definition html_byte :: "char \<Rightarrow> string" where
  "html_byte c =
     (if c = CHR ''&'' then ''&amp;'' else if c = CHR ''<'' then ''&lt;'' else if c = CHR ''>'' then ''&gt;''
      else if c = CHR 0x22 then ''&#34;'' else if c = CHR 0x27 then ''&#39;'' else [c])"

definition listing_line :: "string \<times> node \<Rightarrow> string" where
  "listing_line e = (let name = fst e @ (if is_dir (snd e) then ''/'' else []) in
     ''<a href='' @ [CHR 0x22] @ relative_url name @ [CHR 0x22] @ ''>'' @ concat (map html_byte name) @ ''</a>'' @ [CHR 0x0A])"

definition listing_text :: "(string \<times> node) list \<Rightarrow> string" where
  "listing_text es =
     ''<!doctype html>'' @ [CHR 0x0A]
     @ ''<meta name='' @ [CHR 0x22] @ ''viewport'' @ [CHR 0x22] @ '' content='' @ [CHR 0x22] @ ''width=device-width'' @ [CHR 0x22]
     @ ''>'' @ [CHR 0x0A] @ ''<pre>'' @ [CHR 0x0A]
     @ concat (map listing_line es) @ ''</pre>'' @ [CHR 0x0A]"

fun node_text :: "node \<Rightarrow> string" where
  "node_text (File t m) = t"
| "node_text (Dir es) = listing_text es"

definition conditional :: "request \<Rightarrow> bool" where
  "conditional r \<longleftrightarrow> list_ex (\<lambda>k. rq_Header r k \<noteq> [])
     [''Range'', ''If-Modified-Since'', ''If-None-Match'', ''If-Match'', ''If-Unmodified-Since'']"

definition serve_node :: "(request \<Rightarrow> node \<Rightarrow> response) \<Rightarrow> request \<Rightarrow> node \<Rightarrow> response" where
  "serve_node part r n =
     (if conditional r then part r n
      else case n of
        File t m \<Rightarrow> Write t new_response
      | Dir es \<Rightarrow> Write (listing_text es) (Header_Set ''Content-Type'' ''text/html; charset=utf-8'' new_response))"

definition local_redirect :: "request \<Rightarrow> string \<Rightarrow> response" where
  "local_redirect r p = WriteHeader 301 (Header_Set ''Location''
     (p @ (if rq_RawQuery r = [] then [] else ''?'' @ rq_RawQuery r)) new_response)"

text \<open>\<open>serveFile\<close>: directories are only served below an address that ends in a slash, files below one that does not, and
  an \<open>index.html\<close> stands for its directory.\<close>

definition serve_file ::
  "(request \<Rightarrow> node \<Rightarrow> response) \<Rightarrow> world \<Rightarrow> string \<Rightarrow> string \<Rightarrow> bool \<Rightarrow> request \<Rightarrow> response" where
  "serve_file part w d name redirect r =
     (let url = rq_Path r in
      if strings_HasSuffix url ''/index.html'' then local_redirect r ''./''
      else case dir_Open w d name of
        Inl e \<Rightarrow> open_error e
      | Inr (File t m) \<Rightarrow>
          if redirect \<and> ends_in_slash url then
            if path_Base url \<in> {''/'', ''.''}
            then http_Error ''http: attempting to traverse a non-directory'' 500 new_response
            else local_redirect r (''../'' @ path_Base url)
          else serve_node part r (File t m)
      | Inr (Dir es) \<Rightarrow>
          if \<not> ends_in_slash url then local_redirect r (path_Base url @ ''/'')
          else (case dir_Open w d (strings_TrimSuffix name ''/'' @ ''/index.html'') of
              Inr n \<Rightarrow> serve_node part r n
            | Inl _ \<Rightarrow> serve_node part r (Dir es)))"

definition file_server :: "(request \<Rightarrow> node \<Rightarrow> response) \<Rightarrow> world \<Rightarrow> string \<Rightarrow> request \<Rightarrow> response" where
  "file_server part w d r =
     (let upath = (if strings_HasPrefix (rq_Path r) ''/'' then rq_Path r else CHR ''/'' # rq_Path r)
      in serve_file part w d (filepath_Clean upath) True (r\<lparr>rq_Path := upath\<rparr>))"

definition ServeFile :: "(request \<Rightarrow> node \<Rightarrow> response) \<Rightarrow> world \<Rightarrow> string \<Rightarrow> request \<Rightarrow> response" where
  "ServeFile part w name r =
     (if ''..'' \<in> set (path_comps (map (\<lambda>c. if c = CHR 0x5C then CHR ''/'' else c) (rq_Path r))) then http_Error ''invalid URL path'' 400 new_response
      else let file = rev (takeWhile (\<lambda>c. c \<noteq> CHR ''/'') (rev name)) in
        serve_file part w (take (length name - length file) name) file False r)"

section \<open>Handlers\<close>

text \<open>\<open>http.StripPrefix\<close> in front of the file server.\<close>

definition handleMedia :: "(request \<Rightarrow> node \<Rightarrow> response) \<Rightarrow> string \<Rightarrow> world \<Rightarrow> request \<Rightarrow> response" where
  "handleMedia part mediaDir w r =
     (let p = strings_TrimPrefix (rq_Path r) ''/media/'' in
      if length p < length (rq_Path r) then file_server part w mediaDir (r\<lparr>rq_Path := p\<rparr>)
      else http_Error ''404 page not found'' 404 new_response)"

definition favicon :: "(request \<Rightarrow> node \<Rightarrow> response) \<Rightarrow> string \<Rightarrow> world \<Rightarrow> request \<Rightarrow> response" where
  "favicon part mediaDir w r = ServeFile part w (filepath_Join [mediaDir, ''favicon-braille.svg'']) r"

section \<open>What can be reached\<close>

lemma clean_rooted:
  obtains q where "filepath_Clean (CHR ''/'' # name) = CHR ''/'' # join_char CHR ''/'' q" "list_all plain_name q" "clean_inv True q"
proof -
  define q where "q = foldl (clean_step True) [] (path_comps (CHR ''/'' # name))"
  have "\<forall>c \<in> set (path_comps (CHR ''/'' # name)). CHR ''/'' \<notin> set c" using split_char_sep_free by blast
  from clean_fold [OF _ this, of True "[]" "[]"] have i: "clean_inv True q" unfolding q_def by (simp add: clean_inv_def)
  then have "list_all plain_name q" by (auto simp: clean_inv_def list_all_iff plain_name_def skip_comp_def)
  moreover have "filepath_Clean (CHR ''/'' # name) = CHR ''/'' # join_char CHR ''/'' q"
    unfolding filepath_Clean_def q_def by (simp only: rooted_def Let_def) simp
  ultimately show ?thesis using that i by blast
qed

lemma walk_names: "list_all plain_name q \<Longrightarrow> foldl walk_step base q = base @ q"
  by (induction q arbitrary: base) auto

lemma at_below:
  assumes "below name = (if q = [] then ''.'' else join_char CHR ''/'' q)" "list_all plain_name q" "clean_inv True q" "d \<noteq> []"
  shows "at_path w (filepath_Join [d, below name]) = at_path w d @ q"
proof -
  have "foldl walk_step b (path_comps (below name)) = b @ q" for b
  proof (cases "q = []")
    case True
    then show ?thesis using assms(1) by (simp add: walk_step_def skip_comp_def)
  next
    case False
    then show ?thesis using split_join_walk [OF assms(3), of b] assms(1) walk_names [OF assms(2), of b] by simp
  qed
  with assms(4) show ?thesis by (simp add: resolve_Join del: filepath_Join.simps)
qed

text \<open>Whatever the name is, what is opened lies in the directory.\<close>

lemma dir_Open_below:
  assumes "dir_Open w d name = Inr n" "d \<noteq> []"
  obtains q where "list_all plain_name q" "lookup (w_root w) (at_path w d @ q) = Inr n"
proof -
  obtain q where q: "filepath_Clean (CHR ''/'' # name) = CHR ''/'' # join_char CHR ''/'' q" "list_all plain_name q" "clean_inv True q"
    by (rule clean_rooted)
  have "q \<noteq> [] \<Longrightarrow> join_char CHR ''/'' q \<noteq> []" using q(2) by (intro join_nonempty) (auto simp: plain_name_def list_all_iff)
  then have "below name = (if q = [] then ''.'' else join_char CHR ''/'' q)" by (auto simp: below_def q(1))
  from at_below [OF this q(2,3) assms(2), of w] assms that [OF q(2)] show ?thesis by (auto simp: dir_Open_def split: if_splits)
qed

lemma answer_statuses [simp]:
  "rs_Status (open_error e) \<in> {Some 404, Some 403, Some 500}" "rs_Status (local_redirect r p) = Some 301"
  by (auto simp: open_error_def local_redirect_def http_defs)

lemma answer_codes [simp]: "status_of (open_error e) \<noteq> 200" "status_of (local_redirect r p) = 301"
    "status_of (http_Error m c new_response) = c"
  by (auto simp: status_of_def open_error_def local_redirect_def http_defs)

lemma node_answer: "\<not> conditional r \<Longrightarrow> rs_Body (serve_node part r n) = node_text n"
  by (cases n) (simp_all add: serve_node_def http_defs)

lemma serve_file_below:
  assumes "d \<noteq> []" "\<not> conditional r" "status_of (serve_file part w d name redirect r) = 200"
  obtains q n where "list_all plain_name q" "lookup (w_root w) (at_path w d @ q) = Inr n"
    "rs_Body (serve_file part w d name redirect r) = node_text n"
proof -
  have "\<exists>m n. dir_Open w d m = Inr n \<and> serve_file part w d name redirect r = serve_node part r n"
    using assms(3) by (auto simp: serve_file_def Let_def split: if_splits sum.splits node.splits)
  then obtain m n where m: "dir_Open w d m = Inr n" "serve_file part w d name redirect r = serve_node part r n" by blast
  from dir_Open_below [OF m(1) assms(1)] obtain q where "list_all plain_name q" "lookup (w_root w) (at_path w d @ q) = Inr n" .
  then show ?thesis by (rule that) (simp add: m(2) node_answer [OF assms(2)])
qed

text \<open>C34: Whatever the path of a request for media is, with dots or encoded separators in it, an answer with status 200 is
  the content of a file below the media directory, or the list of a directory there.\<close>

theorem media_stays_below:
  assumes "d \<noteq> []" "\<not> conditional r" "status_of (handleMedia part d w r) = 200"
  shows "\<exists>q n. list_all plain_name q \<and> lookup (w_root w) (at_path w d @ q) = Inr n \<and> rs_Body (handleMedia part d w r) = node_text n"
proof -
  have c: "conditional (r\<lparr>rq_Path := p\<rparr>) = conditional r" for p by (simp add: conditional_def)
  from assms(3) obtain name p where m: "handleMedia part d w r = serve_file part w d name True (r\<lparr>rq_Path := p\<rparr>)"
    by (auto simp: handleMedia_def file_server_def Let_def split: if_splits)
  with serve_file_below [OF assms(1), of "r\<lparr>rq_Path := p\<rparr>" part w name True] assms(2,3) c show ?thesis by metis
qed

section \<open>What is served\<close>

lemma clean_fold_plain: "list_all plain_name q \<Longrightarrow> foldl (clean_step r) acc q = acc @ q"
  by (induction q arbitrary: acc) (auto simp: clean_step_def plain_name_def skip_comp_def)

lemma comps_of_plain: "list_all plain_name q \<Longrightarrow> q \<noteq> [] \<Longrightarrow> path_comps (join_char CHR ''/'' q) = q"
  by (auto simp: split_join list_all_iff plain_name_def)

lemma clean_plain:
  assumes "list_all plain_name q" "q \<noteq> []"
  shows "filepath_Clean (CHR ''/'' # join_char CHR ''/'' q) = CHR ''/'' # join_char CHR ''/'' q"
    and "filepath_Clean (CHR ''/'' # CHR ''/'' # join_char CHR ''/'' q) = CHR ''/'' # join_char CHR ''/'' q"
  using clean_fold_plain [OF assms(1), of True "[]"] comps_of_plain [OF assms]
  by (simp_all add: filepath_Clean_def rooted_def Let_def clean_step_def skip_comp_def)

lemma below_plain: "list_all plain_name q \<Longrightarrow> q \<noteq> [] \<Longrightarrow> below (CHR ''/'' # join_char CHR ''/'' q) = join_char CHR ''/'' q"
  using join_nonempty [of q "CHR ''/''"] by (auto simp: below_def clean_plain list_all_iff plain_name_def)

lemma HasSuffix_iff: "strings_HasSuffix s t \<longleftrightarrow> (\<exists>x. s = x @ t)"
  unfolding strings_HasSuffix_def strings_HasPrefix_def
  by (metis append_take_drop_id append_eq_conv_conj length_rev rev_append rev_rev_ident)

lemma last_comp_after_slash: "CHR ''/'' \<notin> set t \<Longrightarrow> last (path_comps (x @ CHR ''/'' # t)) = t"
  by (simp add: split_char_append split_char_free)

lemma plain_no_suffix:
  assumes "list_all plain_name q" "q \<noteq> []" "CHR ''/'' \<notin> set t" "last q \<noteq> t"
  shows "\<not> strings_HasSuffix (CHR ''/'' # join_char CHR ''/'' q) (CHR ''/'' # t)"
proof
  assume "strings_HasSuffix (CHR ''/'' # join_char CHR ''/'' q) (CHR ''/'' # t)"
  then obtain x where "CHR ''/'' # join_char CHR ''/'' q = x @ CHR ''/'' # t" by (auto simp: HasSuffix_iff)
  then have "last (path_comps (CHR ''/'' # join_char CHR ''/'' q)) = t" using last_comp_after_slash [OF assms(3)] by simp
  with comps_of_plain [OF assms(1,2)] assms(2,4) show False by simp
qed

lemma base_plain:
  assumes "list_all plain_name q" "q \<noteq> []"
  shows "path_Base (CHR ''/'' # join_char CHR ''/'' q) = last q"
proof -
  obtain p f where q: "q = p @ [f]" using assms(2) by (metis append_butlast_last_id)
  have "CHR ''/'' # join_char CHR ''/'' q = (if p = [] then [] else CHR ''/'' # join_char CHR ''/'' p) @ CHR ''/'' # f"
    by (simp add: q join_snoc)
  then obtain x where x: "CHR ''/'' # join_char CHR ''/'' q = x @ CHR ''/'' # f" by blast
  from assms(1) q have f: "f \<noteq> []" "CHR ''/'' \<notin> set f" by (auto simp: plain_name_def)
  have "dropWhile (\<lambda>c. c = CHR ''/'') (rev f @ s) = rev f @ s" for s
    using f by (cases f rule: rev_cases) auto
  moreover have "takeWhile (\<lambda>c. c \<noteq> CHR ''/'') (rev f @ CHR ''/'' # s) = rev f" for s
    using f by (subst takeWhile_append2) auto
  ultimately show ?thesis using f unfolding path_Base_def x by (simp add: q Let_def)
qed

lemma open_plain:
  assumes "list_all plain_name q" "q \<noteq> []" "d \<noteq> []" "local_name (join_char CHR ''/'' q)"
  shows "dir_Open w d (CHR ''/'' # join_char CHR ''/'' q) = lookup (w_root w) (at_path w d @ q)"
proof -
  have "clean_inv True q" using assms(1) by (auto simp: clean_inv_def list_all_iff plain_name_def skip_comp_def)
  from at_below [OF _ assms(1) this assms(3), of "CHR ''/'' # join_char CHR ''/'' q" w] assms below_plain [OF assms(1,2)]
  show ?thesis by (simp add: dir_Open_def del: filepath_Join.simps)
qed

text \<open>C35: The path of an existing file below the media directory, other than an \<open>index.html\<close>, is answered with the file's
  content, the path of a directory there with a redirection to the same path with a slash at its end, and any other
  path of plain names with 404.\<close>

theorem media_are_served:
  assumes "list_all plain_name q" "q \<noteq> []" "last q \<noteq> ''index.html''" "local_name (join_char CHR ''/'' q)" "d \<noteq> []"
    and "rq_Path r = ''/media/'' @ join_char CHR ''/'' q" "\<not> conditional r" "rq_RawQuery r = []"
  shows "case lookup (w_root w) (at_path w d @ q) of
      Inr (File t m) \<Rightarrow> handleMedia part d w r = Write t new_response
    | Inr (Dir es) \<Rightarrow> handleMedia part d w r = WriteHeader 301 (Header_Set ''Location'' (last q @ ''/'') new_response)
    | Inl e \<Rightarrow> handleMedia part d w r = http_Error ''404 page not found'' 404 new_response"
proof -
  let ?u = "CHR ''/'' # join_char CHR ''/'' q"
  have n: "\<not> rooted (join_char CHR ''/'' q)" using assms(1,2)
    by (intro rooted_join) (auto simp: clean_inv_def list_all_iff plain_name_def skip_comp_def)
  then have "\<not> strings_HasPrefix (join_char CHR ''/'' q) ''/''"
    by (cases "join_char CHR ''/'' q") (auto simp: rooted_def strings_HasPrefix_def)
  then have h: "handleMedia part d w r = serve_file part w d ?u True (r\<lparr>rq_Path := ?u\<rparr>)"
    using assms(6) by (simp add: handleMedia_def file_server_def strings_TrimPrefix_def strings_HasPrefix_def Let_def clean_plain [OF assms(1,2)])
  have s: "\<not> strings_HasSuffix ?u ''/index.html''" "\<not> ends_in_slash ?u"
    using plain_no_suffix [OF assms(1,2), of "''index.html''"] plain_no_suffix [OF assms(1,2), of "[]"] assms(1-3)
    by (auto simp: ends_in_slash_def list_all_iff plain_name_def)
  have c: "\<not> conditional (r\<lparr>rq_Path := ?u\<rparr>)" using assms(7) by (simp add: conditional_def)
  have e: "lookup n p = Inl e \<Longrightarrow> e \<in> {ENOENT, ENOTDIR}" for n p e
    by (induction n p rule: lookup.induct) (auto split: option.splits)
  show ?thesis
    using s c e [of "w_root w" "at_path w d @ q"] assms(8) base_plain [OF assms(1,2)]
    by (auto simp: h serve_file_def open_plain [OF assms(1,2,5,4)] serve_node_def local_redirect_def open_error_def
        split: sum.splits node.splits)
qed

text \<open>The icon of the service is a file of the media directory.\<close>

lemma Join_last:
  assumes "d \<noteq> []" "plain_name f"
  obtains x where "filepath_Join [d, f] = x @ f" "x = [] \<or> last x = CHR ''/''"
proof -
  define out where "out = foldl (clean_step (rooted d)) [] (path_comps d)"
  have f: "CHR ''/'' \<notin> set f" "f \<noteq> []" using assms(2) by (auto simp: plain_name_def)
  have r: "rooted (d @ CHR ''/'' # f) = rooted d" using assms(1) by (cases d) (auto simp: rooted_def)
  have "clean_step (rooted d) out f = out @ [f]"
    using assms(2) by (simp add: clean_step_def plain_name_def skip_comp_def)
  then have "filepath_Join [d, f] = (if rooted d then ''/'' else []) @ join_char CHR ''/'' (out @ [f])"
    using assms f r by (simp add: filepath_Clean_def split_char_append out_def Let_def join_snoc)
  then show ?thesis
    using that [of "(if rooted d then ''/'' else []) @ (if out = [] then [] else join_char CHR ''/'' out @ ''/'')"]
    by (simp add: join_snoc del: filepath_Join.simps split: if_splits)
qed

theorem favicon_is_served:
  assumes "d \<noteq> []" "rq_Path r = ''/favicon.ico''" "\<not> conditional r"
    and "lookup (w_root w) (at_path w d @ [''favicon-braille.svg'']) = Inr (File t m)"
  shows "favicon part d w r = Write t new_response"
proof -
  let ?f = "''favicon-braille.svg''"
  have f: "plain_name ?f" by (simp add: plain_name_def)
  obtain x where x: "filepath_Join [d, ?f] = x @ ?f" "x = [] \<or> last x = CHR ''/''" using Join_last [OF assms(1) f] .
  have tw: "takeWhile (\<lambda>c. c \<noteq> CHR ''/'') (rev ?f @ rev x) = rev ?f"
  proof (cases x rule: rev_cases)
    case (snoc y c)
    then have c: "rev ?f @ rev x = rev ?f @ CHR ''/'' # rev y" using x(2) by simp
    show ?thesis unfolding c by (subst takeWhile_append2) auto
  qed simp
  have "filepath_Dir (x @ ?f) = filepath_Clean x"
  proof (cases x rule: rev_cases)
    case Nil
    then show ?thesis by (simp add: filepath_Dir_def)
  next
    case (snoc y c)
    then have "x @ ?f = y @ CHR ''/'' # ?f" "x = y @ ''/''" using x(2) by simp_all
    moreover have "CHR ''/'' \<notin> set ?f" by simp
    ultimately show ?thesis unfolding filepath_Dir_def using up_to_slash(1) by metis
  qed
  then have "at_path w x = at_path w d"
    using resolve_Dir_Join [OF assms(1) f, of "w_cwd w"] unfolding x(1) by (simp add: resolve_Clean)
  moreover have "at_path w ''.'' = at_path w []" by (simp add: resolve_def rooted_def walk_step_def skip_comp_def)
  ultimately have at: "at_path w (if x = [] then ''.'' else x) = at_path w d" by (cases "x = []") auto
  have "below ?f = ?f" unfolding below_def using clean_plain(1) [of "[?f]"] f by simp
  moreover have "local_name ?f" by (simp add: local_name_def rune_error_def)
  ultimately have b: "below ?f = ?f" "local_name ?f" .
  have o: "dir_Open w x ?f = Inr (File t m)"
    using assms(4) at walk_step_plain [OF f, of "at_path w d"] by (simp add: dir_Open_def b resolve_Join del: filepath_Join.simps)
  have u: "path_comps (map (\<lambda>c. if c = CHR 0x5C then CHR ''/'' else c) ''/favicon.ico'') = [[], ''favicon.ico'']"
    "\<not> strings_HasSuffix ''/favicon.ico'' ''/index.html''" by code_simp+
  have "favicon part d w r = serve_file part w x ?f False r"
    unfolding favicon_def ServeFile_def x(1) Let_def rev_append tw using u by (simp add: assms(2))
  then show ?thesis using o u assms(2,3) by (simp add: serve_file_def serve_node_def)
qed

end
