(* ===== verification/Service.thy ===== *)
theory Service
  imports Handlers_Marge Handlers_Bmx Stats Forwarding Media
begin

text \<open>
  The service as \<open>main\<close> in \<open>soundcork-go/main.go\<close> puts it together: the settings from the environment, the state
  the handlers share, the table of routes, and what a request to each of them does to the state.  Left out of the
  table are the routes that forward a request, which do not change the state.  The manager of migrations has a pointer to the store, here a copy of the store:
  it only uses the files.
\<close>

section \<open>Start\<close>

definition or_default :: "string \<Rightarrow> string \<Rightarrow> string" where
  "or_default v d = (if v = [] then d else v)"

text \<open>The address to listen on.\<close>

definition listen_address :: "(string \<Rightarrow> string) \<Rightarrow> string" where
  "listen_address getenv = (let port = or_default (getenv ''PORT'') ''8000''; bindAddr = getenv ''BIND_ADDR'' in
     if bindAddr = [] then '':'' @ port else bindAddr @ '':'' @ port)"

definition backend_url :: "(string \<Rightarrow> string) \<Rightarrow> string" where
  "backend_url getenv = or_default (getenv ''PYTHON_BACKEND_URL'') ''http://localhost:8001''"

text \<open>The host name is one of ASCII characters.\<close>

definition server_url :: "(string \<Rightarrow> string) \<Rightarrow> string \<Rightarrow> string" where
  "server_url getenv hostname =
     or_default (getenv ''SERVER_URL'')
       (''http://'' @ lower_ascii (or_default hostname ''localhost'') @ '':'' @ or_default (getenv ''PORT'') ''8000'')"

definition proxy_url :: "(string \<Rightarrow> string) \<Rightarrow> string \<Rightarrow> string" where
  "proxy_url getenv serverURL = or_default (getenv ''PROXY_URL'') serverURL"

definition media_dir :: "(string \<Rightarrow> string) \<Rightarrow> world \<Rightarrow> string" where
  "media_dir getenv w =
     or_default (getenv ''MEDIA_DIR'')
       (case find_first (\<lambda>c. is_ok (os_Stat w c)) [''soundcork/media'', ''../soundcork/media'', ''../../soundcork/media''] of
          Some c \<Rightarrow> c | None \<Rightarrow> ''soundcork/media'')"

text \<open>The store is initialised (an error is only logged) and the server made; no run of discovery is in progress yet.\<close>

definition start_server :: "(string \<Rightarrow> string) \<Rightarrow> string \<Rightarrow> world \<Rightarrow> Server \<times> world" where
  "start_server getenv hostname w =
     (let ds = NewDataStore (or_default (getenv ''DATA_DIR'') ''data'');
          (_, w1) = Initialize ds w;
          serverURL = server_url getenv hostname
      in (\<lparr>sv_ds = ds, sv_sm = NewManager serverURL (Some ds), sv_serverURL = serverURL,
           sv_proxyURL = proxy_url getenv serverURL, sv_discovering = False,
           sv_proxyRedact = (getenv ''REDACT_PROXY_LOGS'' \<noteq> ''false''),
           sv_proxyLogBody = (getenv ''LOG_PROXY_BODY'' = ''true'')\<rparr>, w1))"

text \<open>The start as a whole: the program ends before it touches a file when the backend's address is not one.\<close>

definition main_start ::
  "(string \<Rightarrow> string option) \<Rightarrow> (string \<Rightarrow> string) \<Rightarrow> string \<Rightarrow> world \<Rightarrow> (go_error + URL \<times> Server) \<times> world" where
  "main_start ip_literal getenv hostname w =
     (case url_Parse ip_literal (backend_url getenv) of
        Inl e \<Rightarrow> (Inl e, w)
      | Inr target \<Rightarrow> (case start_server getenv hostname w of (s, w1) \<Rightarrow> (Inr (target, s), w1)))"

section \<open>Routes\<close>

datatype endpoint =
    RootPage | Health | FavIcon | MediaFile
  | Registry | Station | EpisodeInfo | Episode | Orion
  | SourceProvidersDoc | AccountFull | PowerOn | SoftwareUpdate | PresetsDoc | SetPreset | PlayedItem | NewDevice
  | OldDevice | ProviderSettings | StreamingToken | CustomerSupport
  | UsageReport | ErrorReport
  | DeviceList | Discover | DiscoveryStatus | SettingsDoc | LiveInfo | Summary | Migrate | EnsureServices | Backup
  | ProxySettings | SetProxySettings | DeviceEvents

definition routes :: "((string \<times> string) \<times> endpoint) list" where
  "routes = [
     ((''GET'', ''/''), RootPage),
     ((''GET'', ''/health''), Health),
     ((''GET'', ''/favicon.ico''), FavIcon),
     ((''GET'', ''/media/*''), MediaFile),
     ((''GET'', ''/bmx/registry/v1/services''), Registry),
     ((''GET'', ''/bmx/tunein/v1/playback/station/{stationID}''), Station),
     ((''GET'', ''/bmx/tunein/v1/playback/episodes/{podcastID}''), EpisodeInfo),
     ((''GET'', ''/bmx/tunein/v1/playback/episode/{podcastID}''), Episode),
     ((''POST'', ''/bmx/orion/v1/playback/station/{data}''), Orion),
     ((''GET'', ''/marge/streaming/sourceproviders''), SourceProvidersDoc),
     ((''GET'', ''/marge/accounts/{account}/full''), AccountFull),
     ((''POST'', ''/marge/streaming/support/power_on''), PowerOn),
     ((''GET'', ''/marge/updates/soundtouch''), SoftwareUpdate),
     ((''GET'', ''/marge/accounts/{account}/devices/{device}/presets''), PresetsDoc),
     ((''POST'', ''/marge/accounts/{account}/devices/{device}/presets/{presetNumber}''), SetPreset),
     ((''POST'', ''/marge/accounts/{account}/devices/{device}/recents''), PlayedItem),
     ((''POST'', ''/marge/accounts/{account}/devices''), NewDevice),
     ((''DELETE'', ''/marge/accounts/{account}/devices/{device}''), OldDevice),
     ((''GET'', ''/marge/streaming/account/{account}/provider_settings''), ProviderSettings),
     ((''GET'', ''/marge/streaming/device/{device}/streaming_token''), StreamingToken),
     ((''POST'', ''/marge/streaming/support/customersupport''), CustomerSupport),
     ((''POST'', ''/streaming/stats/usage''), UsageReport),
     ((''POST'', ''/streaming/stats/error''), ErrorReport),
     ((''GET'', ''/setup/devices''), DeviceList),
     ((''POST'', ''/setup/discover''), Discover),
     ((''GET'', ''/setup/discovery-status''), DiscoveryStatus),
     ((''GET'', ''/setup/settings''), SettingsDoc),
     ((''GET'', ''/setup/info/{deviceIP}''), LiveInfo),
     ((''GET'', ''/setup/summary/{deviceIP}''), Summary),
     ((''POST'', ''/setup/migrate/{deviceIP}''), Migrate),
     ((''POST'', ''/setup/ensure-remote-services/{deviceIP}''), EnsureServices),
     ((''POST'', ''/setup/backup/{deviceIP}''), Backup),
     ((''GET'', ''/setup/proxy-settings''), ProxySettings),
     ((''POST'', ''/setup/proxy-settings''), SetProxySettings),
     ((''GET'', ''/setup/devices/{deviceId}/events''), DeviceEvents)]"

section \<open>Requests\<close>

text \<open>What the handlers take from outside the program.\<close>

record environment =
  en_msg :: "go_error \<Rightarrow> string" \<comment> \<open>texts of errors\<close>
  en_bad_settings :: "string result \<Rightarrow> string"
  en_order :: operand_order
  en_partial :: "string \<Rightarrow> CustomerSupportRequest"
  en_lib :: ssh_library
  en_net :: "world \<Rightarrow> string \<Rightarrow> string result" \<comment> \<open>fetching a URL\<close>
  en_getenv :: "string \<Rightarrow> string"
  en_index :: string
  en_media :: string \<comment> \<open>\<open>media_dir\<close> at the start\<close>
  en_part :: "request \<Rightarrow> node \<Rightarrow> response" \<comment> \<open>parts of files, and files that may not have changed\<close>
  en_build :: build_info

text \<open>The state: the server, the running discoveries, the files and clock, the calls of the ssh library.\<close>

type_synonym service = "scans \<times> ssh_history"

definition serve ::
  "environment \<Rightarrow> DiscoveredDevice list \<Rightarrow> endpoint \<Rightarrow> request \<Rightarrow> service \<Rightarrow> response outcome \<times> service" where
  "serve env found ep r st =
     (case st of ((s, rs, w), h) \<Rightarrow>
      let msg = en_msg env; ds = sv_ds s; get = en_net env w;
          read = (\<lambda>a. (Done a, ((s, rs, w), h)));
          world = (\<lambda>(a, w'). (Done a, ((s, rs, w'), h)));
          store = (\<lambda>(a, ds', w'). (Done a, ((s\<lparr>sv_ds := ds'\<rparr>, rs, w'), h)));
          speaker = (\<lambda>(a, h'). (Done a, ((s, rs, w), h')))
      in case ep of
        RootPage \<Rightarrow> read (handleRoot (en_index env) r)
      | Health \<Rightarrow> world (handleHealth (en_build env) w r)
      | FavIcon \<Rightarrow> read (favicon (en_part env) (en_media env) w r)
      | MediaFile \<Rightarrow> read (handleMedia (en_part env) (en_media env) w r)
      | Registry \<Rightarrow> read (handleBMXRegistry (en_getenv env) w r)
      | Station \<Rightarrow> read (handleTuneInPlayback msg get r)
      | EpisodeInfo \<Rightarrow> read (handleTuneInPodcastInfo msg r)
      | Episode \<Rightarrow> read (handleTuneInPlaybackPodcast msg get r)
      | Orion \<Rightarrow> read (handleOrionPlayback msg r)
      | SourceProvidersDoc \<Rightarrow> world (handleMargeSourceProviders w r)
      | AccountFull \<Rightarrow> read (handleMargeAccountFull msg ds w r)
      | PowerOn \<Rightarrow> read (handleMargePowerOn r)
      | SoftwareUpdate \<Rightarrow> read (handleMargeSoftwareUpdate w r)
      | PresetsDoc \<Rightarrow> read (handleMargePresets msg ds w r)
      | SetPreset \<Rightarrow> (case handleMargeUpdatePreset msg ds w r of (a, w') \<Rightarrow> (a, ((s, rs, w'), h)))
      | PlayedItem \<Rightarrow> world (handleMargeAddRecent (en_order env) msg ds w r)
      | NewDevice \<Rightarrow> world (handleMargeAddDevice msg ds w r)
      | OldDevice \<Rightarrow> world (handleMargeRemoveDevice msg ds w r)
      | ProviderSettings \<Rightarrow> read (handleMargeProviderSettings r)
      | StreamingToken \<Rightarrow> world (handleMargeStreamingToken w r)
      | CustomerSupport \<Rightarrow> store (handleMargeCustomerSupport (en_partial env) ds w r)
      | UsageReport \<Rightarrow> store (handleUsageStats ds w r)
      | ErrorReport \<Rightarrow> store (handleErrorStats ds w r)
      | DeviceList \<Rightarrow> read (handleListDiscoveredDevices msg s w r)
      | Discover \<Rightarrow> (case handleTriggerDiscovery found (s, rs, w) r of (a, c) \<Rightarrow> (Done a, (c, h)))
      | DiscoveryStatus \<Rightarrow> read (handleGetDiscoveryStatus s r)
      | SettingsDoc \<Rightarrow> read (handleGetSettings s r)
      | LiveInfo \<Rightarrow> read (handleGetDeviceInfo msg get r)
      | Summary \<Rightarrow> speaker (handleGetMigrationSummary msg (en_lib env) get s w r h)
      | Migrate \<Rightarrow> speaker (handleMigrateDevice msg (en_lib env) s r h)
      | EnsureServices \<Rightarrow> speaker (handleEnsureRemoteServices msg (en_lib env) r h)
      | Backup \<Rightarrow> speaker (handleBackupConfig msg (en_lib env) r h)
      | ProxySettings \<Rightarrow> read (handleGetProxySettings s r)
      | SetProxySettings \<Rightarrow> (case handleUpdateProxySettings (en_bad_settings env) s r of (a, s') \<Rightarrow> (Done a, ((s', rs, w), h)))
      | DeviceEvents \<Rightarrow> read (handleGetDeviceEvents ds r))"

text \<open>The steps of the service: a request to one of the routes, or a step of a discovery.\<close>

inductive service_step :: "environment \<Rightarrow> service \<Rightarrow> service \<Rightarrow> bool" for env where
  request: "(route, ep) \<in> set routes \<Longrightarrow> serve env found ep r st = (out, st') \<Longrightarrow> service_step env st st'"
| discovery: "scan_step (en_net env) c c' \<Longrightarrow> service_step env (c, h) (c', h)"

end
