(* ===== verification/Frames.thy ===== *)
theory Frames
  imports Datastore_Service
begin

text \<open>
  What a piece of the program can do to the environment: read the clock, make directories, and write and remove
  files at certain places.  All that does not lie there stays, and the file tree stays a file tree.
\<close>

section \<open>Effects\<close>

inductive touch :: "(string list \<Rightarrow> bool) \<Rightarrow> world \<Rightarrow> world \<Rightarrow> bool" for P where
  clock: "touch P w (snd (time_Now w))"
| mkdir: "os_MkdirAll w p = (r, w') \<Longrightarrow> touch P w w'"
| write_file: "os_WriteFile w p t = (r, w') \<Longrightarrow> P (at_path w p) \<Longrightarrow> touch P w w'"
| remove: "os_RemoveAll w p = (r, w') \<Longrightarrow> P (at_path w p) \<Longrightarrow> touch P w w'"

definition touches :: "(string list \<Rightarrow> bool) \<Rightarrow> world \<Rightarrow> world \<Rightarrow> bool" where
  "touches P = (touch P)\<^sup>*\<^sup>*"

lemma touches_refl [simp, intro]: "touches P w w"
  by (simp add: touches_def)

lemma touches_step: "touch P w w' \<Longrightarrow> touches P w w'"
  by (simp add: touches_def r_into_rtranclp)

lemma touches_trans [trans]: "touches P w w1 \<Longrightarrow> touches P w1 w' \<Longrightarrow> touches P w w'"
  by (simp add: touches_def)

lemma RemoveAll_cases:
  assumes "os_RemoveAll w p = (r, w')"
  obtains (same) "w' = w" | (emptied) "at_path w p = []" "w' = w\<lparr>w_root := Dir []\<rparr>"
  | (removed) n where "change (at_path w p) (\<lambda>_. Inr None) (w_root w) = Inr n" "w' = w\<lparr>w_root := n\<rparr>"
proof -
  from assms have "w' = w \<or> at_path w p = [] \<and> w' = w\<lparr>w_root := Dir []\<rparr>
      \<or> (\<exists>n. change (at_path w p) (\<lambda>_. Inr None) (w_root w) = Inr n \<and> w' = w\<lparr>w_root := n\<rparr>)"
    by (auto simp: os_RemoveAll_def Let_def split: if_splits sum.splits errno.splits)
  with that show ?thesis by (elim disjE exE conjE) simp_all
qed

lemma MkdirAll_root:
  "os_MkdirAll w p = (r, w') \<Longrightarrow> \<exists>e n. mkdirs (w_deny w) [] (at_path w p) (w_root w) = (e, n) \<and> w' = w\<lparr>w_root := n\<rparr>"
  by (auto simp: os_MkdirAll_def Let_def split: prod.splits)

lemma touch_cwd: "touch P w w' \<Longrightarrow> w_cwd w' = w_cwd w"
  by (erule touch.cases)
    (auto simp: time_Now_def WriteFile_cwd elim: RemoveAll_cases dest!: MkdirAll_root)

section \<open>What stays\<close>

definition file_at :: "world \<Rightarrow> string list \<Rightarrow> string \<Rightarrow> int \<Rightarrow> bool" where
  "file_at w q t m \<longleftrightarrow> lookup (w_root w) q = Inr (File t m)"

lemma touch_file:
  assumes "touch P w w'" "file_at w q t m" "\<And>x. P x \<Longrightarrow> x \<parallel> q"
  shows "file_at w' q t m"
  using assms(1)
proof cases
  case (mkdir p r)
  from MkdirAll_root [OF mkdir] assms(2) show ?thesis by (auto simp: file_at_def dest: mkdirs_keeps_file)
next
  case (write_file p t' r)
  from write_file(1) show ?thesis
    by (cases rule: WriteFile_cases) (use assms write_file lookup_change_other in \<open>auto simp: file_at_def\<close>)
next
  case (remove p r)
  from remove(1) show ?thesis
    by (cases rule: RemoveAll_cases) (use assms(2) assms(3) [OF remove(2)] lookup_change_other in \<open>auto simp: file_at_def\<close>)
qed (use assms(2) in \<open>simp add: time_Now_def file_at_def\<close>)

lemma touches_cwd: "touches P w w' \<Longrightarrow> w_cwd w' = w_cwd w"
  unfolding touches_def by (induction rule: rtranclp_induct) (auto dest: touch_cwd)

lemma touches_file:
  assumes "touches P w w'" "file_at w q t m" "\<And>x. P x \<Longrightarrow> x \<parallel> q"
  shows "file_at w' q t m"
  using assms unfolding touches_def by (induction rule: rtranclp_induct) (auto dest: touch_file)

text \<open>The tree is one of directories with distinct plain names, and the working directory has plain names.\<close>

definition sound_world :: "world \<Rightarrow> bool" where
  "sound_world w \<longleftrightarrow> wf_node (w_root w) \<and> is_dir (w_root w) \<and> list_all plain_name (w_cwd w)"

lemma walk_plain: "list_all plain_name d \<Longrightarrow> CHR ''/'' \<notin> set c \<Longrightarrow> list_all plain_name (walk_step d c)"
  by (auto simp: walk_step_def skip_comp_def plain_name_def list_all_iff dest: in_set_butlastD)

lemma resolve_plain:
  assumes "list_all plain_name cwd"
  shows "list_all plain_name (resolve cwd p)"
proof -
  have "\<forall>c \<in> set cs. CHR ''/'' \<notin> set c \<Longrightarrow> list_all plain_name d \<Longrightarrow> list_all plain_name (foldl walk_step d cs)" for cs d
    by (induction cs arbitrary: d) (auto simp: walk_plain)
  then show ?thesis
    using assms split_char_sep_free [of _ "CHR ''/''" p] by (auto simp: resolve_def)
qed

lemma change_dir: "change p f n = Inr n' \<Longrightarrow> is_dir n'"
  by (induction p f n arbitrary: n' rule: change.induct) (auto split: sum.splits option.splits)

lemma mkdirs_dir: "mkdirs deny pre p n = (e, n') \<Longrightarrow> is_dir n' = is_dir n"
  by (induction deny pre p n arbitrary: n' e rule: mkdirs.induct) (auto split: option.splits prod.splits if_splits)

lemma touch_sound:
  assumes "touch P w w'" "sound_world w"
  shows "sound_world w'"
proof -
  have cwd: "list_all plain_name (w_cwd w')" using touch_cwd [OF assms(1)] assms(2) by (simp add: sound_world_def)
  have at: "list_all plain_name (at_path w p)" for p using assms(2) by (simp add: sound_world_def resolve_plain)
  from assms(1) have "wf_node (w_root w') \<and> is_dir (w_root w')"
  proof cases
    case (mkdir p r)
    from MkdirAll_root [OF mkdir] assms(2) at [of p] show ?thesis
      by (auto simp: sound_world_def wf_mkdirs mkdirs_dir)
  next
    case (write_file p t r)
    from write_file(1) show ?thesis
    proof (cases rule: WriteFile_cases)
      case written
      have "wf_node m" if "write_node t (w_clock w (w_ticks w)) old = Inr (Some m)" for old m
        using write_node_new [OF that] by simp
      with written(2) assms(2) at [of p] show ?thesis by (auto simp: sound_world_def change_dir intro: wf_change)
    qed (use assms(2) in \<open>simp add: sound_world_def\<close>)
  next
    case (remove p r)
    from remove(1) show ?thesis
    proof (cases rule: RemoveAll_cases)
      case (removed n)
      then show ?thesis using assms(2) at [of p] by (auto simp: sound_world_def change_dir intro!: wf_change [OF _ removed(1)])
    qed (use assms(2) in \<open>simp_all add: sound_world_def\<close>)
  qed (use assms(2) in \<open>simp add: time_Now_def sound_world_def\<close>)
  with cwd show ?thesis by (simp add: sound_world_def)
qed

lemma touches_sound: "touches P w w' \<Longrightarrow> sound_world w \<Longrightarrow> sound_world w'"
  unfolding touches_def by (induction rule: rtranclp_induct) (auto dest: touch_sound)

end
