(* ===== verification/Service_Laws.thy ===== *)
theory Service_Laws
  imports Service Frames Discovery_Laws Stats_Laws
begin

text \<open>
  What the requests and discoveries of the service can do to its state: where each of them writes, and what every
  run of them keeps.
\<close>

section \<open>The operations\<close>

lemma tick_cwd [simp]: "w_cwd (snd (time_Now w)) = w_cwd w"
  by (simp add: time_Now_def)

lemma touches_tick [simp, intro]: "touches P w (snd (time_Now w))"
  by (simp add: touches_step touch.clock)

lemma touches_write:
  "os_WriteFile w1 p t = (r, w') \<Longrightarrow> touches P w w1 \<Longrightarrow> P (at_path w p) \<Longrightarrow> touches P w w'"
  using touches_trans [of P w w1 w'] touches_step [of P w1 w'] touch.write_file [of w1 p t r w' P] touches_cwd [of P w w1] by simp

lemma touches_mkdir: "os_MkdirAll w p = (r, w') \<Longrightarrow> touches P w w'"
  by (simp add: touches_step touch.mkdir)

lemma SaveDeviceInfo_touches:
  assumes "SaveDeviceInfo ds w a d i = (r, w')" "P (at_path w (device_path ds a d))"
  shows "touches P w w'"
  using assms by (auto simp: SaveDeviceInfo_def split: if_splits prod.splits sum.splits intro: touches_mkdir touches_write)

lemma RemoveDevice_touches:
  assumes "RemoveDevice ds w a d = (r, w')" "P (at_path w (AccountDeviceDir ds a d))"
  shows "touches P w w'"
  using assms by (auto simp: RemoveDevice_def intro: touches_step touch.remove)

lemma UpdatePreset_touches:
  assumes "UpdatePreset ds w a d n x = (r, w')" "P (at_path w (presets_path ds a))"
  shows "touches P w w'"
proof -
  from assms(1) have "w' = w \<or> w' = snd (time_Now w) \<or> (\<exists>ps r. SavePresets ds (snd (time_Now w)) a ps = (r, w'))"
    by (auto simp: UpdatePreset_def Let_def split: sum.splits option.splits prod.splits outcome.splits)
  with assms(2) show ?thesis by (auto simp: SavePresets_def intro: touches_write [OF _ touches_tick])
qed

lemma AddRecent_touches:
  assumes "AddRecent ord ds w a d x = (r, w')" "P (at_path w (recents_path ds a))"
  shows "touches P w w'"
proof -
  let ?w = "snd (time_Now w)"
  from assms(1) have "w' = w \<or> (\<exists>v rs r. v \<in> {?w, snd (time_Now ?w)} \<and> SaveRecents ds v a rs = (r, w'))"
    by (auto simp: AddRecent_def Let_def split: sum.splits option.splits prod.splits if_splits)
  moreover have "touches P w v" if "v \<in> {?w, snd (time_Now ?w)}" for v
    using that touches_trans [OF touches_tick touches_tick] by blast
  ultimately show ?thesis using assms(2) by (auto simp: SaveRecents_def intro: touches_write)
qed

lemma AddDevice_touches:
  assumes "AddDeviceToAccount ds w a x = (r, w')" "\<And>i n. decode_new_device x = Inr (i, n) \<Longrightarrow> P (at_path w (device_path ds a i))"
  shows "touches P w w'"
proof -
  from assms(1) consider "w' = w" | i n d r1 w1 where "decode_new_device x = Inr (i, n)" "SaveDeviceInfo ds w a i d = (r1, w1)"
      "w' = w1 \<or> w' = snd (time_Now w1)"
    by (auto simp: AddDeviceToAccount_def Let_def split: sum.splits prod.splits)
  then show ?thesis
  proof cases
    case 2
    with SaveDeviceInfo_touches [OF 2(2)] assms(2) have "touches P w w1" by blast
    with 2(3) touches_trans [OF _ touches_tick] show ?thesis by blast
  qed simp
qed

lemma save_stats_touches:
  assumes "save_stats ds k i v w = (r, w')" "P (at_path w (filepath_Join [stats_dir ds k, stats_name (w_clock w (w_ticks w)) i]))"
  shows "touches P w w'"
proof -
  obtain r1 w1 where m: "os_MkdirAll w (stats_dir ds k) = (r1, w1)" by fastforce
  have c: "w_clock w1 (w_ticks w1) = w_clock w (w_ticks w)" using MkdirAll_root [OF m] by auto
  from assms(1) have "os_WriteFile (snd (time_Now w1)) (filepath_Join [stats_dir ds k, stats_name (w_clock w (w_ticks w)) i]) (json_MarshalIndent v) = (r, w')"
    by (simp add: save_stats_def Let_def m time_Now_def c del: filepath_Join.simps)
  then show ?thesis using touches_trans [OF touches_mkdir [OF m] touches_tick] assms(2) by (auto intro: touches_write)
qed

lemma log_stats_touches:
  assumes "log_stats ds w i t ts m = (ds', w')"
  shows "touches P w w'"
proof -
  let ?w = "snd (time_Now w)"
  from assms have "w' \<in> {?w, snd (time_Now ?w)}" by (auto simp: log_stats_def Let_def split: prod.splits if_splits)
  then show ?thesis using touches_trans [OF touches_tick touches_tick] by blast
qed

lemma discover_device_touches:
  assumes "discover_device ds get w d = (r, w')"
    and "P (at_path w (device_path ds ''default'' (discovered_id (with_serial get d))))"
    and "P (at_path w (AccountDeviceDir ds ''default'' (existing_id ds w d)))"
  shows "touches P w w'"
proof -
  from assms(1) obtain w1 where w1: "w1 = w \<or> w1 = snd (RemoveDevice ds w ''default'' (existing_id ds w d))"
    and s: "SaveDeviceInfo ds w1 ''default'' (discovered_id (with_serial get d)) (discovered_info (with_serial get d)) = (r, w')"
    by (rule discovered_dirs) blast
  have t: "touches P w w1"
    using w1 RemoveDevice_touches [of ds w "''default''" "existing_id ds w d" _ w1 P] assms(3)
    by (cases "RemoveDevice ds w ''default'' (existing_id ds w d)") auto
  have "touches P w1 w'" using SaveDeviceInfo_touches [OF s] assms(2) touches_cwd [OF t] by simp
  with t show ?thesis by (rule touches_trans)
qed

section \<open>Requests\<close>

lemma serve_result:
  obtains out s rs w h where "serve env found ep r st = (out, ((s, rs, w), h))"
  using that by (cases "serve env found ep r st") auto

text \<open>The places a request may write to or remove, as far as they depend on it: the files of the records it names,
  and the file of statistics, which has the time in its name.\<close>

definition stats_target :: "DataStore \<Rightarrow> world \<Rightarrow> string \<Rightarrow> string \<Rightarrow> string" where
  "stats_target ds w kind device = filepath_Join [stats_dir ds kind, stats_name (w_clock w (w_ticks w)) device]"

definition targets :: "DataStore \<Rightarrow> world \<Rightarrow> endpoint \<Rightarrow> request \<Rightarrow> string list" where
  "targets ds w ep r =
     (let account = rq_Param r ''account''; body = (case rq_Body r of Inl _ \<Rightarrow> None | Inr t \<Rightarrow> Some t) in
      case ep of
        SetPreset \<Rightarrow> [presets_path ds account]
      | PlayedItem \<Rightarrow> [recents_path ds account]
      | NewDevice \<Rightarrow> (case body of None \<Rightarrow> [] | Some t \<Rightarrow>
          (case decode_new_device t of Inl _ \<Rightarrow> [] | Inr (device, _) \<Rightarrow> [device_path ds account device]))
      | OldDevice \<Rightarrow> [AccountDeviceDir ds account (rq_Param r ''device'')]
      | UsageReport \<Rightarrow> (case body of None \<Rightarrow> [] | Some t \<Rightarrow>
          (case decode_usage t of None \<Rightarrow> [] | Some s \<Rightarrow> [stats_target ds w ''usage'' (us_DeviceID s)]))
      | ErrorReport \<Rightarrow> (case body of None \<Rightarrow> [] | Some t \<Rightarrow>
          (case decode_error t of None \<Rightarrow> [] | Some s \<Rightarrow> [stats_target ds w ''error'' (es_DeviceID s)]))
      | _ \<Rightarrow> [])"

abbreviation at_targets :: "DataStore \<Rightarrow> world \<Rightarrow> endpoint \<Rightarrow> request \<Rightarrow> string list \<Rightarrow> bool" where
  "at_targets ds w ep r \<equiv> (\<lambda>x. x \<in> at_path w ` set (targets ds w ep r))"

lemma saved_touches:
  "SaveUsageStats ds w s = (r1, w1) \<Longrightarrow> rq_Body r = Inr t \<Longrightarrow> decode_usage t = Some s \<Longrightarrow>
    touches (at_targets ds w UsageReport r) w w1"
  "SaveErrorStats ds w e = (r1, w1) \<Longrightarrow> rq_Body r = Inr t \<Longrightarrow> decode_error t = Some e \<Longrightarrow>
    touches (at_targets ds w ErrorReport r) w w1"
  by (auto simp: SaveUsageStats_def SaveErrorStats_def targets_def stats_target_def intro: save_stats_touches)

lemma stats_touches:
  "handleUsageStats ds w r = (a, ds', w') \<Longrightarrow> touches (at_targets ds w UsageReport r) w w'"
  "handleErrorStats ds w r = (a, ds', w') \<Longrightarrow> touches (at_targets ds w ErrorReport r) w w'"
  by (auto simp: handleUsageStats_def handleErrorStats_def split: sum.splits option.splits prod.splits
      intro: saved_touches touches_trans [OF saved_touches(1) log_stats_touches] touches_trans [OF saved_touches(2) log_stats_touches])

lemma preset_touches:
  "handleMargeUpdatePreset msg ds w r = (a, w') \<Longrightarrow> touches (at_targets ds w SetPreset r) w w'"
  by (auto simp: handleMargeUpdatePreset_def targets_def Let_def split: option.splits sum.splits prod.splits outcome.splits
      intro: UpdatePreset_touches)

lemma recent_touches:
  "handleMargeAddRecent ord msg ds w r = (a, w') \<Longrightarrow> touches (at_targets ds w PlayedItem r) w w'"
  by (auto simp: handleMargeAddRecent_def targets_def Let_def split: sum.splits prod.splits intro: AddRecent_touches)

lemma new_device_touches:
  "handleMargeAddDevice msg ds w r = (a, w') \<Longrightarrow> touches (at_targets ds w NewDevice r) w w'"
  by (auto simp: handleMargeAddDevice_def targets_def Let_def split: sum.splits prod.splits intro: AddDevice_touches)

lemma old_device_touches:
  "handleMargeRemoveDevice msg ds w r = (a, w') \<Longrightarrow> touches (at_targets ds w OldDevice r) w w'"
  by (auto simp: handleMargeRemoveDevice_def RemoveDeviceFromAccount_def targets_def Let_def split: sum.splits prod.splits
      intro: RemoveDevice_touches)

lemma touches_now: "time_Now w = (t, w1) \<Longrightarrow> touches P w w1"
  using touches_tick [of P w] by simp

lemma support_touches: "handleMargeCustomerSupport partial ds w r = (a, ds', w') \<Longrightarrow> touches P w w'"
  by (auto simp: handleMargeCustomerSupport_def Let_def split: sum.splits prod.splits
      intro: touches_trans [OF touches_now touches_now])

lemma clock_touches:
  "handleHealth info w r = (a, w') \<Longrightarrow> touches P w w'"
  "handleMargeSourceProviders w r = (a, w') \<Longrightarrow> touches P w w'"
  "handleMargeStreamingToken w r = (a, w') \<Longrightarrow> touches P w w'"
  by (auto simp: handleHealth_def handleMargeSourceProviders_def handleMargeStreamingToken_def Let_def
      split: prod.splits if_splits intro: touches_now)

lemmas handler_touches = stats_touches preset_touches recent_touches new_device_touches old_device_touches
  support_touches clock_touches

lemma serve_touches:
  assumes "serve env found ep r ((s, rs, w), h) = (out, ((s', rs', w'), h'))"
  shows "touches (at_targets (sv_ds s) w ep r) w w'"
  using assms
  by (cases ep) (auto simp: serve_def Let_def handleTriggerDiscovery_def split: prod.splits intro: handler_touches)

text \<open>C2: A request to any route leaves every file as it is, content and modification time, that does not lie at, above
  or below one of the places of the records the request names; most routes have none.\<close>

theorem requests_keep_other_files:
  assumes "serve env found ep r ((s, rs, w), h) = (out, ((s', rs', w'), h'))"
    and "file_at w q t m" "\<forall>p \<in> set (targets (sv_ds s) w ep r). at_path w p \<parallel> q"
  shows "file_at w' q t m"
  using touches_file [OF serve_touches [OF assms(1)] assms(2)] assms(3) by blast

section \<open>Invariants of the service\<close>

definition settings :: "Server \<Rightarrow> string \<times> string \<times> string \<times> Manager" where
  "settings s = (DataDir (sv_ds s), sv_serverURL s, sv_proxyURL s, sv_sm s)"

definition logs_bounded :: "DataStore \<Rightarrow> bool" where
  "logs_bounded ds \<longleftrightarrow> (\<forall>d. length (GetDeviceEvents ds d) \<le> 100)"

fun service_sound :: "service \<Rightarrow> bool" where
  "service_sound ((s, rs, w), h) \<longleftrightarrow> sound_world w \<and> logs_bounded (sv_ds s) \<and> (sv_discovering s \<longrightarrow> rs \<noteq> [])"

abbreviation server_of :: "service \<Rightarrow> Server" where "server_of st \<equiv> fst (fst st)"

abbreviation world_of :: "service \<Rightarrow> world" where "world_of st \<equiv> snd (snd (fst st))"

lemma add_event_bounded: "logs_bounded ds \<Longrightarrow> logs_bounded (AddDeviceEvent ds d e)"
  by (simp add: logs_bounded_def get_add_event last_n_append(1))

lemma add_event_dir [simp]: "DataDir (AddDeviceEvent ds d e) = DataDir ds"
  by (simp add: AddDeviceEvent_def Let_def)

definition logged :: "DataStore \<Rightarrow> DataStore \<Rightarrow> bool" where
  "logged ds ds' \<longleftrightarrow> ds' = ds \<or> (\<exists>d e. ds' = AddDeviceEvent ds d e)"

lemma logged_refl [simp]: "logged ds ds"
  by (simp add: logged_def)

lemma logged_keeps: "logged ds ds' \<Longrightarrow> DataDir ds' = DataDir ds \<and> (logs_bounded ds \<longrightarrow> logs_bounded ds')"
  by (auto simp: logged_def add_event_bounded)

text \<open>The handlers that have a part in the store's memory only add events.\<close>

lemma handlers_add_events:
  "handleUsageStats ds w r = (a, ds', w') \<Longrightarrow> logged ds ds'"
  "handleErrorStats ds w r = (a, ds', w') \<Longrightarrow> logged ds ds'"
  "handleMargeCustomerSupport partial ds w r = (a, ds', w') \<Longrightarrow> logged ds ds'"
  using log_stats_event
  by (fastforce simp: logged_def handleUsageStats_def handleErrorStats_def handleMargeCustomerSupport_def Let_def
      split: sum.splits option.splits prod.splits)+

lemma serve_server:
  assumes "serve env found ep r ((s, rs, w), h) = (out, ((s', rs', w'), h'))"
  shows "settings s' = settings s \<and> logged (sv_ds s) (sv_ds s')
    \<and> (sv_discovering s' \<longrightarrow> sv_discovering s \<or> rs' \<noteq> []) \<and> (rs \<noteq> [] \<longrightarrow> rs' \<noteq> [])"
  using assms
  by (cases ep) (auto simp: serve_def Let_def settings_def handleTriggerDiscovery_def handleUpdateProxySettings_def
      split: prod.splits sum.splits option.splits dest: handlers_add_events handlers_add_events [THEN logged_keeps])


lemma discover_touches: "touches (\<lambda>_. True) w (snd (discover_device ds get w d))"
  by (cases "discover_device ds get w d") (simp add: discover_device_touches [where P = "\<lambda>_. True"])

lemma scan_step_service:
  assumes "scan_step net (s, rs, w) (s', rs', w')"
  shows "settings s' = settings s \<and> sv_ds s' = sv_ds s \<and> touches (\<lambda>_. True) w w' \<and> (sv_discovering s' \<longrightarrow> rs' \<noteq> [])"
  using assms scan_step_flag [OF assms] by (auto elim!: scan_stepE simp: settings_def discover_touches dest!: arg_cong [where f = length])

text \<open>One step of the service.\<close>

lemma service_step_sound:
  assumes "service_step env st st'" "service_sound st"
  shows "service_sound st' \<and> settings (server_of st') = settings (server_of st) \<and> w_cwd (world_of st') = w_cwd (world_of st)"
  using assms(1)
proof cases
  case (request route ep found r out)
  obtain s rs w h where st: "st = ((s, rs, w), h)" by (metis prod_cases4 surj_pair)
  obtain s' rs' w' h' where st': "st' = ((s', rs', w'), h')" by (metis prod_cases4 surj_pair)
  note sv = request(2) [unfolded st st']
  show ?thesis
    using assms(2) serve_server [OF sv] touches_sound [OF serve_touches [OF sv]] touches_cwd [OF serve_touches [OF sv]]
    by (auto simp: st st' dest: logged_keeps)
next
  case (discovery c c' h)
  then show ?thesis
    using assms(2) scan_step_service [of "en_net env" "fst c" "fst (snd c)" "snd (snd c)" "fst c'" "fst (snd c')" "snd (snd c')"]
      touches_sound touches_cwd
    by (cases c; cases c') auto
qed

lemma service_run_sound:
  assumes "(service_step env)\<^sup>*\<^sup>* st st'" "service_sound st"
  shows "service_sound st' \<and> settings (server_of st') = settings (server_of st) \<and> w_cwd (world_of st') = w_cwd (world_of st)"
  using assms by (induction rule: rtranclp_induct) (auto dest: service_step_sound)

section \<open>From the start\<close>

lemma Initialize_touches: "Initialize ds w = (r, w') \<Longrightarrow> touches P w w'"
  by (auto simp: Initialize_def split: prod.splits sum.splits
      intro: touches_mkdir touches_trans [OF touches_mkdir touches_mkdir]
        touches_trans [OF touches_mkdir touches_trans [OF touches_mkdir touches_mkdir]])

lemma or_default_nonempty [simp]: "d \<noteq> [] \<Longrightarrow> or_default v d \<noteq> []"
  by (simp add: or_default_def)

lemma started_sound:
  assumes "start_server getenv hostname w = (s, w1)" "sound_world w"
  shows "service_sound ((s, [], w1), h) \<and> w_cwd w1 = w_cwd w"
proof -
  let ?ds = "NewDataStore (or_default (getenv ''DATA_DIR'') ''data'')"
  obtain r where i: "Initialize ?ds w = (r, w1)" and s: "sv_ds s = ?ds" "\<not> sv_discovering s"
    using assms(1) by (auto simp: start_server_def Let_def split: prod.splits)
  show ?thesis
    using Initialize_touches [OF i] assms(2) touches_sound touches_cwd s
    by (auto simp: logs_bounded_def NewDataStore_def GetDeviceEvents_def)
qed

text \<open>C1: In every state the service reaches by requests and discoveries, the file tree is well-formed (directories with
  distinct plain names), the working directory and the settings, among them the data directory and the addresses, are
  those of the start, no device's log has more than a hundred events, and a discovery is only reported while one
  runs.\<close>

theorem service_stays_well_formed:
  assumes "start_server getenv hostname w = (s, w1)" "sound_world w"
    and "(service_step env)\<^sup>*\<^sup>* ((s, [], w1), h) ((s', rs, w'), h')"
  shows "sound_world w' \<and> w_cwd w' = w_cwd w
    \<and> DataDir (sv_ds s') = or_default (getenv ''DATA_DIR'') ''data''
    \<and> sv_serverURL s' = server_url getenv hostname
    \<and> sv_proxyURL s' = proxy_url getenv (server_url getenv hostname)
    \<and> (\<forall>d. length (GetDeviceEvents (sv_ds s') d) \<le> 100)
    \<and> (sv_discovering s' \<longrightarrow> rs \<noteq> [])"
proof -
  have "settings s = (or_default (getenv ''DATA_DIR'') ''data'', server_url getenv hostname,
      proxy_url getenv (server_url getenv hostname), sv_sm s)"
    using assms(1) by (auto simp: start_server_def settings_def Let_def NewDataStore_def split: prod.splits)
  with service_run_sound [OF assms(3)] started_sound [OF assms(1,2), of h] show ?thesis
    by (simp add: settings_def logs_bounded_def)
qed

section \<open>Answers\<close>

fun statuses :: "endpoint \<Rightarrow> int list" where
  "statuses Discover = [202]"
| "statuses SourceProvidersDoc = [200, 304]"
| "statuses SoftwareUpdate = [200, 304]"
| "statuses AccountFull = [200, 304, 500]"
| "statuses PresetsDoc = [200, 304, 500]"
| "statuses SetPreset = [200, 400, 500]"
| "statuses CustomerSupport = [200, 400]"
| "statuses UsageReport = [200, 400, 500]"
| "statuses ErrorReport = [200, 400, 500]"
| "statuses LiveInfo = [200, 400, 500]"
| "statuses Summary = [200, 400]"
| "statuses Migrate = [200, 400, 500]"
| "statuses EnsureServices = [200, 400, 500]"
| "statuses Backup = [200, 400, 500]"
| "statuses SetProxySettings = [200, 400]"
| "statuses DeviceEvents = [200, 400]"
| "statuses RootPage = [200]"
| "statuses Health = [200]"
| "statuses FavIcon = [200, 301, 400, 403, 404, 500]"
| "statuses MediaFile = [200, 301, 403, 404, 500]"
| "statuses PowerOn = [200]"
| "statuses ProviderSettings = [200]"
| "statuses StreamingToken = [200]"
| "statuses DiscoveryStatus = [200]"
| "statuses SettingsDoc = [200]"
| "statuses ProxySettings = [200]"
| "statuses ep = [200, 500]"

lemma status_simps [simp]:
  "status_of (Write t a) = status_of a"
  "status_of (WriteHeader c a) = (if rs_Status a = None then c else status_of a)"
  "status_of (Header_Set k v a) = status_of a"
  "status_of (http_Error m c a) = (if rs_Status a = None then c else status_of a)"
  "status_of new_response = 200"
  "rs_Status (Header_Set k v a) = rs_Status a" "rs_Status new_response = None"
  "status_of (json_reply j) = 200" "status_of (json_status c j) = c"
  by (simp_all add: status_of_def http_defs json_reply_def json_status_def split: option.splits)

lemma document_statuses:
  "status_of (fst (handleMargeSourceProviders w r)) \<in> {200, 304}"
  "status_of (handleMargeSoftwareUpdate w r) \<in> {200, 304}"
  "status_of (handleMargeAccountFull msg ds w r) \<in> {200, 304, 500}"
  "status_of (handleMargePresets msg ds w r) \<in> {200, 304, 500}"
  by (auto simp: handleMargeSourceProviders_def handleMargeSoftwareUpdate_def handleMargeAccountFull_def
      handleMargePresets_def Let_def split: prod.splits sum.splits)

lemma update_statuses:
  "handleMargeUpdatePreset msg ds w r = (Done a, w') \<Longrightarrow> status_of a \<in> {200, 400, 500}"
  "status_of (fst (handleMargeAddRecent ord msg ds w r)) \<in> {200, 500}"
  "status_of (fst (handleMargeAddDevice msg ds w r)) \<in> {200, 500}"
  "status_of (fst (handleMargeRemoveDevice msg ds w r)) \<in> {200, 500}"
  "status_of (fst (handleMargeCustomerSupport partial ds w r)) \<in> {200, 400}"
  "status_of (fst (handleUsageStats ds w r)) \<in> {200, 400, 500}"
  "status_of (fst (handleErrorStats ds w r)) \<in> {200, 400, 500}"
  by (auto simp: handleMargeUpdatePreset_def handleMargeAddRecent_def handleMargeAddDevice_def handleMargeRemoveDevice_def
      handleMargeCustomerSupport_def handleUsageStats_def handleErrorStats_def Let_def
      split: prod.splits sum.splits option.splits outcome.splits)

lemma setup_statuses:
  "status_of (handleListDiscoveredDevices msg s w r) \<in> {200, 500}"
  "status_of (fst (handleTriggerDiscovery found c r)) = 202"
  "status_of (handleGetDeviceInfo msg get r) \<in> {200, 400, 500}"
  "status_of (fst (handleGetMigrationSummary msg lib get s w r h)) \<in> {200, 400}"
  "status_of (fst (handleMigrateDevice msg lib s r h)) \<in> {200, 400, 500}"
  "status_of (fst (handleEnsureRemoteServices msg lib r h)) \<in> {200, 400, 500}"
  "status_of (fst (handleBackupConfig msg lib r h)) \<in> {200, 400, 500}"
  "status_of (fst (handleUpdateProxySettings bad s r)) \<in> {200, 400}"
  "status_of (handleGetDeviceEvents ds r) \<in> {200, 400}"
  by (auto simp: handleListDiscoveredDevices_def handleTriggerDiscovery_def handleGetDeviceInfo_def handleGetMigrationSummary_def
      handleMigrateDevice_def handleEnsureRemoteServices_def handleBackupConfig_def handleUpdateProxySettings_def
      handleGetDeviceEvents_def ok_reply_def missing_ip_def Let_def split: prod.splits sum.splits option.splits)

lemma plain_statuses:
  "status_of (handleRoot i r) = 200" "status_of (fst (handleHealth b w r)) = 200"
  "status_of (handleMargePowerOn r) = 200" "status_of (handleMargeProviderSettings r) = 200"
  "status_of (fst (handleMargeStreamingToken w r)) = 200" "status_of (handleGetDiscoveryStatus s r) = 200"
  "status_of (handleGetSettings s r) = 200" "status_of (handleGetProxySettings s r) = 200"
  by (simp_all add: handleRoot_def handleHealth_def handleMargePowerOn_def handleMargeProviderSettings_def
      handleMargeStreamingToken_def handleGetDiscoveryStatus_def handleGetSettings_def handleGetProxySettings_def Let_def
      split: prod.splits)

lemma bmx_statuses:
  "status_of (handleBMXRegistry getenv w r) \<in> {200, 500}" "status_of (reply_or_500 msg enc x) \<in> {200, 500}"
  by (auto simp: handleBMXRegistry_def reply_or_500_def split: option.splits sum.splits)

lemma media_statuses:
  assumes "\<not> conditional r"
  shows "status_of (favicon part d w r) \<in> {200, 301, 400, 403, 404, 500}"
    "status_of (handleMedia part d w r) \<in> {200, 301, 403, 404, 500}"
proof -
  have c: "conditional (r\<lparr>rq_Path := p\<rparr>) = conditional r" for p by (simp add: conditional_def)
  have "status_of (serve_node part r n) = 200" if "\<not> conditional r" for n r
    using that by (cases n) (simp_all add: serve_node_def)
  then have s: "status_of (serve_file part w e n b r) \<in> {200, 301, 403, 404, 500}" if "\<not> conditional r" for e n b r
    using that by (auto simp: serve_file_def open_error_def Let_def split: sum.splits node.splits)
  have "{200, 301, 403, 404, 500} \<subseteq> {200, 301, 400, 403, 404, 500 :: int}" by auto
  from subsetD [OF this s [OF assms]] show "status_of (favicon part d w r) \<in> {200, 301, 400, 403, 404, 500}"
    unfolding favicon_def ServeFile_def Let_def by (simp del: filepath_Join.simps insert_iff) simp
  show "status_of (handleMedia part d w r) \<in> {200, 301, 403, 404, 500}"
    using s [of "r\<lparr>rq_Path := p\<rparr>" for p] assms c unfolding handleMedia_def file_server_def Let_def
    by (simp del: insert_iff) simp
qed

lemmas all_statuses = document_statuses update_statuses setup_statuses plain_statuses bmx_statuses


section \<open>Requests for other accounts\<close>

text \<open>A request that names another account, with names that stay inside its directory: no separators, and not one of
  the two names of dots.\<close>

definition for_others :: "string \<Rightarrow> endpoint \<Rightarrow> request \<Rightarrow> bool" where
  "for_others b ep r \<longleftrightarrow>
     (let a = rq_Param r ''account'' in
      (ep \<in> {SetPreset, PlayedItem, NewDevice, OldDevice} \<longrightarrow> plain_name a \<and> a \<noteq> b)
      \<and> (ep = OldDevice \<longrightarrow> plain_name (rq_Param r ''device''))
      \<and> (ep = NewDevice \<longrightarrow> (\<forall>t d n. rq_Body r = Inr t \<longrightarrow> decode_new_device t = Inr (d, n) \<longrightarrow> plain_name d))
      \<and> (ep = UsageReport \<longrightarrow> b \<noteq> ''stats'' \<and> (\<forall>t s. rq_Body r = Inr t \<longrightarrow> decode_usage t = Some s \<longrightarrow> CHR ''/'' \<notin> set (us_DeviceID s)))
      \<and> (ep = ErrorReport \<longrightarrow> b \<noteq> ''stats'' \<and> (\<forall>t s. rq_Body r = Inr t \<longrightarrow> decode_error t = Some s \<longrightarrow> CHR ''/'' \<notin> set (es_DeviceID s))))"

definition other_request :: "environment \<Rightarrow> string \<Rightarrow> service \<Rightarrow> service \<Rightarrow> bool" where
  "other_request env b st st' \<longleftrightarrow> (\<exists>found ep r out. for_others b ep r \<and> serve env found ep r st = (out, st'))"

lemma plain_stats_name: "CHR ''/'' \<notin> set d \<Longrightarrow> plain_name (stats_name n d)"
  using Itoa_chars [of "CHR ''/''"] by (auto simp: stats_name_def plain_name_def is_digit_def append_eq_Cons_conv)

lemma at_stats:
  assumes "DataDir ds \<noteq> []" "plain_name kind" "CHR ''/'' \<notin> set d"
  shows "\<exists>f. at_path w (stats_target ds v kind d) = at_path w (DataDir ds) @ [''stats'', kind, f]"
proof -
  have "plain_name ''stats''" by (simp add: plain_name_def)
  then have "at_path w (stats_dir ds kind) = at_path w (DataDir ds) @ [''stats'', kind]"
    using assms by (simp add: stats_dir_def resolve_Join del: filepath_Join.simps)
  moreover have "stats_dir ds kind \<noteq> []" using assms(1) by (simp add: stats_dir_def)
  ultimately show ?thesis
    using plain_stats_name [OF assms(3)] by (simp add: stats_target_def resolve_Join del: filepath_Join.simps)
qed

lemma for_others_apart:
  assumes "for_others b ep r" "DataDir ds \<noteq> []" "p \<in> set (targets ds w ep r)"
  shows "at_path w p \<parallel> at_path w (DataDir ds) @ b # rest"
proof -
  have plain: "plain_name ''usage''" "plain_name ''error''" by (simp_all add: plain_name_def)
  have stats: "at_path w (stats_target ds w k d) \<parallel> at_path w (DataDir ds) @ b # rest"
    if "b \<noteq> ''stats''" "plain_name k" "CHR ''/'' \<notin> set d" for k d
    using at_stats [OF assms(2) that(2,3), of w w] that(1) by auto
  show ?thesis
    using assms by (cases ep) (auto simp: targets_def for_others_def Let_def at_paths plain stats
      split: sum.splits option.splits prod.splits if_splits dest!: sym [of "Inr _"])
qed

lemma other_requests_file:
  assumes "(other_request env b)\<^sup>*\<^sup>* ((s, rs, w), h) ((s', rs', w'), h')" "DataDir (sv_ds s) \<noteq> []"
    and "file_at w (at_path w (DataDir (sv_ds s)) @ b # rest) t m"
  shows "file_at w' (at_path w (DataDir (sv_ds s)) @ b # rest) t m \<and> w_cwd w' = w_cwd w \<and> DataDir (sv_ds s') = DataDir (sv_ds s)"
  using assms(1)
proof (induction "((s', rs', w'), h')" arbitrary: s' rs' w' h' rule: rtranclp_induct)
  case (step st)
  obtain s1 rs1 w1 h1 where st: "st = ((s1, rs1, w1), h1)" by (metis prod_cases4 surj_pair)
  from step.hyps(3) [OF st] have IH: "file_at w1 (at_path w (DataDir (sv_ds s)) @ b # rest) t m"
    "w_cwd w1 = w_cwd w" "DataDir (sv_ds s1) = DataDir (sv_ds s)" by auto
  from step.hyps(2) obtain found ep r out where o: "for_others b ep r"
    and sv: "serve env found ep r ((s1, rs1, w1), h1) = (out, ((s', rs', w'), h'))" by (auto simp: other_request_def st)
  have at: "at_path w (DataDir (sv_ds s)) = at_path w1 (DataDir (sv_ds s1))" using IH(2,3) by simp
  have "\<forall>p \<in> set (targets (sv_ds s1) w1 ep r). at_path w1 p \<parallel> at_path w (DataDir (sv_ds s)) @ b # rest"
    using for_others_apart [OF o, of "sv_ds s1" _ w1 rest] assms(2) IH(3) by (simp add: at)
  then show ?case
    using touches_file [OF serve_touches [OF sv] IH(1)] touches_cwd [OF serve_touches [OF sv]] serve_server [OF sv] IH(2,3)
    by (auto simp: settings_def)
qed (use assms(3) in simp)

text \<open>C3: Whatever requests are made for other accounts, to whatever routes, the next request for an account's presets
  gets the same answer, the entity tag included, as it would have before them.\<close>

theorem other_requests_keep_presets:
  assumes "(other_request env b)\<^sup>*\<^sup>* ((s, rs, w), h) ((s', rs', w'), h')" "DataDir (sv_ds s) \<noteq> []" "plain_name b"
    and "is_ok (os_ReadFile w (presets_path (sv_ds s) b))" "is_ok (os_ReadFile w (sources_path (sv_ds s) b))"
    and "rq_Param r ''account'' = b"
  shows "fst (serve env' found PresetsDoc r ((s', rs', w'), h')) = fst (serve env' found PresetsDoc r ((s, rs, w), h))"
proof -
  note at = at_record_paths [OF assms(2,3)]
  have ok: "\<exists>t m. file_at w (at_path w p) t m" if "is_ok (os_ReadFile w p)" for p
    using that by (auto simp: os_ReadFile_def file_at_def split: sum.splits node.splits)
  have same: "os_ReadFile w' p = os_ReadFile w p \<and> etag_of_file w' p = etag_of_file w p \<and> DataDir (sv_ds s') = DataDir (sv_ds s)"
    if q: "p \<in> {presets_path (sv_ds s) b, sources_path (sv_ds s) b}" for p
  proof -
    obtain f where f: "at_path w p = at_path w (DataDir (sv_ds s)) @ b # [f]" using q at by auto
    from q ok assms(4,5) obtain t m where "file_at w (at_path w p) t m" by blast
    with other_requests_file [OF assms(1,2), of "[f]" t m] f have
      "file_at w' (at_path w p) t m" "file_at w (at_path w p) t m" "w_cwd w' = w_cwd w" "DataDir (sv_ds s') = DataDir (sv_ds s)" by simp_all
    then show ?thesis by (simp add: os_ReadFile_def etag_of_file_def os_Stat_def file_at_def)
  qed
  have d: "presets_path (sv_ds s') = presets_path (sv_ds s)" "sources_path (sv_ds s') = sources_path (sv_ds s)"
    using same [OF insertI1] by (simp_all add: fun_eq_iff presets_path_def sources_path_def AccountDir_def del: filepath_Join.simps)
  have "GetPresets (sv_ds s') w' b = GetPresets (sv_ds s) w b" "GetETagForPresets (sv_ds s') w' b = GetETagForPresets (sv_ds s) w b"
    "GetConfiguredSources (sv_ds s') w' b = GetConfiguredSources (sv_ds s) w b"
    using same by (simp_all add: GetPresets_def GetETagForPresets_def GetConfiguredSources_def d)
  then have "handleMargePresets (en_msg env') (sv_ds s') w' r = handleMargePresets (en_msg env') (sv_ds s) w r"
    unfolding handleMargePresets_def PresetsToXML_def Let_def assms(6) by (simp only:)
  then show ?thesis by (simp add: serve_def Let_def)
qed

end
