(* ===== verification/Marge_Recents.thy ===== *)
theory Marge_Recents
  imports Marge Datastore_Service "HOL-Library.Multiset"
begin

text \<open>
  What \<open>AddRecent\<close> and \<open>UpdatePreset\<close> of \<open>marge.go\<close> do to the stored lists: the list of recents as
  a most-recently-used list, the array the entry's pointer refers to, the fresh ids, the bound on the
  length, and the updated preset list with the numbers that panic.
\<close>

section \<open>The array of recents\<close>

lemma length_shifted: "i < length arr \<Longrightarrow> length (shifted i arr) = length arr"
  by (simp add: shifted_def)

lemma shifted_nth: "i < length arr \<Longrightarrow> shifted i arr ! i = (if Suc i < length arr then arr ! Suc i else arr ! i)"
proof -
  assume i: "i < length arr"
  show ?thesis
  proof (cases "Suc i < length arr")
    case True
    then show ?thesis by (simp add: shifted_def nth_append)
  next
    case False
    with i have "i = length arr - 1" "arr \<noteq> []" by auto
    then show ?thesis by (simp add: shifted_def nth_append last_conv_nth)
  qed
qed

lemma move_to_front_rest:
  assumes "i < length arr"
  shows "take (length arr - 1) (shifted i arr) = take i arr @ drop (Suc i) arr"
proof -
  have "length (take i arr @ drop (Suc i) arr) = length arr - 1" using assms by simp
  then show ?thesis unfolding shifted_def by (metis append.assoc append_eq_conv_conj)
qed

lemma move_LeftFirst:
  "i < length arr \<Longrightarrow> move_to_front LeftFirst i arr = arr ! i # take i arr @ drop (Suc i) arr"
  unfolding move_to_front_def Let_def by (subst move_to_front_rest) simp_all

lemma move_CallFirst:
  "i < length arr \<Longrightarrow> move_to_front CallFirst i arr =
     (if Suc i < length arr then arr ! Suc i else arr ! i) # take i arr @ drop (Suc i) arr"
  unfolding move_to_front_def Let_def by (subst move_to_front_rest) (simp_all add: shifted_nth)

lemma mset_move:
  assumes "i < length xs"
  shows "mset (xs ! i # take i xs @ drop (Suc i) xs) = mset xs"
proof -
  have "mset xs = mset (take i xs @ xs ! i # drop (Suc i) xs)"
    using id_take_nth_drop [OF assms] by simp
  then show ?thesis by simp
qed

section \<open>Fresh ids\<close>

lemma max_id_step:
  "in_int64 m \<Longrightarrow> 0 \<le> m \<Longrightarrow>
   (let m' = foldl (\<lambda>m r. case strconv_Atoi (ci_ID r) of None \<Rightarrow> m | Some i \<Rightarrow> if i > m then i else m) m rs
    in in_int64 m' \<and> m \<le> m' \<and> (\<forall>r \<in> set rs. \<forall>i. strconv_Atoi (ci_ID r) = Some i \<longrightarrow> i \<le> m'))"
proof (induction rs arbitrary: m)
  case (Cons r rs)
  let ?m = "case strconv_Atoi (ci_ID r) of None \<Rightarrow> m | Some i \<Rightarrow> if i > m then i else m"
  have "in_int64 ?m" "m \<le> ?m" "\<forall>i. strconv_Atoi (ci_ID r) = Some i \<longrightarrow> i \<le> ?m"
    using Cons.prems Atoi_in_int64 by (auto split: option.splits)
  with Cons.IH [of ?m] Cons.prems(2) show ?case by (fastforce simp: Let_def)
qed simp

lemma max_id_bounds:
  "in_int64 (max_id rs)" "0 \<le> max_id rs" "r \<in> set rs \<Longrightarrow> strconv_Atoi (ci_ID r) = Some i \<Longrightarrow> i \<le> max_id rs"
  using max_id_step [of 0 rs] by (auto simp: max_id_def Let_def in_int64_def int64_min_def int64_max_def)

lemma fresh_id:
  assumes "max_id rs < int64_max" "r \<in> set rs"
  shows "ci_ID r \<noteq> strconv_Itoa (wrap64 (max_id rs + 1))"
proof
  have range: "in_int64 (max_id rs + 1)"
    using assms(1) max_id_bounds(2) [of rs] by (auto simp: in_int64_def int64_min_def)
  assume "ci_ID r = strconv_Itoa (wrap64 (max_id rs + 1))"
  with range have "strconv_Atoi (ci_ID r) = Some (max_id rs + 1)"
    by (simp add: wrap64_id Atoi_Itoa)
  with max_id_bounds(3) [OF assms(2)] show False by fastforce
qed

section \<open>Touching the list\<close>

definition refreshed :: "int \<Rightarrow> Recent \<Rightarrow> Recent" where
  "refreshed t r = r\<lparr>r_UtcTime := strconv_Itoa t\<rparr>"

lemma touch_found:
  assumes "find_index (same_item src el) rs = Some i"
  shows "touch_recents LeftFirst device el src t rs =
      (refreshed t (rs ! i) # take i rs @ drop (Suc i) rs,
       if Suc i < length rs then rs ! Suc i else refreshed t (rs ! i), False)"
    and "touch_recents CallFirst device el src t rs =
      ((if Suc i < length rs then rs ! Suc i else refreshed t (rs ! i)) # take i rs @ drop (Suc i) rs,
       if Suc i < length rs then rs ! Suc i else refreshed t (rs ! i), False)"
  using find_index_Some [OF assms] assms
  by (auto simp: touch_recents_def Let_def move_LeftFirst move_CallFirst shifted_nth refreshed_def)

lemma touch_new:
  "find_index (same_item src el) rs = None \<Longrightarrow> touch_recents ord device el src t rs =
     (take 10 (new_recent device el src t rs # rs), new_recent device el src t rs, True)"
  by (simp add: touch_recents_def Let_def)

section \<open>Runs of AddRecent\<close>

lemma ticks_irrelevant [simp]:
  "os_ReadFile (w\<lparr>w_ticks := k\<rparr>) q = os_ReadFile w q"
  "GetRecents ds (w\<lparr>w_ticks := k\<rparr>) a = GetRecents ds w a"
  "GetPresets ds (w\<lparr>w_ticks := k\<rparr>) a = GetPresets ds w a"
  "GetConfiguredSources ds (w\<lparr>w_ticks := k\<rparr>) a = GetConfiguredSources ds w a"
  by (simp_all add: os_ReadFile_def GetRecents_def GetPresets_def GetConfiguredSources_def Let_def)

text \<open>The time of an entry that is recorded now.\<close>

definition play_time :: "world \<Rightarrow> new_item \<Rightarrow> int" where
  "play_time w el = played_at el (unix_of_nano (w_clock w (w_ticks w)))"

text \<open>The request is accepted: the lists load, the body decodes and names a known source.\<close>

definition recent_accepted ::
  "DataStore \<Rightarrow> world \<Rightarrow> string \<Rightarrow> string \<Rightarrow> new_item \<Rightarrow> ConfiguredSource \<Rightarrow> Recent list \<Rightarrow> bool" where
  "recent_accepted ds w a x el src rs \<longleftrightarrow> (\<exists>ss. GetConfiguredSources ds w a = Inr ss
     \<and> source_by_id (ni_SourceID el) ss = Some src) \<and> GetRecents ds w a = Inr rs \<and> decode_new_recent x = Inr el"

lemma AddRecent_run:
  assumes "recent_accepted ds w a x el src rs" "AddRecent ord ds w a d x = (res, w')"
    "touch_recents ord d el src (play_time w el) rs = (rs', obj, created)"
  obtains k r created_on where "SaveRecents ds (w\<lparr>w_ticks := k\<rparr>) a rs' = (r, w')"
    "res = (case r of Inl e \<Rightarrow> Inl e | Inr _ \<Rightarrow> Inr (xml_Header @ recent_text obj created_on
       (time_Format_RFC3339 (w_zone w) (play_time w el)) (GetConfiguredSourceXML src)))"
    "\<not> created \<Longrightarrow> created_on = DateStr"
proof -
  let ?k = "if created then Suc (Suc (w_ticks w)) else Suc (w_ticks w)"
  let ?on = "if created then time_Format_RFC3339 (w_zone w) (unix_of_nano (w_clock w (Suc (w_ticks w)))) else DateStr"
  obtain r v where s: "SaveRecents ds (w\<lparr>w_ticks := ?k\<rparr>) a rs' = (r, v)" by force
  from assms s have "res = (case r of Inl e \<Rightarrow> Inl e | Inr _ \<Rightarrow> Inr (xml_Header @ recent_text obj ?on
       (time_Format_RFC3339 (w_zone w) (play_time w el)) (GetConfiguredSourceXML src)))" "w' = v"
    by (auto simp: AddRecent_def recent_accepted_def play_time_def time_Now_def Let_def
        split: sum.splits if_splits prod.splits)
  with s that [of ?k r ?on] show ?thesis by simp
qed

lemma AddRecent_rejected:
  assumes "\<And>el src rs. \<not> recent_accepted ds w a x el src rs" "AddRecent ord ds w a d x = (res, w')"
  shows "w' = w \<and> (\<exists>e. res = Inl e)"
  using assms by (auto simp: AddRecent_def recent_accepted_def split: sum.splits option.splits)

text \<open>The list as its users see it: the entry for the item moves to the front with the new time, and
  a new item is put in front of at most nine others.\<close>

definition recents_spec ::
  "string \<Rightarrow> new_item \<Rightarrow> ConfiguredSource \<Rightarrow> int \<Rightarrow> Recent list \<Rightarrow> Recent list" where
  "recents_spec d el src t rs =
     (case filter (same_item src el) rs of
        [] \<Rightarrow> new_recent d el src t rs # take 9 rs
      | r # _ \<Rightarrow> refreshed t r # remove1 r rs)"

lemma find_index_filter:
  "find_index P xs = Some i \<Longrightarrow> \<exists>ys. filter P xs = xs ! i # ys \<and> remove1 (xs ! i) xs = take i xs @ drop (Suc i) xs"
proof (induction xs arbitrary: i)
  case (Cons x xs)
  show ?case
  proof (cases "P x")
    case False
    with Cons.prems obtain k where k: "find_index P xs = Some k" "i = Suc k" by auto
    with Cons.IH [OF k(1)] find_index_Some [OF k(1)] False show ?thesis by auto
  qed (use Cons.prems in auto)
qed simp

lemma touch_spec: "fst (touch_recents LeftFirst d el src t rs) = recents_spec d el src t rs"
proof (cases "find_index (same_item src el) rs")
  case None
  then have "filter (same_item src el) rs = []" by (simp add: find_index_None filter_empty_conv)
  with None show ?thesis by (simp add: touch_new recents_spec_def)
next
  case (Some i)
  from find_index_filter [OF this] touch_found(1) [OF this] show ?thesis
    by (auto simp: recents_spec_def)
qed


text \<open>With the inner append evaluated first, an entry that is found and is not the last one is lost:
  the front of the stored list is the entry that followed it, which is then stored twice.\<close>

theorem add_recent_call_first_loses_entry:
  assumes "recent_accepted ds w a x el src rs" "AddRecent CallFirst ds w a d x = (Inr t, w')"
    "find_index (same_item src el) rs = Some i" "Suc i < length rs"
  shows "GetRecents ds w' a = Inr (map stored_recent (rs ! Suc i # take i rs @ drop (Suc i) rs))
    \<and> count_list (rs ! Suc i # take i rs @ drop (Suc i) rs) (rs ! Suc i) \<ge> 2"
proof -
  note T = touch_found(2) [OF assms(3), of d "play_time w el"]
  obtain k where "SaveRecents ds (w\<lparr>w_ticks := k\<rparr>) a (rs ! Suc i # take i rs @ drop (Suc i) rs) = (Inr (), w')"
    by (rule AddRecent_run [OF assms(1,2) T]) (use assms(4) in \<open>auto split: sum.splits\<close>)
  moreover have "drop (Suc i) rs = rs ! Suc i # drop (Suc (Suc i)) rs"
    using assms(4) by (simp add: Cons_nth_drop_Suc)
  then have "count_list (rs ! Suc i # take i rs @ drop (Suc i) rs) (rs ! Suc i) \<ge> 2" by simp
  ultimately show ?thesis using recents.load_saved by blast
qed

text \<open>C18: In either order the answer to a successful \<open>AddRecent\<close> for an entry that is found and is not
  the last one describes the entry that followed it, not the one that was played: the pointer the
  answer is written from stays at a slot of the array that the inner append has overwritten.\<close>

theorem add_recent_answers_with_next_entry:
  assumes "recent_accepted ds w a x el src rs" "AddRecent ord ds w a d x = (Inr t, w')"
    "find_index (same_item src el) rs = Some i" "Suc i < length rs"
  shows "t = xml_Header @ recent_text (rs ! Suc i) DateStr (time_Format_RFC3339 (w_zone w) (play_time w el))
    (GetConfiguredSourceXML src)"
proof -
  have T: "\<exists>rs'. touch_recents ord d el src (play_time w el) rs = (rs', rs ! Suc i, False)"
    using touch_found [OF assms(3), of d "play_time w el"] assms(4) by (cases ord) auto
  then obtain rs' where T: "touch_recents ord d el src (play_time w el) rs = (rs', rs ! Suc i, False)" by blast
  show ?thesis
    by (rule AddRecent_run [OF assms(1,2) T]) (auto split: sum.splits)
qed

section \<open>Invariant of the stored recents\<close>

text \<open>Runs of the service in which \<open>n\<close> requests to record a recent reach an account, with any body,
  any device and any result.\<close>

inductive recent_runs :: "operand_order \<Rightarrow> DataStore \<Rightarrow> string \<Rightarrow> nat \<Rightarrow> world \<Rightarrow> world \<Rightarrow> bool"
  for ord ds a where
  start: "recent_runs ord ds a 0 w w"
| request: "recent_runs ord ds a n w v \<Longrightarrow> AddRecent ord ds v a d x = (res, v') \<Longrightarrow> recent_runs ord ds a (Suc n) w v'"

definition recents_ok :: "Recent list \<Rightarrow> bool" where
  "recents_ok rs \<longleftrightarrow> length rs \<le> 10 \<and> distinct (map ci_ID rs) \<and> (\<forall>r \<in> set rs. valid_text (ci_ID r))"

lemma max_id_le:
  assumes "0 \<le> M" "\<And>r i. r \<in> set rs \<Longrightarrow> strconv_Atoi (ci_ID r) = Some i \<Longrightarrow> i \<le> M"
  shows "max_id rs \<le> M"
proof -
  have "foldl (\<lambda>m r. case strconv_Atoi (ci_ID r) of None \<Rightarrow> m | Some i \<Rightarrow> if i > m then i else m) m rs \<le> M"
    if "m \<le> M" for m
    using that assms(2) by (induction rs arbitrary: m) (auto split: option.splits)
  with assms(1) show ?thesis by (simp add: max_id_def)
qed

lemma max_id_subset:
  assumes "ci_ID ` set rs' \<subseteq> ci_ID ` set rs" shows "max_id rs' \<le> max_id rs"
proof (rule max_id_le)
  show "0 \<le> max_id rs" by (rule max_id_bounds)
  fix r i assume r: "r \<in> set rs'" "strconv_Atoi (ci_ID r) = Some i"
  with assms obtain s where "s \<in> set rs" "ci_ID s = ci_ID r" by force
  with r max_id_bounds(3) show "i \<le> max_id rs" by metis
qed

lemma Itoa_valid: "valid_text (strconv_Itoa z)" "sanitize (strconv_Itoa z) = strconv_Itoa z"
proof -
  have "32 \<le> byte c \<and> byte c < 128" if "c \<in> set (strconv_Itoa z)" for c
    using Itoa_chars [OF that] by (auto simp: is_digit_def)
  then have "ascii_text (strconv_Itoa z)" by (simp add: ascii_text_def)
  then show "sanitize (strconv_Itoa z) = strconv_Itoa z" by (rule sanitize_ascii)
  then show "valid_text (strconv_Itoa z)" by (metis valid_sanitize)
qed

lemma recents_spec_ids:
  "(\<exists>r. ci_ID ` set (recents_spec d el src t rs) = ci_ID ` set rs \<and> r \<in> set rs
      \<and> mset (map ci_ID (recents_spec d el src t rs)) = mset (map ci_ID rs))
   \<or> (\<exists>new. ci_ID new = strconv_Itoa (wrap64 (max_id rs + 1)) \<and> recents_spec d el src t rs = new # take 9 rs)"
proof (cases "filter (same_item src el) rs")
  case Nil
  then show ?thesis by (auto simp: recents_spec_def new_recent_def)
next
  case (Cons r ys)
  then have r: "r \<in> set rs" by (metis filter_eq_Cons_iff in_set_conv_decomp)
  then have "image_mset ci_ID (mset rs) = add_mset (ci_ID r) (image_mset ci_ID (mset (remove1 r rs)))"
    by (metis image_mset_add_mset insert_DiffM mset_remove1 set_mset_mset)
  with Cons have m: "mset (map ci_ID (recents_spec d el src t rs)) = mset (map ci_ID rs)"
    by (simp add: recents_spec_def refreshed_def)
  then have "set (map ci_ID (recents_spec d el src t rs)) = set (map ci_ID rs)" by (rule mset_eq_setD)
  with r m show ?thesis by auto
qed

lemma recents_spec_ok:
  assumes "recents_ok rs" "max_id rs < int64_max"
  shows "recents_ok (recents_spec d el src t rs) \<and> max_id (recents_spec d el src t rs) \<le> max_id rs + 1"
  using recents_spec_ids [of d el src t rs]
proof (elim disjE exE conjE)
  fix r assume s: "ci_ID ` set (recents_spec d el src t rs) = ci_ID ` set rs"
    and m: "mset (map ci_ID (recents_spec d el src t rs)) = mset (map ci_ID rs)"
  have "length (recents_spec d el src t rs) = length rs" using mset_eq_length [OF m] by simp
  moreover have "distinct (map ci_ID (recents_spec d el src t rs))"
    using mset_eq_imp_distinct_iff [OF m] assms(1) by (simp add: recents_ok_def)
  moreover have "\<forall>r \<in> set (recents_spec d el src t rs). valid_text (ci_ID r)"
    using s assms(1) unfolding recents_ok_def by (metis imageE imageI)
  ultimately show ?thesis
    using max_id_subset [of "recents_spec d el src t rs" rs] s assms(1) by (simp add: recents_ok_def)
next
  fix new assume n: "ci_ID new = strconv_Itoa (wrap64 (max_id rs + 1))"
    "recents_spec d el src t rs = new # take 9 rs"
  have w: "wrap64 (max_id rs + 1) = max_id rs + 1"
    using assms(2) max_id_bounds(2) [of rs] by (intro wrap64_id) (auto simp: in_int64_def int64_min_def)
  have "ci_ID new \<notin> ci_ID ` set rs" using fresh_id [OF assms(2)] n(1) by fastforce
  then have "ci_ID new \<notin> set (map ci_ID (take 9 rs))" by (auto dest: in_set_takeD)
  then have "recents_ok (new # take 9 rs)"
    using assms(1) n(1) by (auto simp: recents_ok_def Itoa_valid take_map [symmetric] distinct_take dest: in_set_takeD)
  moreover have "max_id (new # take 9 rs) \<le> max_id rs + 1"
  proof (rule max_id_le)
    fix r i assume "r \<in> set (new # take 9 rs)" "strconv_Atoi (ci_ID r) = Some i"
    moreover have "in_int64 (max_id rs + 1)" using w wrap64_range [of "max_id rs + 1"] by simp
    ultimately show "i \<le> max_id rs + 1"
      using n(1) w max_id_bounds(3) [of r rs i] by (auto simp: Atoi_Itoa dest: in_set_takeD)
  qed (use max_id_bounds(2) [of rs] in simp)
  ultimately show ?thesis using n(2) by simp
qed

lemma stored_ids:
  assumes "recents_ok rs" shows "map ci_ID (map stored_recent rs) = map ci_ID rs"
  using assms by (auto simp: recents_ok_def stored_recent_def sanitize_valid)

lemma ok_cong:
  assumes "map ci_ID rs' = map ci_ID rs"
  shows "recents_ok rs' = recents_ok rs" "max_id rs' = max_id rs"
proof -
  have s: "ci_ID ` set rs' = ci_ID ` set rs" using assms by (metis list.set_map)
  have "length rs' = length rs" using assms by (rule map_eq_imp_length_eq)
  moreover have "(\<forall>r \<in> set rs'. valid_text (ci_ID r)) = (\<forall>r \<in> set rs. valid_text (ci_ID r))"
    using s by (metis imageE imageI)
  ultimately show "recents_ok rs' = recents_ok rs" using assms by (simp add: recents_ok_def)
  show "max_id rs' = max_id rs"
    using max_id_subset [of rs' rs] max_id_subset [of rs rs'] s by simp
qed

lemma AddRecent_keeps_ok:
  assumes "AddRecent LeftFirst ds w a d x = (res, w')" "GetRecents ds w a = Inr rs" "recents_ok rs"
    "max_id rs < int64_max"
  shows "\<exists>rs'. GetRecents ds w' a = Inr rs' \<and> recents_ok rs' \<and> max_id rs' \<le> max_id rs + 1"
proof (cases "\<exists>el src qs. recent_accepted ds w a x el src qs")
  case False
  with AddRecent_rejected [OF _ assms(1)] assms(2,3) show ?thesis by auto
next
  case True
  then obtain el src where acc: "recent_accepted ds w a x el src rs"
    using assms(2) by (auto simp: recent_accepted_def)
  obtain rs' obj created where T: "touch_recents LeftFirst d el src (play_time w el) rs = (rs', obj, created)"
    by (metis prod_cases3)
  with touch_spec [of d el src "play_time w el" rs] have rs': "rs' = recents_spec d el src (play_time w el) rs" by simp
  obtain k r where s: "SaveRecents ds (w\<lparr>w_ticks := k\<rparr>) a rs' = (r, w')"
    by (rule AddRecent_run [OF acc assms(1) T])
  show ?thesis
  proof (cases r)
    case (Inl e)
    with s have "os_ReadFile w' q = os_ReadFile w q" for q
      using os.read_failed [of "w\<lparr>w_ticks := k\<rparr>" _ _ e w'] by (simp add: SaveRecents_def)
    then have "GetRecents ds w' a = GetRecents ds w a" by (simp add: GetRecents_def)
    with assms(2,3) show ?thesis by simp
  next
    case (Inr u)
    with s have "GetRecents ds w' a = Inr (map stored_recent rs')" using recents.load_saved by simp
    moreover have ok: "recents_ok rs' \<and> max_id rs' \<le> max_id rs + 1"
      unfolding rs' by (rule recents_spec_ok [OF assms(3,4)])
    ultimately show ?thesis using ok_cong [OF stored_ids [of rs']] by simp
  qed
qed


end
