(* ===== verification/Marge_Documents.thy ===== *)
theory Marge_Documents
  imports Marge Datastore_Service
begin

text \<open>
  The documents of \<open>marge.go\<close>.  They are concatenated without escaping; for contents that need no
  escaping they are the documents the XML encoder would print, so that a parser gets the intended
  tree, and one text with markup is enough for a document that no parser accepts.  Also here: the
  choice of the source of a content item, the numbering of providers, and the structure of the full
  account.
\<close>

section \<open>Contents that need no escaping\<close>

definition plain_text :: "string \<Rightarrow> bool" where
  "plain_text t \<longleftrightarrow> xml_EscapeText t = t"

abbreviation no_nl :: "nat \<Rightarrow> string" where "no_nl \<equiv> \<lambda>_. []"

lemma print_elem_text [simp]: "plain_text v \<Longrightarrow> print_tree no_nl d (MText n [] v) = elem_text n v"
  by (simp add: plain_text_def print_open_def print_close_def elem_text_def)

lemma print_elems [simp]:
  "print_tree no_nl d (MElems n as ms) = print_open n as @ concat (map (print_tree no_nl (Suc d)) ms) @ print_close n"
  by simp

declare print_tree.simps(2) [simp del]

lemma plain_ascii:
  assumes "ascii_text t" "\<forall>c \<in> set t. escape_byte c = None"
  shows "plain_text t"
  unfolding plain_text_def using assms
proof (induction t)
  case (Cons c t)
  then have c: "32 \<le> byte c" "byte c < 128" by (auto simp: ascii_text_def)
  then have "utf8_DecodeRune (c # t) = (byte c, 1)" by (simp add: decode_lead_def)
  moreover from c have "rune_ok (byte c, 1)" by (simp add: rune_ok_def in_char_range_def rune_error_def)
  moreover have "escape_byte c = None" "xml_EscapeText t = t"
    using Cons by (auto simp: ascii_text_def)
  ultimately show ?case by simp
qed simp

lemma plain_DateStr [simp]: "plain_text DateStr"
  by (rule plain_ascii) (simp_all add: DateStr_def ascii_text_def escape_byte_def)

lemma plain_Itoa [simp]: "plain_text (strconv_Itoa z)"
proof (rule plain_ascii)
  have c: "is_digit c \<or> c = CHR ''-''" if "c \<in> set (strconv_Itoa z)" for c
    using Itoa_chars [OF that] .
  have "32 \<le> byte c \<and> byte c < 128" if "c \<in> set (strconv_Itoa z)" for c
    using c [OF that] by (auto simp: is_digit_def)
  then show "ascii_text (strconv_Itoa z)" by (simp add: ascii_text_def)
  have "\<not> is_digit d" if "escape_byte d \<noteq> None" for d
    using that by (auto simp: escape_byte_def is_digit_def split: if_splits)
  moreover have "escape_byte CHR ''-'' = None" by (simp add: escape_byte_def)
  ultimately show "\<forall>c \<in> set (strconv_Itoa z). escape_byte c = None"
    using c by metis
qed

lemma plain_Nil [simp]: "plain_text []"
  by (simp add: plain_text_def)

section \<open>Sources\<close>

definition plain_source :: "ConfiguredSource \<Rightarrow> bool" where
  "plain_source s \<longleftrightarrow> plain_text (cs_ID s) \<and> plain_text (cs_Secret s) \<and> plain_text (cs_SourceKeyAccount s)
     \<and> plain_text (cs_DisplayName s)"

lemma plain_token [simp]: "plain_text ''token''" "plain_text ''Audio''"
  by (rule plain_ascii; simp add: ascii_text_def escape_byte_def)+

lemma print_attrs:
  "print_open n [] = ''<'' @ n @ ''>''"
  "plain_text v \<Longrightarrow> print_open n [(a, v)] = ''<'' @ n @ '' '' @ a @ ''=\"'' @ v @ ''\">''"
  "plain_text v \<Longrightarrow> plain_text u \<Longrightarrow>
    print_open n [(a, v), (b, u)] = ''<'' @ n @ '' '' @ a @ ''=\"'' @ v @ ''\" '' @ b @ ''=\"'' @ u @ ''\">''"
  by (simp_all add: print_open_def print_attr_def plain_text_def)

lemma print_text_attr:
  "plain_text v \<Longrightarrow> plain_text t \<Longrightarrow> print_tree no_nl d (MText n [(a, v)] t) =
    ''<'' @ n @ '' '' @ a @ ''=\"'' @ v @ ''\">'' @ t @ ''</'' @ n @ ''>''"
  by (simp add: print_attrs print_close_def) (simp add: plain_text_def)

lemma print_source: "plain_source s \<Longrightarrow> print_tree no_nl d (source_tree s) = GetConfiguredSourceXML s"
  by (simp add: source_tree_def plain_source_def GetConfiguredSourceXML_def print_attrs print_text_attr
      del: print_tree.simps) (simp add: elem_text_def print_close_def)

text \<open>For a source whose texts need no escaping the concatenated document is the one the XML
  encoder prints: \<open>GetConfiguredSourceXML\<close> and \<open>ConfiguredSourceToXML\<close> agree.\<close>

theorem configured_source_texts_agree:
  assumes "plain_text (cs_ID s)" "plain_text (cs_Secret s)" "plain_text (cs_SourceKeyAccount s)"
    "plain_text (cs_DisplayName s)"
  shows "GetConfiguredSourceXML s = ConfiguredSourceToXML s"
  using print_source [of s 0] assms by (simp add: plain_source_def ConfiguredSourceToXML_def xml_Marshal_def)

section \<open>Presets and recents\<close>

text \<open>The documents as trees.\<close>

definition preset_tree :: "Preset \<Rightarrow> ConfiguredSource option \<Rightarrow> mtree" where
  "preset_tree p src = MElems ''preset'' [(''buttonNumber'', ci_ID p)]
     ([MText ''containerArt'' [] (p_ContainerArt p), MText ''contentItemType'' [] (ci_Type p),
       MText ''createdOn'' [] DateStr, MText ''location'' [] (ci_Location p), MText ''name'' [] (ci_Name p)]
      @ (case src of None \<Rightarrow> [] | Some s \<Rightarrow> [source_tree s]) @ [MText ''updatedOn'' [] DateStr])"

definition recent_tree :: "Recent \<Rightarrow> string \<Rightarrow> ConfiguredSource option \<Rightarrow> mtree" where
  "recent_tree r played src = MElems ''recent'' [(''id'', ci_ID r)]
     ([MText ''contentItemType'' [] (ci_Type r), MText ''createdOn'' [] DateStr, MText ''lastplayedat'' [] played,
       MText ''location'' [] (ci_Location r), MText ''name'' [] (ci_Name r)]
      @ (case src of None \<Rightarrow> [] | Some s \<Rightarrow> [source_tree s]) @ [MText ''updatedOn'' [] DateStr])"

definition plain_item :: "'a ContentItem_scheme \<Rightarrow> bool" where
  "plain_item c \<longleftrightarrow> plain_text (ci_ID c) \<and> plain_text (ci_Type c) \<and> plain_text (ci_Location c) \<and> plain_text (ci_Name c)"

lemma item_source_in: "item_source c ss = Some s \<Longrightarrow> s \<in> set ss"
  using find_first_Some by (fastforce simp: item_source_def)

lemma names_source: "names_ok (source_tree s)"
  by (auto simp: source_tree_def) (simp_all add: tag_eval)

lemma names_preset: "names_ok (preset_tree p src)"
  by (auto simp: preset_tree_def names_source split: option.splits) (simp_all add: tag_eval)

lemma names_recent: "names_ok (recent_tree r played src)"
  by (auto simp: recent_tree_def names_source split: option.splits) (simp_all add: tag_eval)

lemma print_preset:
  assumes "plain_item p" "plain_text (p_ContainerArt p)" "\<forall>s \<in> set ss. plain_source s"
  shows "print_tree no_nl d (preset_tree p (item_source p ss)) = preset_text p (source_part p ss)"
  using assms item_source_in [of p ss]
  by (auto simp: preset_tree_def preset_text_def source_part_def plain_item_def print_attrs print_source
      print_close_def simp del: print_tree.simps split: option.splits)

lemma print_recent:
  assumes "plain_item r" "plain_text played" "\<forall>s \<in> set ss. plain_source s"
  shows "print_tree no_nl d (recent_tree r played (item_source r ss)) = recent_text r DateStr played (source_part r ss)"
  using assms item_source_in [of r ss]
  by (auto simp: recent_tree_def recent_text_def source_part_def plain_item_def print_attrs print_source
      print_close_def simp del: print_tree.simps split: option.splits)

text \<open>Texts of times need no escaping.\<close>

definition time_chars :: "char set" where "time_chars = {c. is_digit c} \<union> set ''-:TZ+''"

lemma time_chars_plain: "set t \<subseteq> time_chars \<Longrightarrow> plain_text t"
proof (rule plain_ascii)
  assume t: "set t \<subseteq> time_chars"
  have "32 \<le> byte c \<and> byte c < 128 \<and> escape_byte c = None" if "c \<in> time_chars" for c
  proof (cases "is_digit c")
    case True
    have "\<not> is_digit d" if "escape_byte d \<noteq> None" for d
      using that by (auto simp: escape_byte_def is_digit_def split: if_splits)
    then have "escape_byte c = None" using True by blast
    with True show ?thesis by (simp add: is_digit_def)
  next
    case False
    with that have "c \<in> set ''-:TZ+''" by (simp add: time_chars_def)
    then consider "c = CHR ''-''" | "c = CHR '':''" | "c = CHR ''T''" | "c = CHR ''Z''" | "c = CHR ''+''"
      by auto
    then show ?thesis by cases (simp_all add: escape_byte_def)
  qed
  with t show "ascii_text t" "\<forall>c \<in> set t. escape_byte c = None" by (auto simp: ascii_text_def)
qed

lemma pad_int_chars: "set (pad_int w n) \<subseteq> time_chars"
  using dec_digits_are_digits by (auto simp: pad_int_def time_chars_def Let_def is_digit_def)

lemma time_text_plain [simp]: "plain_text (time_Format_RFC3339 zone sec)"
proof (rule time_chars_plain)
  have sep: "{CHR ''-'', CHR '':'', CHR ''T'', CHR ''Z'', CHR ''+''} \<subseteq> time_chars"
    by (auto simp: time_chars_def)
  have "set (zone_text off) \<subseteq> time_chars" for off
    using pad_int_chars sep by (simp add: zone_text_def Let_def)
  then show "set (time_Format_RFC3339 zone sec) \<subseteq> time_chars"
    using pad_int_chars sep
    by (cases "date_of_days (absolute_unix (zone sec) sec div 86400)") (simp add: time_Format_RFC3339_def Let_def)
qed

lemma last_played_plain: "plain_text (last_played w r)"
  by (simp add: last_played_def split: option.split)

lemma parse_plain:
  "names_ok m \<Longrightarrow> parse_xml (xml_Header @ print_tree no_nl 0 m) = Some (tree_of no_nl 0 m)"
  by (rule parse_print(2)) simp_all

text \<open>When the texts of the presets and sources need no escaping, the document of the presets is
  well formed, and a parser gets one element per preset with its fields and its source.\<close>

theorem presets_document_parses:
  assumes "GetPresets ds w a = Inr ps" "GetConfiguredSources ds w a = Inr ss"
    "\<And>p. p \<in> set ps \<Longrightarrow> plain_item p \<and> plain_text (p_ContainerArt p)" "\<And>s. s \<in> set ss \<Longrightarrow> plain_source s"
  shows "\<exists>t. PresetsToXML ds w a = Inr t \<and> parse_xml t =
    Some (tree_of no_nl 0 (MElems ''presets'' [] (map (\<lambda>p. preset_tree p (item_source p ss)) ps)))"
proof -
  let ?m = "MElems ''presets'' [] (map (\<lambda>p. preset_tree p (item_source p ss)) ps)"
  have "names_ok ?m" by (auto simp: names_preset) (simp_all add: tag_eval)
  moreover have "PresetsToXML ds w a = Inr (xml_Header @ print_tree no_nl 0 ?m)"
    using assms by (simp add: PresetsToXML_def print_attrs print_close_def print_preset o_def cong: map_cong)
  ultimately show ?thesis using parse_plain by blast
qed

text \<open>The same for the document of the recents, whose times are written in the local zone.\<close>

theorem recents_document_parses:
  assumes "GetRecents ds w a = Inr rs" "GetConfiguredSources ds w a = Inr ss"
    "\<And>r. r \<in> set rs \<Longrightarrow> plain_item r" "\<And>s. s \<in> set ss \<Longrightarrow> plain_source s"
  shows "\<exists>t. RecentsToXML ds w a = Inr t \<and> parse_xml t =
    Some (tree_of no_nl 0 (MElems ''recents'' [] (map (\<lambda>r. recent_tree r (last_played w r) (item_source r ss)) rs)))"
proof -
  let ?m = "MElems ''recents'' [] (map (\<lambda>r. recent_tree r (last_played w r) (item_source r ss)) rs)"
  have "names_ok ?m" by (auto simp: names_recent) (simp_all add: tag_eval)
  moreover have "RecentsToXML ds w a = Inr (xml_Header @ print_tree no_nl 0 ?m)"
    using assms by (simp add: RecentsToXML_def print_attrs print_close_def print_recent last_played_plain o_def cong: map_cong)
  ultimately show ?thesis using parse_plain by blast
qed

section \<open>Contents with markup\<close>

lemma run_amp:
  assumes "plain_text pre"
  shows "parse_run stk (pre @ ''& '' @ bs) = None"
proof -
  have "read_entity (CHR 0x20 # bs) = None"
    by (simp add: read_entity_def entity_table_def name_byte_eval)
  moreover obtain c0 c1 where "text_loop None False CHR 0x00 CHR 0x00 [] (xml_EscapeText pre @ ''& '' @ bs)
      = text_loop None False c0 c1 (rev (sanitize pre) @ []) (''& '' @ bs)"
    using text_loop_escape [where q = None and ?b0.0 = "CHR 0x00" and ?b1.0 = "CHR 0x00" and acc = "[]"
        and s = pre and bs = "''& '' @ bs"] by auto
  ultimately have t: "read_text None False (pre @ ''& '' @ bs) = None"
    using assms by (simp add: read_text_def plain_text_def text_loop.simps(2))
  have "hd (pre @ ''& '' @ bs) \<noteq> CHR 0x3C"
    using assms escape_hd [of pre] by (cases pre) (simp_all add: plain_text_def)
  then have "raw_token (pre @ ''& '' @ bs) = None"
    using t by (cases pre) (simp_all add: raw_token_def)
  then show ?thesis by (subst parse_run.simps) simp
qed

lemma run_elem:
  assumes "tag_name n" "plain_text v"
  shows "parse_run (f # stk) (elem_text n v @ bs)
    = parse_run ((fst f, fst (snd f), tree_of no_nl 0 (MText n [] v) # snd (snd f)) # stk) bs"
  using run_tree [of "MText n [] v" no_nl "f # stk" 0 bs] assms print_elem_text [OF assms(2), of 0 n]
  by (cases f) (simp add: after_def del: print_tree.simps)

lemma presets_tags: "tag_name ''presets''" "tag_name ''preset''" "tag_name ''buttonNumber''" "tag_name ''containerArt''"
  "tag_name ''contentItemType''" "tag_name ''createdOn''" "tag_name ''location''" "tag_name ''name''"
  by (simp_all add: tag_eval)

text \<open>Nothing is escaped: an ampersand in the name of the first preset (as in \<open>Drum & Bass\<close>) makes
  the document of the presets one that is not well formed, although the name is stored and loaded
  faithfully.\<close>

theorem ampersand_breaks_presets_document:
  assumes "GetPresets ds w a = Inr (p # ps)" "GetConfiguredSources ds w a = Inr ss"
    "plain_text (ci_ID p)" "plain_text (p_ContainerArt p)" "plain_text (ci_Type p)" "plain_text (ci_Location p)"
    "ci_Name p = pre @ ''& '' @ post" "plain_text pre"
  shows "\<exists>t. PresetsToXML ds w a = Inr t \<and> parse_xml t = None"
proof -
  define rest where "rest = post @ ''</name>'' @ source_part p ss @ elem_text ''updatedOn'' DateStr @ ''</preset>''
    @ concat (map (\<lambda>p. preset_text p (source_part p ss)) ps) @ ''</presets>''"
  let ?item = "print_open ''preset'' [(''buttonNumber'', ci_ID p)] @ elem_text ''containerArt'' (p_ContainerArt p)
     @ elem_text ''contentItemType'' (ci_Type p) @ elem_text ''createdOn'' DateStr
     @ elem_text ''location'' (ci_Location p) @ print_open ''name'' [] @ pre @ ''& '' @ rest"
  have "PresetsToXML ds w a = Inr (xml_Header @ print_open ''presets'' [] @ ?item)"
    using assms(1-3,7) by (simp add: PresetsToXML_def preset_text_def print_attrs elem_text_def [of "''name''"] rest_def)
  moreover have "parse_run [] (print_open ''presets'' [] @ ?item) = None"
    using assms by (simp add: run_open presets_tags run_elem run_amp [where bs = rest, simplified])
  moreover have "\<exists>r. print_open ''presets'' [] @ ?item = CHR 0x3C # r" by (rule starts_tag(2))
  ultimately show ?thesis by (auto simp: parse_xml_def run_header simp del: append_assoc)
qed

section \<open>The source of an item\<close>

text \<open>Loaded presets have no source id and loaded sources always have one, so the comparison of
  ids never decides: the source shown with a preset or a recent is the first one of its type and
  account.\<close>

theorem item_source_by_account:
  assumes "GetPresets ds w a = Inr ps" "GetRecents ds w a = Inr rs" "GetConfiguredSources ds w a = Inr ss"
  shows "(\<forall>p \<in> set ps. item_source p ss =
      find_first (\<lambda>s. cs_SourceKeyType s = ci_Source p \<and> cs_SourceKeyAccount s = ci_SourceAccount p) ss)
    \<and> (\<forall>r \<in> set rs. item_source r ss =
      find_first (\<lambda>s. cs_SourceKeyType s = ci_Source r \<and> cs_SourceKeyAccount s = ci_SourceAccount r) ss)"
proof -
  have ids: "cs_ID s \<noteq> []" if "s \<in> set ss" for s
    using assms(3) that number_sources_ids
    by (auto simp: GetConfiguredSources_def read_sources_def Let_def split: sum.splits)
  have "ci_SourceID (preset_of_xml x) = []" "ci_SourceID (recent_of_xml y) = []" for x y
    by (simp_all add: preset_of_xml_def recent_of_xml_def Let_def)
  with assms have none: "\<And>p. p \<in> set ps \<Longrightarrow> ci_SourceID p = []" "\<And>r. r \<in> set rs \<Longrightarrow> ci_SourceID r = []"
    by (auto simp: GetPresets_def read_presets_def GetRecents_def read_recents_def Let_def split: sum.splits)
  then show ?thesis
    unfolding item_source_def by (intro conjI ballI find_first_cong) (simp_all add: ids)
qed

section \<open>Providers\<close>

lemma provider_id_nth:
  "provider_id s = int k + 1 \<longleftrightarrow> k < length Providers \<and> Providers ! k = cs_SourceKeyType s"
proof (cases "find_index (\<lambda>p. p = cs_SourceKeyType s) Providers")
  case None
  then have "provider_id s = 0" by (simp add: provider_id_def)
  with None show ?thesis by (auto simp: find_index_None dest: nth_mem)
next
  case (Some i)
  from find_index_Some [OF Some] distinct_Providers show ?thesis
    by (auto simp: provider_id_def Some) (metis nth_eq_iff_index_eq)
qed

text \<open>The provider number written into a source's document is the id under which
  \<open>SourceProviders\<close> lists the provider of that name, and 0 for a type that is no provider.\<close>

theorem provider_numbers_match:
  "(p \<in> set SourceProviders \<and> sp_Name p = cs_SourceKeyType s \<longrightarrow> provider_id s = sp_ID p)
    \<and> (provider_id s = 0 \<longleftrightarrow> cs_SourceKeyType s \<notin> sp_Name ` set SourceProviders)
    \<and> map sp_ID SourceProviders = map int [1..<39]"
proof -
  have P: "SourceProviders = map (\<lambda>i. \<lparr>sp_ID = int i + 1, sp_CreatedOn = DateStr, sp_Name = Providers ! i,
      sp_UpdatedOn = DateStr\<rparr>) [0..<length Providers]"
    by (auto simp: SourceProviders_def intro!: nth_equalityI)
  have "provider_id s = sp_ID p" if "p \<in> set SourceProviders" "sp_Name p = cs_SourceKeyType s"
  proof -
    from that(1) obtain i where "i < length Providers" "sp_ID p = int i + 1" "sp_Name p = Providers ! i"
      unfolding P by auto
    with that(2) provider_id_nth [of s i] show ?thesis by simp
  qed
  moreover have "provider_id s = 0 \<longleftrightarrow> cs_SourceKeyType s \<notin> set Providers"
    using find_index_Some [of "\<lambda>p. p = cs_SourceKeyType s" Providers]
    by (auto simp: provider_id_def find_index_None split: option.splits) (metis nth_mem)
  moreover have "sp_Name ` set SourceProviders = set Providers"
    by (force simp: P in_set_conv_nth image_image)
  moreover have "map sp_ID SourceProviders = map int [1..<39]"
    by (rule nth_equalityI) (simp_all add: P length_Providers)
  ultimately show ?thesis by simp
qed

text \<open>The document of the source providers is well formed: a parser gets the 38 providers in order.\<close>

theorem source_providers_document_parses:
  "parse_xml SourceProvidersToXML =
    Some (tree_of (nl_indent four_spaces) 0 (MElems ''sourceProviders'' [] (map encode_provider SourceProviders)))"
proof -
  have "names_ok (MElems ''sourceProviders'' [] (map encode_provider SourceProviders))"
    by (auto simp: encode_provider_def) (simp_all add: tag_eval)
  then show ?thesis unfolding SourceProvidersToXML_def xml_MarshalIndent_def by (rule parse_print(2)) simp
qed

section \<open>The full account\<close>

text \<open>The document of an account as one expression over its device directories.\<close>

definition account_spec :: "DataStore \<Rightarrow> world \<Rightarrow> string \<Rightarrow> string list \<Rightarrow> string" where
  "account_spec ds w a dirs =
     standalone_header @ ''<account id=\"'' @ a @ ''\"><accountStatus>OK</accountStatus><devices>''
     @ concat (map (\<lambda>d. case GetDeviceInfo ds w a d of Inl _ \<Rightarrow> [] | Inr info \<Rightarrow> device_text ds w a d info) dirs)
     @ ''</devices><mode>global</mode><preferredLanguage>en</preferredLanguage>'' @ ProviderSettingsToXML a
     @ (if dirs = [] then [] else ''<sources>'' @ (case GetConfiguredSources ds w a of Inl _ \<Rightarrow> []
          | Inr ss \<Rightarrow> concat (map GetConfiguredSourceXML ss)) @ ''</sources>'')
     @ ''</account>''"

lemma account_entries:
  "foldl (account_entry ds w a) (t, l) es =
     (t @ concat (map (\<lambda>d. case GetDeviceInfo ds w a d of Inl _ \<Rightarrow> [] | Inr info \<Rightarrow> device_text ds w a d info)
        (map fst (filter snd es))),
      if filter snd es = [] then l else fst (last (filter snd es)))"
  by (induction es arbitrary: t l) (auto simp: account_entry_def Let_def split: sum.splits)

lemma AccountFull_spec:
  assumes "os_ReadDir w (AccountDevicesDir ds a) = Inr es" "\<forall>e \<in> set es. fst e \<noteq> []"
  shows "AccountFullToXML ds w a = Inr (account_spec ds w a (map fst (filter snd es)))"
proof -
  have "fst (last (filter snd es)) \<noteq> []" if "filter snd es \<noteq> []"
    using last_in_set [OF that] assms(2) by auto
  then show ?thesis
    by (simp add: AccountFullToXML_def assms(1) account_entries account_spec_def filter_empty_conv Let_def
        split: sum.splits)
qed

text \<open>The full account shows, in the order of the directory, exactly the device directories whose
  information can be loaded, with the presets and recents of the account inside each; the sources
  follow when there is any device directory, readable or not.\<close>

theorem account_document_structure:
  assumes "os_ReadDir w (AccountDevicesDir ds a) = Inr es" "\<forall>e \<in> set es. fst e \<noteq> []"
  shows "AccountFullToXML ds w a = Inr (account_spec ds w a (map fst (filter snd es)))"
  by (rule AccountFull_spec [OF assms])

end
