(* ===== verification/Marge_Presets.thy ===== *)
theory Marge_Presets
  imports Marge_Recents Marge_Documents
begin

text \<open>
  What a speaker's requests on presets and devices do: \<open>UpdatePreset\<close> on every branch with the numbers
  that panic, the files after an error, and \<open>AddDeviceToAccount\<close> and \<open>RemoveDeviceFromAccount\<close>.
\<close>

section \<open>Updating a preset\<close>

lemma put_preset_ok:
  assumes "1 \<le> n" "in_int64 n"
  shows "put_preset n p ps = Done ((ps @ replicate (nat n - length ps) zero_Preset)[nat (n - 1) := p])"
proof -
  have "wrap64 (n - 1) = n - 1" using assms by (intro wrap64_id) (simp add: in_int64_def int64_min_def)
  with assms(1) show ?thesis by (auto simp: put_preset_def Let_def)
qed

lemma put_preset_panics:
  assumes "n \<le> 0" "in_int64 n" "int (length ps) \<le> int64_max"
  shows "put_preset n p ps = Panicked ''index out of range''"
proof (cases "n = int64_min")
  case True
  then have "wrap64 (n - 1) = int64_max" by (simp add: wrap64_def int64_min_def int64_max_def)
  with assms show ?thesis by (simp add: put_preset_def Let_def)
next
  case False
  then have "wrap64 (n - 1) = n - 1" using assms by (intro wrap64_id) (simp add: in_int64_def int64_max_def)
  with assms(1) show ?thesis by (simp add: put_preset_def Let_def)
qed

text \<open>The request is accepted: the lists load, the body decodes and names a known source.\<close>

definition preset_accepted ::
  "DataStore \<Rightarrow> world \<Rightarrow> string \<Rightarrow> string \<Rightarrow> new_item \<Rightarrow> ConfiguredSource \<Rightarrow> Preset list \<Rightarrow> bool" where
  "preset_accepted ds w a x el src ps \<longleftrightarrow> (\<exists>ss. GetConfiguredSources ds w a = Inr ss
     \<and> source_by_id (ni_SourceID el) ss = Some src) \<and> GetPresets ds w a = Inr ps \<and> decode_new_preset x = Inr el"

definition made_preset :: "world \<Rightarrow> int \<Rightarrow> new_item \<Rightarrow> ConfiguredSource \<Rightarrow> Preset" where
  "made_preset w n el src = new_preset n el src (strconv_Itoa (unix_of_nano (w_clock w (w_ticks w))))"

lemma UpdatePreset_run:
  assumes "preset_accepted ds w a x el src ps"
  shows "UpdatePreset ds w a d n x = (case put_preset n (made_preset w n el src) ps of
      Panicked m \<Rightarrow> (Panicked m, w\<lparr>w_ticks := Suc (w_ticks w)\<rparr>)
    | Done ps' \<Rightarrow> (case SavePresets ds (w\<lparr>w_ticks := Suc (w_ticks w)\<rparr>) a ps' of
         (Inl e, w2) \<Rightarrow> (Done (Inl e), w2)
       | (Inr _, w2) \<Rightarrow> (Done (Inr (xml_Header
            @ preset_text (made_preset w n el src) (GetConfiguredSourceXML src))), w2)))"
  using assms
  unfolding made_preset_def
  by (auto simp: UpdatePreset_def preset_accepted_def time_Now_def Let_def split: outcome.splits)

lemma UpdatePreset_rejected:
  assumes "\<And>el src ps. \<not> preset_accepted ds w a x el src ps" "UpdatePreset ds w a d n x = (r, w')"
  shows "w' = w \<and> (\<exists>e. r = Done (Inl e))"
  using assms by (auto simp: UpdatePreset_def preset_accepted_def split: sum.splits option.splits)

text \<open>C8: A successful \<open>UpdatePreset\<close> with a positive number stores the list in which the entry at that
  position is the new one (with empty entries up to it if the list was shorter) and all others are
  as before, and answers with the document of the new preset and its source.\<close>

theorem update_preset_replaces_one:
  assumes "preset_accepted ds w a x el src ps" "1 \<le> n" "in_int64 n"
    "UpdatePreset ds w a d n x = (Done (Inr t), w')"
  shows "\<exists>qs. GetPresets ds w' a = Inr qs \<and> length qs = max (length ps) (nat n)
    \<and> (\<forall>j < length qs. qs ! j = (if j = nat (n - 1) then stored_preset (made_preset w n el src)
         else if j < length ps then stored_preset (ps ! j) else stored_preset zero_Preset))
    \<and> t = xml_Header @ preset_text (made_preset w n el src) (GetConfiguredSourceXML src)"
proof -
  let ?ps' = "(ps @ replicate (nat n - length ps) zero_Preset)[nat (n - 1) := made_preset w n el src]"
  from assms(4) obtain w1 where "SavePresets ds w1 a ?ps' = (Inr (), w')"
    and t: "t = xml_Header @ preset_text (made_preset w n el src) (GetConfiguredSourceXML src)"
    by (auto simp: UpdatePreset_run [OF assms(1)] put_preset_ok [OF assms(2,3)] split: prod.splits sum.splits)
  from presets.load_saved [OF this(1)] have "GetPresets ds w' a = Inr (map stored_preset ?ps')" .
  moreover have "length ?ps' = max (length ps) (nat n)" by auto
  moreover have "map stored_preset ?ps' ! j = (if j = nat (n - 1) then stored_preset (made_preset w n el src)
      else if j < length ps then stored_preset (ps ! j) else stored_preset zero_Preset)"
    if "j < length (map stored_preset ?ps')" for j
    using that by (auto simp: nth_list_update nth_append)
  ultimately show ?thesis using t by (intro exI [of _ "map stored_preset ?ps'"]) simp
qed

text \<open>C21: For an accepted request \<open>UpdatePreset\<close> panics exactly for the numbers below 1 (the handler
  passes on whatever \<open>Atoi\<close> accepts), and then no file has changed.\<close>

theorem update_preset_panics_below_one:
  assumes "preset_accepted ds w a x el src ps" "in_int64 n" "int (length ps) \<le> int64_max"
    "UpdatePreset ds w a d n x = (r, w')"
  shows "((\<exists>m. r = Panicked m) \<longleftrightarrow> n \<le> 0) \<and> (n \<le> 0 \<longrightarrow> w_root w' = w_root w)"
proof (cases "n \<le> 0")
  case True
  with assms put_preset_panics [OF True assms(2,3)] show ?thesis by (auto simp: UpdatePreset_run)
next
  case False
  then have "1 \<le> n" by simp
  with assms False put_preset_ok [OF this assms(2)] show ?thesis
    by (auto simp: UpdatePreset_run split: prod.splits sum.splits)
qed

section \<open>Errors\<close>

lemma failed_write_root: "os_WriteFile w p t = (Inl e, w') \<Longrightarrow> w_root w' = w_root w"
  by (erule WriteFile_cases) auto


section \<open>Devices\<close>

text \<open>Adding a device stores its id and its name, and nothing else is known of it; a body without a
  device id is refused without a change.\<close>

theorem added_device_is_stored:
  assumes "decode_new_device x = Inr (i, name)" "AddDeviceToAccount ds w a x = (r, w')"
  shows "(i = [] \<longrightarrow> r = Inl (Errorf ''device ID/name cannot be empty'') \<and> w' = w)
    \<and> (is_ok r \<longrightarrow> GetDeviceInfo ds w' a i = Inr (zero_DeviceInfo\<lparr>di_DeviceID := sanitize i,
         di_ProductCode := '' '', di_Name := sanitize name\<rparr>))"
proof (cases "SaveDeviceInfo ds w a i (zero_DeviceInfo\<lparr>di_DeviceID := i, di_Name := name\<rparr>)")
  case (Pair s w1)
  have nil: "sanitize [] = []" "split_product [] = ([], [])" by (simp_all add: sanitize_Nil_iff split_product_def)
  show ?thesis
  proof (cases s)
    case (Inl e)
    with assms Pair show ?thesis
      by (auto simp: AddDeviceToAccount_def SaveDeviceInfo_def)
  next
    case (Inr u)
    with Pair have "i \<noteq> []" by (auto simp: SaveDeviceInfo_def)
    moreover have "GetDeviceInfo ds w1 a i = Inr (stored_device (zero_DeviceInfo\<lparr>di_DeviceID := i, di_Name := name\<rparr>))"
      using devices.load_saved [where k = "(a, i)" and ds = ds] Pair Inr by simp
    moreover from assms Pair Inr have "w' = w1\<lparr>w_ticks := Suc (w_ticks w1)\<rparr>"
      by (auto simp: AddDeviceToAccount_def time_Now_def Let_def)
    ultimately show ?thesis
      by (simp add: GetDeviceInfo_def stored_device_def zero_DeviceInfo_def nil)
  qed
qed

end
