(* ===== verification/Handlers_Marge_Laws.thy ===== *)
theory Handlers_Marge_Laws
  imports Handlers_Marge Marge_Presets
begin

text \<open>
  What clients of the streaming handlers can rely on: conditional requests (the locale of \<open>Http\<close>,
  interpreted for every handler that has an entity tag of the stored state), fresh documents after
  an update, the tags that do not cover everything a document shows, and the support upload.
\<close>

section \<open>Conditional requests\<close>

lemma write_doc:
  "status_of (Write t (Header_Set k v (Header_Set k' v' new_response))) = 200"
  "k \<noteq> k' \<Longrightarrow> rs_Header (Write t (Header_Set k v (Header_Set k' v' new_response))) k = Some v"
  "rs_Body (Write t (Header_Set k v (Header_Set k' v' new_response))) = t"
  by (simp_all add: status_of_def http_defs)

lemma error_status: "rs_Status w = None \<Longrightarrow> status_of (http_Error m c w) = c"
  by (simp add: status_of_def http_defs)

lemma new_response_status [simp]: "rs_Status new_response = None"
  by (simp add: new_response_def)

lemma status_not_modified: "status_of (WriteHeader 304 new_response) = 304"
  by (simp add: status_of_def http_defs)

interpretation presets_get: conditional_get
  "\<lambda>w r. etag_text (GetETagForPresets ds w (rq_Param r ''account''))" "handleMargePresets msg ds" for msg ds
  by unfold_locales (auto simp: handleMargePresets_def not_modified_def Let_def write_doc error_status split: sum.splits)

interpretation account_get: conditional_get
  "\<lambda>w r. etag_text (GetETagForAccount ds w (rq_Param r ''account''))" "handleMargeAccountFull msg ds" for msg ds
  by unfold_locales (auto simp: handleMargeAccountFull_def not_modified_def Let_def write_doc error_status split: sum.splits)

interpretation update_get: conditional_get "\<lambda>w r. swupdate_etag w" handleMargeSoftwareUpdate
  by unfold_locales (auto simp: handleMargeSoftwareUpdate_def not_modified_def Let_def write_doc split: sum.splits)

lemma etag_text_inj: "etag_text a = etag_text b \<longleftrightarrow> a = b"
  by (auto simp: etag_text_def dest: Itoa_inj)

text \<open>C17: A client of the presets or of the full account that asks again with the entity tag it got is
  answered 304 exactly as long as the tag of the stored files is the same.\<close>

theorem conditional_get_revalidates:
  assumes "rq_Param r' = rq_Param r" "rq_Param r ''account'' = a"
    "status_of (handleMargePresets msg ds w r) = 200"
    "rs_Header (handleMargePresets msg ds w r) ''ETag'' = Some (rq_Header r' ''If-None-Match'')"
    "status_of (handleMargeAccountFull msg ds v r) = 200"
    "rs_Header (handleMargeAccountFull msg ds v r) ''ETag'' = Some (rq_Header q ''If-None-Match'')" "rq_Param q = rq_Param r"
  shows "(status_of (handleMargePresets msg ds w' r') = 304 \<longleftrightarrow> GetETagForPresets ds w' a = GetETagForPresets ds w a)
    \<and> (status_of (handleMargeAccountFull msg ds v' q) = 304 \<longleftrightarrow> GetETagForAccount ds v' a = GetETagForAccount ds v a)"
  using presets_get.revalidation [OF assms(3,4,1) refl, of w'] account_get.revalidation [OF assms(5,6,7) refl, of v']
    assms(2) by (simp add: etag_text_inj)

section \<open>Updates and their documents\<close>

lemma UpdatePreset_saves:
  assumes "UpdatePreset ds w a d n x = (Done (Inr t), w')"
  obtains ps where "SavePresets ds (w\<lparr>w_ticks := Suc (w_ticks w)\<rparr>) a ps = (Inr (), w')"
    "\<exists>ss. GetConfiguredSources ds w a = Inr ss"
proof -
  obtain el src ps where acc: "preset_accepted ds w a x el src ps"
    using UpdatePreset_rejected [OF _ assms] by blast
  with assms that show ?thesis
    by (auto simp: UpdatePreset_run preset_accepted_def split: outcome.splits prod.splits sum.splits)
qed

lemma update_ok:
  assumes "handleMargeUpdatePreset msg ds w r = (Done resp, w')" "status_of resp = 200"
  obtains n x t where "UpdatePreset ds w (rq_Param r ''account'') (rq_Param r ''device'') n x = (Done (Inr t), w')"
  using assms
  by (auto simp: handleMargeUpdatePreset_def Let_def error_status Header_Set_def split: option.splits sum.splits outcome.splits prod.splits)

text \<open>C15: After a successful update of a preset, made in a later millisecond than the file's last change, a
  client that asks for the presets with the old entity tag gets the new document with status 200.\<close>

theorem updated_presets_are_served:
  assumes "handleMargeUpdatePreset msg ds w r = (Done resp, w')" "status_of resp = 200"
    "DataDir ds \<noteq> []" "plain_name a" "rq_Param r ''account'' = a" "rq_Param q ''account'' = a"
    "rq_Header q ''If-None-Match'' = etag_text (GetETagForPresets ds w a)"
    "GetETagForPresets ds w a < go_div (w_clock w (Suc (w_ticks w))) 1000000"
  shows "\<exists>t. PresetsToXML ds w' a = Inr t \<and> status_of (handleMargePresets msg ds w' q) = 200
    \<and> rs_Body (handleMargePresets msg ds w' q) = t"
proof -
  let ?w = "w\<lparr>w_ticks := Suc (w_ticks w)\<rparr>"
  from assms(1,2,5) obtain n x t where "UpdatePreset ds w a (rq_Param r ''device'') n x = (Done (Inr t), w')"
    by (metis update_ok)
  then obtain ps ss where s: "SavePresets ds ?w a ps = (Inr (), w')" and ss: "GetConfiguredSources ds w a = Inr ss"
    by (auto elim: UpdatePreset_saves)
  have "apart_paths ?w (presets_path ds a) (sources_path ds a)"
    by (simp add: apart_paths_def at_record_paths [OF assms(3,4)])
  with ss presets.saved_apart [OF s] have "GetConfiguredSources ds w' a = Inr ss"
    by (auto simp: GetConfiguredSources_def Let_def split: sum.splits)
  moreover have "GetPresets ds w' a = Inr (map stored_preset ps)" using presets.load_saved [OF s] .
  ultimately obtain t where t: "PresetsToXML ds w' a = Inr t" by (simp add: PresetsToXML_def)
  have "GetETagForPresets ds w' a = go_div (w_clock w (Suc (w_ticks w))) 1000000"
    using etag_written [OF s [unfolded SavePresets_def]] by (simp add: GetETagForPresets_def)
  with assms(6-8) have "rq_Header q ''If-None-Match'' \<noteq> etag_text (GetETagForPresets ds w' a)"
    by (simp add: etag_text_inj)
  with t assms(6) show ?thesis by (simp add: handleMargePresets_def write_doc)
qed

section \<open>What the tags do not cover\<close>

lemma RemoveAll_lookup_apart:
  assumes "os_RemoveAll w p = (r, w')" "apart_paths w p q"
  shows "lookup (w_root w') (at_path w q) = lookup (w_root w) (at_path w q)" "w_cwd w' = w_cwd w" "w_dirtime w' = w_dirtime w"
proof -
  have "at_path w p \<noteq> []" using assms(2) by (auto simp: apart_paths_def)
  with assms(1) have "w' = w \<or> (\<exists>n. change (at_path w p) (\<lambda>_. Inr None) (w_root w) = Inr n \<and> w' = w\<lparr>w_root := n\<rparr>)"
    by (auto simp: os_RemoveAll_def Let_def split: if_splits sum.splits errno.splits)
  with assms(2) lookup_change_other show "lookup (w_root w') (at_path w q) = lookup (w_root w) (at_path w q)"
    "w_cwd w' = w_cwd w" "w_dirtime w' = w_dirtime w"
    by (fastforce simp: apart_paths_def)+
qed

text \<open>C25: The tag of the full account does not depend on its devices: after a device was removed its
  information is gone from the store, and yet a client with the old tag is told that the document
  has not been modified.\<close>

theorem removed_device_stays_in_cached_account:
  assumes "handleMargeRemoveDevice msg ds w r = (resp, w')" "status_of resp = 200"
    "DataDir ds \<noteq> []" "plain_name a" "plain_name d" "rq_Param r ''account'' = a" "rq_Param r ''device'' = d"
    "rq_Param q ''account'' = a" "rq_Header q ''If-None-Match'' = etag_text (GetETagForAccount ds w a)"
  shows "(\<exists>e. GetDeviceInfo ds w' a d = Inl e) \<and> status_of (handleMargeAccountFull msg ds w' q) = 304"
proof -
  from assms(1,2,6,7) have rm: "os_RemoveAll w (AccountDeviceDir ds a d) = (Inr (), w')"
    by (auto simp: handleMargeRemoveDevice_def RemoveDeviceFromAccount_def RemoveDevice_def error_status
        split: prod.splits sum.splits)
  have "apart_paths w (AccountDeviceDir ds a d) p" if "p \<in> {presets_path ds a, sources_path ds a, recents_path ds a}" for p
    using that by (auto simp: apart_paths_def at_paths [OF assms(3,4)] assms(5))
  then have "etag_of_file w' p = etag_of_file w p" if "p \<in> {presets_path ds a, sources_path ds a, recents_path ds a}" for p
    using that RemoveAll_lookup_apart [OF rm] by (blast intro: etag_cong)
  then have tag: "GetETagForAccount ds w' a = GetETagForAccount ds w a"
    by (simp add: GetETagForAccount_max GetETagForPresets_def GetETagForSources_def GetETagForRecents_def)
  have "status_of (handleMargeAccountFull msg ds w' q) = 304"
    using tag assms(8,9) by (simp add: handleMargeAccountFull_def status_not_modified)
  moreover have "lookup (w_root w') (at_path w (DataDir ds) @ [a, ''devices'', d]) = Inl ENOENT \<and> w_cwd w' = w_cwd w"
    using RemoveAll_gone [OF rm] assms(3) at_AccountDeviceDir [OF assms(3-5), of w] by simp
  then have "os_ReadFile w' (device_path ds a d) = Inl (PathError ''open'' (device_path ds a d) ENOENT)"
    by (intro ReadFile_below_gone [where rest = "[''DeviceInfo.xml'']"])
       (simp_all add: at_device_path [OF assms(3-5)])
  ultimately show ?thesis by (simp add: GetDeviceInfo_def)
qed

section \<open>Support uploads\<close>

text \<open>A support upload is always answered with 200; when it decodes, it adds one event with the
  firmware, product, address and signal of the device to the end of that device's log, which keeps
  at most a hundred, and touches no other log and no file.\<close>

theorem support_upload_is_logged:
  assumes "rq_Body r = Inr body" "handleMargeCustomerSupport partial ds w r = (resp, ds', w')"
    "decode_support body = Inr q"
  shows "status_of resp = 200 \<and> w_root w' = w_root w
    \<and> GetDeviceEvents ds' (sr_ID q) = last_n 100 (GetDeviceEvents ds (sr_ID q) @
        [\<lparr>de_Type = ''customer-support-upload'',
           de_Time = time_Format_RFC3339 (w_zone w) (unix_of_nano (w_clock w (w_ticks w))),
           de_MonoTime = go_div (w_clock w (Suc (w_ticks w))) 1000000,
           de_Data = Some [(''firmware'', JString (sr_FirmwareVersion q)), (''product'', JString (sr_ProductCode q)),
             (''ip'', JString (sr_IPAddress q)), (''rssi'', JString (sr_RSSI q))]\<rparr>])
    \<and> (\<forall>d. d \<noteq> sr_ID q \<longrightarrow> GetDeviceEvents ds' d = GetDeviceEvents ds d)"
  using assms
  by (auto simp: handleMargeCustomerSupport_def Let_def time_Now_def events.get_add support_event_def status_of_def http_defs)

section \<open>Added devices\<close>

text \<open>What is loaded for a device shows that its directory is listed.\<close>

lemma loaded_device_dir:
  assumes "GetDeviceInfo ds w a d = Inr i" "DataDir ds \<noteq> []" "plain_name a" "plain_name d"
  shows "\<exists>es. os_ReadDir w (AccountDevicesDir ds a) = Inr es \<and> (d, True) \<in> set es"
proof -
  let ?p = "at_path w (DataDir ds) @ [a, ''devices'']"
  from assms(1) obtain t k where "lookup (w_root w) (?p @ [d, ''DeviceInfo.xml'']) = Inr (File t k)"
    using at_device_path [OF assms(2-4), of w]
    by (auto simp: GetDeviceInfo_def os_ReadFile_def split: sum.splits node.splits)
  then obtain n where n: "lookup (w_root w) ?p = Inr n" "lookup n [d, ''DeviceInfo.xml''] = Inr (File t k)"
    by (auto simp only: lookup_append split: sum.splits)
  then obtain es m where es: "n = Dir es" "map_of es d = Some m" "lookup m [''DeviceInfo.xml''] = Inr (File t k)"
    by (cases n) (auto split: option.splits)
  then have "is_dir m" by (cases m) auto
  with es(2) have "(d, True) \<in> set (map (\<lambda>(c, n). (c, is_dir n)) es)" by (force dest: map_of_SomeD)
  then show ?thesis using n(1) es(1) at_AccountDevicesDir [OF assms(2,3), of w] by (auto simp: os_ReadDir_def)
qed

lemma AccountFull_shows:
  assumes "os_ReadDir w (AccountDevicesDir ds a) = Inr es" "(d, True) \<in> set es" "GetDeviceInfo ds w a d = Inr i"
  shows "\<exists>t. AccountFullToXML ds w a = Inr t \<and> sublist (device_text ds w a d i) t"
proof -
  let ?f = "\<lambda>d. case GetDeviceInfo ds w a d of Inl _ \<Rightarrow> [] | Inr info \<Rightarrow> device_text ds w a d info"
  have "d \<in> set (map fst (filter snd es))" using assms(2) by force
  then obtain xs ys where "map fst (filter snd es) = xs @ d # ys" by (meson split_list)
  then have "concat (map ?f (map fst (filter snd es))) = concat (map ?f xs) @ device_text ds w a d i @ concat (map ?f ys)"
    using assms(3) by simp
  then have s: "sublist (device_text ds w a d i) (concat (map ?f (map fst (filter snd es))))" by simp
  show ?thesis
    unfolding AccountFullToXML_def assms(1) account_entries Let_def sum.case prod.case
    by (rule exI, rule conjI, rule refl) (simp only: sublist_append s simp_thms split: if_split)
qed

text \<open>C16: After a device was added to an account with status 200, a client that asks for the full account without the
  current tag gets a document with status 200 that shows the device with its identifier and name.\<close>

theorem added_device_is_served:
  assumes "handleMargeAddDevice msg ds w r = (resp, w')" "status_of resp = 200" "DataDir ds \<noteq> []"
    and "rq_Body r = Inr t" "decode_new_device t = Inr (d, n)" "rq_Param r ''account'' = a" "plain_name a" "plain_name d"
    and "rq_Param q ''account'' = a" "rq_Header q ''If-None-Match'' \<noteq> etag_text (GetETagForAccount ds w' a)"
    and "i = zero_DeviceInfo\<lparr>di_DeviceID := sanitize d, di_ProductCode := '' '', di_Name := sanitize n\<rparr>"
  shows "status_of (handleMargeAccountFull msg ds w' q) = 200
    \<and> sublist (device_text ds w' a d i) (rs_Body (handleMargeAccountFull msg ds w' q))"
proof -
  from assms(1,2,4,6) obtain data where "AddDeviceToAccount ds w a t = (Inr data, w')"
    by (auto simp: handleMargeAddDevice_def error_status split: sum.splits prod.splits)
  from added_device_is_stored [OF assms(5) this] have g: "GetDeviceInfo ds w' a d = Inr i" by (simp add: assms(11))
  from loaded_device_dir [OF g assms(3,7,8)] AccountFull_shows [OF _ _ g] obtain data' where
    "AccountFullToXML ds w' a = Inr data'" "sublist (device_text ds w' a d i) data'" by blast
  then show ?thesis using assms(9,10) by (simp add: handleMargeAccountFull_def write_doc)
qed

end
