(* ===== verification/Marge_Overlap.thy ===== *)
theory Marge_Overlap
  imports Marge_Presets
begin

text \<open>
  Updates of presets that overlap in time.  Requests are handled concurrently, and nothing keeps the reading and the
  writing of \<open>UpdatePreset\<close> together; so an update is split here into what it does up to the writing of the file,
  with the list it is going to write, and the writing.  Reading the two files and writing one are taken as atomic.
\<close>

section \<open>The two halves of an update\<close>

type_synonym pending = "Preset list \<times> string" \<comment> \<open>the list to write, and the answer after that\<close>

definition prepare_preset ::
  "DataStore \<Rightarrow> world \<Rightarrow> string \<Rightarrow> int \<Rightarrow> string \<Rightarrow> (string result outcome + pending) \<times> world" where
  "prepare_preset ds w account presetNumber sourceXML =
     (case GetConfiguredSources ds w account of
        Inl e \<Rightarrow> (Inl (Done (Inl e)), w)
      | Inr sources \<Rightarrow>
     (case GetPresets ds w account of
        Inl e \<Rightarrow> (Inl (Done (Inl e)), w)
      | Inr presets \<Rightarrow>
     (case decode_new_preset sourceXML of
        Inl e \<Rightarrow> (Inl (Done (Inl e)), w)
      | Inr el \<Rightarrow>
     (case source_by_id (ni_SourceID el) sources of
        None \<Rightarrow> (Inl (Done (Inl (Errorf ''invalid account/source''))), w)
      | Some matchingSrc \<Rightarrow>
         (let (now, w1) = time_Now w;
              presetObj = new_preset presetNumber el matchingSrc (strconv_Itoa (unix_of_nano now))
          in case put_preset presetNumber presetObj presets of
               Panicked m \<Rightarrow> (Inl (Panicked m), w1)
             | Done presets' \<Rightarrow>
                 (Inr (presets', xml_Header @ preset_text presetObj (GetConfiguredSourceXML matchingSrc)), w1))))))"

definition commit_preset :: "DataStore \<Rightarrow> string \<Rightarrow> pending \<Rightarrow> world \<Rightarrow> string result outcome \<times> world" where
  "commit_preset ds account p w =
     (case p of (presets', answer) \<Rightarrow>
        (case SavePresets ds w account presets' of
           (Inl e, w1) \<Rightarrow> (Done (Inl e), w1)
         | (Inr _, w1) \<Rightarrow> (Done (Inr answer), w1)))"

lemma UpdatePreset_halves:
  "UpdatePreset ds w a d n x = (case prepare_preset ds w a n x of
      (Inl out, w1) \<Rightarrow> (out, w1)
    | (Inr p, w1) \<Rightarrow> commit_preset ds a p w1)"
  by (simp add: UpdatePreset_def prepare_preset_def commit_preset_def time_Now_def Let_def
      split: sum.split option.split outcome.split)

section \<open>Interleavings\<close>

text \<open>The state: the environment, and the updates that have read and not yet written.\<close>

inductive update_step ::
  "DataStore \<Rightarrow> world \<times> (string \<times> pending) list \<Rightarrow> world \<times> (string \<times> pending) list \<Rightarrow> bool" for ds where
  finished: "prepare_preset ds w a n x = (Inl out, w1) \<Longrightarrow> update_step ds (w, us) (w1, us)"
| prepared: "prepare_preset ds w a n x = (Inr p, w1) \<Longrightarrow> plain_name a \<Longrightarrow> update_step ds (w, us) (w1, us @ [(a, p)])"
| written: "i < length us \<Longrightarrow> us ! i = (a, p) \<Longrightarrow> commit_preset ds a p w = (out, w1) \<Longrightarrow>
    update_step ds (w, us) (w1, take i us @ drop (Suc i) us)"

lemma prepare_world: "prepare_preset ds w a n x = (r, w1) \<Longrightarrow> w1 = w \<or> w1 = snd (time_Now w)"
  by (auto simp: prepare_preset_def Let_def split: sum.splits option.splits outcome.splits prod.splits)

lemma ticks_loads: "GetPresets ds (snd (time_Now w)) b = GetPresets ds w b"
  by (simp add: GetPresets_def os_ReadFile_def time_Now_def)

lemma commit_loads:
  assumes "commit_preset ds a p w = (out, w1)" "DataDir ds \<noteq> []" "plain_name a" "plain_name b" "GetPresets ds w b = Inr qs"
  shows "\<exists>qs. GetPresets ds w1 b = Inr qs"
proof -
  obtain r where s: "SavePresets ds w a (fst p) = (r, w1)"
    using assms(1) by (auto simp: commit_preset_def split: prod.splits sum.splits)
  show ?thesis
  proof (cases "a = b")
    case True
    show ?thesis
    proof (cases r)
      case (Inl e)
      then show ?thesis
        using s assms(5) os.read_failed [of w "presets_path ds a" "presets_document (fst p)" e w1]
        by (auto simp: SavePresets_def GetPresets_def True)
    next
      case (Inr u)
      then show ?thesis using presets.load_saved [where k = a and ds = ds and x = "fst p"] s True by auto
    qed
  next
    case False
    have "account_step ds a w w1" by (rule account_step.save_presets [OF s])
    from account_step_kept [OF this assms(2,3) False [symmetric], of "presets_path ds b" "[''Presets.xml'']"]
    have "kept w w1 (presets_path ds b)" using at_record_paths(1) [OF assms(2,4)] by simp
    with assms(5) show ?thesis by (auto simp: GetPresets_def kept_def Let_def split: sum.splits)
  qed
qed


text \<open>C20: Of two updates of different presets that both read before either writes, the one that writes first is lost: it is
  answered with the document of the new preset, as it would be alone, but the old one is stored.\<close>

theorem overlapping_update_is_lost:
  assumes "prepare_preset ds w a n x = (Inr p, w1)" "prepare_preset ds w1 a m y = (Inr q, w2)"
    and "commit_preset ds a p w2 = (Done (Inr t), w3)" "commit_preset ds a q w3 = (Done (Inr u), w4)"
    and "plain_name a" "GetPresets ds w a = Inr ps" "1 \<le> n" "nat n \<le> length ps" "1 \<le> m" "in_int64 m" "n \<noteq> m"
  shows "UpdatePreset ds w a d n x = commit_preset ds a p w1
    \<and> (update_step ds)\<^sup>*\<^sup>* (w, []) (w4, [])
    \<and> (\<exists>qs. GetPresets ds w4 a = Inr qs \<and> qs ! nat (n - 1) = stored_preset (ps ! nat (n - 1)))"
proof -
  have "update_step ds (w, []) (w1, [(a, p)])" using update_step.prepared [OF assms(1,5), of "[]"] by simp
  moreover have "update_step ds (w1, [(a, p)]) (w2, [(a, p), (a, q)])"
    using update_step.prepared [OF assms(2,5), of "[(a, p)]"] by simp
  moreover have "update_step ds (w2, [(a, p), (a, q)]) (w3, [(a, q)])"
    using update_step.written [of 0 "[(a, p), (a, q)]" a p ds w2] assms(3) by simp
  moreover have "update_step ds (w3, [(a, q)]) (w4, [])"
    using update_step.written [of 0 "[(a, q)]" a q ds w3] assms(4) by simp
  ultimately have run: "(update_step ds)\<^sup>*\<^sup>* (w, []) (w4, [])"
    by (meson converse_rtranclp_into_rtranclp r_into_rtranclp)
  have "GetPresets ds w1 a = Inr ps" using prepare_world [OF assms(1)] assms(6) ticks_loads by auto
  then obtain obj where "put_preset m obj ps = Done (fst q)"
    using assms(2) by (auto simp: prepare_preset_def Let_def split: sum.splits option.splits outcome.splits prod.splits)
  then have "fst q = (ps @ replicate (nat m - length ps) zero_Preset)[nat (m - 1) := obj]"
    by (simp add: put_preset_ok [OF assms(9,10)])
  moreover have "nat (m - 1) \<noteq> nat (n - 1)" "nat (n - 1) < length ps" using assms(7-9,11) by auto
  ultimately have "fst q ! nat (n - 1) = ps ! nat (n - 1)" "nat (n - 1) < length (fst q)" by (auto simp: nth_append)
  moreover have "SavePresets ds w3 a (fst q) = (Inr (), w4)"
    using assms(4) by (auto simp: commit_preset_def split: prod.splits sum.splits)
  then have "GetPresets ds w4 a = Inr (map stored_preset (fst q))" by (rule presets.load_saved)
  ultimately show ?thesis using run UpdatePreset_halves [of ds w a d n x] assms(1) by simp
qed

end
