(* ===== verification/Example_Marge.thy ===== *)
theory Example_Marge
  imports Example_Deployment Handlers_Marge_Laws Marge_Overlap
begin

text \<open>
  The theorems about the streaming service on an example: an account with one source, one preset,
  three recents and a device, as the store writes them, and requests of a speaker.
\<close>

definition ex_recents :: "Recent list" where
  "ex_recents = [ex_recent ''1'' ''/a'', ex_recent ''2'' ''/b'', ex_recent ''3'' ''/c'']"

definition ex_plain_source :: ConfiguredSource where
  "ex_plain_source = \<lparr>cs_DisplayName = ''Radio'', cs_ID = ''s1'', cs_Secret = ''x'', cs_SecretType = ''token'',
     cs_SourceKeyType = ''TUNEIN'', cs_SourceKeyAccount = ''me''\<rparr>"

definition ex_plain_preset :: Preset where
  "ex_plain_preset = stored_preset (ex_preset\<lparr>ci_Name := ''AB''\<rparr>)"

definition ex_account :: "Preset list \<Rightarrow> node" where
  "ex_account ps = Dir [(''Presets.xml'', File (presets_document ps) 5),
     (''Recents.xml'', File (recents_document ex_recents) 6),
     (''Sources.xml'', File (sources_document [ex_plain_source]) 7),
     (''devices'', Dir [(''D1'', Dir [(''DeviceInfo.xml'', File (device_document ex_device) 8)])])]"

definition ex_full :: "Preset list \<Rightarrow> world" where
  "ex_full ps = ex_world\<lparr>w_root := Dir [(''srv'', Dir [(''data'', Dir [(''default'', ex_account ps)])])]\<rparr>"

lemma ex_full_simps [simp]:
  "w_root (ex_full ps) = Dir [(''srv'', Dir [(''data'', Dir [(''default'', ex_account ps)])])]"
  "w_cwd (ex_full ps) = [''srv'']" "w_deny (ex_full ps) q = False" "w_ticks (ex_full ps) = 0" "w_clock (ex_full ps) = ex_clock"
  "w_zone (ex_full ps) t = 0"
  by (simp_all add: ex_full_def)

lemma ex_loads:
  "GetPresets ex_store (ex_full ps) ''default'' = Inr (map stored_preset ps)"
  "GetRecents ex_store (ex_full ps) ''default'' = Inr (map stored_recent ex_recents)"
  "GetConfiguredSources ex_store (ex_full ps) ''default'' = Inr [ex_plain_source]"
proof -
  have "stored_sources [ex_plain_source] = [ex_plain_source]"
    by (simp add: stored_sources_def clean_source_xml_def xml_of_source_def source_of_xml_def ex_plain_source_def
        sanitize_ascii ascii_text_def)
  then show "GetPresets ex_store (ex_full ps) ''default'' = Inr (map stored_preset ps)"
    "GetRecents ex_store (ex_full ps) ''default'' = Inr (map stored_recent ex_recents)"
    "GetConfiguredSources ex_store (ex_full ps) ''default'' = Inr [ex_plain_source]"
    by (simp_all add: GetPresets_def GetRecents_def GetConfiguredSources_def Let_def os_ReadFile_def ex_paths
        ex_account_def read_presets_document read_recents_document read_sources_document)
qed

lemma ex_stored_recents: "map stored_recent ex_recents = ex_recents"
  by (simp add: ex_recents_def stored_recent_def ex_recent_def sanitize_ascii ascii_text_def)

text \<open>A body as a speaker posts it.\<close>

definition ex_body :: "string \<Rightarrow> string" where
  "ex_body loc = xml_Marshal (MElems ''item'' []
     [MText ''name'' [] ''n'', MText ''sourceid'' [] ''s1'', MText ''location'' [] loc,
      MText ''contentItemType'' [] ''stationurl''])"

definition ex_item :: "string \<Rightarrow> new_item" where
  "ex_item loc = zero_item\<lparr>ni_Name := ''n'', ni_SourceID := ''s1'', ni_Location := loc, ni_ContentItemType := ''stationurl''\<rparr>"

lemma ex_body_parse: "parse_xml (ex_body loc) = Some (XElem ([], ''item'') [] (kids no_nl 0
    [MText ''name'' [] ''n'', MText ''sourceid'' [] ''s1'', MText ''location'' [] loc,
      MText ''contentItemType'' [] ''stationurl'']))"
proof -
  have "names_ok (MElems ''item'' [] [MText ''name'' [] ''n'', MText ''sourceid'' [] ''s1'', MText ''location'' [] loc,
      MText ''contentItemType'' [] ''stationurl''])"
    by simp (simp add: tag_eval)
  from parse_print(1) [OF this, of no_nl] show ?thesis
    by (simp add: ex_body_def xml_Marshal_def kids_def)
qed

lemma ex_decodes:
  assumes "ascii_text loc"
  shows "decode_new_preset (ex_body loc) = Inr (ex_item loc)" "decode_new_recent (ex_body loc) = Inr (ex_item loc)"
  using assms
  by (simp_all add: decode_new_preset_def decode_new_recent_def xml_Unmarshal_def ex_body_parse fold_children_kids
      preset_elem_child_def recent_elem_child_def chardata_text ex_item_def zero_item_def sanitize_ascii ascii_text_def)

lemma ex_accepts:
  assumes "ascii_text loc"
  shows "recent_accepted ex_store (ex_full ps) ''default'' (ex_body loc) (ex_item loc) ex_plain_source ex_recents"
    "preset_accepted ex_store (ex_full ps) ''default'' (ex_body loc) (ex_item loc) ex_plain_source (map stored_preset ps)"
  using ex_decodes [OF assms]
  by (simp_all add: recent_accepted_def preset_accepted_def ex_loads ex_stored_recents source_by_id_def)
     (simp_all add: ex_item_def ex_plain_source_def)

lemma ex_writes:
  "\<exists>w'. SavePresets ex_store ((ex_full ps)\<lparr>w_ticks := k\<rparr>) ''default'' qs = (Inr (), w')"
  "\<exists>w'. SaveRecents ex_store ((ex_full ps)\<lparr>w_ticks := k\<rparr>) ''default'' rs = (Inr (), w')"
proof -
  have "lookup (w_root ((ex_full ps)\<lparr>w_ticks := k\<rparr>)) [''srv'', ''data'', ''default''] = Inr (ex_account ps)" by simp
  note dir = this [unfolded ex_account_def]
  show "\<exists>w'. SavePresets ex_store ((ex_full ps)\<lparr>w_ticks := k\<rparr>) ''default'' qs = (Inr (), w')"
    unfolding SavePresets_def by (rule WriteFile_ok [OF _ dir, where f = "''Presets.xml''"]; simp add: ex_paths)
  show "\<exists>w'. SaveRecents ex_store ((ex_full ps)\<lparr>w_ticks := k\<rparr>) ''default'' rs = (Inr (), w')"
    unfolding SaveRecents_def by (rule WriteFile_ok [OF _ dir, where f = "''Recents.xml''"]; simp add: ex_paths)
qed

section \<open>Recents\<close>

lemma ex_add:
  assumes "ascii_text loc"
  shows "\<exists>t w'. AddRecent ord ex_store (ex_full ps) ''default'' d (ex_body loc) = (Inr t, w')"
proof -
  obtain res w' where r: "AddRecent ord ex_store (ex_full ps) ''default'' d (ex_body loc) = (res, w')" by force
  obtain rs' obj created where T: "touch_recents ord d (ex_item loc) ex_plain_source
      (play_time (ex_full ps) (ex_item loc)) ex_recents = (rs', obj, created)" by (metis prod_cases3)
  have "\<exists>t. res = Inr t"
  proof (rule AddRecent_run [OF ex_accepts(1) [OF assms] r T])
    fix k x on
    assume "SaveRecents ex_store ((ex_full ps)\<lparr>w_ticks := k\<rparr>) ''default'' rs' = (x, w')"
      "res = (case x of Inl e \<Rightarrow> Inl e | Inr _ \<Rightarrow> Inr (xml_Header @ recent_text obj on
         (time_Format_RFC3339 (w_zone (ex_full ps)) (play_time (ex_full ps) (ex_item loc)))
         (GetConfiguredSourceXML ex_plain_source)))"
    with ex_writes(2) [of k ps rs'] show "\<exists>t. res = Inr t" by auto
  qed
  with r show ?thesis by auto
qed

lemma ex_found: "find_index (same_item ex_plain_source (ex_item ''/a'')) ex_recents = Some 0"
  by (simp add: ex_recents_def ex_recent_def same_item_def ex_item_def ex_plain_source_def)

lemma ex_loc: "ascii_text ''/a''" "ascii_text ''/z''"
  by (simp_all add: ascii_text_def)


theorem add_recent_call_first_loses_entry_witness:
  "\<exists>t w' rs. AddRecent CallFirst ex_store (ex_full []) ''default'' ''D1'' (ex_body ''/a'') = (Inr t, w')
    \<and> GetRecents ex_store w' ''default'' = Inr rs \<and> map ci_ID rs = [''2'', ''2'', ''3'']"
proof -
  obtain t w' where r: "AddRecent CallFirst ex_store (ex_full []) ''default'' ''D1'' (ex_body ''/a'') = (Inr t, w')"
    using ex_add [OF ex_loc(1)] by blast
  have "Suc 0 < length ex_recents" by (simp add: ex_recents_def)
  from add_recent_call_first_loses_entry [OF ex_accepts(1) [OF ex_loc(1)] r ex_found this] r show ?thesis
    by (auto simp: ex_recents_def ex_recent_def stored_recent_def sanitize_ascii ascii_text_def)
qed

theorem add_recent_answers_with_next_entry_witness:
  "\<exists>t w'. AddRecent LeftFirst ex_store (ex_full []) ''default'' ''D1'' (ex_body ''/a'') = (Inr t, w')
    \<and> t = xml_Header @ recent_text (ex_recent ''2'' ''/b'') DateStr
       (time_Format_RFC3339 (w_zone (ex_full [])) (play_time (ex_full []) (ex_item ''/a'')))
       (GetConfiguredSourceXML ex_plain_source)"
proof -
  obtain t w' where r: "AddRecent LeftFirst ex_store (ex_full []) ''default'' ''D1'' (ex_body ''/a'') = (Inr t, w')"
    using ex_add [OF ex_loc(1)] by blast
  have "Suc 0 < length ex_recents" "ex_recents ! Suc 0 = ex_recent ''2'' ''/b''" by (simp_all add: ex_recents_def)
  with add_recent_answers_with_next_entry [OF ex_accepts(1) [OF ex_loc(1)] r ex_found this(1)] r show ?thesis
    by (auto simp del: ex_full_simps)
qed

lemma ex_max_id: "max_id ex_recents = 3"
proof -
  have "strconv_Atoi ''1'' = Some 1" "strconv_Atoi ''2'' = Some 2" "strconv_Atoi ''3'' = Some 3" by code_simp+
  then show ?thesis by (simp add: max_id_def ex_recents_def ex_recent_def)
qed


section \<open>Presets\<close>

lemma ex_update:
  assumes "1 \<le> n" "in_int64 n"
  shows "\<exists>t w'. UpdatePreset ex_store (ex_full ps) ''default'' d n (ex_body ''/a'') = (Done (Inr t), w')"
proof -
  note run = UpdatePreset_run [OF ex_accepts(2) [OF ex_loc(1), of ps], of d n, unfolded put_preset_ok [OF assms]]
  obtain w' where "SavePresets ex_store ((ex_full ps)\<lparr>w_ticks := Suc (w_ticks (ex_full ps))\<rparr>) ''default''
     ((map stored_preset ps @ replicate (nat n - length (map stored_preset ps)) zero_Preset)
      [nat (n - 1) := made_preset (ex_full ps) n (ex_item ''/a'') ex_plain_source]) = (Inr (), w')"
    using ex_writes(1) by blast
  with run show ?thesis by simp
qed

lemma ex_two: "1 \<le> (2::int)" "in_int64 2" "in_int64 0"
  by (simp_all add: in_int64_def int64_min_def int64_max_def)

theorem update_preset_replaces_one_witness:
  "\<exists>t w' qs. UpdatePreset ex_store (ex_full [ex_preset]) ''default'' ''D1'' 2 (ex_body ''/a'') = (Done (Inr t), w')
    \<and> GetPresets ex_store w' ''default'' = Inr qs \<and> length qs = 2 \<and> ci_Location (qs ! 1) = ''/a''"
proof -
  obtain t w' where r: "UpdatePreset ex_store (ex_full [ex_preset]) ''default'' ''D1'' 2 (ex_body ''/a'') = (Done (Inr t), w')"
    using ex_update [OF ex_two(1,2)] by blast
  from update_preset_replaces_one [OF ex_accepts(2) [OF ex_loc(1)] ex_two(1,2) r] obtain qs where
    "GetPresets ex_store w' ''default'' = Inr qs" "length qs = 2"
    "qs ! 1 = stored_preset (made_preset (ex_full [ex_preset]) 2 (ex_item ''/a'') ex_plain_source)" by auto
  with r show ?thesis
    by (auto simp: stored_preset_def made_preset_def new_preset_def ex_item_def zero_item_def sanitize_ascii ascii_text_def)
qed

theorem update_preset_panics_below_one_witness:
  "\<exists>m w'. UpdatePreset ex_store (ex_full [ex_preset]) ''default'' ''D1'' 0 (ex_body ''/a'') = (Panicked m, w')
    \<and> w_root w' = w_root (ex_full [ex_preset])"
proof -
  obtain r w' where r: "UpdatePreset ex_store (ex_full [ex_preset]) ''default'' ''D1'' 0 (ex_body ''/a'') = (r, w')" by force
  from update_preset_panics_below_one [OF ex_accepts(2) [OF ex_loc(1)] ex_two(3) _ r] r show ?thesis
    by (auto simp: int64_max_def)
qed


section \<open>Documents\<close>

lemma plain_words [simp]:
  "plain_text ''s1''" "plain_text ''x''" "plain_text ''me''" "plain_text ''Radio''" "plain_text ''1''" "plain_text ''2''"
  "plain_text ''3''" "plain_text ''stationurl''" "plain_text ''/v1/1''" "plain_text ''AB''" "plain_text ''A ''"
  "plain_text ''n1''" "plain_text ''n2''" "plain_text ''n3''" "plain_text ''/a''" "plain_text ''/b''" "plain_text ''/c''"
  by (rule plain_ascii; simp add: ascii_text_def escape_byte_def)+

lemma ex_plain_items:
  "plain_source ex_plain_source" "plain_item ex_plain_preset" "plain_text (p_ContainerArt ex_plain_preset)"
  "r \<in> set ex_recents \<Longrightarrow> plain_item r"
  by (auto simp: plain_source_def ex_plain_source_def plain_item_def ex_plain_preset_def ex_preset_def
      stored_preset_def ex_recents_def ex_recent_def sanitize_ascii ascii_text_def)

lemma ex_plain_stored: "stored_preset ex_plain_preset = ex_plain_preset"
  by (simp add: ex_plain_preset_def stored_preset_def ex_preset_def sanitize_ascii ascii_text_def)

theorem configured_source_texts_agree_witness:
  "GetConfiguredSourceXML ex_plain_source = ConfiguredSourceToXML ex_plain_source"
  by (rule configured_source_texts_agree) (simp_all add: ex_plain_source_def)

theorem presets_document_parses_witness:
  "\<exists>t x. PresetsToXML ex_store (ex_full [ex_plain_preset]) ''default'' = Inr t \<and> parse_xml t = Some x"
  using presets_document_parses [OF ex_loads(1,3), of "[ex_plain_preset]"] ex_plain_items
  by (auto simp: ex_plain_stored)

theorem recents_document_parses_witness:
  "\<exists>t x. RecentsToXML ex_store (ex_full []) ''default'' = Inr t \<and> parse_xml t = Some x"
  using recents_document_parses [OF ex_loads(2,3), of "[]"] ex_plain_items
  by (auto simp: ex_stored_recents)

theorem ampersand_breaks_presets_document_witness:
  "\<exists>t. PresetsToXML ex_store (ex_full [ex_preset]) ''default'' = Inr t \<and> parse_xml t = None"
proof -
  have load: "GetPresets ex_store (ex_full [ex_preset]) ''default'' = Inr (stored_preset ex_preset # [])"
    by (simp add: ex_loads)
  show ?thesis
    by (rule ampersand_breaks_presets_document [OF load ex_loads(3), where pre = "''A ''" and post = "''B''"])
       (simp_all add: ex_preset_def stored_preset_def sanitize_ascii ascii_text_def)
qed

theorem item_source_by_account_witness:
  "item_source (stored_preset ex_preset) [ex_plain_source] = Some ex_plain_source"
  using item_source_by_account [OF ex_loads, of "[ex_preset]"]
  by (simp add: stored_preset_def ex_preset_def ex_plain_source_def sanitize_ascii ascii_text_def)

lemma ex_entries: "os_ReadDir (ex_full ps) (AccountDevicesDir ex_store ''default'') = Inr [(''D1'', True)]"
  by (simp add: os_ReadDir_def ex_paths ex_account_def)

theorem account_document_structure_witness:
  "AccountFullToXML ex_store (ex_full []) ''default'' = Inr (account_spec ex_store (ex_full []) ''default'' [''D1''])"
  using account_document_structure [OF ex_entries, of "[]"] by simp

section \<open>Requests\<close>

definition ex_request :: "string \<Rightarrow> string \<Rightarrow> request" where
  "ex_request etag body = \<lparr>rq_Path = [], rq_RawQuery = [],
     rq_Param = (\<lambda>p. if p = ''account'' then ''default'' else if p = ''device'' then ''D1''
        else if p = ''presetNumber'' then ''2'' else []),
     rq_Header = (\<lambda>h. if h = ''If-None-Match'' then etag else []), rq_Body = Inr body\<rparr>"

lemma ex_request_simps [simp]:
  "rq_Param (ex_request e b) ''account'' = ''default''" "rq_Param (ex_request e b) ''device'' = ''D1''"
  "rq_Param (ex_request e b) ''presetNumber'' = ''2''" "rq_Header (ex_request e b) ''If-None-Match'' = e"
  "rq_Body (ex_request e b) = Inr b"
  by (simp_all add: ex_request_def)

lemma ex_params: "rq_Param (ex_request e b) = rq_Param (ex_request f c)"
  by (simp add: ex_request_def)

lemma etag_text_nonempty [simp]: "etag_text e \<noteq> []" "[] \<noteq> etag_text e"
  by (simp_all add: etag_text_def) (metis Itoa_nonempty)

lemma ex_gets:
  "handleMargePresets msg ex_store (ex_full ps) (ex_request [] []) =
     Write (case PresetsToXML ex_store (ex_full ps) ''default'' of Inr t \<Rightarrow> t)
       (Header_Set ''ETag'' (etag_text (GetETagForPresets ex_store (ex_full ps) ''default''))
         (Header_Set ''Content-Type'' xml_type new_response))"
  "handleMargeAccountFull msg ex_store (ex_full ps) (ex_request [] []) =
     Write (account_spec ex_store (ex_full ps) ''default'' [''D1''])
       (Header_Set ''ETag'' (etag_text (GetETagForAccount ex_store (ex_full ps) ''default''))
         (Header_Set ''Content-Type'' xml_type new_response))"
proof -
  have "\<exists>t. PresetsToXML ex_store (ex_full ps) ''default'' = Inr t" by (simp add: PresetsToXML_def ex_loads)
  then show "handleMargePresets msg ex_store (ex_full ps) (ex_request [] []) =
     Write (case PresetsToXML ex_store (ex_full ps) ''default'' of Inr t \<Rightarrow> t)
       (Header_Set ''ETag'' (etag_text (GetETagForPresets ex_store (ex_full ps) ''default''))
         (Header_Set ''Content-Type'' xml_type new_response))"
    by (auto simp: handleMargePresets_def Let_def)
  show "handleMargeAccountFull msg ex_store (ex_full ps) (ex_request [] []) =
     Write (account_spec ex_store (ex_full ps) ''default'' [''D1''])
       (Header_Set ''ETag'' (etag_text (GetETagForAccount ex_store (ex_full ps) ''default''))
         (Header_Set ''Content-Type'' xml_type new_response))"
    using AccountFull_spec [OF ex_entries, of ps] by (simp add: handleMargeAccountFull_def Let_def)
qed

theorem conditional_get_revalidates_witness:
  "\<exists>e. status_of (handleMargePresets (\<lambda>_. []) ex_store (ex_full []) (ex_request e [])) = 304"
proof -
  let ?w = "ex_full []" and ?m = "\<lambda>_. [] :: string"
  let ?r = "ex_request [] []"
  let ?e = "etag_text (GetETagForPresets ex_store ?w ''default'')"
  let ?f = "etag_text (GetETagForAccount ex_store ?w ''default'')"
  have "(status_of (handleMargePresets ?m ex_store ?w (ex_request ?e [])) = 304
      \<longleftrightarrow> GetETagForPresets ex_store ?w ''default'' = GetETagForPresets ex_store ?w ''default'')
    \<and> (status_of (handleMargeAccountFull ?m ex_store ?w (ex_request ?f [])) = 304
      \<longleftrightarrow> GetETagForAccount ex_store ?w ''default'' = GetETagForAccount ex_store ?w ''default'')"
    by (rule conditional_get_revalidates [where r = ?r, OF ex_params]) (simp_all add: ex_gets write_doc ex_params [of ?f])
  then show ?thesis by blast
qed

theorem updated_presets_are_served_witness:
  "\<exists>resp w'. handleMargeUpdatePreset (\<lambda>_. []) ex_store (ex_full []) (ex_request [] (ex_body ''/a'')) = (Done resp, w')
    \<and> status_of (handleMargePresets (\<lambda>_. []) ex_store w'
        (ex_request (etag_text (GetETagForPresets ex_store (ex_full []) ''default'')) [])) = 200"
proof -
  have two: "strconv_Atoi ''2'' = Some 2" by code_simp
  obtain t w' where u: "UpdatePreset ex_store (ex_full []) ''default'' ''D1'' 2 (ex_body ''/a'') = (Done (Inr t), w')"
    using ex_update [OF ex_two(1,2)] by blast
  then obtain resp where h: "handleMargeUpdatePreset (\<lambda>_. []) ex_store (ex_full []) (ex_request [] (ex_body ''/a'')) = (Done resp, w')"
    "status_of resp = 200"
    using write_doc(1) by (simp add: handleMargeUpdatePreset_def two Let_def)
  have "GetETagForPresets ex_store (ex_full []) ''default'' = 0"
    by (simp add: GetETagForPresets_def etag_of_file_def os_Stat_def ex_paths ex_account_def go_div_def)
  then have old: "GetETagForPresets ex_store (ex_full []) ''default''
      < go_div (w_clock (ex_full []) (Suc (w_ticks (ex_full [])))) 1000000"
    by (simp add: ex_clock_def go_div_def)
  have "\<exists>t. PresetsToXML ex_store w' ''default'' = Inr t
    \<and> status_of (handleMargePresets (\<lambda>_. []) ex_store w'
        (ex_request (etag_text (GetETagForPresets ex_store (ex_full []) ''default'')) [])) = 200
    \<and> rs_Body (handleMargePresets (\<lambda>_. []) ex_store w'
        (ex_request (etag_text (GetETagForPresets ex_store (ex_full []) ''default'')) [])) = t"
    by (rule updated_presets_are_served [OF h]) (simp_all add: old [simplified])
  with h show ?thesis by blast
qed

theorem removed_device_stays_in_cached_account_witness:
  "\<exists>resp w'. handleMargeRemoveDevice (\<lambda>_. []) ex_store (ex_full []) (ex_request [] []) = (resp, w')
    \<and> GetDeviceInfo ex_store (ex_full []) ''default'' ''D1'' = Inr (stored_device ex_device)
    \<and> (\<exists>e. GetDeviceInfo ex_store w' ''default'' ''D1'' = Inl e)
    \<and> status_of (handleMargeAccountFull (\<lambda>_. []) ex_store w'
        (ex_request (etag_text (GetETagForAccount ex_store (ex_full []) ''default'')) [])) = 304"
proof -
  have p: "AccountDeviceDir ex_store ''default'' ''D1'' = ''data/default/devices/D1''"
    "last (path_comps ''data/default/devices/D1'') = ''D1''" by code_simp+
  have at: "resolve [''srv''] ''data/default/devices/D1'' = [''srv'', ''data'', ''default'', ''devices'', ''D1'']"
    using ex_paths(6) [of "''D1''"] by (simp add: p(1))
  obtain n where n: "change [''srv'', ''data'', ''default'', ''devices'', ''D1''] (\<lambda>_. Inr None) (w_root (ex_full [])) = Inr n"
    by (simp add: ex_account_def)
  have "\<exists>x. lookup (w_root (ex_full [])) [''srv'', ''data'', ''default'', ''devices'', ''D1''] = Inr x"
    by (simp add: ex_account_def)
  with n have "\<exists>w'. RemoveDevice ex_store (ex_full []) ''default'' ''D1'' = (Inr (), w')"
    by (auto simp: RemoveDevice_def os_RemoveAll_def Let_def p at simp del: lookup.simps change.simps ex_full_simps(1))
  then obtain resp w' where h: "handleMargeRemoveDevice (\<lambda>_. []) ex_store (ex_full []) (ex_request [] []) = (resp, w')"
    "status_of resp = 200"
    by (auto simp: handleMargeRemoveDevice_def RemoveDeviceFromAccount_def status_of_def http_defs)
  have load: "GetDeviceInfo ex_store (ex_full []) ''default'' ''D1'' = Inr (stored_device ex_device)"
    by (simp add: GetDeviceInfo_def os_ReadFile_def ex_paths ex_account_def read_device_document)
  have "(\<exists>e. GetDeviceInfo ex_store w' ''default'' ''D1'' = Inl e) \<and> status_of (handleMargeAccountFull (\<lambda>_. []) ex_store w'
        (ex_request (etag_text (GetETagForAccount ex_store (ex_full []) ''default'')) [])) = 304"
    by (rule removed_device_stays_in_cached_account [OF h]) simp_all
  with h(1) load show ?thesis by blast
qed

definition ex_support :: string where
  "ex_support = xml_Marshal (MElems ''device-data'' [] [MElems ''device'' [(''id'', ''D1'')] [MText ''firmware-version'' [] ''27'']])"

theorem support_upload_is_logged_witness:
  "\<exists>resp ds' w' e. handleMargeCustomerSupport (\<lambda>_. zero_support) ex_store ex_world (ex_request [] ex_support) = (resp, ds', w')
    \<and> GetDeviceEvents ds' ''D1'' = [e]"
proof -
  have "names_ok (MElems ''device-data'' [] [MElems ''device'' [(''id'', ''D1'')] [MText ''firmware-version'' [] ''27'']])"
    by simp (simp add: tag_eval)
  from parse_print(1) [OF this, of no_nl]
  have "parse_xml ex_support = Some (XElem ([], ''device-data'') [] (kids no_nl 0
      [MElems ''device'' [(''id'', ''D1'')] [MText ''firmware-version'' [] ''27'']]))"
    by (simp add: ex_support_def xml_Marshal_def kids_def)
  then have d: "decode_support ex_support = Inr (zero_support\<lparr>sr_ID := ''D1'', sr_FirmwareVersion := ''27''\<rparr>)"
    by (simp add: decode_support_def xml_Unmarshal_def fold_children_kids support_child_def support_device_def
        attr_into_simps chardata_text zero_support_def sanitize_ascii ascii_text_def)
  obtain resp ds' w' where h: "handleMargeCustomerSupport (\<lambda>_. zero_support) ex_store ex_world (ex_request [] ex_support) = (resp, ds', w')"
    by (metis prod_cases3)
  have old: "GetDeviceEvents ex_store ''D1'' = []"
    by (simp add: GetDeviceEvents_def ex_store_def NewDataStore_def)
  from support_upload_is_logged [OF _ h d] h old show ?thesis
    by (auto simp: last_n_def)
qed

definition ex_new_device :: string where
  "ex_new_device = xml_Marshal (MElems ''device'' [(''deviceid'', ''D1'')] [MText ''name'' [] ''Kitchen''])"

lemma ex_new_device_decoded: "decode_new_device ex_new_device = Inr (''D1'', ''Kitchen'')"
proof -
  have "names_ok (MElems ''device'' [(''deviceid'', ''D1'')] [MText ''name'' [] ''Kitchen''])"
    by simp (simp add: tag_eval)
  from parse_print(1) [OF this, of no_nl]
  have "parse_xml ex_new_device = Some (XElem ([], ''device'') (attrs_tree [(''deviceid'', ''D1'')])
      (kids no_nl 0 [MText ''name'' [] ''Kitchen'']))"
    by (simp add: ex_new_device_def xml_Marshal_def kids_def)
  then show ?thesis
    by (simp add: decode_new_device_def xml_Unmarshal_def fold_children_kids attr_into_simps chardata_text
        sanitize_ascii ascii_text_def)
qed

theorem added_device_is_stored_witness:
  "\<exists>r w'. AddDeviceToAccount ex_store ex_world ''default'' ex_new_device = (r, w')
    \<and> GetDeviceInfo ex_store w' ''default'' ''D1'' = Inr (zero_DeviceInfo\<lparr>di_DeviceID := ''D1'', di_ProductCode := '' '',
         di_Name := ''Kitchen''\<rparr>)"
proof -
  note d = ex_new_device_decoded
  obtain w1 where "SaveDeviceInfo ex_store ex_world ''default'' ''D1''
      (zero_DeviceInfo\<lparr>di_DeviceID := ''D1'', di_Name := ''Kitchen''\<rparr>) = (Inr (), w1)"
    using ex_saves_device by blast
  with d obtain t w' where r: "AddDeviceToAccount ex_store ex_world ''default'' ex_new_device = (Inr t, w')"
    by (simp add: AddDeviceToAccount_def time_Now_def Let_def)
  from added_device_is_stored [OF d r] r show ?thesis by (auto simp: sanitize_ascii ascii_text_def)
qed

theorem provider_numbers_match_witness:
  "(\<exists>p \<in> set SourceProviders. sp_Name p = cs_SourceKeyType ex_source) \<and> provider_id ex_source = 25
    \<and> provider_id (ex_source\<lparr>cs_SourceKeyType := ''VINYL''\<rparr>) = 0"
proof -
  define p where "p = \<lparr>sp_ID = 25, sp_CreatedOn = DateStr, sp_Name = ''TUNEIN'', sp_UpdatedOn = DateStr\<rparr>"
  have p: "p \<in> set SourceProviders"
    unfolding in_set_conv_nth
    by (rule exI [of _ 24]) (simp add: p_def SourceProviders_def length_Providers, simp add: Providers_def)
  have k: "cs_SourceKeyType ex_source = ''TUNEIN''" by (simp add: ex_source_def)
  have "''VINYL'' \<notin> sp_Name ` set SourceProviders" by (simp add: SourceProviders_def Providers_def)
  with provider_numbers_match [of p ex_source] provider_numbers_match [of p "ex_source\<lparr>cs_SourceKeyType := ''VINYL''\<rparr>"] p k
  show ?thesis by (auto simp: p_def)
qed

section \<open>Overlapping updates\<close>

lemma prepare_accepted:
  assumes "preset_accepted ds w a x el src ps" "1 \<le> n" "in_int64 n"
  shows "prepare_preset ds w a n x = (Inr ((ps @ replicate (nat n - length ps) zero_Preset)[nat (n - 1) := made_preset w n el src],
     xml_Header @ preset_text (made_preset w n el src) (GetConfiguredSourceXML src)), w\<lparr>w_ticks := Suc (w_ticks w)\<rparr>)"
  using assms(1) put_preset_ok [OF assms(2,3)]
  unfolding made_preset_def by (auto simp: prepare_preset_def preset_accepted_def time_Now_def Let_def)

lemma ex_accepted_later:
  "preset_accepted ex_store ((ex_full ps)\<lparr>w_ticks := k\<rparr>) ''default'' (ex_body ''/a'') (ex_item ''/a'') ex_plain_source (map stored_preset ps)"
  using ex_accepts(2) [OF ex_loc(1), of ps]
  by (simp add: preset_accepted_def GetPresets_def GetConfiguredSources_def os_ReadFile_def)

lemma ex_overlap:
  obtains p q t u w1 w2 w3 w4 where
    "prepare_preset ex_store (ex_full [ex_preset]) ''default'' 1 (ex_body ''/a'') = (Inr p, w1)"
    "prepare_preset ex_store w1 ''default'' 2 (ex_body ''/a'') = (Inr q, w2)"
    "commit_preset ex_store ''default'' p w2 = (Done (Inr t), w3)" "commit_preset ex_store ''default'' q w3 = (Done (Inr u), w4)"
proof -
  let ?w = "ex_full [ex_preset]"
  have i: "in_int64 1" by (simp add: in_int64_def int64_min_def int64_max_def)
  obtain p where p: "prepare_preset ex_store ?w ''default'' 1 (ex_body ''/a'') = (Inr p, ?w\<lparr>w_ticks := 1\<rparr>)"
    using prepare_accepted [OF ex_accepts(2) [OF ex_loc(1), of "[ex_preset]"] _ i] by simp
  obtain q where q: "prepare_preset ex_store (?w\<lparr>w_ticks := 1\<rparr>) ''default'' 2 (ex_body ''/a'') = (Inr q, ?w\<lparr>w_ticks := 2\<rparr>)"
    using prepare_accepted [OF ex_accepted_later [where ps = "[ex_preset]" and k = 1] ex_two(1,2)] by (simp add: numeral_2_eq_2)
  obtain w3 where w3: "SavePresets ex_store (?w\<lparr>w_ticks := 2\<rparr>) ''default'' (fst p) = (Inr (), w3)" using ex_writes(1) by blast
  obtain w4 where w4: "SavePresets ex_store w3 ''default'' (fst q) = (Inr (), w4)"
    using WriteFile_again [OF w3 [unfolded SavePresets_def]] by (auto simp: SavePresets_def)
  show ?thesis
    using that [OF p q, of "snd p" w3 "snd q" w4] w3 w4 by (simp add: commit_preset_def case_prod_unfold)
qed

theorem overlapping_update_is_lost_witness:
  "\<exists>w'. (update_step ex_store)\<^sup>*\<^sup>* (ex_full [ex_preset], []) (w', [])
    \<and> (\<exists>qs. GetPresets ex_store w' ''default'' = Inr qs \<and> ci_Location (qs ! 0) = ''/v1/1'')"
proof -
  obtain p q t u w1 w2 w3 w4 where r: "prepare_preset ex_store (ex_full [ex_preset]) ''default'' 1 (ex_body ''/a'') = (Inr p, w1)"
    "prepare_preset ex_store w1 ''default'' 2 (ex_body ''/a'') = (Inr q, w2)"
    "commit_preset ex_store ''default'' p w2 = (Done (Inr t), w3)" "commit_preset ex_store ''default'' q w3 = (Done (Inr u), w4)"
    by (rule ex_overlap)
  have one: "(1::int) \<le> 1" "nat 1 \<le> length (map stored_preset [ex_preset])" "(1::int) \<noteq> 2" by simp_all
  obtain qs where qs: "(update_step ex_store)\<^sup>*\<^sup>* (ex_full [ex_preset], []) (w4, [])" "GetPresets ex_store w4 ''default'' = Inr qs"
    "qs ! 0 = stored_preset (stored_preset ex_preset)"
    using overlapping_update_is_lost [OF r _ ex_loads(1) one(1,2) ex_two(1,2) one(3)] by auto
  then have "ci_Location (qs ! 0) = ''/v1/1''"
    by (simp add: stored_preset_def ex_preset_def sanitize_ascii ascii_text_def)
  with qs(1,2) show ?thesis by blast
qed


theorem added_device_is_served_witness:
  "\<exists>resp w'. handleMargeAddDevice (\<lambda>_. []) ex_store ex_world (ex_request [] ex_new_device) = (resp, w') \<and> status_of resp = 200
    \<and> status_of (handleMargeAccountFull (\<lambda>_. []) ex_store w' (ex_request [] [])) = 200
    \<and> sublist (device_text ex_store w' ''default'' ''D1'' (zero_DeviceInfo\<lparr>di_DeviceID := ''D1'', di_ProductCode := '' '', di_Name := ''Kitchen''\<rparr>))
        (rs_Body (handleMargeAccountFull (\<lambda>_. []) ex_store w' (ex_request [] [])))"
proof -
  note d = ex_new_device_decoded
  obtain w1 where "SaveDeviceInfo ex_store ex_world ''default'' ''D1''
      (zero_DeviceInfo\<lparr>di_DeviceID := ''D1'', di_Name := ''Kitchen''\<rparr>) = (Inr (), w1)"
    using ex_saves_device by blast
  with d obtain resp w' where h: "handleMargeAddDevice (\<lambda>_. []) ex_store ex_world (ex_request [] ex_new_device) = (resp, w')"
    "status_of resp = 200"
    by (auto simp: handleMargeAddDevice_def AddDeviceToAccount_def time_Now_def Let_def status_of_def http_defs)
  have "sanitize ''D1'' = ''D1''" "sanitize ''Kitchen'' = ''Kitchen''" by (simp_all add: sanitize_ascii ascii_text_def)
  with added_device_is_served [OF h, of ex_new_device "''D1''" "''Kitchen''" "''default''" "ex_request [] []"] d h show ?thesis
    using Itoa_nonempty [of "GetETagForAccount ex_store w' ''default''"] by (force simp: etag_text_def)
qed

end
