(* ===== verification/Example_Service.thy ===== *)
theory Example_Service
  imports Service_Laws Example_Marge Example_Discovery
begin

text \<open>The theorems about the whole service on the example deployment.\<close>

definition ex_env :: environment where
  "ex_env = \<lparr>en_msg = (\<lambda>_. ''error''), en_bad_settings = (\<lambda>_. ''error''), en_order = LeftFirst, en_partial = (\<lambda>_. zero_support),
     en_lib = (\<lambda>_. ([], None)), en_net = (\<lambda>_ _. Inl (External [])), en_getenv = (\<lambda>_. []), en_index = ''index'', en_media = ''media'',
     en_part = (\<lambda>_ _. new_response), en_build = None\<rparr>"

definition ex_service :: service where
  "ex_service = ((ex_server, [], ex_full [ex_preset]), [])"

theorem requests_keep_other_files_witness:
  "\<exists>out s rs w h. serve ex_env [] SetPreset (ex_request [] (ex_body ''/a'')) ex_service = (out, ((s, rs, w), h))
    \<and> file_at w [''srv'', ''data'', ''default'', ''Sources.xml''] (sources_document [ex_plain_source]) 7"
proof -
  let ?r = "ex_request [] (ex_body ''/a'')" and ?q = "[''srv'', ''data'', ''default'', ''Sources.xml'']"
  obtain out s rs w h where r: "serve ex_env [] SetPreset ?r ex_service = (out, ((s, rs, w), h))" by (rule serve_result)
  have "file_at (ex_full [ex_preset]) ?q (sources_document [ex_plain_source]) 7" by (simp add: file_at_def ex_account_def)
  moreover have "\<forall>p \<in> set (targets (sv_ds ex_server) (ex_full [ex_preset]) SetPreset ?r). at_path (ex_full [ex_preset]) p \<parallel> ?q"
    by (simp add: targets_def ex_server_def ex_paths)
  ultimately show ?thesis using requests_keep_other_files [OF r [unfolded ex_service_def]] r by blast
qed

lemma ex_sound: "sound_world ex_world"
  by (simp add: sound_world_def plain_name_def)

theorem service_stays_well_formed_witness:
  "\<exists>s w1 s' w'. start_server (\<lambda>_. []) ''Box'' ex_world = (s, w1)
    \<and> (service_step ex_env)\<^sup>*\<^sup>* ((s, [], w1), []) ((s', [[ex_named]], w'), []) \<and> sv_discovering s'
    \<and> sound_world w' \<and> sv_proxyURL s' = ''http://box:8000''"
proof -
  obtain s w1 where s: "start_server (\<lambda>_. []) ''Box'' ex_world = (s, w1)" by fastforce
  let ?s' = "s\<lparr>sv_discovering := True\<rparr>"
  have "service_step ex_env ((s, [], w1), []) ((?s', [[ex_named]], w1), [])"
    using service_step.discovery [OF scan_step.start [of "en_net ex_env" s "[]" w1 "[ex_named]"]] by simp
  then have r: "(service_step ex_env)\<^sup>*\<^sup>* ((s, [], w1), []) ((?s', [[ex_named]], w1), [])" by simp
  have "server_url (\<lambda>_. []) ''Box'' = ''http://box:8000''" by code_simp
  then have "sound_world w1 \<and> sv_proxyURL ?s' = ''http://box:8000''"
    using service_stays_well_formed [OF s ex_sound r] by (simp add: proxy_url_def or_default_def)
  moreover have "sv_discovering ?s'" by simp
  ultimately show ?thesis using s r by blast
qed

text \<open>A speaker is added to another account.\<close>

definition ex_other_request :: request where
  "ex_other_request = (ex_request [] ex_new_device)\<lparr>rq_Param := (\<lambda>_. ''other'')\<rparr>"

lemma ex_other_saved: "\<exists>w'. SaveDeviceInfo ex_store (ex_full ps) ''other'' ''D1'' i = (Inr (), w')"
proof -
  have at: "at_path (ex_full ps) (AccountDeviceDir ex_store ''other'' ''D1'') = [''srv'', ''data'', ''other'', ''devices'', ''D1'']"
    "at_path (ex_full ps) (device_path ex_store ''other'' ''D1'') = [''srv'', ''data'', ''other'', ''devices'', ''D1'', ''DeviceInfo.xml'']"
    using at_AccountDeviceDir [of ex_store "''other''" "''D1''" "ex_full ps"] at_device_path [of ex_store "''other''" "''D1''" "ex_full ps"]
    by simp_all
  obtain w1 where m: "os_MkdirAll (ex_full ps) (AccountDeviceDir ex_store ''other'' ''D1'') = (Inr (), w1)"
    "w1 = (ex_full ps)\<lparr>w_root := Dir [(''srv'', Dir [(''data'', Dir [(''default'', ex_account ps),
        (''other'', Dir [(''devices'', Dir [(''D1'', Dir [])])])])])]\<rparr>"
    by (simp add: os_MkdirAll_def at [simplified])
  show ?thesis
    unfolding SaveDeviceInfo_def m prod.case sum.case
    by (simp, rule WriteFile_ok [where d = "[''srv'', ''data'', ''other'', ''devices'', ''D1'']" and f = "''DeviceInfo.xml''" and es = "[]"])
      (use at(2) in simp_all)
qed

theorem other_requests_keep_presets_witness:
  "\<exists>st'. (other_request ex_env ''default'')\<^sup>*\<^sup>* ex_service st'
    \<and> fst (serve ex_env [] PresetsDoc (ex_request [] []) st') = fst (serve ex_env [] PresetsDoc (ex_request [] []) ex_service)
    \<and> is_ok (GetDeviceInfo ex_store (world_of st') ''other'' ''D1'')"
proof -
  let ?w = "ex_full [ex_preset]" and ?i = "zero_DeviceInfo\<lparr>di_DeviceID := ''D1'', di_Name := ''Kitchen''\<rparr>"
  obtain w1 where d: "SaveDeviceInfo ex_store ?w ''other'' ''D1'' ?i = (Inr (), w1)" using ex_other_saved by blast
  then obtain out where r: "serve ex_env [] NewDevice ex_other_request ex_service = (out, ((ex_server, [], snd (time_Now w1)), []))"
    by (simp add: serve_def ex_service_def ex_other_request_def ex_server_def handleMargeAddDevice_def AddDeviceToAccount_def
        ex_new_device_decoded time_Now_def Let_def)
  have "for_others ''default'' NewDevice ex_other_request"
    by (simp add: for_others_def ex_other_request_def ex_new_device_decoded)
  with r have "other_request ex_env ''default'' ex_service ((ex_server, [], snd (time_Now w1)), [])"
    unfolding other_request_def by blast
  then have o: "(other_request ex_env ''default'')\<^sup>*\<^sup>* ex_service ((ex_server, [], snd (time_Now w1)), [])" by simp
  have ok: "is_ok (os_ReadFile ?w (presets_path ex_store ''default''))" "is_ok (os_ReadFile ?w (sources_path ex_store ''default''))"
    by (simp_all add: os_ReadFile_def ex_paths ex_account_def)
  have s: "sv_ds ex_server = ex_store" by (simp add: ex_server_def)
  have "GetDeviceInfo ex_store w1 ''other'' ''D1'' = Inr (stored_device ?i)"
    using devices.load_saved [where k = "(''other'', ''D1'')" and ds = ex_store and x = ?i] d by simp
  then have "is_ok (GetDeviceInfo ex_store (snd (time_Now w1)) ''other'' ''D1'')"
    by (simp add: GetDeviceInfo_def time_Now_def os_ReadFile_def)
  with other_requests_keep_presets [OF o [unfolded ex_service_def], unfolded s, of "ex_request [] []" ex_env "[]"] ok o show ?thesis
    by (auto simp: ex_service_def)
qed

section \<open>A forwarded request\<close>

text \<open>The path holds a percent sign: it came in as \<open>%2541\<close>, and goes out as the letter A.\<close>

definition ex_proxied :: request where
  "ex_proxied = (ex_request [] [])\<lparr>rq_Path := ''/proxy/http:/streaming.bose.com:80/a%41'', rq_RawQuery := ''x=1''\<rparr>"

theorem forwarded_path_is_decoded_again_witness:
  "\<exists>lp. handleProxyRequest (\<lambda>_. None) (\<lambda>_. []) (\<lambda>_. []) ex_server ex_proxied = Forwarded lp
     \<lparr>og_Scheme = ''http'', og_Host = ''streaming.bose.com:80'', og_Path = ''/aA'', og_RawQuery = ''x=1''\<rparr>"
proof -
  have h: "plain_host ''streaming.bose.com''" "validOptionalPort '':80''" "plain_path ''/a%41''"
    by (simp_all add: plain_host_def url_unreserved_def validOptionalPort_def is_digit_def plain_path_def is_control_def)
  have "path_unescape ''/a%41'' = Some ''/aA''" by code_simp
  with forwarded_path_is_decoded_again [OF _ _ _ h, of ex_proxied "''http''" "''/''" "\<lambda>_. None" "\<lambda>_. []" "\<lambda>_. []" ex_server]
  show ?thesis by (simp add: ex_proxied_def)
qed

section \<open>A picture\<close>

definition ex_pictures :: world where
  "ex_pictures = ex_world\<lparr>w_root := Dir [(''srv'', Dir [(''media'', Dir [(''x.svg'', File ''<svg/>'' 3)]), (''secret'', File ''key'' 4)])]\<rparr>"

definition ex_picture_request :: "string \<Rightarrow> request" where
  "ex_picture_request p = (ex_request [] [])\<lparr>rq_Path := p\<rparr>"

lemma ex_picture_simps [simp]:
  "\<not> conditional (ex_picture_request p)" "rq_Path (ex_picture_request p) = p" "rq_RawQuery (ex_picture_request p) = []"
  by (simp_all add: conditional_def ex_picture_request_def ex_request_def)

lemma ex_picture_place: "at_path ex_pictures ''media'' = [''srv'', ''media'']"
  by (simp add: ex_pictures_def resolve_def rooted_def walk_step_def skip_comp_def)

lemma ex_picture_found: "lookup (w_root ex_pictures) [''srv'', ''media'', ''x.svg''] = Inr (File ''<svg/>'' 3)"
  by (simp add: ex_pictures_def)

text \<open>The dots in the path lead back to the directory, not out of it.\<close>

theorem media_stays_below_witness:
  "\<exists>q n. list_all plain_name q \<and> lookup (w_root ex_pictures) ([''srv'', ''media''] @ q) = Inr n
    \<and> rs_Body (handleMedia (\<lambda>_ _. new_response) ''media'' ex_pictures (ex_picture_request ''/media/../../x.svg'')) = node_text n
    \<and> node_text n = ''<svg/>''"
proof -
  let ?h = "handleMedia (\<lambda>_ _. new_response) ''media'' ex_pictures (ex_picture_request ''/media/../../x.svg'')"
  have c: "filepath_Clean ''/../../x.svg'' = ''/x.svg''" "below ''/x.svg'' = ''x.svg''" "local_name ''x.svg''"
    "\<not> strings_HasSuffix ''/../../x.svg'' ''/index.html''" "\<not> ends_in_slash ''/../../x.svg''"
    by (simp_all add: below_def filepath_Clean_def rooted_def clean_step_def skip_comp_def local_name_def rune_error_def
        strings_HasSuffix_def strings_HasPrefix_def ends_in_slash_def)
  have "at_path ex_pictures (filepath_Join [''media'', ''x.svg'']) = [''srv'', ''media'', ''x.svg'']"
    using ex_picture_place by (simp add: resolve_Join plain_name_def del: filepath_Join.simps)
  then have "dir_Open ex_pictures ''media'' ''/x.svg'' = Inr (File ''<svg/>'' 3)"
    by (simp add: dir_Open_def c ex_picture_found del: filepath_Join.simps)
  then have h: "?h = Write ''<svg/>'' new_response"
    using c
    by (simp add: handleMedia_def file_server_def serve_file_def serve_node_def ex_picture_request_def ex_request_def
        conditional_def strings_TrimPrefix_def strings_HasPrefix_def)
  from media_stays_below [of "''media''" "ex_picture_request ''/media/../../x.svg''" "\<lambda>_ _. new_response" ex_pictures]
  obtain q n where "list_all plain_name q" "lookup (w_root ex_pictures) ([''srv'', ''media''] @ q) = Inr n"
    "rs_Body ?h = node_text n" by (auto simp: ex_picture_place h)
  moreover have "rs_Body ?h = ''<svg/>''" unfolding h by (simp add: http_defs)
  ultimately show ?thesis by (intro exI [of _ q] exI [of _ n]) simp
qed

theorem media_are_served_witness:
  "handleMedia (\<lambda>_ _. new_response) ''media'' ex_pictures (ex_picture_request ''/media/x.svg'') = Write ''<svg/>'' new_response"
proof -
  have "local_name ''x.svg''" by (simp add: local_name_def rune_error_def)
  with media_are_served [of "[''x.svg'']" "''media''" "ex_picture_request ''/media/x.svg''" "\<lambda>_ _. new_response" ex_pictures]
  show ?thesis by (simp add: ex_picture_place plain_name_def ex_picture_found)
qed

end
