(* ===== verification/Favicon.thy ===== *)
theory Favicon
  imports Go_OS "HOL-Library.Word"
begin

text \<open>
  \<open>cmd/favicon-gen/main.go\<close>: the generator of the service's icons.  The SVG and PNG libraries are parameters:
  \<open>svg_read\<close> parses a file, \<open>svg_draw\<close> draws the result at a size, \<open>bounds\<close> gives the width and height of an image, \<open>png\<close> its encoding.
  The numbers in an icon file have fixed widths; Go's conversions to them truncate.
\<close>

section \<open>Icon files\<close>

text \<open>\<open>binary.Write\<close> in little-endian order.\<close>

definition le16 :: "16 word \<Rightarrow> string" where
  "le16 x = map (\<lambda>i. char_of (unat x div 256 ^ i)) [0, 1]"

definition le32 :: "32 word \<Rightarrow> string" where
  "le32 x = map (\<lambda>i. char_of (unat x div 256 ^ i)) [0, 1, 2, 3]"

definition dimension :: "int \<Rightarrow> 8 word" where
  "dimension d = (if d \<ge> 256 then 0 else word_of_int d)"

definition ico_header :: "nat \<Rightarrow> string" where
  "ico_header n = le16 0 @ le16 1 @ le16 (word_of_nat n)"

definition ico_entry :: "int \<times> int \<Rightarrow> nat \<Rightarrow> 32 word \<Rightarrow> string" where
  "ico_entry b len offset =
     [char_of (unat (dimension (fst b))), char_of (unat (dimension (snd b))), CHR 0x00, CHR 0x00]
     @ le16 1 @ le16 32 @ le32 (word_of_nat len) @ le32 offset"

text \<open>The directory: each entry has the offset of its picture.\<close>

fun ico_entries :: "32 word \<Rightarrow> ((int \<times> int) \<times> string) list \<Rightarrow> string" where
  "ico_entries offset [] = []"
| "ico_entries offset ((b, data) # es) =
     ico_entry b (length data) offset @ ico_entries (offset + word_of_nat (length data)) es"

text \<open>The encodings of all images, up to the first error.\<close>

fun encode_all :: "('i \<Rightarrow> string result) \<Rightarrow> 'i list \<Rightarrow> string list result" where
  "encode_all png [] = Inr []"
| "encode_all png (i # is) = (case png i of Inl e \<Rightarrow> Inl e
     | Inr d \<Rightarrow> (case encode_all png is of Inl e \<Rightarrow> Inl e | Inr ds \<Rightarrow> Inr (d # ds)))"

definition ico_file :: "('i \<Rightarrow> int \<times> int) \<Rightarrow> 'i list \<Rightarrow> string list \<Rightarrow> string" where
  "ico_file bounds images pngData =
     ico_header (length images)
     @ ico_entries (word_of_nat (6 + length images * 16)) (zip (map bounds images) pngData) @ concat pngData"

text \<open>The header is in the buffer before the images are encoded, and the buffer is always flushed; errors of
  writing to the file are not looked at.\<close>

definition writeICO ::
  "('i \<Rightarrow> int \<times> int) \<Rightarrow> ('i \<Rightarrow> string result) \<Rightarrow> world \<Rightarrow> string \<Rightarrow> 'i list \<Rightarrow> unit result \<times> world" where
  "writeICO bounds png w path images =
     (case encode_all png images of
        Inl e \<Rightarrow> (case os_WriteFile w path (ico_header (length images)) of
            (Inl e', w1) \<Rightarrow> (Inl e', w1) | (Inr _, w1) \<Rightarrow> (Inl e, w1))
      | Inr pngData \<Rightarrow> os_WriteFile w path (ico_file bounds images pngData))"

section \<open>The generator\<close>

text \<open>The library reads the open file to its end.\<close>

definition renderSVG ::
  "(string \<Rightarrow> 's result) \<Rightarrow> ('s \<Rightarrow> int \<Rightarrow> int \<Rightarrow> 'i) \<Rightarrow> world \<Rightarrow> string \<Rightarrow> int \<Rightarrow> int \<Rightarrow> 'i result" where
  "renderSVG svg_read svg_draw w path width height =
     (case os_ReadFile w path of Inl e \<Rightarrow> Inl e
      | Inr t \<Rightarrow> (case svg_read t of Inl e \<Rightarrow> Inl e | Inr icon \<Rightarrow> Inr (svg_draw icon width height)))"

definition render_all :: "(int \<Rightarrow> int \<Rightarrow> 'i result) \<Rightarrow> int list \<Rightarrow> 'i list result" where
  "render_all render sizes = foldr (\<lambda>s r. case render s s of Inl e \<Rightarrow> Inl e
     | Inr m \<Rightarrow> (case r of Inl e \<Rightarrow> Inl e | Inr ms \<Rightarrow> Inr (m # ms))) sizes (Inr [])"

text \<open>The files of one icon; an error ends the program.\<close>

definition generate_icon ::
  "('i \<Rightarrow> int \<times> int) \<Rightarrow> ('i \<Rightarrow> string result) \<Rightarrow> (string \<Rightarrow> 's result) \<Rightarrow> ('s \<Rightarrow> int \<Rightarrow> int \<Rightarrow> 'i) \<Rightarrow> string \<Rightarrow> world
    \<Rightarrow> unit result \<times> world" where
  "generate_icon bounds png svg_read svg_draw name w =
     (let mediaDir = ''../soundcork/media'';
          svgPath = filepath_Join [mediaDir, name @ ''.svg''];
          pngPath = filepath_Join [mediaDir, name @ ''.png''];
          icoPath = filepath_Join [mediaDir, name @ ''.ico''] in
      case renderSVG svg_read svg_draw w svgPath 32 32 of Inl e \<Rightarrow> (Inl e, w) | Inr img \<Rightarrow>
      (case os_WriteFile w pngPath (case png img of Inl _ \<Rightarrow> [] | Inr data \<Rightarrow> data) of
         (Inl e, w1) \<Rightarrow> (Inl e, w1)
       | (Inr _, w1) \<Rightarrow>
           (case png img of Inl e \<Rightarrow> (Inl e, w1) | Inr _ \<Rightarrow>
           (case render_all (renderSVG svg_read svg_draw w1 svgPath) [16, 32, 48] of Inl e \<Rightarrow> (Inl e, w1) | Inr images \<Rightarrow>
              writeICO bounds png w1 icoPath images))))"

fun generate_icons ::
  "('i \<Rightarrow> int \<times> int) \<Rightarrow> ('i \<Rightarrow> string result) \<Rightarrow> (string \<Rightarrow> 's result) \<Rightarrow> ('s \<Rightarrow> int \<Rightarrow> int \<Rightarrow> 'i) \<Rightarrow> string list \<Rightarrow> world
    \<Rightarrow> unit result \<times> world" where
  "generate_icons bounds png svg_read svg_draw [] w = (Inr (), w)"
| "generate_icons bounds png svg_read svg_draw (name # names) w =
     (case generate_icon bounds png svg_read svg_draw name w of
        (Inl e, w1) \<Rightarrow> (Inl e, w1)
      | (Inr _, w1) \<Rightarrow> generate_icons bounds png svg_read svg_draw names w1)"

definition favicon_main ::
  "('i \<Rightarrow> int \<times> int) \<Rightarrow> ('i \<Rightarrow> string result) \<Rightarrow> (string \<Rightarrow> 's result) \<Rightarrow> ('s \<Rightarrow> int \<Rightarrow> int \<Rightarrow> 'i) \<Rightarrow> world \<Rightarrow> unit result \<times> world" where
  "favicon_main bounds png svg_read svg_draw w =
     generate_icons bounds png svg_read svg_draw [''favicon-braille'', ''favicon-morse''] w"

section \<open>Reading an icon file\<close>

text \<open>A reader of the format: little-endian numbers, and the picture an entry of the directory points to.\<close>

fun le_value :: "string \<Rightarrow> nat" where
  "le_value [] = 0"
| "le_value (c # cs) = of_char c + 256 * le_value cs"

definition ico_count :: "string \<Rightarrow> nat" where
  "ico_count f = le_value (take 2 (drop 4 f))"

definition ico_picture :: "string \<Rightarrow> nat \<Rightarrow> string" where
  "ico_picture f i =
     (let e = drop (6 + 16 * i) f
      in take (le_value (take 4 (drop 8 e))) (drop (le_value (take 4 (drop 12 e))) f))"

lemma le_value_bytes: "le_value (map (\<lambda>i. char_of (n div 256 ^ i)) [0..<k]) = n mod 256 ^ k"
proof (induction k arbitrary: n)
  case (Suc k)
  have "map (\<lambda>i. char_of (n div 256 ^ i)) [0..<Suc k] = char_of n # map (\<lambda>i. char_of (n div 256 div 256 ^ i)) [0..<k]"
    unfolding upt_conv_Cons [OF zero_less_Suc] map_Suc_upt [symmetric]
    by (simp add: div_mult2_eq)
  moreover have "n mod 256 + 256 * (n div 256 mod 256 ^ k) = n mod (256 * 256 ^ k)"
    by (simp add: mod_mult2_eq)
  ultimately show ?case using Suc [of "n div 256"] by (simp del: upt_Suc)
qed simp

text \<open>What the numbers of an entry are read as.\<close>

lemma le32_value: "le_value (le32 x) = unat x"
proof -
  have "le32 x = map (\<lambda>i. char_of (unat x div 256 ^ i)) [0..<4]" by (simp add: le32_def upt_rec)
  moreover have "unat x < 256 ^ 4" using unsigned_less [of x] by simp
  ultimately show ?thesis by (simp only: le_value_bytes mod_less)
qed

lemma le16_value: "le_value (le16 x) = unat x"
proof -
  have "le16 x = map (\<lambda>i. char_of (unat x div 256 ^ i)) [0..<2]" by (simp add: le16_def upt_rec)
  moreover have "unat x < 256 ^ 2" using unsigned_less [of x] by simp
  ultimately show ?thesis by (simp only: le_value_bytes mod_less)
qed

lemma field_lengths [simp]: "length (le16 x) = 2" "length (le32 y) = 4"
  by (simp_all add: le16_def le32_def)

lemma entry_length [simp]: "length (ico_entry b n off) = 16" "length (ico_header n) = 6"
  by (simp_all add: ico_entry_def ico_header_def)

lemma entries_length [simp]: "length (ico_entries off es) = 16 * length es"
  by (induction off es rule: ico_entries.induct) auto

lemma entry_numbers:
  "take 4 (drop 8 (ico_entry b n off @ r)) = le32 (word_of_nat n)" "take 4 (drop 12 (ico_entry b n off @ r)) = le32 off"
  by (simp_all add: ico_entry_def le16_def le32_def)

lemma entry_at:
  "i < length es \<Longrightarrow> \<exists>r. drop (16 * i) (ico_entries off es)
    = ico_entry (fst (es ! i)) (length (snd (es ! i))) (off + word_of_nat (length (concat (map snd (take i es))))) @ r"
proof (induction off es arbitrary: i rule: ico_entries.induct)
  case (2 off b data es)
  show ?case
  proof (cases i)
    case (Suc j)
    with 2(1) [of j] 2(2) show ?thesis by (simp add: add.assoc)
  qed simp
qed simp

section \<open>What a reader finds in a generated file\<close>

lemma encode_all_Inr:
  "encode_all png is = Inr ds \<Longrightarrow> length ds = length is \<and> (\<forall>k < length is. png (is ! k) = Inr (ds ! k))"
proof (induction png "is" arbitrary: ds rule: encode_all.induct)
  case (2 png i "is")
  then obtain d es where d: "png i = Inr d" "encode_all png is = Inr es" "ds = d # es"
    by (auto split: sum.splits)
  with 2 show ?case by (auto simp: nth_Cons split: nat.splits)
qed simp

lemma drop_concat: "drop (length (concat (take i ds))) (concat ds) = concat (drop i ds)"
proof -
  have "concat ds = concat (take i ds) @ concat (drop i ds)" by (metis append_take_drop_id concat_append)
  then show ?thesis by simp
qed

lemma unat_word32: "m < 2 ^ 32 \<Longrightarrow> unat (word_of_nat m :: 32 word) = m"
  by (simp add: unsigned_of_nat take_bit_nat_eq_self)

lemma ico_file_reads:
  assumes "length ds = length images" "i < length images" "length images < 2 ^ 16"
    "6 + 16 * length images + length (concat ds) < 2 ^ 32"
  shows "ico_picture (ico_file bounds images ds) i = ds ! i" "ico_count (ico_file bounds images ds) = length images"
proof -
  let ?n = "length images" and ?es = "zip (map bounds images) ds" and ?f = "ico_file bounds images ds"
  let ?off = "6 + 16 * ?n + length (concat (take i ds))"
  have snd: "map snd (take i ?es) = take i ds" using assms(1,2) by (simp add: take_zip map_snd_zip_take min_absorb2)
  have le: "length (concat (take i ds)) + length (ds ! i) \<le> length (concat ds)"
  proof -
    have "concat ds = concat (take i ds) @ ds ! i @ concat (drop (Suc i) ds)"
      using assms(1,2) by (metis concat.simps(2) concat_append id_take_nth_drop)
    then show ?thesis by simp
  qed
  obtain r where r: "drop (16 * i) (ico_entries (word_of_nat (6 + ?n * 16)) ?es)
      = ico_entry (fst (?es ! i)) (length (ds ! i)) (word_of_nat ?off) @ r"
    using entry_at [of i ?es "word_of_nat (6 + ?n * 16)"] assms(1,2) snd
    by (auto simp: mult.commute)
  have e: "drop (6 + 16 * i) ?f = ico_entry (fst (?es ! i)) (length (ds ! i)) (word_of_nat ?off) @ r @ concat ds"
    using r assms(1,2) by (simp add: ico_file_def)
  have v: "unat (word_of_nat (length (ds ! i)) :: 32 word) = length (ds ! i)" "unat (word_of_nat ?off :: 32 word) = ?off"
    using assms(4) le by (intro unat_word32; simp)+
  have "drop ?off ?f = concat (drop i ds)"
    using drop_concat [of i ds] assms(1) by (simp add: ico_file_def add.assoc [symmetric])
  also have "\<dots> = ds ! i @ concat (drop (Suc i) ds)"
    using assms(1,2) by (metis Cons_nth_drop_Suc concat.simps(2))
  finally show "ico_picture ?f i = ds ! i"
    unfolding ico_picture_def e Let_def entry_numbers le32_value v by simp
  have "take 2 (drop 4 ?f) = le16 (word_of_nat ?n)" by (simp add: ico_file_def ico_header_def)
  then show "ico_count ?f = ?n"
    using assms(3) by (simp add: ico_count_def le16_value unsigned_of_nat take_bit_nat_eq_self)
qed


definition ex_disk :: world where
  "ex_disk = \<lparr>w_root = Dir [], w_cwd = [], w_clock = int, w_ticks = 0, w_zone = (\<lambda>_. 0), w_deny = (\<lambda>_. False),
     w_dirtime = (\<lambda>_. 0)\<rparr>"


end
