(* ===== verification/Spec2Isabelle.thy ===== *)
theory Spec2Isabelle
  imports Example_Handlers Example_Bmx Example_Stats Example_Service Favicon
begin

text \<open>
  Verification of the soundcork service, the Go program under \<^verbatim>\<open>src/soundcork-go\<close>.

  \<^bold>\<open>The program.\<close>  Loudspeakers whose vendor switches off its servers are redirected to this service, which answers the
  requests they used to send there.  Its parts, and how they work together:

  \<^item> The data store (\<^verbatim>\<open>internal/datastore\<close>) keeps accounts, devices, presets, recently played items and sources as XML
    files below one directory, statistics as JSON files, and a log of events per device in memory.

  \<^item> The streaming service (\<^verbatim>\<open>internal/marge\<close>, \<^verbatim>\<open>handlers_marge.go\<close>) builds the XML documents of an account from the
    store, and changes the store when a speaker sets a preset, plays something, or is added or removed.

  \<^item> The BMX service (\<^verbatim>\<open>internal/bmx\<close>, \<^verbatim>\<open>handlers_bmx.go\<close>) finds the streams of stations, episodes and custom streams.

  \<^item> The setup manager (\<^verbatim>\<open>internal/setup\<close>, \<^verbatim>\<open>internal/ssh\<close>, \<^verbatim>\<open>handlers_setup.go\<close>) plans and performs the migration of a
    speaker: over ssh it saves the speaker's configuration, uploads a new one and restarts the speaker.

  \<^item> \<^verbatim>\<open>soundcork-go/main.go\<close> starts the service, finds speakers in the network and stores them, routes requests to the
    handlers, and forwards requests to other servers, logging them (\<^verbatim>\<open>internal/proxy\<close>) with secrets removed.

  \<^item> Small handlers report events, statistics, health, the start page and the files of media; a separate program
    (\<^verbatim>\<open>cmd/favicon-gen\<close>) makes the icons.

  \<^bold>\<open>The theories.\<close>  First the language and its library, as far as the program uses them, with the lemmas about them:

  \<^item> \<open>Prelude\<close>: the lemma collections, results (an error or a value), outcomes (a value or a panic), 64-bit integers.

  \<^item> \<open>Go_Strings\<close>, \<open>Go_Text\<close>, \<open>Go_UTF8\<close>, \<open>Go_Time\<close>, \<open>Go_Base64\<close>, \<open>Go_URL\<close>,
    \<open>Go_URL_Parse\<close>: texts (lists of bytes), numbers, UTF-8, times, base64, query strings, addresses.

  \<^item> \<open>Go_Path\<close>, \<open>Go_OS\<close>: paths, and the file system as a tree of directories and files with modification times, a clock
    and a set of places the system refuses to change; \<open>Frames\<close>: what steps on it keep.

  \<^item> \<open>Go_XML\<close>, \<open>XML_Roundtrip\<close>, \<open>XML_Fields\<close>: the encoder, the tokenizer and parser, the filling of structs, and that
    what is printed is read back; the same for JSON in \<open>Go_JSON\<close>, \<open>JSON_Roundtrip\<close>, \<open>JSON_Indent\<close>, and the numbers
    that pass through a \<open>float64\<close> in \<open>Go_Float\<close>, \<open>Go_Float_Laws\<close>.

  \<^item> \<open>Http\<close>: requests, the response writer, conditional requests.

  Then the program.  A struct is a record, a method a definition of the same name from its receiver, arguments and the
  environment to its results and the environment afterwards; an error is a value of \<open>go_error\<close>.

  \<^item> \<open>Models\<close>, \<open>Bmx_Models\<close>: the structs and constants.

  \<^item> \<open>Datastore\<close> (the methods), \<open>Datastore_Laws\<close> (each kind of record is read back), \<open>Datastore_Files\<close> (where the files
    lie, independence of accounts), \<open>Datastore_Service\<close> (removal, listing, initialisation, entity tags, event log),
    \<open>Datastore_Refinement\<close> (the store as a table of records).

  \<^item> \<open>Marge\<close>, \<open>Marge_Recents\<close>, \<open>Marge_Presets\<close>, \<open>Marge_Overlap\<close>, \<open>Marge_Documents\<close>: the streaming service; the list of
    recents with the array its entries share, the presets with the numbers that panic, updates that overlap in time, the
    documents.  \<open>Handlers_Marge\<close> and
    \<open>Handlers_Marge_Laws\<close>: its handlers.

  \<^item> \<open>Bmx\<close>, \<open>Handlers_Bmx\<close>, \<open>Bmx_Laws\<close>: the BMX service.

  \<^item> \<open>Ssh\<close>, \<open>Setup\<close>, \<open>Setup_Laws\<close>: the ssh client and the manager; \<open>Handlers_Setup\<close> and \<open>Handlers_Setup_Laws\<close>: the
    JSON interface, with the handlers of events, health and the start page.

  \<^item> \<open>Discovery\<close>, \<open>Discovery_Laws\<close>: discoveries, their overlapping and their end; \<open>Proxy\<close>: logging;
    \<open>Forwarding\<close>: requests that are passed on, to an address in the path or to the backend; \<open>Media\<close>: the files of
    \<^verbatim>\<open>handlers_media.go\<close>, with the library's file server.

  \<^item> \<open>Stats\<close>, \<open>Stats_Laws\<close>: the statistics, in the store and in the handlers.

  \<^item> \<open>Service\<close>, \<open>Service_Laws\<close>: the start, the routes, and a step relation of the whole service whose state is the server,
    the running discoveries, the file system and the calls made to speakers.

  \<^item> \<open>Favicon\<close>: icon files, with the widths of their numbers.

  \<^item> \<open>Example_*\<close>: a small deployment and concrete requests, on which the theorems with hypotheses are applied.

  \<^bold>\<open>Interfaces.\<close>  \<open>file_medium\<close> (reading and writing whole files) is interpreted for \<open>os.ReadFile\<close> and \<open>os.WriteFile\<close>;
  \<open>record_store\<close> extends it by a codec and is interpreted for presets, recents, sources and devices; \<open>bounded_log\<close> for
  the event log; \<open>simulation\<close> (operations and their abstractions) for the store and its table; \<open>conditional_get\<close> for three handlers with entity tags; \<open>remote_shell\<close>, the two operations the manager
  needs of a speaker, for the ssh client.

  \<^bold>\<open>What is proved.\<close>  The properties are the theorems whose text starts with a number after C.  The groups:
  every run of the service keeps its state well-formed and each request stays within the records it names
  (\<open>Service_Laws\<close>); accounts are independent and saved records are read back; lists of presets and recents evolve as
  intended; the store as a whole refines a table of records; clients see fresh documents and added devices; a migration sends the configuration and then the restart, and keeps the first
  backup as long as the connection holds; discoveries store and list what they find, and end; files outside the media directory are not shown; logs hide secrets; streams,
  statistics and icons are decoded and encoded as their formats demand.  Where the code does not do what it is meant
  to, a theorem shows it on the model: shifted entries, panics, unchecked names that leave the data directory, tags that
  do not cover a document, backups overwritten after a failed connection, overlapping discoveries and updates, paths that
  are decoded twice, refused or misplaced statistics.

  \<^bold>\<open>Parameters.\<close>  Code outside the repository and its standard library is an argument: the ssh library (a function of the
  calls so far), what fetching an address gives, the speakers the discovery library finds, the SVG and PNG libraries, and
  the answers to requests for parts of media files or for files that have changed.  Also
  arguments are the texts of errors, the process's environment and host name, the build information, what a failed
  decoding leaves in a struct, hosts in brackets, and the order in which a map is visited.  The order of the operands in
  \<open>append\<close> calls of \<open>AddRecent\<close>, which the language leaves open, is an argument too.

  \<^bold>\<open>Bounds.\<close>  Integers are unbounded with \<open>wrap64\<close> where the code computes with \<open>int64\<close>, and words in \<open>Favicon\<close>.  The
  nesting of JSON values is limited to ten thousand as in the decoder; the search for the shortest decimal of a
  \<open>float64\<close> tries up to seventeen digits, the number that always suffices for the format; that integers of up to
  fifteen digits are printed unchanged is proved.  All loops are structural or have a measure.

  \<^bold>\<open>Not modelled.\<close>  The matching of routes, the middleware and the exchange of the reverse proxy of the libraries; reading
  of the response body of a fetched address in pieces; drawing of the icons; log output other than that of the proxy;
  symbolic links, file modes, partial writes and removals that stop half-way; the positions in error texts; the headers
  of media files; the import lists and package clauses, which make up most of the lines without a definition.
\<close>

end
